(* ===== verification/Prelude.thy ===== *)
theory Prelude
  imports Complex_Main "HOL-Library.Word" "HOL-Library.Char_ord" "HOL-Library.List_Lexorder"
    "HOL-Library.Product_Lexorder"
begin

text \<open>
  Shared vocabulary of the development.

  A Rust \<^verbatim>\<open>str\<close> is its UTF-8 bytes, a \<open>string\<close> (list of 8-bit characters), so \<open>length\<close> is
  \<^verbatim>\<open>str::len\<close> and slicing is by byte offset, as in the code.  A \<^verbatim>\<open>u64\<close> is a \<open>64 word\<close>; a value that
  the code casts with \<^verbatim>\<open>as i64\<close> for the database is an \<open>i64\<close>, the same bits with the signed order.
  \<^verbatim>\<open>Result<T, anyhow::Error>\<close> is \<open>string + 'a\<close>, the error being its message.

  The string operations of the standard library are in theory \<^verbatim>\<open>Rust_Str\<close>.
\<close>

section \<open>Collections of facts\<close>

named_theorems str_simps \<open>characteristic equations of the string operations\<close>
named_theorems db_simps \<open>unfolding of database statements\<close>
named_theorems handler_simps \<open>unfolding of request handlers\<close>
named_theorems inv_intros \<open>preservation of the database invariant\<close>

section \<open>Machine integers\<close>

type_synonym u16 = "16 word"
type_synonym u32 = "32 word"
type_synonym u64 = "64 word"

text \<open>\<^verbatim>\<open>u64::abs_diff\<close>.\<close>

definition abs_diff :: "u64 \<Rightarrow> u64 \<Rightarrow> u64" where
  "abs_diff a b = (if a \<le> b then b - a else a - b)"

lemma unat_abs_diff:
  "unat (abs_diff a b) = (if unat a \<le> unat b then unat b - unat a else unat a - unat b)"
  by (auto simp: abs_diff_def word_le_nat_alt unat_sub)

lemma abs_diff_sym: "abs_diff a b = abs_diff b a"
  by (auto simp: abs_diff_def)

text \<open>
  The database stores timestamps as signed 64-bit integers: \<^verbatim>\<open>now as i64\<close> reinterprets the bits,
  \<^verbatim>\<open>as u64\<close> reads them back, and SQL comparisons are signed.
\<close>

datatype i64 = I64 (as_u64: u64)

instantiation i64 :: linorder
begin

definition less_eq_i64 :: "i64 \<Rightarrow> i64 \<Rightarrow> bool" where
  "less_eq_i64 a b \<longleftrightarrow> sint (as_u64 a) \<le> sint (as_u64 b)"

definition less_i64 :: "i64 \<Rightarrow> i64 \<Rightarrow> bool" where
  "less_i64 a b \<longleftrightarrow> sint (as_u64 a) < sint (as_u64 b)"

instance
proof
  fix x y :: i64
  assume "x \<le> y" "y \<le> x"
  then have "sint (as_u64 x) = sint (as_u64 y)" by (simp add: less_eq_i64_def)
  then have "as_u64 x = as_u64 y" by (rule signed_word_eqI)
  then show "x = y" by (rule i64.expand)
qed (auto simp: less_eq_i64_def less_i64_def)

end

definition as_i64 :: "u64 \<Rightarrow> i64" where
  "as_i64 w = I64 w"

lemma as_u64_as_i64 [simp]: "as_u64 (as_i64 w) = w"
  by (simp add: as_i64_def)

lemma as_i64_inject [simp]: "as_i64 a = as_i64 b \<longleftrightarrow> a = b"
  by (simp add: as_i64_def)

text \<open>Below \<open>2 ^ 63\<close> the signed order of the stored values is the order of the timestamps.\<close>

lemma sint_small: "unat (w :: u64) < 2 ^ 63 \<Longrightarrow> sint w = int (unat w)"
proof -
  assume "unat w < 2 ^ 63"
  then have "int (unat w) < 2 ^ 63" by (metis of_nat_less_iff of_nat_numeral of_nat_power)
  then have "uint w < 2 ^ 63" by simp
  then have "signed_take_bit 63 (uint w) = uint w"
    by (intro signed_take_bit_int_eq_self) (auto intro: order_trans [of _ 0])
  then show ?thesis by (simp add: sint_uint)
qed

lemma i64_le_small:
  "\<lbrakk>unat a < 2 ^ 63; unat b < 2 ^ 63\<rbrakk> \<Longrightarrow> as_i64 a \<le> as_i64 b \<longleftrightarrow> unat a \<le> unat b"
  by (simp only: less_eq_i64_def sint_small as_u64_as_i64 of_nat_le_iff)

lemma i64_less_small:
  "\<lbrakk>unat a < 2 ^ 63; unat b < 2 ^ 63\<rbrakk> \<Longrightarrow> as_i64 a < as_i64 b \<longleftrightarrow> unat a < unat b"
  by (simp only: less_i64_def sint_small as_u64_as_i64 of_nat_less_iff)

section \<open>Results\<close>

type_synonym 'a result = "string + 'a"

fun rbind :: "'e + 'a \<Rightarrow> ('a \<Rightarrow> 'e + 'b) \<Rightarrow> 'e + 'b" where
  "rbind (Inl e) f = Inl e"
| "rbind (Inr x) f = f x"

lemma rbind_eq_Inr: "rbind m f = Inr y \<longleftrightarrow> (\<exists>x. m = Inr x \<and> f x = Inr y)"
  by (cases m) auto

end
