(* ===== verification/Rust_Str.thy ===== *)
theory Rust_Str
  imports Prelude
begin

text \<open>
  The operations of the Rust standard library on \<^verbatim>\<open>str\<close> that the code calls, on UTF-8 bytes, and
  the lemmas about them that the components share: \<^verbatim>\<open>starts_with\<close>, \<^verbatim>\<open>strip_prefix\<close>, \<^verbatim>\<open>find\<close>,
  \<^verbatim>\<open>split\<close>, \<^verbatim>\<open>split_once\<close>, \<^verbatim>\<open>join\<close>, \<^verbatim>\<open>trim\<close>, \<^verbatim>\<open>split_whitespace\<close>, \<^verbatim>\<open>parse\<close> and \<^verbatim>\<open>Display\<close> of
  unsigned integers, and the ASCII character classes.
\<close>

section \<open>Character classes\<close>

definition code :: "char \<Rightarrow> nat" where
  "code c = of_char c"

definition is_ascii_lowercase :: "char \<Rightarrow> bool" where
  "is_ascii_lowercase c \<longleftrightarrow> 97 \<le> code c \<and> code c \<le> 122"

definition is_ascii_uppercase :: "char \<Rightarrow> bool" where
  "is_ascii_uppercase c \<longleftrightarrow> 65 \<le> code c \<and> code c \<le> 90"

definition is_ascii_digit :: "char \<Rightarrow> bool" where
  "is_ascii_digit c \<longleftrightarrow> 48 \<le> code c \<and> code c \<le> 57"

definition is_ascii_alphanumeric :: "char \<Rightarrow> bool" where
  "is_ascii_alphanumeric c \<longleftrightarrow> is_ascii_lowercase c \<or> is_ascii_uppercase c \<or> is_ascii_digit c"

text \<open>The printable ASCII characters other than the space.\<close>

definition is_ascii_graphic :: "char \<Rightarrow> bool" where
  "is_ascii_graphic c \<longleftrightarrow> 33 \<le> code c \<and> code c \<le> 126"

lemmas ascii_defs =
  is_ascii_lowercase_def is_ascii_uppercase_def is_ascii_digit_def is_ascii_alphanumeric_def
  is_ascii_graphic_def code_def

definition to_ascii_lowercase :: "string \<Rightarrow> string" where
  "to_ascii_lowercase s = map (\<lambda>c. if is_ascii_uppercase c then char_of (code c + 32) else c) s"

lemma code_eq_iff: "code a = code b \<longleftrightarrow> a = b"
  by (simp add: code_def)

lemma code_char_of: "n < 256 \<Longrightarrow> code (char_of n) = n"
  by (simp add: code_def)

lemma length_to_ascii_lowercase [simp]: "length (to_ascii_lowercase s) = length s"
  by (simp add: to_ascii_lowercase_def)

lemma to_ascii_lowercase_no_upper:
  "c \<in> set (to_ascii_lowercase s) \<Longrightarrow> \<not> is_ascii_uppercase c"
  by (auto simp: to_ascii_lowercase_def is_ascii_uppercase_def code_char_of split: if_splits)

lemma to_ascii_lowercase_id:
  "(\<And>c. c \<in> set s \<Longrightarrow> \<not> is_ascii_uppercase c) \<Longrightarrow> to_ascii_lowercase s = s"
  by (auto simp: to_ascii_lowercase_def intro: map_idI)

lemma to_ascii_lowercase_idem [simp]:
  "to_ascii_lowercase (to_ascii_lowercase s) = to_ascii_lowercase s"
  by (rule to_ascii_lowercase_id) (rule to_ascii_lowercase_no_upper)

section \<open>Prefixes, suffixes and searching\<close>

definition starts_with :: "string \<Rightarrow> string \<Rightarrow> bool" where
  "starts_with s p \<longleftrightarrow> take (length p) s = p"

definition strip_prefix :: "string \<Rightarrow> string \<Rightarrow> string option" where
  "strip_prefix s p = (if starts_with s p then Some (drop (length p) s) else None)"

definition ends_with :: "string \<Rightarrow> string \<Rightarrow> bool" where
  "ends_with s p \<longleftrightarrow> length p \<le> length s \<and> drop (length s - length p) s = p"

definition strip_suffix :: "string \<Rightarrow> string \<Rightarrow> string option" where
  "strip_suffix s p = (if ends_with s p then Some (take (length s - length p) s) else None)"

lemma starts_with_iff: "starts_with s p \<longleftrightarrow> (\<exists>r. s = p @ r)"
  by (metis append_eq_conv_conj append_take_drop_id starts_with_def)

lemma ends_with_iff: "ends_with s p \<longleftrightarrow> (\<exists>r. s = r @ p)"
proof
  assume "ends_with s p"
  then have "s = take (length s - length p) s @ p"
    by (metis append_take_drop_id ends_with_def)
  then show "\<exists>r. s = r @ p" ..
qed (auto simp: ends_with_def)

lemma strip_prefix_eq_Some [str_simps]: "strip_prefix s p = Some r \<longleftrightarrow> s = p @ r"
  by (auto simp: strip_prefix_def starts_with_iff)

lemma strip_prefix_eq_None [str_simps]: "strip_prefix s p = None \<longleftrightarrow> (\<nexists>r. s = p @ r)"
  by (auto simp: strip_prefix_def starts_with_iff)

lemma strip_suffix_eq_Some [str_simps]: "strip_suffix s p = Some r \<longleftrightarrow> s = r @ p"
  by (auto simp: strip_suffix_def ends_with_iff)

lemma strip_suffix_eq_None [str_simps]: "strip_suffix s p = None \<longleftrightarrow> (\<nexists>r. s = r @ p)"
  by (auto simp: strip_suffix_def ends_with_iff)

text \<open>\<^verbatim>\<open>str::find\<close> with a string pattern: the byte offset of the first match.\<close>

fun find_str :: "string \<Rightarrow> string \<Rightarrow> nat option" where
  "find_str pat [] = (if pat = [] then Some 0 else None)"
| "find_str pat (c # s) =
     (if starts_with (c # s) pat then Some 0 else map_option Suc (find_str pat s))"

lemma find_str_Some: "find_str pat s = Some i \<Longrightarrow> s = take i s @ pat @ drop (i + length pat) s"
proof (induction s arbitrary: i)
  case Nil
  then show ?case by (auto split: if_splits)
next
  case (Cons c s)
  then show ?case
    by (auto simp: starts_with_def split: if_splits) (metis append_take_drop_id)+
qed

lemma find_str_le: "find_str pat s = Some i \<Longrightarrow> i + length pat \<le> length s"
proof (induction s arbitrary: i)
  case (Cons c s)
  then show ?case
    by (auto simp: starts_with_iff split: if_splits) (metis le_add1 length_Cons length_append)
qed (auto split: if_splits)

lemma find_str_here: "find_str pat (pat @ b) = Some 0"
proof (cases "pat @ b")
  case (Cons c r)
  have "starts_with (c # r) pat" by (auto simp: starts_with_iff simp flip: Cons)
  with Cons show ?thesis by simp
qed simp

lemma find_str_None: "find_str pat s = None \<longleftrightarrow> (\<nexists>a b. s = a @ pat @ b)"
proof (induction s)
  case Nil
  show ?case by auto
next
  case (Cons c s)
  show ?case
  proof
    assume none: "find_str pat (c # s) = None"
    show "\<nexists>a b. c # s = a @ pat @ b"
    proof
      assume "\<exists>a b. c # s = a @ pat @ b"
      then obtain a b where ab: "c # s = a @ pat @ b" by blast
      show False
      proof (cases a)
        case Nil
        with ab none show False by (simp add: find_str_here del: find_str.simps)
      next
        case (Cons x a')
        with ab none Cons.IH show False by (auto split: if_splits)
      qed
    qed
  next
    assume no: "\<nexists>a b. c # s = a @ pat @ b"
    then have "\<not> starts_with (c # s) pat" by (metis append_Nil starts_with_iff)
    moreover have "\<nexists>a b. s = a @ pat @ b" using no by (metis append_Cons)
    ultimately show "find_str pat (c # s) = None" using Cons.IH by simp
  qed
qed

text \<open>The match found is the first: no occurrence starts earlier.\<close>

lemma find_str_append:
  assumes "\<And>i. i < length a \<Longrightarrow> \<not> starts_with (drop i (a @ pat @ b)) pat"
  shows "find_str pat (a @ pat @ b) = Some (length a)"
  using assms
proof (induction a)
  case Nil
  show ?case by (simp add: find_str_here)
next
  case (Cons c a)
  have "find_str pat (a @ pat @ b) = Some (length a)"
    by (rule Cons.IH) (use Cons.prems [of "Suc _"] in simp)
  moreover have "\<not> starts_with (c # a @ pat @ b) pat" using Cons.prems [of 0] by simp
  ultimately show ?case by simp
qed

section \<open>Splitting and joining\<close>

text \<open>\<^verbatim>\<open>str::split(char)\<close>: always at least one part.\<close>

fun split_on :: "char \<Rightarrow> string \<Rightarrow> string list" where
  "split_on d [] = [[]]"
| "split_on d (c # s) =
     (if c = d then [] # split_on d s
      else (case split_on d s of p # ps \<Rightarrow> (c # p) # ps | [] \<Rightarrow> [[c]]))"

text \<open>\<^verbatim>\<open>str::split_once(char)\<close>: at the first occurrence.\<close>

fun split_once :: "char \<Rightarrow> string \<Rightarrow> (string \<times> string) option" where
  "split_once d [] = None"
| "split_once d (c # s) =
     (if c = d then Some ([], s)
      else map_option (\<lambda>(a, b). (c # a, b)) (split_once d s))"

fun join :: "string \<Rightarrow> string list \<Rightarrow> string" where
  "join sep [] = []"
| "join sep [x] = x"
| "join sep (x # xs) = x @ sep @ join sep xs"

definition replace_char :: "char \<Rightarrow> string \<Rightarrow> string \<Rightarrow> string" where
  "replace_char d r s = concat (map (\<lambda>c. if c = d then r else [c]) s)"

lemma split_on_nonempty [simp]: "split_on d s \<noteq> []"
  by (induction s) (auto split: list.splits)

lemma join_Cons: "xs \<noteq> [] \<Longrightarrow> join sep (x # xs) = x @ sep @ join sep xs"
  by (cases xs) auto

lemma join_split_on [simp]: "join [d] (split_on d s) = s"
proof (induction s)
  case (Cons c s)
  then show ?case
    by (cases "split_on d s"; cases "tl (split_on d s)") (auto simp: join_Cons)
qed simp

lemma split_on_parts: "p \<in> set (split_on d s) \<Longrightarrow> d \<notin> set p"
  by (induction s arbitrary: p) (auto split: if_splits list.splits)

lemma split_on_no_sep: "d \<notin> set s \<Longrightarrow> split_on d s = [s]"
  by (induction s) auto

lemma split_on_append: "d \<notin> set a \<Longrightarrow> split_on d (a @ d # b) = a # split_on d b"
  by (induction a) auto

lemma hd_split_on: "hd (split_on d s) = takeWhile (\<lambda>c. c \<noteq> d) s"
  by (induction s) (auto split: list.splits)

lemma set_split_on: "p \<in> set (split_on d s) \<Longrightarrow> set p \<subseteq> set s"
  by (induction s arbitrary: p) (fastforce split: if_splits list.splits)+

lemma split_once_eq_Some [str_simps]:
  "split_once d s = Some (a, b) \<longleftrightarrow> s = a @ d # b \<and> d \<notin> set a"
proof (induction s arbitrary: a)
  case (Cons c s)
  then show ?case by (cases a) auto
qed simp

lemma split_once_eq_None [str_simps]: "split_once d s = None \<longleftrightarrow> d \<notin> set s"
  by (induction s) auto

lemma split_once_append: "d \<notin> set a \<Longrightarrow> split_once d (a @ d # b) = Some (a, b)"
  by (simp add: str_simps)

lemma set_replace_char: "d \<notin> set r \<Longrightarrow> d \<notin> set (replace_char d r s)"
  by (auto simp: replace_char_def)

text \<open>Two texts with the same separator-free first field agree field by field.\<close>

lemma append_sep_eq:
  fixes d :: char
  assumes "a @ d # x = b @ d # y" and "d \<notin> set a" and "d \<notin> set b"
  shows "a = b \<and> x = y"
proof -
  have "Some (a, x) = Some (b, y)"
    by (metis assms split_once_append)
  then show ?thesis by simp
qed

section \<open>White space\<close>

text \<open>The UTF-8 encodings of the characters with the Unicode property \<^verbatim>\<open>White_Space\<close>.\<close>

definition ws_seqs :: "string list" where
  "ws_seqs =
     [[CHR 0x09], [CHR 0x0A], [CHR 0x0B], [CHR 0x0C], [CHR 0x0D], [CHR 0x20],
      [CHR 0xC2, CHR 0x85], [CHR 0xC2, CHR 0xA0],
      [CHR 0xE1, CHR 0x9A, CHR 0x80],
      [CHR 0xE2, CHR 0x80, CHR 0x80], [CHR 0xE2, CHR 0x80, CHR 0x81],
      [CHR 0xE2, CHR 0x80, CHR 0x82], [CHR 0xE2, CHR 0x80, CHR 0x83],
      [CHR 0xE2, CHR 0x80, CHR 0x84], [CHR 0xE2, CHR 0x80, CHR 0x85],
      [CHR 0xE2, CHR 0x80, CHR 0x86], [CHR 0xE2, CHR 0x80, CHR 0x87],
      [CHR 0xE2, CHR 0x80, CHR 0x88], [CHR 0xE2, CHR 0x80, CHR 0x89],
      [CHR 0xE2, CHR 0x80, CHR 0x8A], [CHR 0xE2, CHR 0x80, CHR 0xA8],
      [CHR 0xE2, CHR 0x80, CHR 0xA9], [CHR 0xE2, CHR 0x80, CHR 0xAF],
      [CHR 0xE2, CHR 0x81, CHR 0x9F], [CHR 0xE3, CHR 0x80, CHR 0x80]]"

definition lead_of :: "string list \<Rightarrow> string \<Rightarrow> string option" where
  "lead_of seqs s = find (\<lambda>q. q \<noteq> [] \<and> starts_with s q) seqs"

lemma lead_of_Some:
  "lead_of seqs s = Some q \<Longrightarrow> q \<in> set seqs \<and> q \<noteq> [] \<and> starts_with s q"
  by (auto simp: lead_of_def find_Some_iff)

lemma lead_of_length: "lead_of seqs s = Some q \<Longrightarrow> length (drop (length q) s) < length s"
  by (drule lead_of_Some) (auto simp: starts_with_iff)

function strip_seqs :: "string list \<Rightarrow> string \<Rightarrow> string" where
  "strip_seqs seqs s =
     (case lead_of seqs s of None \<Rightarrow> s | Some q \<Rightarrow> strip_seqs seqs (drop (length q) s))"
  by pat_completeness auto
termination
  by (relation "measure (\<lambda>(seqs, s). length s)") (auto dest: lead_of_length)

declare strip_seqs.simps [simp del]

definition trim_start :: "string \<Rightarrow> string" where
  "trim_start s = strip_seqs ws_seqs s"

definition trim_end :: "string \<Rightarrow> string" where
  "trim_end s = rev (strip_seqs (map rev ws_seqs) (rev s))"

definition trim :: "string \<Rightarrow> string" where
  "trim s = trim_end (trim_start s)"

text \<open>\<^verbatim>\<open>str::split_whitespace\<close>: the maximal runs of characters that are not white space.\<close>

function split_whitespace_from :: "string \<Rightarrow> string \<Rightarrow> string list" where
  "split_whitespace_from acc s =
     (case lead_of ws_seqs s of
        Some q \<Rightarrow> (if acc = [] then [] else [acc]) @ split_whitespace_from [] (drop (length q) s)
      | None \<Rightarrow>
          (case s of
             [] \<Rightarrow> (if acc = [] then [] else [acc])
           | c # r \<Rightarrow> split_whitespace_from (acc @ [c]) r))"
  by pat_completeness auto
termination
  by (relation "measure (\<lambda>(acc, s). length s)") (auto dest: lead_of_length)

declare split_whitespace_from.simps [simp del]

definition split_whitespace :: "string \<Rightarrow> string list" where
  "split_whitespace s = split_whitespace_from [] s"

definition ws_free :: "string list \<Rightarrow> string \<Rightarrow> bool" where
  "ws_free seqs s \<longleftrightarrow> lead_of seqs s = None"

lemma strip_seqs_id: "lead_of seqs s = None \<Longrightarrow> strip_seqs seqs s = s"
  by (simp add: strip_seqs.simps)

lemma lead_of_strip_seqs [simp]: "lead_of seqs (strip_seqs seqs s) = None"
proof (induction seqs s rule: strip_seqs.induct)
  case (1 seqs s)
  then show ?case by (cases "lead_of seqs s") (auto simp: strip_seqs.simps [of seqs s])
qed

lemma strip_seqs_suffix: "\<exists>a. s = a @ strip_seqs seqs s"
proof (induction seqs s rule: strip_seqs.induct)
  case (1 seqs s)
  show ?case
  proof (cases "lead_of seqs s")
    case None
    then show ?thesis by (simp add: strip_seqs_id)
  next
    case (Some q)
    with "1.IH" obtain a where "drop (length q) s = a @ strip_seqs seqs (drop (length q) s)"
      by blast
    with Some have "s = (take (length q) s @ a) @ strip_seqs seqs s"
      by (metis append.assoc append_take_drop_id option.simps(5) strip_seqs.simps)
    then show ?thesis ..
  qed
qed

text \<open>A text that begins and ends with printable ASCII is its own trim.\<close>

lemma ws_seqs_not_graphic:
  "list_all (\<lambda>q. q \<noteq> [] \<and> \<not> is_ascii_graphic (hd q) \<and> \<not> is_ascii_graphic (last q)) ws_seqs"
  by code_simp

lemma lead_of_None:
  assumes "\<And>q. q \<in> set seqs \<Longrightarrow> q \<noteq> [] \<Longrightarrow> hd q \<noteq> c"
  shows "lead_of seqs (c # s) = None"
proof -
  have "\<not> starts_with (c # s) q" if "q \<in> set seqs" "q \<noteq> []" for q
    using assms [OF that] that(2) by (cases q) (auto simp: starts_with_iff)
  then show ?thesis by (auto simp: lead_of_def find_None_iff)
qed

lemma graphic_no_ws: "is_ascii_graphic c \<Longrightarrow> lead_of ws_seqs (c # s) = None"
  by (rule lead_of_None) (use ws_seqs_not_graphic in \<open>auto simp: list_all_iff\<close>)

lemma graphic_no_ws_rev: "is_ascii_graphic c \<Longrightarrow> lead_of (map rev ws_seqs) (c # s) = None"
  by (rule lead_of_None) (use ws_seqs_not_graphic in \<open>auto simp: list_all_iff hd_rev\<close>)

text \<open>The ASCII blanks, which \<open>trim\<close> removes one by one.\<close>

definition ascii_blanks :: string where
  "ascii_blanks = [CHR 0x09, CHR 0x0A, CHR 0x0B, CHR 0x0C, CHR 0x0D, CHR 0x20]"

lemma blanks_alone:
  "list_all (\<lambda>c. [c] \<in> set ws_seqs \<and> list_all (\<lambda>q. hd q = c \<longrightarrow> q = [c]) ws_seqs
     \<and> list_all (\<lambda>q. last q = c \<longrightarrow> q = [c]) ws_seqs) ascii_blanks"
  by code_simp

lemma lead_of_single:
  assumes "[c] \<in> set seqs" and "\<And>q. q \<in> set seqs \<Longrightarrow> q \<noteq> [] \<Longrightarrow> hd q = c \<Longrightarrow> q = [c]"
  shows "lead_of seqs (c # s) = Some [c]"
proof -
  have "starts_with (c # s) [c]" by (simp add: starts_with_def)
  then have lead: "lead_of seqs (c # s) \<noteq> None"
    using assms(1) unfolding lead_of_def find_None_iff by blast
  then obtain q where q: "lead_of seqs (c # s) = Some q" by blast
  then have "q \<in> set seqs" "q \<noteq> []" "hd q = c"
    using lead_of_Some [OF q] by (auto simp: starts_with_iff Cons_eq_append_conv)
  with assms(2) q show ?thesis by simp
qed

lemma lead_of_blank:
  assumes "c \<in> set ascii_blanks"
  shows "lead_of ws_seqs (c # s) = Some [c]"
    and "lead_of (map rev ws_seqs) (c # s) = Some [c]"
proof -
  note c = bspec [OF blanks_alone [unfolded list_all_iff] assms]
  from c have one: "[c] \<in> set ws_seqs" by (rule conjunct1)
  from c have first: "\<forall>q \<in> set ws_seqs. hd q = c \<longrightarrow> q = [c]" by (elim conjE)
  from c have final: "\<forall>q \<in> set ws_seqs. last q = c \<longrightarrow> q = [c]" by (elim conjE)
  from one first show "lead_of ws_seqs (c # s) = Some [c]" by (intro lead_of_single) blast+
  show "lead_of (map rev ws_seqs) (c # s) = Some [c]"
  proof (rule lead_of_single)
    show "[c] \<in> set (map rev ws_seqs)" using imageI [OF one, of rev] by simp
    show "q = [c]" if "q \<in> set (map rev ws_seqs)" "q \<noteq> []" "hd q = c" for q
    proof -
      from that(1) obtain p where "p \<in> set ws_seqs" "q = rev p" unfolding set_map by blast
      moreover from this that(2,3) have "last p = c" by (simp add: hd_rev)
      ultimately show "q = [c]" using final by fastforce
    qed
  qed
qed

lemma strip_blank:
  assumes "c \<in> set ascii_blanks"
  shows "strip_seqs ws_seqs (c # s) = strip_seqs ws_seqs s"
    and "strip_seqs (map rev ws_seqs) (c # s) = strip_seqs (map rev ws_seqs) s"
  unfolding strip_seqs.simps [of _ "c # s"] lead_of_blank [OF assms] by simp_all

lemma strip_blanks:
  assumes "set a \<subseteq> set ascii_blanks"
  shows "strip_seqs ws_seqs (a @ s) = strip_seqs ws_seqs s"
    and "strip_seqs (map rev ws_seqs) (a @ s) = strip_seqs (map rev ws_seqs) s"
  using assms by (induction a) (simp_all add: strip_blank)

lemma trim_graphic:
  assumes "s \<noteq> []" and "is_ascii_graphic (hd s)" and "is_ascii_graphic (last s)"
  shows "trim s = s"
proof -
  from assms have "trim_start s = s"
    by (cases s) (auto simp: trim_start_def strip_seqs_id graphic_no_ws)
  moreover from assms have "trim_end s = s"
    by (cases s rule: rev_cases) (auto simp: trim_end_def strip_seqs_id graphic_no_ws_rev)
  ultimately show ?thesis by (simp add: trim_def)
qed

lemma trim_pad:
  assumes "set a \<subseteq> set ascii_blanks" and "set b \<subseteq> set ascii_blanks"
    and "s \<noteq> []" and "is_ascii_graphic (hd s)" and "is_ascii_graphic (last s)"
  shows "trim (a @ s @ b) = s"
proof -
  have "trim_start (a @ s @ b) = s @ b"
    using assms by (cases s) (auto simp: trim_start_def strip_blanks strip_seqs_id graphic_no_ws)
  moreover have "trim_end (s @ b) = trim_end s"
    using assms(2) by (simp add: trim_end_def strip_blanks)
  moreover have "trim_end s = s"
    using assms(3,5) by (cases s rule: rev_cases) (auto simp: trim_end_def strip_seqs_id graphic_no_ws_rev)
  ultimately show ?thesis by (simp add: trim_def)
qed

lemma trim_Nil [simp]: "trim [] = []"
  by (simp add: trim_def trim_start_def trim_end_def strip_seqs_id lead_of_def find_None_iff
      starts_with_def)

text \<open>Trimming drops characters from both ends only.\<close>

lemma trim_infix: "\<exists>a b. s = a @ trim s @ b"
proof -
  obtain a where a: "s = a @ trim_start s"
    using strip_seqs_suffix by (auto simp: trim_start_def)
  obtain b where "rev (trim_start s) = b @ rev (trim s)"
    using strip_seqs_suffix by (auto simp: trim_def trim_end_def)
  then have "trim_start s = trim s @ rev b" by (metis rev_append rev_rev_ident)
  with a show ?thesis by metis
qed

lemma set_trim: "set (trim s) \<subseteq> set s"
proof -
  obtain a b where "s = a @ trim s @ b" using trim_infix by blast
  then show ?thesis by (metis Un_upper1 Un_upper2 order_trans set_append)
qed

section \<open>Decimal numbers\<close>

definition digit_char :: "nat \<Rightarrow> char" where
  "digit_char n = char_of (48 + n)"

fun show_nat :: "nat \<Rightarrow> string" where
  "show_nat n = (if n < 10 then [digit_char n] else show_nat (n div 10) @ [digit_char (n mod 10)])"

declare show_nat.simps [simp del]

definition show_u64 :: "u64 \<Rightarrow> string" where
  "show_u64 w = show_nat (unat w)"

definition digit_value :: "char \<Rightarrow> nat" where
  "digit_value c = code c - 48"

definition digits_value :: "string \<Rightarrow> nat" where
  "digits_value s = foldl (\<lambda>n c. 10 * n + digit_value c) 0 s"

text \<open>
  \<^verbatim>\<open>str::parse\<close> for an unsigned type whose values lie below \<open>bound\<close>: an optional plus sign, then
  at least one digit and nothing else, and no overflow.
\<close>

definition parse_uint :: "nat \<Rightarrow> string \<Rightarrow> nat option" where
  "parse_uint bound s =
     (let d = (case s of c # r \<Rightarrow> if c = CHR ''+'' then r else s | [] \<Rightarrow> s)
      in if d \<noteq> [] \<and> list_all is_ascii_digit d \<and> digits_value d < bound
         then Some (digits_value d) else None)"

definition parse_u64 :: "string \<Rightarrow> u64 option" where
  "parse_u64 s = map_option of_nat (parse_uint (2 ^ 64) s)"

text \<open>\<^verbatim>\<open>str::parse\<close> for \<^verbatim>\<open>i32\<close>: an optional sign, digits, and the value in range.\<close>

definition parse_i32 :: "string \<Rightarrow> int option" where
  "parse_i32 s =
     (case s of
        c # r \<Rightarrow>
          if c = CHR ''-'' then
            if r \<noteq> [] \<and> list_all is_ascii_digit r \<and> digits_value r \<le> 2 ^ 31
            then Some (- int (digits_value r)) else None
          else map_option int (parse_uint (2 ^ 31) s)
      | [] \<Rightarrow> None)"

lemma is_ascii_digit_digit_char: "n < 10 \<Longrightarrow> is_ascii_digit (digit_char n)"
  by (simp add: digit_char_def is_ascii_digit_def code_char_of)

lemma digit_value_digit_char [simp]: "n < 10 \<Longrightarrow> digit_value (digit_char n) = n"
  by (simp add: digit_char_def digit_value_def code_char_of)

lemma digits_value_snoc [simp]: "digits_value (s @ [c]) = 10 * digits_value s + digit_value c"
  by (simp add: digits_value_def)

lemma show_nat_digits: "list_all is_ascii_digit (show_nat n)"
proof (induction n rule: show_nat.induct)
  case (1 n)
  then show ?case
    by (subst show_nat.simps) (auto intro: is_ascii_digit_digit_char)
qed

lemma show_nat_nonempty [simp]: "show_nat n \<noteq> []"
  by (subst show_nat.simps) simp

lemma digits_value_show_nat [simp]: "digits_value (show_nat n) = n"
proof (induction n rule: show_nat.induct)
  case (1 n)
  show ?case
  proof (cases "n < 10")
    case True
    then show ?thesis by (subst show_nat.simps) (simp add: digits_value_def)
  next
    case False
    with "1" have "digits_value (show_nat (n div 10)) = n div 10" by simp
    with False show ?thesis by (subst show_nat.simps) simp
  qed
qed

lemma show_nat_inject [simp]: "show_nat a = show_nat b \<longleftrightarrow> a = b"
  by (metis digits_value_show_nat)

lemma show_u64_inject [simp]: "show_u64 a = show_u64 b \<longleftrightarrow> a = b"
  by (simp add: show_u64_def word_unat_eq_iff)

lemma show_nat_chars: "c \<in> set (show_nat n) \<Longrightarrow> is_ascii_digit c"
  using show_nat_digits [of n] by (auto simp: list_all_iff)

lemma show_u64_chars: "c \<in> set (show_u64 w) \<Longrightarrow> is_ascii_digit c"
  by (auto simp: show_u64_def dest: show_nat_chars)

lemma digit_not_plus: "is_ascii_digit c \<Longrightarrow> c \<noteq> CHR ''+''"
  by (auto simp: ascii_defs)

lemma parse_uint_show_nat:
  assumes "n < bound"
  shows "parse_uint bound (show_nat n) = Some n"
proof -
  obtain c r where cr: "show_nat n = c # r" by (cases "show_nat n") auto
  then have "is_ascii_digit c" using show_nat_chars [of c n] by simp
  then have "c \<noteq> CHR ''+''" by (rule digit_not_plus)
  with cr have "(case show_nat n of c # r \<Rightarrow> if c = CHR ''+'' then r else show_nat n
      | [] \<Rightarrow> show_nat n) = show_nat n"
    by simp
  with assms show ?thesis
    by (simp add: parse_uint_def Let_def show_nat_digits)
qed

lemma parse_show_u64: "parse_u64 (show_u64 w) = Some w"
proof -
  have "unat w < 2 ^ 64" using unsigned_less [of w] by simp
  then show ?thesis by (simp add: parse_u64_def show_u64_def parse_uint_show_nat)
qed

section \<open>Debug output\<close>

text \<open>
  \<^verbatim>\<open>{:?}\<close> of a text.  Characters outside ASCII are kept as they are; the standard library escapes
  those of them that are not printable, which is the one difference.
\<close>

definition hex_digit :: "nat \<Rightarrow> char" where
  "hex_digit n = (if n < 10 then char_of (48 + n) else char_of (87 + n))"

definition escape_debug :: "char \<Rightarrow> string" where
  "escape_debug c =
     (if c = CHR 0x22 then [CHR 0x5C, CHR 0x22]
      else if c = CHR 0x5C then [CHR 0x5C, CHR 0x5C]
      else if c = CHR 0x0A then [CHR 0x5C, CHR ''n'']
      else if c = CHR 0x0D then [CHR 0x5C, CHR ''r'']
      else if c = CHR 0x09 then [CHR 0x5C, CHR ''t'']
      else if c = CHR 0x00 then [CHR 0x5C, CHR ''0'']
      else if code c < 32 \<or> code c = 127
      then [CHR 0x5C, CHR ''u'', CHR 0x7B] @
           (if code c < 16 then [hex_digit (code c)]
            else [hex_digit (code c div 16), hex_digit (code c mod 16)]) @ [CHR 0x7D]
      else [c])"

definition debug_str :: "string \<Rightarrow> string" where
  "debug_str s = CHR 0x22 # concat (map escape_debug s) @ [CHR 0x22]"

section \<open>Characters of a UTF-8 text\<close>

text \<open>
  \<^verbatim>\<open>str::chars\<close>: each lead byte with its continuation bytes (\<^verbatim>\<open>10xxxxxx\<close>); a Rust \<^verbatim>\<open>str\<close> is always
  valid UTF-8, so this is its sequence of characters, each as its bytes.
\<close>

definition is_continuation :: "char \<Rightarrow> bool" where
  "is_continuation c \<longleftrightarrow> 128 \<le> code c \<and> code c < 192"

lemma length_dropWhile_less [termination_simp]: "length (dropWhile P s) < Suc (length s)"
  by (simp add: length_dropWhile_le less_Suc_eq_le)

fun utf8_chars :: "string \<Rightarrow> string list" where
  "utf8_chars [] = []"
| "utf8_chars (c # s) =
     (c # takeWhile is_continuation s) # utf8_chars (dropWhile is_continuation s)"

lemma concat_utf8_chars [simp]: "concat (utf8_chars s) = s"
  by (induction s rule: utf8_chars.induct) simp_all

lemma utf8_chars_ascii: "list_all (\<lambda>c. code c < 128) s \<Longrightarrow> utf8_chars s = map (\<lambda>c. [c]) s"
proof (induction s rule: utf8_chars.induct)
  case (2 c s)
  then have "takeWhile is_continuation s = []" "dropWhile is_continuation s = s"
    by (cases s; simp add: is_continuation_def)+
  with 2 show ?case by simp
qed simp

text \<open>
  \<^verbatim>\<open>String::from_utf8_lossy\<close>: every maximal invalid sequence becomes one replacement character.
  The first component is how many bytes the next step takes, the second whether they are valid.
\<close>

definition byte_in :: "nat \<Rightarrow> nat \<Rightarrow> char \<Rightarrow> bool" where
  "byte_in lo hi c \<longleftrightarrow> lo \<le> code c \<and> code c \<le> hi"

definition second_ok :: "char \<Rightarrow> char \<Rightarrow> bool" where
  "second_ok a b =
     (if a = CHR 0xE0 then byte_in 160 191 b
      else if a = CHR 0xED then byte_in 128 159 b
      else if a = CHR 0xF0 then byte_in 144 191 b
      else if a = CHR 0xF4 then byte_in 128 143 b
      else is_continuation b)"

definition utf8_width :: "char \<Rightarrow> nat" where
  "utf8_width a =
     (if code a < 128 then 1 else if byte_in 194 223 a then 2 else if byte_in 224 239 a then 3
      else if byte_in 240 244 a then 4 else 0)"

text \<open>How many bytes of a character of the given width follow the lead byte validly.\<close>

definition utf8_run :: "char \<Rightarrow> nat \<Rightarrow> string \<Rightarrow> nat" where
  "utf8_run a width s =
     (case s of
        [] \<Rightarrow> 0
      | b # r \<Rightarrow> if 2 \<le> width \<and> second_ok a b
                 then Suc (length (takeWhile is_continuation (take (width - 2) r))) else 0)"

fun from_utf8_lossy :: "string \<Rightarrow> string" where
  "from_utf8_lossy [] = []"
| "from_utf8_lossy (a # s) =
     (let width = utf8_width a; n = utf8_run a width s in
      if 1 \<le> width \<and> n = width - 1 then a # take n s @ from_utf8_lossy (drop n s)
      else [CHR 0xEF, CHR 0xBF, CHR 0xBD] @ from_utf8_lossy (drop n s))"

lemma from_utf8_lossy_ascii: "list_all (\<lambda>c. code c < 128) s \<Longrightarrow> from_utf8_lossy s = s"
proof (induction s rule: from_utf8_lossy.induct)
  case (2 a s)
  then have w: "utf8_width a = 1" by (simp add: utf8_width_def)
  then have "utf8_run a 1 s = 0" by (cases s) (auto simp: utf8_run_def)
  with 2(1) [of 1 0] 2(3) w show ?case by simp
qed simp

section \<open>Trimming one character\<close>

text \<open>\<^verbatim>\<open>trim_matches\<close> with an ASCII character.\<close>

definition trim_matches :: "char \<Rightarrow> string \<Rightarrow> string" where
  "trim_matches d s = rev (dropWhile (\<lambda>c. c = d) (rev (dropWhile (\<lambda>c. c = d) s)))"

lemma set_trim_matches: "set (trim_matches d s) \<subseteq> set s"
proof -
  have sub: "set (dropWhile P xs) \<subseteq> set xs" for P and xs :: string
    by (rule subsetI) (rule set_dropWhileD)
  from sub [of "\<lambda>c. c = d" "rev (dropWhile (\<lambda>c. c = d) s)"] sub [of "\<lambda>c. c = d" s]
  show ?thesis unfolding trim_matches_def set_rev by (rule subset_trans)
qed

lemma trim_matches_ends:
  assumes "trim_matches d s \<noteq> []"
  shows "hd (trim_matches d s) \<noteq> d \<and> last (trim_matches d s) \<noteq> d"
proof -
  let ?a = "dropWhile (\<lambda>c. c = d) s"
  let ?b = "dropWhile (\<lambda>c. c = d) (rev ?a)"
  have b: "?b \<noteq> []" using assms by (simp add: trim_matches_def)
  then have "hd ?b \<noteq> d" by (rule hd_dropWhile)
  moreover have a: "?a \<noteq> []" using b by (metis dropWhile.simps(1) rev.simps(1))
  then have "hd ?a \<noteq> d" by (rule hd_dropWhile)
  moreover have "last ?b = hd ?a"
  proof -
    have "rev ?a = takeWhile (\<lambda>c. c = d) (rev ?a) @ ?b" by simp
    then have "last (rev ?a) = last ?b" using b by (metis last_appendR)
    then show ?thesis using a by (simp add: last_rev)
  qed
  ultimately show ?thesis using b by (simp add: trim_matches_def hd_rev last_rev)
qed

lemma trim_matches_id: "\<lbrakk>s \<noteq> []; hd s \<noteq> d; last s \<noteq> d\<rbrakk> \<Longrightarrow> trim_matches d s = s"
proof -
  assume s: "s \<noteq> []" "hd s \<noteq> d" "last s \<noteq> d"
  then have "dropWhile (\<lambda>c. c = d) s = s" by (cases s) auto
  moreover have "dropWhile (\<lambda>c. c = d) (rev s) = rev s"
    using s by (cases s rule: rev_cases) auto
  ultimately show ?thesis by (simp add: trim_matches_def)
qed

end
