(* ===== verification/Manifest_Model.thy ===== *)
theory Manifest_Model
  imports Rust_Str
begin

text \<open>
  The data model of \<^verbatim>\<open>.railyard.json\<close> (\<^verbatim>\<open>packages/manifest/src/model.rs\<close>): one record per struct,
  one datatype per enum, the defaults, and the accessor methods.  An \<^verbatim>\<open>IndexMap\<close> is the list of its
  entries in insertion order, with distinct keys.  A CPU share (\<^verbatim>\<open>f64\<close>, never NaN in JSON) is a real
  number.  \<^verbatim>\<open>de_env_map\<close>, the one hand-written deserialiser, is here too; the readers and writers that
  \<^verbatim>\<open>serde\<close> derives are in theory \<^verbatim>\<open>Manifest_Json\<close>.
\<close>

section \<open>Insertion-ordered maps\<close>

type_synonym 'v index_map = "(string \<times> 'v) list"

fun index_insert :: "string \<Rightarrow> 'v \<Rightarrow> 'v index_map \<Rightarrow> 'v index_map" where
  "index_insert k v [] = [(k, v)]"
| "index_insert k v ((k', v') # m) =
     (if k = k' then (k, v) # m else (k', v') # index_insert k v m)"

definition contains_key :: "'v index_map \<Rightarrow> string \<Rightarrow> bool" where
  "contains_key m k \<longleftrightarrow> map_of m k \<noteq> None"

lemma map_of_index_insert [simp]: "map_of (index_insert k v m) = (map_of m)(k \<mapsto> v)"
  by (induction m) (auto simp: fun_eq_iff)

lemma keys_index_insert: "fst ` set (index_insert k v m) = insert k (fst ` set m)"
  by (simp flip: dom_map_of_conv_image_fst)

lemma distinct_index_insert: "distinct (map fst m) \<Longrightarrow> distinct (map fst (index_insert k v m))"
  by (induction m) (auto simp: keys_index_insert)

lemma index_insert_fresh: "k \<notin> fst ` set m \<Longrightarrow> index_insert k v m = m @ [(k, v)]"
  by (induction m) auto

lemma contains_key_iff: "contains_key m k \<longleftrightarrow> k \<in> fst ` set m"
  by (simp add: contains_key_def map_of_eq_None_iff)

section \<open>Structs and enums\<close>

definition DEFAULT_HEALTHCHECK_TIMEOUT :: u64 where "DEFAULT_HEALTHCHECK_TIMEOUT = 60"
definition DEFAULT_HEALTHCHECK_INTERVAL :: u64 where "DEFAULT_HEALTHCHECK_INTERVAL = 3"
definition DEFAULT_DRAIN_SECONDS :: u64 where "DEFAULT_DRAIN_SECONDS = 30"
definition DEFAULT_AUTOSCALE_TARGET_CPU :: u32 where "DEFAULT_AUTOSCALE_TARGET_CPU = 70"

record project =
  prj_id :: "string option"
  prj_name :: string

record github_link =
  gl_repo :: string
  gl_branch :: "string option"

record service_github =
  sg_repo :: string
  sg_branch :: "string option"
  sg_path :: "string option"

record build =
  bld_dockerfile :: "string option"
  bld_args :: "string index_map"
  bld_watch :: "string list option"

record public_options =
  po_domain :: "string option"
  po_domains :: "string list"

datatype public = Toggle bool | Options public_options

record healthcheck =
  hc_path :: string
  hc_timeout :: "u64 option"
  hc_interval :: "u64 option"

datatype restart_policy = Always | OnFailure | Never

datatype strategy = Rolling | Recreate

record resources =
  res_cpu :: "real option"
  res_memory :: "string option"

record autoscale =
  asc_min :: u32
  asc_max :: u32
  asc_target_cpu_percent :: "u32 option"

record scale =
  scl_replicas :: "u32 option"
  scl_autoscale :: "autoscale option"

record service =
  svc_path :: "string option"
  svc_image :: "string option"
  svc_github :: "service_github option"
  svc_build :: "build option"
  svc_start :: "string option"
  svc_port :: "u16 option"
  svc_env :: "string index_map"
  svc_env_files :: "string list"
  svc_public :: "public option"
  svc_healthcheck :: "healthcheck option"
  svc_restart :: "restart_policy option"
  svc_depends_on :: "string list"
  svc_cron :: "string option"
  svc_strategy :: "strategy option"
  svc_drain :: "u64 option"
  svc_volumes :: "string index_map"
  svc_resources :: "resources option"
  svc_scale :: "scale option"

record manifest =
  mf_schema :: "string option"
  mf_project :: "project option"
  mf_github :: "github_link option"
  mf_services :: "service index_map"

definition default_manifest :: manifest where
  "default_manifest =
     \<lparr>mf_schema = None, mf_project = None, mf_github = None, mf_services = []\<rparr>"

definition default_service :: service where
  "default_service =
     \<lparr>svc_path = None, svc_image = None, svc_github = None, svc_build = None, svc_start = None,
      svc_port = None, svc_env = [], svc_env_files = [], svc_public = None,
      svc_healthcheck = None, svc_restart = None, svc_depends_on = [], svc_cron = None,
      svc_strategy = None, svc_drain = None, svc_volumes = [], svc_resources = None,
      svc_scale = None\<rparr>"

section \<open>Methods\<close>

datatype source = SrcPath string | SrcImage string | SrcGithub service_github

definition source :: "service \<Rightarrow> source option" where
  "source s =
     (case (svc_path s, svc_image s, svc_github s) of
        (Some p, None, None) \<Rightarrow> Some (SrcPath p)
      | (None, Some i, None) \<Rightarrow> Some (SrcImage i)
      | (None, None, Some g) \<Rightarrow> Some (SrcGithub g)
      | _ \<Rightarrow> None)"

fun is_enabled :: "public \<Rightarrow> bool" where
  "is_enabled (Toggle enabled) = enabled"
| "is_enabled (Options _) = True"

fun domains :: "public \<Rightarrow> string list" where
  "domains (Toggle _) = []"
| "domains (Options opts) =
     (case po_domain opts of None \<Rightarrow> [] | Some d \<Rightarrow> [d]) @ po_domains opts"

definition is_public :: "service \<Rightarrow> bool" where
  "is_public s = (case svc_public s of None \<Rightarrow> False | Some p \<Rightarrow> is_enabled p)"

definition restart_of :: "service \<Rightarrow> restart_policy" where
  "restart_of s = (case svc_restart s of None \<Rightarrow> OnFailure | Some r \<Rightarrow> r)"

definition effective_strategy :: "service \<Rightarrow> strategy" where
  "effective_strategy s =
     (if svc_volumes s \<noteq> [] then Recreate
      else (case svc_strategy s of None \<Rightarrow> Rolling | Some st \<Rightarrow> st))"

definition drain_of :: "service \<Rightarrow> u64" where
  "drain_of s = (case svc_drain s of None \<Rightarrow> DEFAULT_DRAIN_SECONDS | Some d \<Rightarrow> d)"

definition timeout_of :: "healthcheck \<Rightarrow> u64" where
  "timeout_of h = (case hc_timeout h of None \<Rightarrow> DEFAULT_HEALTHCHECK_TIMEOUT | Some t \<Rightarrow> t)"

definition interval_of :: "healthcheck \<Rightarrow> u64" where
  "interval_of h = (case hc_interval h of None \<Rightarrow> DEFAULT_HEALTHCHECK_INTERVAL | Some t \<Rightarrow> t)"

definition target_cpu_percent_of :: "autoscale \<Rightarrow> u32" where
  "target_cpu_percent_of a =
     (case asc_target_cpu_percent a of None \<Rightarrow> DEFAULT_AUTOSCALE_TARGET_CPU | Some t \<Rightarrow> t)"

section \<open>The environment map deserialiser\<close>

text \<open>
  \<^verbatim>\<open>serde_json::Value\<close>; a number is kept as the text its \<^verbatim>\<open>Display\<close> prints.  \<open>show_json\<close> stands for
  the \<^verbatim>\<open>Display\<close> of a whole value, which only the error message uses.
\<close>

datatype json =
    JNull | JBool bool | JNumber string | JString string
  | JArray "json list" | JObject "(string \<times> json) list"

fun env_value :: "(json \<Rightarrow> string) \<Rightarrow> string \<Rightarrow> json \<Rightarrow> string result" where
  "env_value show_json key (JString s) = Inr s"
| "env_value show_json key (JNumber n) = Inr n"
| "env_value show_json key (JBool b) = Inr (if b then ''true'' else ''false'')"
| "env_value show_json key other =
     Inl (''env value for `'' @ key @ ''` must be a string, number, or boolean, got ''
          @ show_json other)"

fun de_env_entries ::
    "(json \<Rightarrow> string) \<Rightarrow> json index_map \<Rightarrow> string index_map \<Rightarrow> string index_map result" where
  "de_env_entries show_json [] env = Inr env"
| "de_env_entries show_json ((key, value) # raw) env =
     (case env_value show_json key value of
        Inl e \<Rightarrow> Inl e
      | Inr v \<Rightarrow> de_env_entries show_json raw (index_insert key v env))"

definition de_env_map :: "(json \<Rightarrow> string) \<Rightarrow> json index_map \<Rightarrow> string index_map result" where
  "de_env_map show_json raw = de_env_entries show_json raw []"

text \<open>A scalar is what an environment value may be.\<close>

fun is_scalar :: "json \<Rightarrow> bool" where
  "is_scalar (JString _) = True"
| "is_scalar (JNumber _) = True"
| "is_scalar (JBool _) = True"
| "is_scalar _ = False"

lemma env_value_scalar: "is_scalar v \<longleftrightarrow> (\<exists>s. env_value show_json key v = Inr s)"
  by (cases v) auto

lemma env_value_Inr_scalar: "env_value show_json key v = Inr s \<Longrightarrow> is_scalar v"
  by (cases v) auto

lemma de_env_entries_ok:
  assumes "distinct (map fst (env @ env0))"
    and "list_all2 (\<lambda>(k, v) (k', s). k = k' \<and> env_value show_json k v = Inr s) raw env0"
  shows "de_env_entries show_json raw env = Inr (env @ env0)"
  using assms(2,1)
proof (induction raw env0 arbitrary: env rule: list_all2_induct)
  case (Cons kv raw ks env0)
  obtain k v s where kv: "kv = (k, v)" "ks = (k, s)" "env_value show_json k v = Inr s"
    using Cons.hyps(1) by (cases kv; cases ks) auto
  from Cons.prems kv have "index_insert k s env = env @ [(k, s)]"
    by (intro index_insert_fresh) auto
  with Cons kv show ?case by simp
qed simp

lemma de_env_entries_keys:
  "de_env_entries show_json raw env = Inr env' \<Longrightarrow>
     fst ` set env' = fst ` set env \<union> fst ` set raw \<and> (\<forall>(k, v) \<in> set raw. is_scalar v)"
proof (induction show_json raw env rule: de_env_entries.induct)
  case (2 show_json key v raw env)
  then show ?case
    by (auto simp: keys_index_insert dest: env_value_Inr_scalar split: sum.splits)
qed simp

end
