(* ===== verification/Reference.thy ===== *)
theory Reference
  imports Rust_Str
begin

text \<open>
  The \<^verbatim>\<open>${{ ... }}\<close> references of environment values (\<^verbatim>\<open>packages/manifest/src/reference.rs\<close>):
  \<open>parse_token\<close> reads one reference, \<open>parse_references\<close> all of a value.  The lemmas characterise
  exactly the accepted tokens and show that rendering a list of references into text and parsing it
  gives the references back.
\<close>

datatype reference =
    ServiceHost string | ServicePort string | ServiceUrl string
  | ServiceEnv string string | Secret string

fun service_of :: "reference \<Rightarrow> string option" where
  "service_of (ServiceHost n) = Some n"
| "service_of (ServicePort n) = Some n"
| "service_of (ServiceUrl n) = Some n"
| "service_of (ServiceEnv n _) = Some n"
| "service_of (Secret _) = None"

definition invalid_ref :: "string \<Rightarrow> string \<Rightarrow> string" where
  "invalid_ref token reason = ''invalid reference `'' @ token @ ''`: '' @ reason"

definition parse_token :: "string \<Rightarrow> reference result" where
  "parse_token token =
     (case strip_prefix token ''secrets.'' of
        Some key \<Rightarrow>
          if key = [] then Inl (invalid_ref token ''missing secret name'') else Inr (Secret key)
      | None \<Rightarrow>
     (case strip_prefix token ''services.'' of
        Some rest \<Rightarrow>
          (case split_once (CHR ''.'') rest of
             None \<Rightarrow> Inl (invalid_ref token
               ''expected `services.<name>.host|port|url` or `services.<name>.env.<KEY>`'')
           | Some (name, attr) \<Rightarrow>
               if name = [] then Inl (invalid_ref token ''missing service name'')
               else if attr = ''host'' then Inr (ServiceHost name)
               else if attr = ''port'' then Inr (ServicePort name)
               else if attr = ''url'' then Inr (ServiceUrl name)
               else (case strip_prefix attr ''env.'' of
                  Some key \<Rightarrow>
                    if key \<noteq> [] then Inr (ServiceEnv name key)
                    else Inl (invalid_ref token ''missing variable name after `env.`'')
                | None \<Rightarrow> Inl (invalid_ref token
                    ''expected `host`, `port`, `url`, or `env.<KEY>` after the service name'')))
      | None \<Rightarrow>
          Inl (invalid_ref token ''references must start with `services.` or `secrets.`'')))"

function parse_references_from :: "reference list \<Rightarrow> string \<Rightarrow> reference list result" where
  "parse_references_from references rest =
     (case find_str ''${{'' rest of
        None \<Rightarrow> Inr references
      | Some start \<Rightarrow>
          let after_open = drop (start + 3) rest in
          (case find_str ''}}'' after_open of
             None \<Rightarrow> Inl (''invalid reference `'' @ drop start rest
               @ ''`: unterminated `${` (missing `}`)'')
           | Some e \<Rightarrow>
               (case parse_token (trim (take e after_open)) of
                  Inl err \<Rightarrow> Inl err
                | Inr r \<Rightarrow>
                    parse_references_from (references @ [r]) (drop (e + 2) after_open))))"
  by pat_completeness auto
termination
  by (relation "measure (\<lambda>(refs, rest). length rest)") (auto dest!: find_str_le)

declare parse_references_from.simps [simp del]

definition parse_references :: "string \<Rightarrow> reference list result" where
  "parse_references value = parse_references_from [] value"

section \<open>The accepted tokens\<close>

fun token_of :: "reference \<Rightarrow> string" where
  "token_of (ServiceHost n) = ''services.'' @ n @ ''.host''"
| "token_of (ServicePort n) = ''services.'' @ n @ ''.port''"
| "token_of (ServiceUrl n) = ''services.'' @ n @ ''.url''"
| "token_of (ServiceEnv n k) = ''services.'' @ n @ ''.env.'' @ k"
| "token_of (Secret k) = ''secrets.'' @ k"

definition wf_service_name :: "string \<Rightarrow> bool" where
  "wf_service_name n \<longleftrightarrow> n \<noteq> [] \<and> CHR ''.'' \<notin> set n"

fun wf_reference :: "reference \<Rightarrow> bool" where
  "wf_reference (ServiceHost n) = wf_service_name n"
| "wf_reference (ServicePort n) = wf_service_name n"
| "wf_reference (ServiceUrl n) = wf_service_name n"
| "wf_reference (ServiceEnv n k) = (wf_service_name n \<and> k \<noteq> [])"
| "wf_reference (Secret k) = (k \<noteq> [])"

lemma parse_token_sound:
  "parse_token t = Inr r \<Longrightarrow> wf_reference r \<and> t = token_of r"
  by (auto simp: parse_token_def str_simps wf_service_name_def
      split: option.splits if_splits prod.splits)

lemma parse_token_token_of: "wf_reference r \<Longrightarrow> parse_token (token_of r) = Inr r"
  by (cases r)
    (auto simp: parse_token_def strip_prefix_def starts_with_def split_once_append
      wf_service_name_def)

section \<open>Rendering and parsing back\<close>

text \<open>A value as a user writes it: pieces of plain text with references between them.\<close>

fun render :: "(string \<times> reference) list \<Rightarrow> string \<Rightarrow> string" where
  "render [] rest = rest"
| "render ((t0, r) # parts) rest = t0 @ ''${{'' @ '' '' @ token_of r @ '' '' @ ''}}'' @ render parts rest"

text \<open>The characters a name may use inside the braces.\<close>

definition plain_name :: "string \<Rightarrow> bool" where
  "plain_name n \<longleftrightarrow> (\<forall>c \<in> set n. is_ascii_graphic c \<and> c \<noteq> CHR ''}'')"

fun plain_reference :: "reference \<Rightarrow> bool" where
  "plain_reference (ServiceEnv n k) = (plain_name n \<and> plain_name k)"
| "plain_reference (Secret k) = plain_name k"
| "plain_reference (ServiceHost n) = plain_name n"
| "plain_reference (ServicePort n) = plain_name n"
| "plain_reference (ServiceUrl n) = plain_name n"

lemma plain_token_of: "plain_reference r \<Longrightarrow> plain_name (token_of r)"
  by (cases r) (auto simp: plain_name_def ascii_defs)

lemma token_of_nonempty [simp]: "token_of r \<noteq> []"
  by (cases r) auto

lemma find_open:
  assumes "find_str ''${{'' t = None"
  shows "find_str ''${{'' (t @ ''${{'' @ b) = Some (length t)"
proof (rule find_str_append)
  fix i assume "i < length t"
  then obtain c d where d: "drop i t = c # d" by (cases "drop i t") auto
  show "\<not> starts_with (drop i (t @ ''${{'' @ b)) ''${{''"
  proof
    assume s: "starts_with (drop i (t @ ''${{'' @ b)) ''${{''"
    have dr: "drop i (t @ ''${{'' @ b) = c # d @ ''${{'' @ b"
      using d \<open>i < length t\<close> by simp
    from s have s': "starts_with (c # d @ ''${{'' @ b) ''${{''" by (simp only: dr)
    show False
    proof (cases d)
      case Nil
      with s' show False by (simp add: starts_with_def)
    next
      case (Cons c2 d2)
      show False
      proof (cases d2)
        case Nil
        with s' Cons show False by (simp add: starts_with_def)
      next
        case (Cons c3 d3)
        with s' \<open>d = c2 # d2\<close> have "drop i t = ''${{'' @ d3"
          using d by (simp add: starts_with_def)
        then have "t = take i t @ ''${{'' @ d3" by (metis append_take_drop_id)
        then show False using assms by (metis find_str_None)
      qed
    qed
  qed
qed

lemma find_close:
  assumes "CHR ''}'' \<notin> set t"
  shows "find_str ''}}'' (t @ ''}}'' @ b) = Some (length t)"
proof (rule find_str_append)
  fix i assume "i < length t"
  then obtain c d where d: "drop i t = c # d" by (cases "drop i t") auto
  then have "c \<in> set t" by (metis in_set_dropD list.set_intros(1))
  with assms have "c \<noteq> CHR ''}''" by auto
  then show "\<not> starts_with (drop i (t @ ''}}'' @ b)) ''}}''"
    using d \<open>i < length t\<close> by (simp add: starts_with_def)
qed

lemma lead_of_space: "lead_of ws_seqs (CHR '' '' # s) = Some [CHR '' '']"
  by (simp add: lead_of_def ws_seqs_def starts_with_def)

lemma lead_of_space_rev: "lead_of (map rev ws_seqs) (CHR '' '' # s) = Some [CHR '' '']"
  by (simp add: lead_of_def ws_seqs_def starts_with_def)

lemma trim_padded:
  assumes "t \<noteq> []" and "plain_name t"
  shows "trim ('' '' @ t @ '' '') = t"
proof -
  from assms have g: "is_ascii_graphic (hd t)" "is_ascii_graphic (last t)"
    by (auto simp: plain_name_def)
  have "trim_start ('' '' @ t @ '' '') = t @ '' ''"
    using assms(1) g(1)
    by (cases t) (auto simp: trim_start_def strip_seqs.simps [of _ "CHR '' '' # _"] lead_of_space
        strip_seqs_id graphic_no_ws)
  moreover have "trim_end (t @ '' '') = t"
    using assms(1) g(2)
    by (cases t rule: rev_cases)
      (auto simp: trim_end_def strip_seqs.simps [of _ "CHR '' '' # _"] lead_of_space_rev
        strip_seqs_id graphic_no_ws_rev)
  ultimately show ?thesis by (simp add: trim_def)
qed

lemma parse_references_from_step:
  assumes "find_str ''${{'' t0 = None" and "wf_reference r" and "plain_reference r"
  shows "parse_references_from refs (t0 @ ''${{'' @ '' '' @ token_of r @ '' '' @ ''}}'' @ more)
       = parse_references_from (refs @ [r]) more"
proof -
  have p: "plain_name (token_of r)" using assms(3) by (rule plain_token_of)
  then have nb: "CHR ''}'' \<notin> set ('' '' @ token_of r @ '' '')"
    by (auto simp: plain_name_def)
  have o: "find_str ''${{'' (t0 @ ''${{'' @ ('' '' @ token_of r @ '' '' @ ''}}'' @ more))
      = Some (length t0)"
    by (rule find_open [OF assms(1)])
  have c: "find_str ''}}'' (('' '' @ token_of r @ '' '') @ ''}}'' @ more)
      = Some (length ('' '' @ token_of r @ '' ''))"
    by (rule find_close [OF nb])
  have t: "parse_token (trim ('' '' @ token_of r @ '' '')) = Inr r"
    using trim_padded [OF token_of_nonempty p] parse_token_token_of [OF assms(2)] by simp
  show ?thesis
    using o c t by (subst parse_references_from.simps) (simp add: Let_def)
qed

lemma parse_references_from_render:
  assumes "list_all (\<lambda>(t0, r). find_str ''${{'' t0 = None \<and> wf_reference r \<and> plain_reference r)
             parts"
    and "find_str ''${{'' rest = None"
  shows "parse_references_from refs (render parts rest) = Inr (refs @ map snd parts)"
  using assms
proof (induction parts arbitrary: refs)
  case Nil
  then show ?case by (simp add: parse_references_from.simps)
next
  case (Cons part parts)
  obtain t0 r where part: "part = (t0, r)" by (cases part)
  with Cons show ?case
    using parse_references_from_step [of t0 r refs "render parts rest"] by simp
qed

text \<open>Every reference the parser returns is well-formed.\<close>

lemma parse_references_from_wf:
  "\<lbrakk>parse_references_from refs s = Inr rs; \<forall>r \<in> set refs. wf_reference r\<rbrakk>
     \<Longrightarrow> \<forall>r \<in> set rs. wf_reference r"
proof (induction refs s rule: parse_references_from.induct)
  case (1 refs s)
  from "1.prems"(1) consider "rs = refs"
    | st e r where "find_str ''${{'' s = Some st" and "find_str ''}}'' (drop (st + 3) s) = Some e"
        and "parse_token (trim (take e (drop (st + 3) s))) = Inr r"
        and "parse_references_from (refs @ [r]) (drop (e + 2) (drop (st + 3) s)) = Inr rs"
    by (subst (asm) parse_references_from.simps) (auto simp: Let_def split: option.splits sum.splits)
  then show ?case
  proof cases
    case 1
    with "1.prems" show ?thesis by simp
  next
    case 2
    then show ?thesis
      using "1.IH" [OF 2(1) refl 2(2,3)] "1.prems"(2) parse_token_sound [OF 2(3)] by auto
  qed
qed

end
