(* ===== verification/Cycle_Search.thy ===== *)
theory Cycle_Search
  imports Prelude
begin

text \<open>
  The depth-first cycle search nested in \<^verbatim>\<open>find_env_reference_cycle\<close>
  (\<^verbatim>\<open>packages/manifest/src/validate.rs\<close>): \<open>visit\<close> is the inner \<^verbatim>\<open>fn visit\<close>, \<open>visit_nexts\<close> its
  loop over the successors, \<open>find_cycle\<close> the loop over the keys of the \<^verbatim>\<open>HashMap\<close>.  The order in
  which a \<^verbatim>\<open>HashMap\<close> yields its keys is not determined, so the list of keys is an argument.

  The search returns a cycle exactly if there is one, for every order of the keys; it terminates
  because every visit marks a node.
\<close>

type_synonym edges = "(string \<times> string list) list"

datatype visit_state = Visiting | Done

record dfs =
  states :: "string \<rightharpoonup> visit_state"
  stack :: "string list"

definition succs :: "edges \<Rightarrow> string \<Rightarrow> string list" where
  "succs es n = (case map_of es n of None \<Rightarrow> [] | Some ts \<Rightarrow> ts)"

text \<open>\<^verbatim>\<open>stack.iter().position(|entry| *entry == node).unwrap_or(0)\<close>\<close>

fun position :: "string \<Rightarrow> string list \<Rightarrow> nat option" where
  "position n [] = None"
| "position n (x # xs) = (if x = n then Some 0 else map_option Suc (position n xs))"

definition cycle_from :: "string \<Rightarrow> string list \<Rightarrow> string list" where
  "cycle_from n stk = drop (case position n stk of None \<Rightarrow> 0 | Some i \<Rightarrow> i) stk @ [n]"

function (sequential) visit :: "edges \<Rightarrow> string \<Rightarrow> dfs \<Rightarrow> string list option \<times> dfs"
  and visit_nexts :: "edges \<Rightarrow> string list \<Rightarrow> dfs \<Rightarrow> string list option \<times> dfs"
where
  "visit es node d =
     (case states d node of
        Some Done \<Rightarrow> (None, d)
      | Some Visiting \<Rightarrow> (Some (cycle_from node (stack d)), d)
      | None \<Rightarrow>
          (case visit_nexts es (succs es node)
                  (d\<lparr>states := (states d)(node \<mapsto> Visiting), stack := stack d @ [node]\<rparr>) of
             (Some cycle, d') \<Rightarrow> (Some cycle, d')
           | (None, d') \<Rightarrow>
               (None, d'\<lparr>stack := butlast (stack d'), states := (states d')(node \<mapsto> Done)\<rparr>)))"
| "visit_nexts es [] d = (None, d)"
| "visit_nexts es (next # nexts) d =
     (case visit es next d of
        (Some cycle, d') \<Rightarrow> (Some cycle, d')
      | (None, d') \<Rightarrow> visit_nexts es nexts d')"
  by pat_completeness auto

definition universe :: "edges \<Rightarrow> string set" where
  "universe es = fst ` set es"

definition unmarked :: "edges \<Rightarrow> dfs \<Rightarrow> nat" where
  "unmarked es d = card (universe es - dom (states d))"

lemma finite_universe [simp]: "finite (universe es)"
  by (simp add: universe_def)

lemma succs_outside: "n \<notin> universe es \<Longrightarrow> succs es n = []"
  by (auto simp: succs_def universe_def map_of_eq_None_iff split: option.splits)
    (metis domI dom_map_of_conv_image_fst)

lemma unmarked_mono: "dom (states d) \<subseteq> dom (states d') \<Longrightarrow> unmarked es d' \<le> unmarked es d"
  unfolding unmarked_def by (rule card_mono) auto

lemma unmarked_mark:
  assumes "states d n = None"
  shows "unmarked es (d\<lparr>states := (states d)(n \<mapsto> s), stack := k\<rparr>) < unmarked es d
    \<or> succs es n = [] \<and> unmarked es (d\<lparr>states := (states d)(n \<mapsto> s), stack := k\<rparr>) = unmarked es d"
proof (cases "n \<in> universe es")
  case True
  with assms have "universe es - dom ((states d)(n \<mapsto> s)) \<subset> universe es - dom (states d)" by auto
  then show ?thesis by (simp add: unmarked_def psubset_card_mono del: dom_fun_upd)
next
  case False
  then have "universe es - dom ((states d)(n \<mapsto> s)) = universe es - dom (states d)" by auto
  with False show ?thesis by (simp add: unmarked_def succs_outside del: dom_fun_upd)
qed

text \<open>A call never unmarks a node; needed before termination, so on the domain of the function.\<close>

lemma visit_dom_mono:
  "visit_visit_nexts_dom (Inl (es, n, d)) \<Longrightarrow> dom (states d) \<subseteq> dom (states (snd (visit es n d)))"
  "visit_visit_nexts_dom (Inr (es, ns, d)) \<Longrightarrow>
     dom (states d) \<subseteq> dom (states (snd (visit_nexts es ns d)))"
proof (induction es n d and es ns d rule: visit_visit_nexts.pinduct)
  case (1 es node d)
  then show ?case
    by (fastforce simp: visit.psimps split: option.splits visit_state.splits prod.splits)
next
  case (2 es d)
  then show ?case by (simp add: visit_nexts.psimps)
next
  case (3 es nxt nexts d)
  show ?case
  proof (cases "visit es nxt d")
    case (Pair c d')
    with 3 show ?thesis
      by (cases c) (auto simp: visit_nexts.psimps dest: subset_trans)
  qed
qed

lemma visit_unmarked:
  "\<lbrakk>visit_visit_nexts_dom (Inl (es, n, d)); (c, d') = visit es n d\<rbrakk>
     \<Longrightarrow> unmarked es d' \<le> unmarked es d"
  by (metis snd_conv unmarked_mono visit_dom_mono(1))

termination visit
proof (relation "measures
    [\<lambda>x. case x of Inl (es, n, d) \<Rightarrow> unmarked es d | Inr (es, ns, d) \<Rightarrow> unmarked es d,
     \<lambda>x. case x of Inl (es, n, d) \<Rightarrow> 1 | Inr (es, ns, d) \<Rightarrow> 2 * length ns]")
qed (auto dest: visit_unmarked unmarked_mark simp: le_less)

declare visit.simps [simp del]

text \<open>\<^verbatim>\<open>for node in edges.keys()\<close>, the keys in the order given.\<close>

fun find_cycle_from :: "edges \<Rightarrow> string list \<Rightarrow> dfs \<Rightarrow> string list option" where
  "find_cycle_from es [] d = None"
| "find_cycle_from es (node # nodes) d =
     (case visit es node d of
        (Some cycle, _) \<Rightarrow> Some cycle
      | (None, d') \<Rightarrow> find_cycle_from es nodes d')"

definition find_cycle :: "(string list \<Rightarrow> string list) \<Rightarrow> edges \<Rightarrow> string list option" where
  "find_cycle key_order es =
     find_cycle_from es (key_order (map fst es)) \<lparr>states = Map.empty, stack = []\<rparr>"

section \<open>Correctness\<close>

definition edge_rel :: "edges \<Rightarrow> (string \<times> string) set" where
  "edge_rel es = {(a, b). b \<in> set (succs es a)}"

definition is_cycle :: "(string \<times> string) set \<Rightarrow> string list \<Rightarrow> bool" where
  "is_cycle r c \<longleftrightarrow> 2 \<le> length c \<and> hd c = last c \<and> successively (\<lambda>a b. (a, b) \<in> r) c"

definition done_nodes :: "dfs \<Rightarrow> string set" where
  "done_nodes d = {n. states d n = Some Done}"

text \<open>
  The invariant of the search: the stack is a walk of distinct nodes, exactly those being visited;
  the finished nodes are closed under edges and on no cycle.
\<close>

definition dfs_inv :: "edges \<Rightarrow> dfs \<Rightarrow> bool" where
  "dfs_inv es d \<longleftrightarrow>
     distinct (stack d) \<and> (\<forall>n. states d n = Some Visiting \<longleftrightarrow> n \<in> set (stack d))
     \<and> successively (\<lambda>a b. (a, b) \<in> edge_rel es) (stack d)
     \<and> edge_rel es `` done_nodes d \<subseteq> done_nodes d
     \<and> (\<forall>n \<in> done_nodes d. (n, n) \<notin> (edge_rel es)\<^sup>+)"

lemma position_Some: "position n xs = Some i \<Longrightarrow> i < length xs \<and> xs ! i = n"
  by (induction xs arbitrary: i) (auto split: if_splits)

lemma position_in: "n \<in> set xs \<Longrightarrow> \<exists>i. position n xs = Some i"
  by (induction xs) auto

lemma successively_drop: "successively P xs \<Longrightarrow> successively P (drop i xs)"
  by (metis append_take_drop_id successively_append_iff)

lemma is_cycle_trancl:
  assumes "is_cycle r c"
  shows "(hd c, hd c) \<in> r\<^sup>+"
proof -
  have walk: "successively (\<lambda>a b. (a, b) \<in> r) (x # xs) \<Longrightarrow> xs \<noteq> [] \<Longrightarrow> (x, last xs) \<in> r\<^sup>+" for x xs
    by (induction xs arbitrary: x) (auto simp: successively_Cons intro: trancl_into_trancl2)
  obtain x xs where c: "c = x # xs" using assms by (cases c) (auto simp: is_cycle_def)
  with assms have "xs \<noteq> []" and "last xs = x" by (auto simp: is_cycle_def split: if_splits)
  with walk [of x xs] assms c show ?thesis by (auto simp: is_cycle_def)
qed

lemma cycle_from_is_cycle:
  assumes "dfs_inv es d" and "states d n = Some Visiting"
    and "stack d = [] \<or> (last (stack d), n) \<in> edge_rel es"
  shows "is_cycle (edge_rel es) (cycle_from n (stack d))"
proof -
  from assms(1,2) have "n \<in> set (stack d)" by (simp add: dfs_inv_def)
  then obtain i where i: "position n (stack d) = Some i" using position_in by blast
  then have len: "i < length (stack d)" and nth: "stack d ! i = n" by (auto dest: position_Some)
  then have ne: "drop i (stack d) \<noteq> []" and hd: "hd (drop i (stack d)) = n"
    by (auto simp: hd_drop_conv_nth)
  have "successively (\<lambda>a b. (a, b) \<in> edge_rel es) (drop i (stack d))"
    using assms(1) by (auto simp: dfs_inv_def intro: successively_drop)
  moreover have "(last (drop i (stack d)), n) \<in> edge_rel es"
    using assms(3) len by auto
  ultimately have "successively (\<lambda>a b. (a, b) \<in> edge_rel es) (drop i (stack d) @ [n])"
    using ne by (simp add: successively_append_iff)
  with i ne hd len show ?thesis by (simp add: is_cycle_def cycle_from_def)
qed

lemma dfs_inv_push:
  assumes "dfs_inv es d" and "states d n = None"
    and "stack d = [] \<or> (last (stack d), n) \<in> edge_rel es"
  shows "dfs_inv es (d\<lparr>states := (states d)(n \<mapsto> Visiting), stack := stack d @ [n]\<rparr>)"
proof -
  have "done_nodes (d\<lparr>states := (states d)(n \<mapsto> Visiting), stack := stack d @ [n]\<rparr>) = done_nodes d"
    using assms(2) by (auto simp: done_nodes_def)
  moreover have "n \<notin> set (stack d)"
    using assms(1,2) by (metis dfs_inv_def option.distinct(1))
  ultimately show ?thesis
    using assms by (auto simp: dfs_inv_def successively_append_iff)
qed

lemma closed_trancl:
  assumes "r `` D \<subseteq> D" and "r `` {n} \<subseteq> D" and "(n, m) \<in> r\<^sup>+"
  shows "m \<in> D"
  using assms(3) by (induction rule: trancl_induct) (use assms(1,2) in auto)

lemma dfs_inv_pop:
  assumes inv: "dfs_inv es d" and stk: "stack d = k @ [n]"
    and succs: "set (succs es n) \<subseteq> done_nodes d"
  shows "dfs_inv es (d\<lparr>stack := butlast (stack d), states := (states d)(n \<mapsto> Done)\<rparr>)"
proof -
  let ?d = "d\<lparr>stack := butlast (stack d), states := (states d)(n \<mapsto> Done)\<rparr>"
  from inv stk have vis: "states d n = Some Visiting" and nk: "n \<notin> set k" and dk: "distinct k"
    by (auto simp: dfs_inv_def)
  have dn: "done_nodes ?d = insert n (done_nodes d)" by (auto simp: done_nodes_def)
  have "edge_rel es `` {n} \<subseteq> done_nodes d" using succs by (auto simp: edge_rel_def)
  moreover have "edge_rel es `` done_nodes d \<subseteq> done_nodes d" using inv by (simp add: dfs_inv_def)
  ultimately have closed: "edge_rel es `` done_nodes ?d \<subseteq> done_nodes ?d"
    and "(n, m) \<in> (edge_rel es)\<^sup>+ \<Longrightarrow> m \<in> done_nodes d" for m
    using dn closed_trancl [of "edge_rel es" "done_nodes d" n] by auto
  then have "(n, n) \<notin> (edge_rel es)\<^sup>+" using vis by (auto simp: done_nodes_def)
  then have acyc: "\<forall>m \<in> done_nodes ?d. (m, m) \<notin> (edge_rel es)\<^sup>+"
    using inv dn by (auto simp: dfs_inv_def)
  have "states ?d m = Some Visiting \<longleftrightarrow> m \<in> set k" for m
    using inv stk nk by (auto simp: dfs_inv_def)
  moreover have "successively (\<lambda>a b. (a, b) \<in> edge_rel es) k"
    using inv stk by (auto simp: dfs_inv_def successively_append_iff)
  ultimately show ?thesis
    using closed acyc dk stk by (simp add: dfs_inv_def)
qed

text \<open>What a visit guarantees.\<close>

definition visit_post :: "edges \<Rightarrow> string set \<Rightarrow> dfs \<Rightarrow> string list option \<times> dfs \<Rightarrow> bool" where
  "visit_post es ns d res \<longleftrightarrow>
     (case res of
        (Some c, _) \<Rightarrow> is_cycle (edge_rel es) c
      | (None, d') \<Rightarrow>
          dfs_inv es d' \<and> stack d' = stack d \<and> done_nodes d \<union> ns \<subseteq> done_nodes d')"

lemma visit_correct:
  "\<lbrakk>dfs_inv es d; stack d = [] \<or> (last (stack d), n) \<in> edge_rel es\<rbrakk>
     \<Longrightarrow> visit_post es {n} d (visit es n d)"
  "\<lbrakk>dfs_inv es d; stack d \<noteq> []; \<forall>n \<in> set ns. (last (stack d), n) \<in> edge_rel es\<rbrakk>
     \<Longrightarrow> visit_post es (set ns) d (visit_nexts es ns d)"
proof (induction es n d and es ns d rule: visit_visit_nexts.induct)
  case (1 es n d)
  show ?case
  proof (cases "states d n")
    case (Some s)
    then show ?thesis
      using "1.prems" cycle_from_is_cycle [OF "1.prems"(1) _ "1.prems"(2)]
      by (cases s) (auto simp: visit.simps [of es n d] visit_post_def done_nodes_def)
  next
    case None
    define d1 where "d1 = d\<lparr>states := (states d)(n \<mapsto> Visiting), stack := stack d @ [n]\<rparr>"
    have done1: "done_nodes d1 = done_nodes d"
      using None by (auto simp: d1_def done_nodes_def)
    have "dfs_inv es d1"
      unfolding d1_def using "1.prems"(1) None "1.prems"(2) by (rule dfs_inv_push)
    then have post: "visit_post es (set (succs es n)) d1 (visit_nexts es (succs es n) d1)"
      using "1.IH" [OF None] by (simp add: d1_def edge_rel_def)
    show ?thesis
    proof (cases "visit_nexts es (succs es n) d1")
      case (Pair c d')
      show ?thesis
      proof (cases c)
        case (Some cyc)
        with Pair post None show ?thesis
          by (simp add: visit.simps [of es n d] visit_post_def flip: d1_def)
      next
        case None': None
        with Pair post have inv': "dfs_inv es d'" and stk': "stack d' = stack d @ [n]"
          and sub: "done_nodes d \<union> set (succs es n) \<subseteq> done_nodes d'"
          by (auto simp: visit_post_def d1_def done1 [unfolded d1_def])
        define d2 where "d2 = d'\<lparr>stack := butlast (stack d'), states := (states d')(n \<mapsto> Done)\<rparr>"
        have "dfs_inv es d2"
          unfolding d2_def using inv' stk' sub by (intro dfs_inv_pop) auto
        moreover have "stack d2 = stack d" and "done_nodes d \<union> {n} \<subseteq> done_nodes d2"
          using stk' sub by (auto simp: d2_def done_nodes_def)
        moreover have "visit es n d = (None, d2)"
          using None None' Pair by (simp add: visit.simps [of es n d] d2_def flip: d1_def)
        ultimately show ?thesis by (simp add: visit_post_def)
      qed
    qed
  qed
next
  case (2 es d)
  then show ?case by (simp add: visit_post_def)
next
  case (3 es nxt nexts d)
  have post: "visit_post es {nxt} d (visit es nxt d)" using 3 by simp
  show ?case
  proof (cases "visit es nxt d")
    case (Pair c d')
    show ?thesis
    proof (cases c)
      case (Some cyc)
      with Pair post show ?thesis by (simp add: visit_post_def)
    next
      case None
      with Pair post have inv': "dfs_inv es d'" and stk': "stack d' = stack d"
        and sub: "done_nodes d \<union> {nxt} \<subseteq> done_nodes d'"
        by (auto simp: visit_post_def)
      then have "visit_post es (set nexts) d' (visit_nexts es nexts d')"
        using "3.IH"(2) [OF Pair [symmetric] None] "3.prems" by simp
      then show ?thesis
        using Pair None stk' sub by (auto simp: visit_post_def split: prod.splits option.splits)
    qed
  qed
qed

lemma find_cycle_from_correct:
  assumes "dfs_inv es d" and "stack d = []"
  shows "case find_cycle_from es nodes d of
      Some c \<Rightarrow> is_cycle (edge_rel es) c
    | None \<Rightarrow> \<forall>n \<in> set nodes \<union> done_nodes d. (n, n) \<notin> (edge_rel es)\<^sup>+"
  using assms
proof (induction es nodes d rule: find_cycle_from.induct)
  case (1 es d)
  then show ?case by (simp add: dfs_inv_def)
next
  case (2 es node nodes d)
  then have post: "visit_post es {node} d (visit es node d)" by (simp add: visit_correct)
  show ?case
  proof (cases "visit es node d")
    case (Pair c d')
    show ?thesis
    proof (cases c)
      case (Some cyc)
      with Pair post show ?thesis by (simp add: visit_post_def)
    next
      case None
      with Pair post "2.prems" have "dfs_inv es d'" and "stack d' = []"
        and sub: "done_nodes d \<union> {node} \<subseteq> done_nodes d'"
        by (auto simp: visit_post_def)
      then show ?thesis
        using "2.IH" [OF Pair [symmetric] None] Pair None by (auto split: option.splits)
    qed
  qed
qed

lemma edge_rel_key: "(n, m) \<in> edge_rel es \<Longrightarrow> n \<in> set (map fst es)"
  by (auto simp: edge_rel_def succs_def split: option.splits)
    (metis domI dom_map_of_conv_image_fst)

lemma find_cycle_sound: "find_cycle key_order es = Some c \<Longrightarrow> is_cycle (edge_rel es) c"
  using find_cycle_from_correct [of es "\<lparr>states = Map.empty, stack = []\<rparr>" "key_order (map fst es)"]
  by (simp add: find_cycle_def dfs_inv_def done_nodes_def)

lemma find_cycle_complete:
  assumes "find_cycle key_order es = None" and "set (key_order (map fst es)) = set (map fst es)"
  shows "acyclic (edge_rel es)"
proof (rule acyclicI, intro allI)
  fix n
  show "(n, n) \<notin> (edge_rel es)\<^sup>+"
  proof (cases "n \<in> set (map fst es)")
    case True
    then show ?thesis
      using find_cycle_from_correct
        [of es "\<lparr>states = Map.empty, stack = []\<rparr>" "key_order (map fst es)"] assms
      by (auto simp: find_cycle_def dfs_inv_def done_nodes_def)
  next
    case False
    then show ?thesis by (auto dest!: tranclD edge_rel_key)
  qed
qed

section \<open>The contract the validator relies on\<close>

text \<open>
  A cycle finder over edge lists: what it returns is a cycle of the edges, and it returns one
  whenever there is one.
\<close>

locale cycle_finder =
  fixes find :: "edges \<Rightarrow> string list option"
    and rel :: "edges \<Rightarrow> (string \<times> string) set"
  assumes sound: "find es = Some c \<Longrightarrow> is_cycle (rel es) c"
    and complete: "find es = None \<Longrightarrow> acyclic (rel es)"
begin

lemma finds_iff: "find es = None \<longleftrightarrow> acyclic (rel es)"
proof
  assume acyc: "acyclic (rel es)"
  show "find es = None"
  proof (cases "find es")
    case (Some c)
    then have "(hd c, hd c) \<in> (rel es)\<^sup>+" by (intro is_cycle_trancl sound)
    with acyc show ?thesis by (auto simp: acyclic_def)
  qed
qed (rule complete)

lemma found_closed: "find es = Some c \<Longrightarrow> (hd c, hd c) \<in> (rel es)\<^sup>+ \<and> hd c = last c"
  by (meson is_cycle_def is_cycle_trancl sound)

end

text \<open>The search fulfils it for every order of the keys that leaves none out.\<close>

lemma find_cycle_finder:
  "(\<And>ks. set (key_order ks) = set ks) \<Longrightarrow> cycle_finder (find_cycle key_order) edge_rel"
  by unfold_locales (auto intro: find_cycle_sound find_cycle_complete)

interpretation insertion_order: cycle_finder "find_cycle (\<lambda>ks. ks)" edge_rel
  by (rule find_cycle_finder) simp

end
