(* ===== verification/Validate.thy ===== *)
theory Validate
  imports Manifest_Model Reference Cycle_Search
begin

text \<open>
  Semantic validation of a manifest (\<^verbatim>\<open>packages/manifest/src/validate.rs\<close>).  The code pushes errors
  onto one vector in a fixed order; each check here returns the errors it pushes and \<open>validate\<close>
  concatenates them in that order.  The helper predicates (\<open>is_valid_name\<close>, \<open>is_valid_memory\<close>,
  \<open>check_repo\<close>, \<open>check_relative_path\<close>) come first, then the checks of one service, the graph of
  environment references, and the whole validator.
\<close>

record validation_error =
  ve_path :: string
  ve_message :: string

definition verr :: "string \<Rightarrow> string \<Rightarrow> validation_error" where
  "verr path message = \<lparr>ve_path = path, ve_message = message\<rparr>"

definition show_verr :: "validation_error \<Rightarrow> string" where
  "show_verr e = ve_path e @ '': '' @ ve_message e"

text \<open>The dash of the messages, U+2014 in UTF-8.\<close>

definition em_dash :: string where
  "em_dash = [CHR 0xE2, CHR 0x80, CHR 0x94]"

definition push_if :: "bool \<Rightarrow> string \<Rightarrow> string \<Rightarrow> validation_error list" where
  "push_if b path message = (if b then [verr path message] else [])"

lemma push_if_Nil [simp]: "push_if b p m = [] \<longleftrightarrow> \<not> b"
  by (simp add: push_if_def)

section \<open>Helper predicates\<close>

definition is_valid_name :: "string \<Rightarrow> bool" where
  "is_valid_name name \<longleftrightarrow>
     name \<noteq> [] \<and> length name \<le> 63
     \<and> list_all (\<lambda>c. is_ascii_lowercase c \<or> is_ascii_digit c \<or> c = CHR ''-'') name
     \<and> \<not> starts_with name ''-'' \<and> \<not> ends_with name ''-''"

fun valid_memory_suffix :: "string list \<Rightarrow> string \<Rightarrow> bool" where
  "valid_memory_suffix [] memory = False"
| "valid_memory_suffix (suffix # suffixes) memory =
     (case strip_suffix memory suffix of
        Some number \<Rightarrow> number \<noteq> [] \<and> list_all is_ascii_digit number
      | None \<Rightarrow> valid_memory_suffix suffixes memory)"

definition is_valid_memory :: "string \<Rightarrow> bool" where
  "is_valid_memory memory = valid_memory_suffix [''Mi'', ''Gi'', ''M'', ''G''] memory"

definition valid_repo :: "string \<Rightarrow> bool" where
  "valid_repo repo =
     (case split_once (CHR ''/'') repo of
        Some (owner, name) \<Rightarrow> owner \<noteq> [] \<and> name \<noteq> [] \<and> CHR ''/'' \<notin> set name
      | None \<Rightarrow> False)"

definition check_repo :: "string \<Rightarrow> string \<Rightarrow> validation_error list" where
  "check_repo path repo =
     push_if (\<not> valid_repo repo) path (''`'' @ repo @ ''` is not an `owner/name` GitHub repo'')"

definition check_relative_path :: "string \<Rightarrow> string \<Rightarrow> validation_error list" where
  "check_relative_path loc path =
     (if starts_with path ''/'' then
        [verr loc (''`'' @ path @ ''` must be relative to the manifest file'')]
      else if ''..'' \<in> set (split_on (CHR ''/'') path) then
        [verr loc (''`'' @ path
           @ ''` must not escape the manifest file'' @ [CHR 0x27] @ ''s directory (`..`)'')]
      else [])"

section \<open>The checks of one service\<close>

definition svc_at :: "string \<Rightarrow> string \<Rightarrow> string" where
  "svc_at name fld = ''services.'' @ name @ ''.'' @ fld"

definition check_sources :: "string \<Rightarrow> service \<Rightarrow> validation_error list" where
  "check_sources here s =
     push_if (length (filter (\<lambda>set. set)
         [svc_path s \<noteq> None, svc_image s \<noteq> None, svc_github s \<noteq> None]) \<noteq> 1)
       here ''a service needs exactly one source: `path`, `image`, or `github`''"

definition check_service_paths :: "string \<Rightarrow> service \<Rightarrow> validation_error list" where
  "check_service_paths name s =
     (case svc_path s of None \<Rightarrow> [] | Some path \<Rightarrow> check_relative_path (svc_at name ''path'') path)
     @ (case svc_github s of
          None \<Rightarrow> []
        | Some gh \<Rightarrow>
            check_repo (svc_at name ''github.repo'') (sg_repo gh)
            @ (case sg_path gh of
                 None \<Rightarrow> []
               | Some path \<Rightarrow> check_relative_path (svc_at name ''github.path'') path))
     @ push_if (svc_build s \<noteq> None \<and> svc_image s \<noteq> None) (svc_at name ''build'')
         (''`build` does not apply to `image` services '' @ em_dash
           @ '' there is nothing to build'')
     @ concat (map (check_relative_path (svc_at name ''envFiles'')) (svc_env_files s))"

definition check_ports :: "string \<Rightarrow> service \<Rightarrow> validation_error list" where
  "check_ports name s =
     push_if (is_public s \<and> svc_port s = None) (svc_at name ''port'')
       (''`port` is required when a service is public '' @ em_dash
         @ '' the proxy needs an upstream'')
     @ push_if (svc_port s = Some 0) (svc_at name ''port'') ''port cannot be 0''"

definition check_healthcheck :: "string \<Rightarrow> service \<Rightarrow> validation_error list" where
  "check_healthcheck name s =
     (case svc_healthcheck s of
        None \<Rightarrow> []
      | Some h \<Rightarrow>
          push_if (\<not> starts_with (hc_path h) ''/'') (svc_at name ''healthcheck.path'')
            ''must start with `/`''
          @ push_if (hc_timeout h = Some 0 \<or> hc_interval h = Some 0) (svc_at name ''healthcheck'')
            ''`timeout` and `interval` must be at least 1 second'')"

definition check_cron :: "string \<Rightarrow> service \<Rightarrow> validation_error list" where
  "check_cron name s =
     (case svc_cron s of
        None \<Rightarrow> []
      | Some cron \<Rightarrow>
          push_if (length (split_whitespace cron) \<noteq> 5) (svc_at name ''cron'')
            ''expected a 5-field cron expression (minute hour day month weekday)'')"

definition check_dependency :: "manifest \<Rightarrow> string \<Rightarrow> string \<Rightarrow> validation_error list" where
  "check_dependency m name dependency =
     (if dependency = name then
        [verr (svc_at name ''dependsOn'') ''a service cannot depend on itself'']
      else if \<not> contains_key (mf_services m) dependency then
        [verr (svc_at name ''dependsOn'') (''unknown service `'' @ dependency @ ''`'')]
      else [])"

definition check_volume :: "string \<Rightarrow> string \<times> string \<Rightarrow> validation_error list" where
  "check_volume name volume =
     push_if (\<not> starts_with (snd volume) ''/'') (svc_at name ''volumes'')
       (''mount path `'' @ snd volume @ ''` must be absolute'')"

definition scaled_out :: "scale \<Rightarrow> bool" where
  "scaled_out sc \<longleftrightarrow>
     (case scl_replicas sc of None \<Rightarrow> False | Some replicas \<Rightarrow> replicas > 1)
     \<or> (case scl_autoscale sc of None \<Rightarrow> False | Some a \<Rightarrow> asc_max a > 1)"

definition check_autoscale :: "string \<Rightarrow> autoscale \<Rightarrow> validation_error list" where
  "check_autoscale name a =
     push_if (asc_min a < 1 \<or> asc_max a < asc_min a) (svc_at name ''scale.autoscale'')
       ''`min` must be >= 1 and `max` >= `min`''
     @ (case asc_target_cpu_percent a of
          None \<Rightarrow> []
        | Some target \<Rightarrow>
            push_if (\<not> (1 \<le> target \<and> target \<le> 100))
              (svc_at name ''scale.autoscale.targetCpuPercent'') ''must be between 1 and 100'')"

definition check_scale :: "string \<Rightarrow> service \<Rightarrow> validation_error list" where
  "check_scale name s =
     (case svc_scale s of
        None \<Rightarrow> []
      | Some sc \<Rightarrow>
          push_if (scl_replicas sc \<noteq> None \<and> scl_autoscale sc \<noteq> None) (svc_at name ''scale'')
            ''`replicas` and `autoscale` are mutually exclusive''
          @ push_if (scl_replicas sc = Some 0) (svc_at name ''scale.replicas'')
            ''must be at least 1''
          @ (case scl_autoscale sc of None \<Rightarrow> [] | Some a \<Rightarrow> check_autoscale name a)
          @ push_if (scaled_out sc \<and> svc_volumes s \<noteq> []) (svc_at name ''scale'')
            (''services with volumes are pinned to 1 replica '' @ em_dash
              @ '' two containers must never share a volume''))"

definition check_strategy :: "string \<Rightarrow> service \<Rightarrow> validation_error list" where
  "check_strategy name s =
     push_if (svc_strategy s = Some Rolling \<and> svc_volumes s \<noteq> []) (svc_at name ''strategy'')
       (''services with volumes cannot roll '' @ em_dash
         @ '' use `recreate` (or omit `strategy`)'')"

definition check_resources :: "string \<Rightarrow> service \<Rightarrow> validation_error list" where
  "check_resources name s =
     (case svc_resources s of
        None \<Rightarrow> []
      | Some r \<Rightarrow>
          push_if (case res_cpu r of None \<Rightarrow> False | Some cpu \<Rightarrow> cpu \<le> 0)
            (svc_at name ''resources.cpu'') ''must be greater than 0''
          @ (case res_memory r of
               None \<Rightarrow> []
             | Some memory \<Rightarrow>
                 push_if (\<not> is_valid_memory memory) (svc_at name ''resources.memory'')
                   (''`'' @ memory @ ''` is not a valid size '' @ em_dash
                     @ '' use forms like `512Mi` or `1Gi`'')))"

definition needs_port :: "reference \<Rightarrow> bool" where
  "needs_port r = (case r of ServicePort _ \<Rightarrow> True | ServiceUrl _ \<Rightarrow> True | _ \<Rightarrow> False)"

definition check_reference :: "manifest \<Rightarrow> string \<Rightarrow> reference \<Rightarrow> validation_error list" where
  "check_reference m path r =
     (case service_of r of
        None \<Rightarrow> []
      | Some target \<Rightarrow>
          (case map_of (mf_services m) target of
             None \<Rightarrow> [verr path (''references unknown service `'' @ target @ ''`'')]
           | Some s \<Rightarrow>
               push_if (needs_port r \<and> svc_port s = None) path
                 (''`'' @ target @ ''` must declare `port` to be referenced by port/url'')))"

definition check_env :: "manifest \<Rightarrow> string \<Rightarrow> string \<times> string \<Rightarrow> validation_error list" where
  "check_env m name kv =
     (let path = ''services.'' @ name @ ''.env.'' @ fst kv in
      (case parse_references (snd kv) of
         Inl invalid \<Rightarrow> [verr path invalid]
       | Inr references \<Rightarrow> concat (map (check_reference m path) references)))"

definition validate_service :: "manifest \<Rightarrow> string \<Rightarrow> service \<Rightarrow> validation_error list" where
  "validate_service m name s =
     (let here = ''services.'' @ name in
      push_if (\<not> is_valid_name name) here
        (''service names must be lowercase DNS labels (a-z, 0-9, hyphens; max 63 chars) ''
          @ em_dash @ '' the name is the internal hostname'')
      @ check_sources here s
      @ check_service_paths name s
      @ check_ports name s
      @ check_healthcheck name s
      @ check_cron name s
      @ concat (map (check_dependency m name) (svc_depends_on s))
      @ concat (map (check_volume name) (svc_volumes s))
      @ check_scale name s
      @ check_strategy name s
      @ check_resources name s
      @ concat (map (check_env m name) (svc_env s)))"

section \<open>The graph of environment references\<close>

text \<open>\<^verbatim>\<open>edges.entry(from).or_default().push(to)\<close>\<close>

fun push_edge :: "string \<Rightarrow> string \<Rightarrow> edges \<Rightarrow> edges" where
  "push_edge a b [] = [(a, [b])]"
| "push_edge a b ((a', bs) # es) =
     (if a = a' then (a', bs @ [b]) # es else (a', bs) # push_edge a b es)"

definition env_targets :: "manifest \<Rightarrow> string \<Rightarrow> string list" where
  "env_targets m val =
     (case parse_references val of
        Inl _ \<Rightarrow> []
      | Inr references \<Rightarrow>
          concat (map (\<lambda>r. case r of
              ServiceEnv target _ \<Rightarrow> if contains_key (mf_services m) target then [target] else []
            | _ \<Rightarrow> []) references))"

definition service_edges :: "manifest \<Rightarrow> string \<times> service \<Rightarrow> edges \<Rightarrow> edges" where
  "service_edges m ns es =
     fold (push_edge (fst ns)) (concat (map (\<lambda>kv. env_targets m (snd kv)) (svc_env (snd ns)))) es"

definition env_edges :: "manifest \<Rightarrow> edges" where
  "env_edges m = fold (service_edges m) (mf_services m) []"

definition find_env_reference_cycle ::
    "(string list \<Rightarrow> string list) \<Rightarrow> manifest \<Rightarrow> string list option" where
  "find_env_reference_cycle key_order m = find_cycle key_order (env_edges m)"

section \<open>The validator\<close>

definition check_project :: "manifest \<Rightarrow> validation_error list" where
  "check_project m =
     (case mf_project m of
        None \<Rightarrow> []
      | Some p \<Rightarrow>
          push_if (\<not> is_valid_name (prj_name p)) ''project.name''
            (''must be a lowercase DNS label (a-z, 0-9, hyphens; max 63 chars) '' @ em_dash
              @ '' it is used in generated hostnames''))"

definition validate :: "(string list \<Rightarrow> string list) \<Rightarrow> manifest \<Rightarrow> validation_error list" where
  "validate key_order m =
     check_project m
     @ (case mf_github m of None \<Rightarrow> [] | Some gh \<Rightarrow> check_repo ''github.repo'' (gl_repo gh))
     @ concat (map (\<lambda>(name, s). validate_service m name s) (mf_services m))
     @ (case find_env_reference_cycle key_order m of
          None \<Rightarrow> []
        | Some cycle \<Rightarrow>
            [verr ''services''
               (''environment variable references form a cycle: '' @ join '' -> '' cycle)])"

section \<open>What the helper predicates decide\<close>

text \<open>A DNS label, character by character.\<close>

definition label_char :: "char \<Rightarrow> bool" where
  "label_char c \<longleftrightarrow> is_ascii_lowercase c \<or> is_ascii_digit c \<or> c = CHR ''-''"

lemma starts_with_single: "starts_with s [c] \<longleftrightarrow> s \<noteq> [] \<and> hd s = c"
  by (cases s) (auto simp: starts_with_def)

lemma ends_with_single: "ends_with s [c] \<longleftrightarrow> s \<noteq> [] \<and> last s = c"
  by (cases s rule: rev_cases) (auto simp: ends_with_def)

lemma is_valid_name_iff:
  "is_valid_name n \<longleftrightarrow>
     n \<noteq> [] \<and> length n \<le> 63 \<and> (\<forall>c \<in> set n. label_char c) \<and> hd n \<noteq> CHR ''-'' \<and> last n \<noteq> CHR ''-''"
  by (auto simp: is_valid_name_def label_char_def list_all_iff starts_with_single ends_with_single)

lemma label_char_graphic: "label_char c \<Longrightarrow> is_ascii_graphic c \<and> c \<noteq> CHR ''}'' \<and> c \<noteq> CHR ''.''"
  by (auto simp: label_char_def ascii_defs)

text \<open>Valid service names can be referenced: the reference parser reads them back.\<close>

lemma is_valid_name_plain: "is_valid_name n \<Longrightarrow> plain_name n \<and> wf_service_name n"
  using label_char_graphic by (auto simp: is_valid_name_iff plain_name_def wf_service_name_def)

lemma is_valid_memory_iff:
  "is_valid_memory s \<longleftrightarrow>
     (\<exists>number unit. s = number @ unit \<and> unit \<in> {''Mi'', ''Gi'', ''M'', ''G''}
        \<and> number \<noteq> [] \<and> list_all is_ascii_digit number)" (is "?l \<longleftrightarrow> ?r")
proof
  assume ?l
  then show ?r
    by (fastforce simp: is_valid_memory_def str_simps split: option.splits)
next
  assume ?r
  then obtain number unit where s: "s = number @ unit" and u: "unit \<in> {''Mi'', ''Gi'', ''M'', ''G''}"
    and n: "number \<noteq> []" "list_all is_ascii_digit number" by blast
  from u consider "unit = ''Mi''" | "unit = ''Gi''" | "unit = ''M''" | "unit = ''G''" by blast
  then show ?l
    by cases (use s n in \<open>simp_all add: is_valid_memory_def strip_suffix_def ends_with_def\<close>)
qed

lemma valid_repo_iff:
  "valid_repo r \<longleftrightarrow>
     (\<exists>owner name. r = owner @ ''/'' @ name \<and> owner \<noteq> [] \<and> name \<noteq> []
        \<and> CHR ''/'' \<notin> set owner \<and> CHR ''/'' \<notin> set name)"
proof -
  have "valid_repo r \<longleftrightarrow>
      (\<exists>owner name. split_once (CHR ''/'') r = Some (owner, name) \<and> owner \<noteq> [] \<and> name \<noteq> []
        \<and> CHR ''/'' \<notin> set name)"
    by (auto simp: valid_repo_def split: option.splits)
  then show ?thesis by (auto simp: split_once_eq_Some)
qed

text \<open>
  A path is confined if walking its components from the manifest's directory never leaves it:
  the depth below that directory, which \<^verbatim>\<open>..\<close> lowers, stays defined.
\<close>

fun walk_depth :: "nat \<Rightarrow> string list \<Rightarrow> nat option" where
  "walk_depth d [] = Some d"
| "walk_depth d (c # cs) =
     (if c = [] \<or> c = ''.'' then walk_depth d cs
      else if c = ''..'' then (case d of 0 \<Rightarrow> None | Suc d' \<Rightarrow> walk_depth d' cs)
      else walk_depth (Suc d) cs)"

definition confined :: "string \<Rightarrow> bool" where
  "confined path \<longleftrightarrow> \<not> starts_with path ''/'' \<and> walk_depth 0 (split_on (CHR ''/'') path) \<noteq> None"

lemma walk_depth_no_dotdot: "''..'' \<notin> set cs \<Longrightarrow> walk_depth d cs \<noteq> None"
  by (induction cs arbitrary: d) auto

definition relative_path :: "string \<Rightarrow> bool" where
  "relative_path path \<longleftrightarrow> \<not> starts_with path ''/'' \<and> ''..'' \<notin> set (split_on (CHR ''/'') path)"

lemma check_relative_path_Nil [simp]: "check_relative_path loc path = [] \<longleftrightarrow> relative_path path"
  by (simp add: check_relative_path_def relative_path_def)

lemma relative_path_confined: "relative_path path \<Longrightarrow> confined path"
  by (simp add: relative_path_def confined_def walk_depth_no_dotdot)

lemma check_repo_Nil [simp]: "check_repo loc repo = [] \<longleftrightarrow> valid_repo repo"
  by (simp add: check_repo_def)

section \<open>The relation of environment references\<close>

definition env_rel :: "manifest \<Rightarrow> (string \<times> string) set" where
  "env_rel m =
     {(a, b). \<exists>s kv refs var.
        (a, s) \<in> set (mf_services m) \<and> kv \<in> set (svc_env s)
        \<and> parse_references (snd kv) = Inr refs \<and> ServiceEnv b var \<in> set refs
        \<and> contains_key (mf_services m) b}"

lemma set_env_target:
  "b \<in> set (case r of ServiceEnv t v \<Rightarrow> if P t then [t] else [] | _ \<Rightarrow> [])
     \<longleftrightarrow> (\<exists>v. r = ServiceEnv b v \<and> P b)"
  by (cases r) auto

lemma set_env_targets:
  "b \<in> set (env_targets m v) \<longleftrightarrow>
     (\<exists>refs var. parse_references v = Inr refs \<and> ServiceEnv b var \<in> set refs
        \<and> contains_key (mf_services m) b)"
  by (cases "parse_references v"; auto simp: env_targets_def set_env_target; blast)

lemma map_of_push_edge: "map_of (push_edge a b es) = (map_of es)(a \<mapsto> succs es a @ [b])"
  by (induction es) (auto simp: succs_def fun_eq_iff)

lemma succs_push_edge:
  "set (succs (push_edge a b es) n) = set (succs es n) \<union> (if n = a then {b} else {})"
  unfolding succs_def [of "push_edge a b es"] map_of_push_edge by (auto simp: succs_def)

lemma succs_fold_push_edge:
  "set (succs (fold (push_edge a) bs es) n) = set (succs es n) \<union> (if n = a then set bs else {})"
  by (induction bs arbitrary: es) (auto simp: succs_push_edge)

lemma succs_service_edges:
  "set (succs (service_edges m ns es) n) =
     set (succs es n) \<union> (if n = fst ns then \<Union>kv \<in> set (svc_env (snd ns)). set (env_targets m (snd kv)) else {})"
  by (simp add: service_edges_def succs_fold_push_edge)

lemma succs_fold_service_edges:
  "set (succs (fold (service_edges m) svcs es) n) =
     set (succs es n) \<union>
       (\<Union>ns \<in> {ns \<in> set svcs. fst ns = n}. \<Union>kv \<in> set (svc_env (snd ns)). set (env_targets m (snd kv)))"
  by (induction svcs arbitrary: es) (auto simp: succs_service_edges split: if_splits)

lemma edge_rel_env_edges: "edge_rel (env_edges m) = env_rel m"
proof -
  have nil: "succs [] n = []" for n by (simp add: succs_def)
  have iff: "(a, b) \<in> edge_rel (env_edges m) \<longleftrightarrow>
      (\<exists>ns \<in> set (mf_services m). fst ns = a
         \<and> (\<exists>kv \<in> set (svc_env (snd ns)). b \<in> set (env_targets m (snd kv))))" for a b
    by (simp add: edge_rel_def env_edges_def succs_fold_service_edges nil Bex_def)
  have "(a, b) \<in> edge_rel (env_edges m) \<longleftrightarrow> (a, b) \<in> env_rel m" for a b
    unfolding iff env_rel_def set_env_targets Bex_def mem_Collect_eq case_prod_conv
    by (metis prod.collapse fst_conv snd_conv)
  then show ?thesis by auto
qed

section \<open>What a valid manifest is\<close>

definition reference_ok :: "manifest \<Rightarrow> reference \<Rightarrow> bool" where
  "reference_ok m r \<longleftrightarrow>
     (\<forall>t. service_of r = Some t \<longrightarrow>
        (\<exists>s. map_of (mf_services m) t = Some s \<and> (needs_port r \<longrightarrow> svc_port s \<noteq> None)))"

definition env_ok :: "manifest \<Rightarrow> string \<Rightarrow> bool" where
  "env_ok m val \<longleftrightarrow> (\<exists>refs. parse_references val = Inr refs \<and> (\<forall>r \<in> set refs. reference_ok m r))"

text \<open>The number of containers a scale setting allows at most.\<close>

definition max_replicas :: "scale \<Rightarrow> nat" where
  "max_replicas sc =
     max (case scl_replicas sc of None \<Rightarrow> 1 | Some n \<Rightarrow> unat n)
         (case scl_autoscale sc of None \<Rightarrow> 1 | Some a \<Rightarrow> unat (asc_max a))"

definition scale_ok :: "service \<Rightarrow> scale \<Rightarrow> bool" where
  "scale_ok s sc \<longleftrightarrow>
     (scl_replicas sc = None \<or> scl_autoscale sc = None)
     \<and> (\<forall>n. scl_replicas sc = Some n \<longrightarrow> 1 \<le> unat n)
     \<and> (\<forall>a. scl_autoscale sc = Some a \<longrightarrow>
          1 \<le> unat (asc_min a) \<and> unat (asc_min a) \<le> unat (asc_max a)
          \<and> (\<forall>t. asc_target_cpu_percent a = Some t \<longrightarrow> unat t \<in> {1..100}))
     \<and> (svc_volumes s \<noteq> [] \<longrightarrow> max_replicas sc = 1)"

definition service_paths_ok :: "service \<Rightarrow> bool" where
  "service_paths_ok s \<longleftrightarrow>
     (\<forall>p. svc_path s = Some p \<longrightarrow> relative_path p)
     \<and> (\<forall>g. svc_github s = Some g \<longrightarrow>
          valid_repo (sg_repo g) \<and> (\<forall>p. sg_path g = Some p \<longrightarrow> relative_path p))
     \<and> (\<forall>p \<in> set (svc_env_files s). relative_path p)"

definition service_ok :: "manifest \<Rightarrow> string \<Rightarrow> service \<Rightarrow> bool" where
  "service_ok m name s \<longleftrightarrow>
     is_valid_name name \<and> (\<exists>src. source s = Some src) \<and> service_paths_ok s
     \<and> (svc_build s \<noteq> None \<longrightarrow> (\<forall>i. source s \<noteq> Some (SrcImage i)))
     \<and> (is_public s \<longrightarrow> svc_port s \<noteq> None) \<and> svc_port s \<noteq> Some 0
     \<and> (\<forall>h. svc_healthcheck s = Some h \<longrightarrow>
          starts_with (hc_path h) ''/'' \<and> 1 \<le> unat (timeout_of h) \<and> 1 \<le> unat (interval_of h))
     \<and> (\<forall>c. svc_cron s = Some c \<longrightarrow> length (split_whitespace c) = 5)
     \<and> (\<forall>d \<in> set (svc_depends_on s). d \<noteq> name \<and> d \<in> fst ` set (mf_services m))
     \<and> (\<forall>v \<in> set (svc_volumes s). starts_with (snd v) ''/'')
     \<and> (\<forall>sc. svc_scale s = Some sc \<longrightarrow> scale_ok s sc)
     \<and> (svc_strategy s \<noteq> None \<longrightarrow> svc_strategy s = Some (effective_strategy s))
     \<and> (\<forall>r. svc_resources s = Some r \<longrightarrow>
          (\<forall>cpu. res_cpu r = Some cpu \<longrightarrow> 0 < cpu)
          \<and> (\<forall>mem. res_memory r = Some mem \<longrightarrow> is_valid_memory mem))
     \<and> (\<forall>kv \<in> set (svc_env s). env_ok m (snd kv))"

definition manifest_ok :: "manifest \<Rightarrow> bool" where
  "manifest_ok m \<longleftrightarrow>
     (\<forall>p. mf_project m = Some p \<longrightarrow> is_valid_name (prj_name p))
     \<and> (\<forall>g. mf_github m = Some g \<longrightarrow> valid_repo (gl_repo g))
     \<and> (\<forall>(name, s) \<in> set (mf_services m). service_ok m name s)
     \<and> acyclic (env_rel m)"

lemma check_sources_Nil: "check_sources here s = [] \<longleftrightarrow> (\<exists>src. source s = Some src)"
  by (auto simp: check_sources_def source_def split: option.splits)

lemma build_image_iff:
  "source s = Some src \<Longrightarrow> (svc_build s \<noteq> None \<and> svc_image s \<noteq> None) \<longleftrightarrow> svc_build s \<noteq> None \<and> (\<exists>i. src = SrcImage i)"
  by (auto simp: source_def split: option.splits)

lemma check_service_paths_Nil:
  "check_service_paths name s = [] \<longleftrightarrow>
     service_paths_ok s \<and> \<not> (svc_build s \<noteq> None \<and> svc_image s \<noteq> None)"
  by (auto simp: check_service_paths_def service_paths_ok_def split: option.splits)

lemma unat_ge_1: "Suc 0 \<le> unat (w :: 'a::len word) \<longleftrightarrow> w \<noteq> 0"
  by (simp add: Suc_le_eq unat_gt_0)

lemma check_healthcheck_Nil:
  "check_healthcheck name s = [] \<longleftrightarrow>
     (\<forall>h. svc_healthcheck s = Some h \<longrightarrow>
        starts_with (hc_path h) ''/'' \<and> 1 \<le> unat (timeout_of h) \<and> 1 \<le> unat (interval_of h))"
  by (auto simp: check_healthcheck_def timeout_of_def interval_of_def unat_ge_1
      DEFAULT_HEALTHCHECK_TIMEOUT_def DEFAULT_HEALTHCHECK_INTERVAL_def split: option.splits)

lemma check_ports_Nil:
  "check_ports name s = [] \<longleftrightarrow> (is_public s \<longrightarrow> svc_port s \<noteq> None) \<and> svc_port s \<noteq> Some 0"
  by (auto simp: check_ports_def)

lemma check_cron_Nil:
  "check_cron name s = [] \<longleftrightarrow> (\<forall>c. svc_cron s = Some c \<longrightarrow> length (split_whitespace c) = 5)"
  by (auto simp: check_cron_def split: option.splits)

lemma check_dependency_Nil:
  "check_dependency m name d = [] \<longleftrightarrow> d \<noteq> name \<and> d \<in> fst ` set (mf_services m)"
  by (auto simp: check_dependency_def contains_key_iff)

lemma unat_eq_1: "unat (w :: u32) = Suc 0 \<longleftrightarrow> w = 1"
  by (metis One_nat_def unat_1 word_unat_eq_iff)

lemma word_gt_1_iff: "(1 :: u32) < w \<longleftrightarrow> 1 < unat w"
  by (simp add: word_less_nat_alt)

lemma check_scale_Nil:
  "check_scale name s = [] \<longleftrightarrow> (\<forall>sc. svc_scale s = Some sc \<longrightarrow> scale_ok s sc)"
proof (cases "svc_scale s")
  case (Some sc)
  have auto_ok: "check_autoscale name a = [] \<longleftrightarrow>
      1 \<le> unat (asc_min a) \<and> unat (asc_min a) \<le> unat (asc_max a)
      \<and> (\<forall>t. asc_target_cpu_percent a = Some t \<longrightarrow> unat t \<in> {1..100})" for a
    by (auto simp: check_autoscale_def word_less_nat_alt word_le_nat_alt unat_ge_1 unat_gt_0 not_less
        split: option.splits)
  have "scaled_out sc \<longleftrightarrow> 1 < max_replicas sc"
    by (auto simp: scaled_out_def max_replicas_def word_gt_1_iff less_max_iff_disj
        split: option.splits)
  moreover have "1 \<le> max_replicas sc" if "scl_replicas sc \<noteq> Some 0"
    using that by (auto simp: max_replicas_def le_max_iff_disj unat_ge_1 split: option.splits)
  ultimately have one: "\<not> scaled_out sc \<longleftrightarrow> max_replicas sc = 1" if "scl_replicas sc \<noteq> Some 0"
    using that by linarith
  show ?thesis
  proof (cases "scl_replicas sc \<noteq> Some 0")
    case True
    then have "\<not> scaled_out sc \<longleftrightarrow> max_replicas sc = 1" by (rule one)
    with Some True show ?thesis
      by (auto simp: check_scale_def scale_ok_def auto_ok unat_ge_1 split: option.splits)
  next
    case False
    with Some show ?thesis
      by (auto simp: check_scale_def scale_ok_def auto_ok unat_ge_1 split: option.splits)
  qed
qed (simp add: check_scale_def)

lemma check_strategy_Nil:
  "check_strategy name s = [] \<longleftrightarrow>
     (svc_strategy s \<noteq> None \<longrightarrow> svc_strategy s = Some (effective_strategy s))"
  by (auto simp: check_strategy_def effective_strategy_def) (metis strategy.exhaust)

lemma check_resources_Nil:
  "check_resources name s = [] \<longleftrightarrow>
     (\<forall>r. svc_resources s = Some r \<longrightarrow>
        (\<forall>cpu. res_cpu r = Some cpu \<longrightarrow> 0 < cpu)
        \<and> (\<forall>mem. res_memory r = Some mem \<longrightarrow> is_valid_memory mem))"
  by (auto simp: check_resources_def not_le split: option.splits)

lemma check_reference_Nil: "check_reference m path r = [] \<longleftrightarrow> reference_ok m r"
  by (auto simp: check_reference_def reference_ok_def split: option.splits)

lemma check_env_Nil: "check_env m name kv = [] \<longleftrightarrow> env_ok m (snd kv)"
  by (auto simp: check_env_def env_ok_def Let_def check_reference_Nil split: sum.splits)

lemmas check_Nil =
  check_ports_Nil check_healthcheck_Nil check_cron_Nil
  check_dependency_Nil check_scale_Nil check_strategy_Nil check_resources_Nil check_env_Nil

lemma sources_paths_Nil:
  "check_sources here s = [] \<and> check_service_paths name s = [] \<and> P \<longleftrightarrow>
     (\<exists>src. source s = Some src) \<and> service_paths_ok s
     \<and> (svc_build s \<noteq> None \<longrightarrow> (\<forall>i. source s \<noteq> Some (SrcImage i))) \<and> P"
  using build_image_iff [of s] by (auto simp: check_sources_Nil check_service_paths_Nil)

lemma validate_service_Nil: "validate_service m name s = [] \<longleftrightarrow> service_ok m name s"
  unfolding validate_service_def Let_def append_is_Nil_conv push_if_Nil sources_paths_Nil
    service_ok_def concat_eq_Nil_conv check_Nil
  by (simp add: check_Nil check_volume_def)

lemma validate_Nil:
  assumes "\<And>ks. set (key_order ks) = set ks"
  shows "validate key_order m = [] \<longleftrightarrow> manifest_ok m"
proof -
  have "find_env_reference_cycle key_order m = None \<longleftrightarrow> acyclic (env_rel m)"
    unfolding find_env_reference_cycle_def
    using cycle_finder.finds_iff [OF find_cycle_finder [OF assms]] by (simp add: edge_rel_env_edges)
  then show ?thesis
    by (auto simp: validate_def manifest_ok_def check_project_def validate_service_Nil
        split: option.splits)
qed

end
