(* ===== verification/Manifest.thy ===== *)
theory Manifest
  imports Validate
begin

text \<open>
  The entry points of the manifest crate (\<^verbatim>\<open>packages/manifest/src/lib.rs\<close>): parsing with validation
  and the two linking updates.  The JSON readers (\<^verbatim>\<open>serde_json\<close>, \<^verbatim>\<open>json5\<close>) are
  third-party code, so they are arguments, and so is \<^verbatim>\<open>serde_path_to_error::deserialize\<close>, which fails
  with a path and a message: what it accepts is in theory \<^verbatim>\<open>Manifest_Json\<close>.
\<close>

type_synonym json_reader = "string \<Rightarrow> json result"
type_synonym deserializer = "json \<Rightarrow> (string \<times> string) + manifest"

definition parse_value ::
    "(string list \<Rightarrow> string list) \<Rightarrow> deserializer \<Rightarrow> json \<Rightarrow> manifest result" where
  "parse_value key_order deserialize raw =
     (case deserialize raw of
        Inl (path, message) \<Rightarrow>
          Inl (if path = ''.'' then message else path @ '': '' @ message)
      | Inr m \<Rightarrow>
          let errors = validate key_order m in
          if errors \<noteq> [] then Inl (join [CHR 0x0A] (map show_verr errors)) else Inr m)"

definition parse ::
    "(string list \<Rightarrow> string list) \<Rightarrow> json_reader \<Rightarrow> deserializer \<Rightarrow> string \<Rightarrow> manifest result" where
  "parse key_order serde_json_from_str deserialize input =
     (case serde_json_from_str input of
        Inl err \<Rightarrow> Inl (''invalid JSON: '' @ err)
      | Inr raw \<Rightarrow> parse_value key_order deserialize raw)"

definition parse_relaxed ::
    "(string list \<Rightarrow> string list) \<Rightarrow> json_reader \<Rightarrow> deserializer \<Rightarrow> string \<Rightarrow> manifest result" where
  "parse_relaxed key_order json5_from_str deserialize input =
     (case json5_from_str input of
        Inl err \<Rightarrow> Inl (''invalid JSON: '' @ err)
      | Inr raw \<Rightarrow> parse_value key_order deserialize raw)"

definition link_project :: "string \<Rightarrow> string \<Rightarrow> manifest \<Rightarrow> manifest" where
  "link_project name ident m =
     (case mf_project m of
        Some p \<Rightarrow> m\<lparr>mf_project := Some (p\<lparr>prj_name := name, prj_id := Some ident\<rparr>)\<rparr>
      | None \<Rightarrow> m\<lparr>mf_project := Some \<lparr>prj_id = Some ident, prj_name = name\<rparr>\<rparr>)"

definition link_github :: "string \<Rightarrow> string option \<Rightarrow> manifest \<Rightarrow> manifest" where
  "link_github repo branch m = m\<lparr>mf_github := Some \<lparr>gl_repo = repo, gl_branch = branch\<rparr>\<rparr>"

section \<open>Parsing accepts exactly the valid manifests\<close>

lemma parse_value_Inr:
  assumes "\<And>ks. set (key_order ks) = set ks"
  shows "parse_value key_order deserialize raw = Inr m \<longleftrightarrow> deserialize raw = Inr m \<and> manifest_ok m"
  using validate_Nil [OF assms]
  by (auto simp: parse_value_def Let_def split: sum.splits if_splits)

lemma parse_Inr:
  assumes "\<And>ks. set (key_order ks) = set ks"
  shows "parse key_order reader deserialize input = Inr m \<longleftrightarrow>
    (\<exists>raw. reader input = Inr raw \<and> deserialize raw = Inr m \<and> manifest_ok m)"
  using parse_value_Inr [OF assms] by (auto simp: parse_def split: sum.splits)

section \<open>Linking\<close>

lemma env_rel_cong: "mf_services m' = mf_services m \<Longrightarrow> env_rel m' = env_rel m"
  by (simp add: env_rel_def)

lemma service_ok_cong: "mf_services m' = mf_services m \<Longrightarrow> service_ok m' n s = service_ok m n s"
  by (simp add: service_ok_def env_ok_def reference_ok_def)

lemma mf_services_link_project [simp]: "mf_services (link_project n i m) = mf_services m"
  by (auto simp: link_project_def split: option.splits)

lemma mf_github_link_project [simp]: "mf_github (link_project n i m) = mf_github m"
  by (auto simp: link_project_def split: option.splits)

lemma mf_project_link_project [simp]:
  "mf_project (link_project n i m) = Some \<lparr>prj_id = Some i, prj_name = n\<rparr>"
  by (auto simp: link_project_def split: option.splits)

lemma manifest_ok_cong:
  assumes "mf_services m' = mf_services m"
  shows "manifest_ok m' \<longleftrightarrow>
     (\<forall>p. mf_project m' = Some p \<longrightarrow> is_valid_name (prj_name p))
     \<and> (\<forall>g. mf_github m' = Some g \<longrightarrow> valid_repo (gl_repo g))
     \<and> (\<forall>(name, s) \<in> set (mf_services m). service_ok m name s) \<and> acyclic (env_rel m)"
  unfolding manifest_ok_def env_rel_cong [OF assms] service_ok_cong [OF assms] assms ..

lemma manifest_ok_link_project:
  "\<lbrakk>manifest_ok m; is_valid_name n\<rbrakk> \<Longrightarrow> manifest_ok (link_project n i m)"
  unfolding manifest_ok_cong [OF mf_services_link_project] by (simp add: manifest_ok_def)

lemma mf_services_link_github [simp]: "mf_services (link_github repo branch m) = mf_services m"
  by (simp add: link_github_def)

lemma manifest_ok_link_github:
  "\<lbrakk>manifest_ok m; valid_repo repo\<rbrakk> \<Longrightarrow> manifest_ok (link_github repo branch m)"
  unfolding manifest_ok_cong [OF mf_services_link_github]
  by (simp add: manifest_ok_def link_github_def)

end
