(* ===== verification/Manifest_Props.thy ===== *)
theory Manifest_Props
  imports Manifest
begin

text \<open>
  The properties of the manifest crate.  The iteration order of the hash map the cycle search
  starts from is a parameter \<open>key_order\<close>; the properties hold for every order that keeps all keys.
  Each property that has hypotheses is followed by an instance on a small manifest: a public web
  service that refers to a database with a volume.
\<close>

definition demo_db :: service where
  "demo_db = default_service\<lparr>svc_image := Some ''postgres:16'', svc_port := Some 5432,
     svc_volumes := [(''data'', ''/var/lib/postgresql'')],
     svc_scale := Some \<lparr>scl_replicas = Some 1, scl_autoscale = None\<rparr>,
     svc_strategy := Some Recreate\<rparr>"

definition demo_web :: service where
  "demo_web = default_service\<lparr>svc_path := Some ''apps/web'', svc_port := Some 3000,
     svc_env := [(''DB'', ''pg://${{ services.db.host }}:${{ services.db.port }}'')],
     svc_env_files := [''.env''], svc_depends_on := [''db'']\<rparr>"

definition demo :: manifest where
  "demo = default_manifest\<lparr>mf_project := Some \<lparr>prj_id = None, prj_name = ''shop''\<rparr>,
     mf_services := [(''web'', demo_web), (''db'', demo_db)]\<rparr>"

text \<open>Two services that take a variable from each other.\<close>

definition demo_loop :: manifest where
  "demo_loop = demo\<lparr>mf_services :=
     [(''a'', demo_web\<lparr>svc_env := [(''X'', ''${{ services.b.env.Y }}'')], svc_depends_on := []\<rparr>),
      (''b'', demo_web\<lparr>svc_env := [(''Y'', ''${{ services.a.env.X }}'')], svc_depends_on := []\<rparr>)]\<rparr>"

lemma demo_loop_cycle:
  "find_env_reference_cycle (\<lambda>ks. ks) demo_loop = Some [''a'', ''b'', ''a'']"
  by code_simp

lemma demo_valid: "validate (\<lambda>ks. ks) demo = []"
  by code_simp

section \<open>Validation\<close>

text \<open>
  C1: the validator accepts a manifest exactly when it is well-formed in the sense of \<open>manifest_ok\<close>,
  the specification of a manifest: names are DNS labels, every service has one source, confined
  paths, consistent ports, schedules, scale and strategy, every reference resolves, and the
  environment references between services are acyclic.
\<close>

theorem validate_accepts_exactly:
  assumes "\<forall>ks. set (key_order ks) = set ks"
  shows "validate key_order m = [] \<longleftrightarrow> manifest_ok m"
  using assms by (intro validate_Nil) simp

theorem validate_accepts_exactly_witness: "manifest_ok demo"
  using validate_accepts_exactly [of "\<lambda>ks. ks" demo] demo_valid by simp

text \<open>
  Whatever the JSON reader and the deserialiser return, \<open>parse\<close> yields a manifest only if it is
  what they read and it is well-formed.
\<close>

lemma parse_yields_valid:
  assumes "parse key_order reader deserialize input = Inr m" and "\<forall>ks. set (key_order ks) = set ks"
  shows "manifest_ok m \<and> (\<exists>raw. reader input = Inr raw \<and> deserialize raw = Inr m)"
  using assms parse_Inr [of key_order reader deserialize input m] by auto

lemma parse_yields_valid_demo:
  "manifest_ok demo \<and> (\<exists>raw. (\<lambda>_. Inr JNull) ''{}'' = (Inr raw :: json result) \<and>
     (\<lambda>_. Inr demo) raw = (Inr demo :: (string \<times> string) + manifest))"
  by (rule parse_yields_valid [of "\<lambda>ks. ks"])
    (simp_all add: parse_def parse_value_def demo_valid)

text \<open>
  C3: the search for a cycle of environment references is exact: it reports nothing if and only if
  the references between services are acyclic, and what it reports is a cycle of them.
\<close>

theorem env_cycle_search_exact:
  assumes "\<forall>ks. set (key_order ks) = set ks"
  shows "(find_env_reference_cycle key_order m = None \<longleftrightarrow> acyclic (env_rel m)) \<and>
    (\<forall>c. find_env_reference_cycle key_order m = Some c \<longrightarrow> is_cycle (env_rel m) c)"
proof -
  have finder: "cycle_finder (find_cycle key_order) edge_rel"
    using assms by (intro find_cycle_finder) simp
  show ?thesis
    unfolding find_env_reference_cycle_def
    using cycle_finder.finds_iff [OF finder] cycle_finder.sound [OF finder]
      edge_rel_env_edges
    by metis
qed

theorem env_cycle_search_exact_witness:
  "\<not> acyclic (env_rel demo_loop) \<and> is_cycle (env_rel demo_loop) [''a'', ''b'', ''a'']"
  using env_cycle_search_exact [of "\<lambda>ks. ks" demo_loop] demo_loop_cycle by simp

section \<open>What an accepted service is\<close>

text \<open>
  C4: a service without validation errors reads its source and its environment files inside the
  manifest's directory only: its \<^verbatim>\<open>path\<close>, each of its \<^verbatim>\<open>envFiles\<close> and its \<^verbatim>\<open>github.path\<close> is relative, and
  walking its components never leaves the directory.  (These three are the paths the validator checks;
  \<^verbatim>\<open>build.dockerfile\<close> is taken as it is.)
\<close>

theorem accepted_paths_confined:
  assumes "validate_service m name s = []"
  shows "(\<forall>p. svc_path s = Some p \<longrightarrow> confined p) \<and> (\<forall>p \<in> set (svc_env_files s). confined p) \<and>
    (\<forall>g p. svc_github s = Some g \<and> sg_path g = Some p \<longrightarrow> confined p)"
proof -
  have "service_paths_ok s" using assms by (simp add: validate_service_Nil service_ok_def)
  then show ?thesis by (auto simp: service_paths_ok_def relative_path_confined)
qed

theorem accepted_paths_confined_witness: "confined ''apps/web'' \<and> confined ''.env''"
proof -
  have "validate_service demo ''web'' demo_web = []" by code_simp
  from accepted_paths_confined [OF this] show ?thesis
    by (simp add: demo_web_def default_service_def)
qed

text \<open>
  Two containers never share a volume: an accepted service with a volume runs at most one
  replica, is deployed by recreation, and did not ask for a rolling deployment.
\<close>

lemma volumes_pin_one_replica:
  assumes "validate_service m name s = []" and "svc_volumes s \<noteq> []"
  shows "effective_strategy s = Recreate \<and> svc_strategy s \<noteq> Some Rolling \<and>
    (\<forall>sc. svc_scale s = Some sc \<longrightarrow> max_replicas sc = 1)"
proof -
  have "service_ok m name s" using assms(1) by (simp add: validate_service_Nil)
  then show ?thesis
    using assms(2) by (auto simp: service_ok_def effective_strategy_def scale_ok_def)
qed

lemma volumes_pin_one_replica_demo:
  "effective_strategy demo_db = Recreate \<and> max_replicas \<lparr>scl_replicas = Some 1, scl_autoscale = None\<rparr> = 1"
proof -
  have "validate_service demo ''db'' demo_db = []" by code_simp
  moreover have "svc_volumes demo_db \<noteq> []" by code_simp
  ultimately show ?thesis
    using volumes_pin_one_replica [of demo "''db''" demo_db] by (simp add: demo_db_def)
qed

text \<open>
  Every reference in an accepted environment value is resolvable: it names a service of the
  manifest, and one that declares a port when the reference needs it.
\<close>

lemma accepted_references_resolve:
  assumes "validate_service m name s = []" and "(k, v) \<in> set (svc_env s)"
    and "parse_references v = Inr refs" and "r \<in> set refs" and "service_of r = Some target"
  shows "\<exists>t. map_of (mf_services m) target = Some t \<and> (needs_port r \<longrightarrow> svc_port t \<noteq> None)"
proof -
  have "env_ok m v" using assms(1,2) by (auto simp: validate_service_Nil service_ok_def)
  with assms(3-5) show ?thesis by (auto simp: env_ok_def reference_ok_def)
qed

lemma accepted_references_resolve_demo:
  "\<exists>t. map_of (mf_services demo) ''db'' = Some t \<and> svc_port t \<noteq> None"
proof -
  have "validate_service demo ''web'' demo_web = []" by code_simp
  moreover have "(''DB'', ''pg://${{ services.db.host }}:${{ services.db.port }}'') \<in> set (svc_env demo_web)"
    by (simp add: demo_web_def)
  moreover have "parse_references ''pg://${{ services.db.host }}:${{ services.db.port }}''
      = Inr [ServiceHost ''db'', ServicePort ''db'']" by code_simp
  ultimately show ?thesis
    using accepted_references_resolve [of demo "''web''" demo_web "''DB''" _
        "[ServiceHost ''db'', ServicePort ''db'']" "ServicePort ''db''" "''db''"]
    by (simp add: needs_port_def)
qed

section \<open>References\<close>

text \<open>
  C7: a token is accepted exactly when it is the text of a well-formed reference, and then it is
  read as that reference.
\<close>

theorem parse_token_exact: "parse_token t = Inr r \<longleftrightarrow> wf_reference r \<and> t = token_of r"
  using parse_token_sound parse_token_token_of by blast

text \<open>
  C8: a value with any number of references between pieces of plain text is parsed back to exactly
  these references in their order.
\<close>

theorem parse_references_roundtrip:
  assumes "list_all (\<lambda>(t0, r). find_str ''${{'' t0 = None \<and> wf_reference r \<and> plain_reference r) parts"
    and "find_str ''${{'' rest = None"
  shows "parse_references (render parts rest) = Inr (map snd parts)"
  unfolding parse_references_def using parse_references_from_render [OF assms] by simp

theorem parse_references_roundtrip_witness:
  "parse_references (render [(''pg://'', ServiceHost ''db''), ('':'', ServiceEnv ''db'' ''PORT'')] ''/x'')
     = Inr [ServiceHost ''db'', ServiceEnv ''db'' ''PORT'']"
  using parse_references_roundtrip
    [of "[(''pg://'', ServiceHost ''db''), ('':'', ServiceEnv ''db'' ''PORT'')]" "''/x''"]
  by (simp add: wf_service_name_def plain_name_def ascii_defs starts_with_def)

section \<open>Linking\<close>

text \<open>
  Recording a project in a valid manifest keeps it valid, replaces exactly its project, and a
  second link replaces the first.
\<close>

lemma link_project_keeps_valid:
  assumes "\<forall>ks. set (key_order ks) = set ks" and "validate key_order m = []" and "is_valid_name n"
  shows "validate key_order (link_project n i m) = [] \<and>
    mf_project (link_project n i m) = Some \<lparr>prj_id = Some i, prj_name = n\<rparr> \<and>
    mf_services (link_project n i m) = mf_services m \<and>
    link_project n i (link_project n' i' m) = link_project n i m"
proof -
  have key: "\<And>ks. set (key_order ks) = set ks" using assms(1) by simp
  have "manifest_ok (link_project n i m)"
    using assms(2,3) by (simp add: validate_Nil [OF key] manifest_ok_link_project)
  then show ?thesis by (auto simp: validate_Nil [OF key] link_project_def split: option.splits)
qed

lemma link_project_keeps_valid_demo:
  "validate (\<lambda>ks. ks) (link_project ''store'' ''prj_0123456789abcdef'' demo) = []"
  using link_project_keeps_valid [of "\<lambda>ks. ks" demo "''store''"] demo_valid
  by (simp add: is_valid_name_def starts_with_def ends_with_def ascii_defs)

end
