(* ===== verification/Server_Config.thy ===== *)
theory Server_Config
  imports Rust_Str
begin

text \<open>
  The server's configuration (\<^verbatim>\<open>apps/server/src/config.rs\<close>) and its paths
  (\<^verbatim>\<open>apps/server/src/paths.rs\<close>).  The environment is an association list, read with \<open>map_of\<close>;
  the address asked of the kernel, the reply of the lookup service and the text form of socket
  addresses are arguments.
\<close>

type_synonym environ = "(string \<times> string) list"

definition env_var :: "environ \<Rightarrow> string \<Rightarrow> string option" where
  "env_var e name = map_of e name"

section \<open>IPv4 addresses\<close>

datatype ipv4 = Ipv4 (oct_a: "8 word") (oct_b: "8 word") (oct_c: "8 word") (oct_d: "8 word")

definition show_octet :: "8 word \<Rightarrow> string" where
  "show_octet w = show_nat (unat w)"

definition show_ipv4 :: "ipv4 \<Rightarrow> string" where
  "show_ipv4 ip = join ''.'' [show_octet (oct_a ip), show_octet (oct_b ip), show_octet (oct_c ip),
     show_octet (oct_d ip)]"

text \<open>An octet is one to three digits, without a leading zero, at most 255.\<close>

definition parse_octet :: "string \<Rightarrow> 8 word option" where
  "parse_octet s =
     (if s \<noteq> [] \<and> length s \<le> 3 \<and> list_all is_ascii_digit s \<and> (hd s = CHR ''0'' \<longrightarrow> length s = 1)
         \<and> digits_value s \<le> 255
      then Some (of_nat (digits_value s)) else None)"

definition parse_ipv4 :: "string \<Rightarrow> ipv4 option" where
  "parse_ipv4 s =
     (case map parse_octet (split_on (CHR ''.'') s) of
        [Some a, Some b, Some c, Some d] \<Rightarrow> Some (Ipv4 a b c d)
      | _ \<Rightarrow> None)"

text \<open>The addresses that are not public, by their blocks.\<close>

definition is_public :: "ipv4 \<Rightarrow> bool" where
  "is_public ip =
     (let a = oct_a ip; b = oct_b ip; c = oct_c ip; d = oct_d ip in
      \<not> (a = 0
         \<or> a = 10
         \<or> (a = 100 \<and> 64 \<le> b \<and> b \<le> 127)
         \<or> a = 127
         \<or> (a = 169 \<and> b = 254)
         \<or> (a = 172 \<and> 16 \<le> b \<and> b \<le> 31)
         \<or> (a = 192 \<and> b = 0 \<and> c = 0 \<and> d \<noteq> 9 \<and> d \<noteq> 10)
         \<or> (a = 192 \<and> b = 0 \<and> c = 2)
         \<or> (a = 192 \<and> b = 168)
         \<or> (a = 198 \<and> (b = 18 \<or> b = 19))
         \<or> (a = 198 \<and> b = 51 \<and> c = 100)
         \<or> (a = 203 \<and> b = 0 \<and> c = 113)
         \<or> a \<ge> 224))"

section \<open>Reading the environment\<close>

definition invalid_env :: "string \<Rightarrow> string \<Rightarrow> string \<Rightarrow> string" where
  "invalid_env name v expected = name @ '' must be '' @ expected @ '', got '' @ debug_str v"

definition parsed_env ::
    "environ \<Rightarrow> (string \<Rightarrow> 'a option) \<Rightarrow> string \<Rightarrow> 'a \<Rightarrow> string \<Rightarrow> 'a result" where
  "parsed_env e parse name dflt expected =
     (case env_var e name of
        None \<Rightarrow> Inr dflt
      | Some v \<Rightarrow>
          (case parse v of None \<Rightarrow> Inl (invalid_env name v expected) | Some x \<Rightarrow> Inr x))"

definition parse_u16 :: "string \<Rightarrow> u16 option" where
  "parse_u16 s = map_option of_nat (parse_uint (2 ^ 16) s)"

text \<open>The reply of the lookup service, once it arrived.\<close>

definition discover_public_ip :: "string result \<Rightarrow> ipv4 result" where
  "discover_public_ip reply =
     rbind reply (\<lambda>v.
       case parse_ipv4 (trim v) of
         None \<Rightarrow> Inl (''public IP lookup returned '' @ debug_str v @
                     ''; set RAILYARD_PUBLIC_IP explicitly'')
       | Some ip \<Rightarrow>
           if \<not> is_public ip
           then Inl (''public IP lookup returned non-public address '' @ show_ipv4 ip @
                     ''; set RAILYARD_PUBLIC_IP explicitly'')
           else Inr ip)"

text \<open>What the operating system answers about a UDP socket: its local address has one of two families.\<close>

datatype 'v6 ip_addr = IpV4 ipv4 | IpV6 'v6

definition outbound_ip :: "unit result \<Rightarrow> unit result \<Rightarrow> 'v6 ip_addr result \<Rightarrow> ipv4 result" where
  "outbound_ip bind_socket connect local_addr =
     rbind bind_socket (\<lambda>_.
     rbind connect (\<lambda>_.
     rbind local_addr (\<lambda>addr.
     (case addr of IpV4 ip \<Rightarrow> Inr ip
      | IpV6 _ \<Rightarrow> Inl ''default IPv4 route returned an IPv6 address''))))"

definition public_ip :: "environ \<Rightarrow> ipv4 result \<Rightarrow> string result \<Rightarrow> ipv4 result" where
  "public_ip e outbound reply =
     (case env_var e ''RAILYARD_PUBLIC_IP'' of
        Some v \<Rightarrow>
          (case parse_ipv4 v of
             None \<Rightarrow> Inl (invalid_env ''RAILYARD_PUBLIC_IP'' v ''an IPv4 address'')
           | Some ip \<Rightarrow> Inr ip)
      | None \<Rightarrow>
          (case outbound of
             Inr ip \<Rightarrow> if is_public ip then Inr ip else discover_public_ip reply
           | Inl _ \<Rightarrow> discover_public_ip reply))"

section \<open>Service upstreams\<close>

definition UPSTREAM_ENV_PREFIX :: string where
  "UPSTREAM_ENV_PREFIX = ''RAILYARD_CONTAINER_UPSTREAM_''"

definition env_key_to_service_name :: "string \<Rightarrow> string" where
  "env_key_to_service_name key = replace_char (CHR ''_'') ''-'' (to_ascii_lowercase key)"

text \<open>
  The \<^verbatim>\<open>BTreeMap\<close> is collected from the pairs in order: the first value that is no address stops
  the collection, and a later variable for the same service overwrites an earlier one.
\<close>

fun upstreams_from ::
    "(string \<Rightarrow> 'addr option) \<Rightarrow> environ \<Rightarrow> (string \<Rightarrow> 'addr option) \<Rightarrow> (string \<Rightarrow> 'addr option) result"
where
  "upstreams_from parse_addr [] m = Inr m"
| "upstreams_from parse_addr ((key, v) # e) m =
     (case strip_prefix key UPSTREAM_ENV_PREFIX of
        None \<Rightarrow> upstreams_from parse_addr e m
      | Some rest \<Rightarrow>
          (case parse_addr v of
             None \<Rightarrow> Inl (invalid_env key v ''a socket address'')
           | Some addr \<Rightarrow> upstreams_from parse_addr e (m(env_key_to_service_name rest \<mapsto> addr))))"

definition configured_service_upstreams ::
    "(string \<Rightarrow> 'addr option) \<Rightarrow> environ \<Rightarrow> (string \<Rightarrow> 'addr option) result" where
  "configured_service_upstreams parse_addr e = upstreams_from parse_addr e Map.empty"

section \<open>The configuration\<close>

record 'addr config =
  proxy_addr :: 'addr
  api_addr :: 'addr
  server_url :: string
  api_hostname :: string
  service_upstreams :: "string \<Rightarrow> 'addr option"

definition base_hostname :: "ipv4 \<Rightarrow> string" where
  "base_hostname ip = replace_char (CHR ''.'') ''-'' (show_ipv4 ip) @ ''.nip.io''"

definition url_of :: "string \<Rightarrow> u16 \<Rightarrow> string" where
  "url_of hostname port =
     (if port = 80 then ''http://'' @ hostname
      else ''http://'' @ hostname @ '':'' @ show_nat (unat port))"

text \<open>\<open>ip\<close> parses an address, IPv4 or IPv6; \<open>sock\<close> forms a socket address from host and port.\<close>

definition load_config ::
    "(string \<Rightarrow> 'ip option) \<Rightarrow> 'ip \<Rightarrow> 'ip \<Rightarrow> ('ip \<Rightarrow> u16 \<Rightarrow> 'addr) \<Rightarrow> (string \<Rightarrow> 'addr option)
      \<Rightarrow> environ \<Rightarrow> ipv4 result \<Rightarrow> string result \<Rightarrow> 'addr config result" where
  "load_config parse_ip unspecified localhost sock parse_addr e outbound reply =
     rbind (parsed_env e parse_ip ''RAILYARD_PROXY_HOST'' unspecified ''an IP address'') (\<lambda>proxy_host.
     rbind (parsed_env e parse_u16 ''RAILYARD_PROXY_PORT'' 3000 ''a port number'') (\<lambda>proxy_port.
     rbind (parsed_env e parse_ip ''RAILYARD_API_HOST'' localhost ''an IP address'') (\<lambda>api_host.
     rbind (parsed_env e parse_u16 ''RAILYARD_API_PORT'' 3001 ''a port number'') (\<lambda>api_port.
     rbind (public_ip e outbound reply) (\<lambda>ip.
     let hostname = ''railyard.'' @ base_hostname ip in
     rbind (configured_service_upstreams parse_addr e) (\<lambda>upstreams.
     Inr \<lparr>proxy_addr = sock proxy_host proxy_port, api_addr = sock api_host api_port,
          server_url = url_of hostname proxy_port, api_hostname = hostname,
          service_upstreams = upstreams\<rparr>))))))"

section \<open>Paths\<close>

text \<open>\<^verbatim>\<open>PathBuf::join\<close> with a relative second part; an absolute one replaces the first.\<close>

definition path_join :: "string \<Rightarrow> string \<Rightarrow> string" where
  "path_join a b =
     (if starts_with b ''/'' then b
      else if a = [] \<or> last a = CHR ''/'' then a @ b
      else a @ ''/'' @ b)"

text \<open>Neither variable set is a panic (\<^verbatim>\<open>expect\<close>): \<open>None\<close>.\<close>

definition state_root :: "environ \<Rightarrow> string option" where
  "state_root e =
     (case env_var e ''XDG_STATE_HOME'' of
        Some p \<Rightarrow> Some (path_join p ''railyard'')
      | None \<Rightarrow> map_option
          (\<lambda>home. path_join (path_join (path_join home ''.local'') ''state'') ''railyard'')
          (env_var e ''HOME''))"

definition default_server_dir :: "environ \<Rightarrow> string option" where
  "default_server_dir e = map_option (\<lambda>r. path_join r ''server'') (state_root e)"

definition runtime_dir :: "environ \<Rightarrow> string option" where
  "runtime_dir e = (case env_var e ''RAILYARD_RUNTIME_DIR'' of
     Some p \<Rightarrow> Some p | None \<Rightarrow> default_server_dir e)"

definition data_dir :: "environ \<Rightarrow> string option" where
  "data_dir e = (case env_var e ''RAILYARD_DATA_DIR'' of
     Some p \<Rightarrow> Some p | None \<Rightarrow> default_server_dir e)"

definition database_path :: "environ \<Rightarrow> string option" where
  "database_path e = map_option (\<lambda>d. path_join d ''railyard.db'') (data_dir e)"

definition release_dir :: "string \<Rightarrow> string \<Rightarrow> string \<Rightarrow> string" where
  "release_dir data project_id release_id =
     path_join (path_join (path_join data ''releases'') project_id) release_id"

definition admin_sock_path :: "environ \<Rightarrow> string option" where
  "admin_sock_path e = map_option (\<lambda>d. path_join d ''admin.sock'') (runtime_dir e)"

end
