(* ===== verification/Proxy.thy ===== *)
theory Proxy
  imports Server_Config
begin

text \<open>
  The ingress proxy (\<^verbatim>\<open>apps/server/src/proxy/mod.rs\<close>, \<^verbatim>\<open>routing.rs\<close>): which upstream a request goes
  to, by its host.  A request answers what pingora reads: the host of its URI, when it has one, and
  the \<^verbatim>\<open>host\<close> header as text.
\<close>

definition API_UPSTREAM_NAME :: string where "API_UPSTREAM_NAME = ''railyard''"

record 'addr routing_table =
  rt_api_addr :: 'addr
  rt_api_hostname :: string
  rt_service_upstreams :: "string \<Rightarrow> 'addr option"

record 'addr route_target =
  upstream_addr :: 'addr
  upstream_name :: string

definition from_config :: "'addr config \<Rightarrow> 'addr routing_table" where
  "from_config cfg = \<lparr>rt_api_addr = api_addr cfg, rt_api_hostname = api_hostname cfg,
     rt_service_upstreams = service_upstreams cfg\<rparr>"

record proxy_request =
  px_uri_host :: "string option"
  px_host_header :: "string option"

definition route_for :: "'addr routing_table \<Rightarrow> string option \<Rightarrow> 'addr route_target option" where
  "route_for table host =
     (if host = Some (rt_api_hostname table)
      then Some \<lparr>upstream_addr = rt_api_addr table, upstream_name = API_UPSTREAM_NAME\<rparr>
      else (case host of
        None \<Rightarrow> None
      | Some h \<Rightarrow>
          let service = hd (split_on (CHR ''.'') h) in
          (case rt_service_upstreams table service of
             None \<Rightarrow> None
           | Some addr \<Rightarrow> Some \<lparr>upstream_addr = addr, upstream_name = service\<rparr>)))"

definition request_host :: "proxy_request \<Rightarrow> string option" where
  "request_host rq =
     map_option (\<lambda>host. to_ascii_lowercase (hd (split_on (CHR '':'') host)))
       (case px_uri_host rq of Some host \<Rightarrow> Some host | None \<Rightarrow> px_host_header rq)"

definition route_for_request :: "'addr routing_table \<Rightarrow> proxy_request \<Rightarrow> 'addr route_target option"
where
  "route_for_request table rq = route_for table (request_host rq)"

text \<open>
  The phases of a request: the filter decides the route or answers 404 and ends the request; the
  peer is the address decided then (an \<^verbatim>\<open>expect\<close> when there is none: \<open>None\<close>); the upstream request
  carries the upstream's name in a header, and fails when pingora (\<open>insert_header\<close>) refuses the name as a
  header value.
\<close>

datatype proxy_outcome = Responded nat | Forwarded

definition request_filter ::
    "'addr routing_table \<Rightarrow> proxy_request \<Rightarrow> proxy_outcome \<times> 'addr route_target option" where
  "request_filter table rq =
     (let ctx = route_for_request table rq in
      (if ctx = None then Responded 404 else Forwarded, ctx))"

definition upstream_peer :: "'addr route_target option \<Rightarrow> 'addr option" where
  "upstream_peer ctx = map_option upstream_addr ctx"

definition upstream_request_filter ::
    "(string \<Rightarrow> string \<Rightarrow> 'hs \<Rightarrow> 'hs option) \<Rightarrow> 'addr route_target option \<Rightarrow> 'hs \<Rightarrow> 'hs option"
where
  "upstream_request_filter insert_header ctx headers =
     (case ctx of
        None \<Rightarrow> Some headers
      | Some target \<Rightarrow> insert_header ''x-railyard-upstream'' (upstream_name target) headers)"

section \<open>Addresses\<close>

text \<open>The text of an address is parsed back to it.\<close>

lemma octet_bound: "unat (w :: 8 word) < 256"
  using unsigned_less [of w] by simp

lemma digit_char_zero: "n < 10 \<Longrightarrow> digit_char n = CHR ''0'' \<longleftrightarrow> n = 0"
proof -
  assume n: "n < 10"
  have zero: "digit_char 0 = CHR ''0''" by code_simp
  show ?thesis
    unfolding zero [symmetric]
    using digit_value_digit_char [OF n] digit_value_digit_char [of 0] by force
qed

lemma show_one: "n < 10 \<Longrightarrow> show_nat n = [digit_char n]"
  by (simp add: show_nat.simps [of n])

lemma show_two:
  "10 \<le> n \<Longrightarrow> n < 100 \<Longrightarrow> show_nat n = [digit_char (n div 10), digit_char (n mod 10)]"
  using show_one [of "n div 10"] by (simp add: show_nat.simps [of n])

lemma show_three:
  assumes "100 \<le> n" and "n < 1000"
  shows "show_nat n = [digit_char (n div 100), digit_char (n div 10 mod 10), digit_char (n mod 10)]"
proof -
  have "10 \<le> n div 10" "n div 10 < 100" "n div 10 div 10 = n div 100" using assms by auto
  with show_two [of "n div 10"] assms show ?thesis by (simp add: show_nat.simps [of n])
qed

lemmas show_small = show_one show_two show_three

lemma show_octet_shape:
  assumes "n < 256"
  shows "length (show_nat n) \<le> 3 \<and> (hd (show_nat n) = CHR ''0'' \<longrightarrow> length (show_nat n) = 1)"
proof -
  consider "n < 10" | "10 \<le> n" "n < 100" | "100 \<le> n" "n < 1000" using assms by linarith
  then show ?thesis by cases (use digit_char_zero in \<open>auto simp: show_small\<close>)
qed

lemma parse_show_octet [simp]: "parse_octet (show_octet w) = Some w"
  using show_octet_shape [OF octet_bound [of w]] octet_bound [of w] show_nat_digits [of "unat w"]
  by (simp add: parse_octet_def show_octet_def less_Suc_eq_le [symmetric])

lemma show_octet_no_sep: "c \<in> {CHR ''.'', CHR ''-'', CHR '':''} \<Longrightarrow> c \<notin> set (show_octet w)"
  using show_nat_chars [of c "unat w"] by (auto simp: show_octet_def ascii_defs)

lemma split_show_ipv4:
  "split_on (CHR ''.'') (show_ipv4 ip) =
     [show_octet (oct_a ip), show_octet (oct_b ip), show_octet (oct_c ip), show_octet (oct_d ip)]"
  using show_octet_no_sep by (simp add: show_ipv4_def split_on_append split_on_no_sep)

lemma parse_show_ipv4 [simp]: "parse_ipv4 (show_ipv4 ip) = Some ip"
  by (simp add: parse_ipv4_def split_show_ipv4)

text \<open>The addresses as numbers and their blocks: the first \<open>n\<close> bits decide.\<close>

definition addr_num :: "ipv4 \<Rightarrow> nat" where
  "addr_num ip = ((unat (oct_a ip) * 256 + unat (oct_b ip)) * 256 + unat (oct_c ip)) * 256
     + unat (oct_d ip)"

definition in_block :: "ipv4 \<Rightarrow> nat \<Rightarrow> ipv4 \<Rightarrow> bool" where
  "in_block base n ip \<longleftrightarrow> addr_num ip div 2 ^ (32 - n) = addr_num base div 2 ^ (32 - n)"

text \<open>The special-purpose blocks, and the two addresses in them that are global.\<close>

definition special_blocks :: "(ipv4 \<times> nat) list" where
  "special_blocks =
     [(Ipv4 0 0 0 0, 8), (Ipv4 10 0 0 0, 8), (Ipv4 100 64 0 0, 10), (Ipv4 127 0 0 0, 8),
      (Ipv4 169 254 0 0, 16), (Ipv4 172 16 0 0, 12), (Ipv4 192 0 0 0, 24), (Ipv4 192 0 2 0, 24),
      (Ipv4 192 168 0 0, 16), (Ipv4 198 18 0 0, 15), (Ipv4 198 51 100 0, 24),
      (Ipv4 203 0 113 0, 24), (Ipv4 224 0 0 0, 3)]"

definition global_exceptions :: "ipv4 list" where
  "global_exceptions = [Ipv4 192 0 0 9, Ipv4 192 0 0 10]"

lemma addr_num_div:
  "addr_num ip div 256 = (unat (oct_a ip) * 256 + unat (oct_b ip)) * 256 + unat (oct_c ip)"
  "addr_num ip div 65536 = unat (oct_a ip) * 256 + unat (oct_b ip)"
  "addr_num ip div 16777216 = unat (oct_a ip)"
proof -
  have step: "(n * 256 + unat w) div 256 = n" for n and w :: "8 word"
    using octet_bound [of w] by simp
  show one: "addr_num ip div 256 = (unat (oct_a ip) * 256 + unat (oct_b ip)) * 256 + unat (oct_c ip)"
    unfolding addr_num_def by (rule step)
  have "addr_num ip div 65536 = addr_num ip div 256 div 256" by (simp add: div_mult2_eq [symmetric])
  then show two: "addr_num ip div 65536 = unat (oct_a ip) * 256 + unat (oct_b ip)"
    unfolding one step .
  have "addr_num ip div 16777216 = addr_num ip div 65536 div 256" by (simp add: div_mult2_eq [symmetric])
  then show "addr_num ip div 16777216 = unat (oct_a ip)" unfolding two step .
qed

lemma base256:
  fixes a b x y :: nat
  assumes "b < 256" and "y < 256"
  shows "a * 256 + b = x * 256 + y \<longleftrightarrow> a = x \<and> b = y"
proof
  assume eq: "a * 256 + b = x * 256 + y"
  have "(a * 256 + b) div 256 = a" "(x * 256 + y) div 256 = x" using assms by simp_all
  with eq show "a = x \<and> b = y" by simp
qed simp

lemma div_block: "0 < k \<Longrightarrow> (c * k + b) div k = c + b div (k :: nat)"
  by simp

lemma div_iff:
  fixes k :: nat
  assumes "0 < k"
  shows "b div k = q \<longleftrightarrow> q * k \<le> b \<and> b < Suc q * k"
proof -
  have "b div k = q \<longleftrightarrow> q \<le> b div k \<and> b div k < Suc q" by linarith
  then show ?thesis
    using less_eq_div_iff_mult_less_eq [OF assms, of q b] div_less_iff_less_mult [OF assms, of b "Suc q"]
    by simp
qed

lemma octets_div:
  fixes a b :: nat
  shows "(a * 256 + b) div 64 = a * 4 + b div 64" "(a * 256 + b) div 16 = a * 16 + b div 16"
    "(a * 256 + b) div 2 = a * 128 + b div 2"
  using div_block [of 64 "a * 4" b] div_block [of 16 "a * 16" b] div_block [of 2 "a * 128" b]
  by simp_all

lemma addr_num_finer:
  "addr_num ip div 4194304 = unat (oct_a ip) * 4 + unat (oct_b ip) div 64"
  "addr_num ip div 1048576 = unat (oct_a ip) * 16 + unat (oct_b ip) div 16"
  "addr_num ip div 131072 = unat (oct_a ip) * 128 + unat (oct_b ip) div 2"
  "addr_num ip div 536870912 = unat (oct_a ip) div 32"
proof -
  have "addr_num ip div 4194304 = addr_num ip div 65536 div 64"
    using div_mult2_eq [of "addr_num ip" 65536 64] by simp
  then show "addr_num ip div 4194304 = unat (oct_a ip) * 4 + unat (oct_b ip) div 64"
    unfolding addr_num_div octets_div .
  have "addr_num ip div 1048576 = addr_num ip div 65536 div 16"
    using div_mult2_eq [of "addr_num ip" 65536 16] by simp
  then show "addr_num ip div 1048576 = unat (oct_a ip) * 16 + unat (oct_b ip) div 16"
    unfolding addr_num_div octets_div .
  have "addr_num ip div 131072 = addr_num ip div 65536 div 2"
    using div_mult2_eq [of "addr_num ip" 65536 2] by simp
  then show "addr_num ip div 131072 = unat (oct_a ip) * 128 + unat (oct_b ip) div 2"
    unfolding addr_num_div octets_div .
  have "addr_num ip div 536870912 = addr_num ip div 16777216 div 32"
    using div_mult2_eq [of "addr_num ip" 16777216 32] by simp
  then show "addr_num ip div 536870912 = unat (oct_a ip) div 32"
    unfolding addr_num_div .
qed

lemma block_iff:
  "in_block (Ipv4 x 0 0 0) 8 ip \<longleftrightarrow> oct_a ip = x"
  "in_block (Ipv4 x y 0 0) 16 ip \<longleftrightarrow> oct_a ip = x \<and> oct_b ip = y"
  "in_block (Ipv4 x y z 0) 24 ip \<longleftrightarrow> oct_a ip = x \<and> oct_b ip = y \<and> oct_c ip = z"
proof -
  have n24: "in_block base 24 ip \<longleftrightarrow> addr_num ip div 256 = addr_num base div 256" for base
    by (simp add: in_block_def)
  show "in_block (Ipv4 x y z 0) 24 ip \<longleftrightarrow> oct_a ip = x \<and> oct_b ip = y \<and> oct_c ip = z"
    unfolding n24 addr_num_div base256 [OF octet_bound octet_bound] ipv4.sel word_unat_eq_iff
    by simp
qed (simp_all add: in_block_def addr_num_div word_unat_eq_iff base256 octet_bound)

lemma finer_block_iff:
  "in_block (Ipv4 100 64 0 0) 10 ip \<longleftrightarrow> oct_a ip = 100 \<and> 64 \<le> oct_b ip \<and> oct_b ip \<le> 127"
  "in_block (Ipv4 172 16 0 0) 12 ip \<longleftrightarrow> oct_a ip = 172 \<and> 16 \<le> oct_b ip \<and> oct_b ip \<le> 31"
  "in_block (Ipv4 198 18 0 0) 15 ip \<longleftrightarrow> oct_a ip = 198 \<and> (oct_b ip = 18 \<or> oct_b ip = 19)"
  "in_block (Ipv4 224 0 0 0) 3 ip \<longleftrightarrow> 224 \<le> oct_a ip"
proof -
  have four: "a * 4 + b div 64 = 401 \<longleftrightarrow> a = 100 \<and> 64 \<le> b \<and> b \<le> 127"
    if "b < 256" for a b :: nat
  proof -
    have small: "b div 64 < 4" using that by (simp add: less_mult_imp_div_less)
    have "a * 4 + b div 64 = 401 \<longleftrightarrow> a = 100 \<and> b div 64 = 1"
    proof
      assume eq: "a * 4 + b div 64 = 401"
      have "a = 100" using eq small by linarith
      with eq show "a = 100 \<and> b div 64 = 1" by simp
    qed simp
    also have "b div 64 = 1 \<longleftrightarrow> 64 \<le> b \<and> b \<le> 127" using div_iff [of 64 b 1] by auto
    finally show ?thesis .
  qed
  have twelve: "a * 16 + b div 16 = 2753 \<longleftrightarrow> a = 172 \<and> 16 \<le> b \<and> b \<le> 31"
    if "b < 256" for a b :: nat
  proof -
    have small: "b div 16 < 16" using that by (simp add: less_mult_imp_div_less)
    have "a * 16 + b div 16 = 2753 \<longleftrightarrow> a = 172 \<and> b div 16 = 1"
    proof
      assume eq: "a * 16 + b div 16 = 2753"
      have "a = 172" using eq small by linarith
      with eq show "a = 172 \<and> b div 16 = 1" by simp
    qed simp
    also have "b div 16 = 1 \<longleftrightarrow> 16 \<le> b \<and> b \<le> 31" using div_iff [of 16 b 1] by auto
    finally show ?thesis .
  qed
  have fifteen: "a * 128 + b div 2 = 25353 \<longleftrightarrow> a = 198 \<and> (b = 18 \<or> b = 19)"
    if "b < 256" for a b :: nat
  proof -
    have small: "b div 2 < 128" using that by (simp add: less_mult_imp_div_less)
    have "a * 128 + b div 2 = 25353 \<longleftrightarrow> a = 198 \<and> b div 2 = 9"
    proof
      assume eq: "a * 128 + b div 2 = 25353"
      have "a = 198" using eq small by linarith
      with eq show "a = 198 \<and> b div 2 = 9" by simp
    qed simp
    also have "b div 2 = 9 \<longleftrightarrow> (b = 18 \<or> b = 19)" using div_iff [of 2 b 9] by auto
    finally show ?thesis .
  qed
  have three: "a div 32 = 7 \<longleftrightarrow> 224 \<le> a" if "a < 256" for a :: nat
    using that div_iff [of 32 a 7] by auto
  note bounds = octet_bound [of "oct_a ip"] octet_bound [of "oct_b ip"]
  note defs = in_block_def addr_num_finer word_unat_eq_iff word_le_nat_alt
  show "in_block (Ipv4 100 64 0 0) 10 ip \<longleftrightarrow> oct_a ip = 100 \<and> 64 \<le> oct_b ip \<and> oct_b ip \<le> 127"
    by (simp add: defs four [OF bounds(2)])
  show "in_block (Ipv4 172 16 0 0) 12 ip \<longleftrightarrow> oct_a ip = 172 \<and> 16 \<le> oct_b ip \<and> oct_b ip \<le> 31"
    by (simp add: defs twelve [OF bounds(2)])
  show "in_block (Ipv4 198 18 0 0) 15 ip \<longleftrightarrow> oct_a ip = 198 \<and> (oct_b ip = 18 \<or> oct_b ip = 19)"
    by (simp add: defs fifteen [OF bounds(2)])
  show "in_block (Ipv4 224 0 0 0) 3 ip \<longleftrightarrow> 224 \<le> oct_a ip"
    by (simp add: defs three [OF bounds(1)])
qed

lemma is_public_blocks:
  "is_public ip \<longleftrightarrow>
     \<not> list_ex (\<lambda>(base, n). in_block base n ip) special_blocks \<or> ip \<in> set global_exceptions"
proof (cases "ip \<in> set global_exceptions")
  case True
  then have "ip = Ipv4 192 0 0 9 \<or> ip = Ipv4 192 0 0 10" by (simp add: global_exceptions_def)
  then have "is_public ip" by (elim disjE) (simp_all add: is_public_def Let_def)
  with True show ?thesis by simp
next
  case False
  then have "\<not> (oct_a ip = 192 \<and> oct_b ip = 0 \<and> oct_c ip = 0 \<and> (oct_d ip = 9 \<or> oct_d ip = 10))"
    by (cases ip) (auto simp: global_exceptions_def)
  then have e: "(oct_a ip = 192 \<and> oct_b ip = 0 \<and> oct_c ip = 0 \<and> oct_d ip \<noteq> 9 \<and> oct_d ip \<noteq> 10)
      = (oct_a ip = 192 \<and> oct_b ip = 0 \<and> oct_c ip = 0)"
    by blast
  show ?thesis
    unfolding is_public_def Let_def e special_blocks_def
    using False by (simp add: block_iff finer_block_iff)
qed

section \<open>Routing\<close>

lemma hd_split_colon: "CHR '':'' \<notin> set x \<Longrightarrow> hd (split_on (CHR '':'') (x @ CHR '':'' # rest)) = x"
  by (simp add: split_on_append)

text \<open>The port a client puts after the host, if any.\<close>

definition with_port :: "string \<Rightarrow> string \<Rightarrow> bool" where
  "with_port host h \<longleftrightarrow> h = host \<or> (\<exists>port. h = host @ CHR '':'' # port)"

lemma request_host_port:
  assumes "with_port x h" and "CHR '':'' \<notin> set x"
  shows "request_host \<lparr>px_uri_host = None, px_host_header = Some h\<rparr> = Some (to_ascii_lowercase x)"
  using assms by (auto simp: request_host_def with_port_def hd_split_colon split_on_no_sep)

lemma colon_lower: "CHR '':'' \<in> set x \<Longrightarrow> CHR '':'' \<in> set (to_ascii_lowercase x)"
  by (force simp: to_ascii_lowercase_def ascii_defs)

lemma base_hostname_no_colon: "CHR '':'' \<notin> set (base_hostname ip)"
proof -
  have "set (show_ipv4 ip) \<subseteq> {CHR ''.''} \<union> {c. is_ascii_digit c}"
    using show_nat_chars by (auto simp: show_ipv4_def show_octet_def)
  then have "CHR '':'' \<notin> set (show_ipv4 ip)" by (auto simp: ascii_defs)
  then show ?thesis by (auto simp: base_hostname_def replace_char_def split: if_splits)
qed

lemma load_config_api:
  assumes "load_config parse_ip unspecified localhost sock parse_addr e outbound reply = Inr cfg"
  shows "\<exists>ip port. public_ip e outbound reply = Inr ip \<and>
    api_hostname cfg = ''railyard.'' @ base_hostname ip \<and>
    server_url cfg = url_of (api_hostname cfg) port"
  using assms by (auto simp: load_config_def rbind_eq_Inr Let_def)

lemma api_hostname_no_colon:
  assumes "load_config parse_ip unspecified localhost sock parse_addr e outbound reply = Inr cfg"
  shows "CHR '':'' \<notin> set (api_hostname cfg)"
  using load_config_api [OF assms] base_hostname_no_colon by auto

lemma route_api_host:
  assumes "load_config parse_ip unspecified localhost sock parse_addr e outbound reply = Inr cfg"
    and "to_ascii_lowercase x = api_hostname cfg" and "with_port x h"
  shows "route_for_request (from_config cfg) \<lparr>px_uri_host = None, px_host_header = Some h\<rparr> =
    Some \<lparr>upstream_addr = api_addr cfg, upstream_name = ''railyard''\<rparr>"
proof -
  have "CHR '':'' \<notin> set x" using colon_lower [of x] api_hostname_no_colon [OF assms(1)] assms(2) by auto
  from request_host_port [OF assms(3) this] assms(2) show ?thesis
    by (simp add: route_for_request_def route_for_def from_config_def API_UPSTREAM_NAME_def)
qed

lemma url_of_host: "\<exists>h. with_port hostname h \<and> url_of hostname port = ''http://'' @ h"
  by (auto simp: url_of_def with_port_def)

text \<open>Collecting the upstreams: the last variable of a service decides.\<close>

definition upstream_service :: "string \<Rightarrow> string option" where
  "upstream_service key = map_option env_key_to_service_name (strip_prefix key UPSTREAM_ENV_PREFIX)"

lemma upstreams_from_agree:
  assumes "upstreams_from parse_addr e m = Inr m'"
    and "\<forall>(k, v') \<in> set e. upstream_service k = Some svc \<longrightarrow> v' = v"
  shows "m' svc = (if \<exists>(k, v') \<in> set e. upstream_service k = Some svc then parse_addr v else m svc)"
  using assms
proof (induction parse_addr e m arbitrary: m' rule: upstreams_from.induct)
  case (2 parse_addr key val e m)
  show ?case
  proof (cases "strip_prefix key UPSTREAM_ENV_PREFIX")
    case None
    then have "upstream_service key = None" by (simp add: upstream_service_def)
    with 2(1) [OF None] 2(3,4) None show ?thesis by simp
  next
    case (Some rest)
    then obtain addr where a: "parse_addr val = Some addr"
      and r: "upstreams_from parse_addr e (m(env_key_to_service_name rest \<mapsto> addr)) = Inr m'"
      using 2(3) by (auto split: option.splits)
    have s: "upstream_service key = Some (env_key_to_service_name rest)"
      using Some by (simp add: upstream_service_def)
    show ?thesis using 2(2) [OF Some a r] 2(4) s a by (auto split: if_splits)
  qed
qed simp

lemma route_service_host:
  assumes "rt_service_upstreams table svc = Some addr" and "CHR ''.'' \<notin> set svc"
    and "to_ascii_lowercase x = svc @ CHR ''.'' # domain" and "CHR '':'' \<notin> set x"
    and "to_ascii_lowercase x \<noteq> rt_api_hostname table" and "with_port x h"
  shows "route_for_request table \<lparr>px_uri_host = None, px_host_header = Some h\<rparr> =
    Some \<lparr>upstream_addr = addr, upstream_name = svc\<rparr>"
  using request_host_port [OF assms(6,4)] assms(1-3,5)
  by (simp add: route_for_request_def route_for_def Let_def split_on_append)

section \<open>Properties\<close>

text \<open>
  C28: the API is reachable under the address the server announces.  For every configuration the
  server starts with, a request whose host is the API's hostname, in any case and with any port,
  goes to the API, whatever service upstreams are configured; and the announced URL names that host.
\<close>

theorem announced_api_is_reachable:
  assumes "load_config parse_ip unspecified localhost sock parse_addr e outbound reply = Inr cfg"
    and "to_ascii_lowercase x = api_hostname cfg" and "with_port x h"
  shows "request_filter (from_config cfg) \<lparr>px_uri_host = None, px_host_header = Some h\<rparr> =
      (Forwarded, Some \<lparr>upstream_addr = api_addr cfg, upstream_name = ''railyard''\<rparr>) \<and>
    (\<exists>u. with_port (api_hostname cfg) u \<and> server_url cfg = ''http://'' @ u)"
proof -
  obtain port where "server_url cfg = url_of (api_hostname cfg) port"
    using load_config_api [OF assms(1)] by blast
  with url_of_host [of "api_hostname cfg" port] route_api_host [OF assms]
  show ?thesis by (simp add: request_filter_def Let_def)
qed

definition demo_environ :: environ where
  "demo_environ = [(''RAILYARD_PUBLIC_IP'', ''1.2.3.4''), (''RAILYARD_PROXY_PORT'', ''80''),
     (''RAILYARD_CONTAINER_UPSTREAM_MY_APP'', ''10.0.0.7:9000'')]"

definition demo_cfg :: "string config" where
  "demo_cfg = \<lparr>proxy_addr = ''0.0.0.0:80'', api_addr = ''127.0.0.1:3001'',
     server_url = ''http://railyard.1-2-3-4.nip.io'', api_hostname = ''railyard.1-2-3-4.nip.io'',
     service_upstreams = [''my-app'' \<mapsto> ''10.0.0.7:9000'']\<rparr>"

abbreviation demo_sock :: "string \<Rightarrow> u16 \<Rightarrow> string" where
  "demo_sock ip port \<equiv> ip @ '':'' @ show_nat (unat port)"

lemma demo_load:
  "load_config Some ''0.0.0.0'' ''127.0.0.1'' demo_sock Some demo_environ (Inl []) (Inl []) = Inr demo_cfg"
proof -
  have ip: "parse_ipv4 ''1.2.3.4'' = Some (Ipv4 1 2 3 4)" by code_simp
  have p80: "parse_u16 ''80'' = Some 80"
    by (simp add: parse_u16_def parse_uint_def digits_value_def digit_value_def ascii_defs)
  have n: "show_nat 80 = ''80''" "show_nat 3001 = ''3001''" by code_simp+
  have b: "base_hostname (Ipv4 1 2 3 4) = ''1-2-3-4.nip.io''" by code_simp
  have s: "env_key_to_service_name ''MY_APP'' = ''my-app''" by code_simp
  show ?thesis
    by (simp add: load_config_def parsed_env_def env_var_def demo_environ_def public_ip_def ip p80 b
        url_of_def configured_service_upstreams_def strip_prefix_def starts_with_def
        UPSTREAM_ENV_PREFIX_def s demo_cfg_def n Let_def)
qed

theorem announced_api_is_reachable_witness:
  "request_filter (from_config demo_cfg)
      \<lparr>px_uri_host = None, px_host_header = Some ''Railyard.1-2-3-4.nip.io:80''\<rparr> =
    (Forwarded, Some \<lparr>upstream_addr = ''127.0.0.1:3001'', upstream_name = ''railyard''\<rparr>)"
proof -
  have "to_ascii_lowercase ''Railyard.1-2-3-4.nip.io'' = api_hostname demo_cfg" by code_simp
  moreover have "with_port ''Railyard.1-2-3-4.nip.io'' ''Railyard.1-2-3-4.nip.io:80''"
    by (simp add: with_port_def)
  ultimately show ?thesis
    using announced_api_is_reachable [OF demo_load] by (simp add: demo_cfg_def)
qed

text \<open>
  A configured service is reachable under every hostname that starts with its name: when the
  variables for the service agree on its address, the request goes to that address.
\<close>

lemma configured_service_is_reachable:
  assumes "configured_service_upstreams parse_addr e = Inr (rt_service_upstreams table)"
    and "(key, v) \<in> set e" and "upstream_service key = Some svc"
    and "\<forall>(k, v') \<in> set e. upstream_service k = Some svc \<longrightarrow> v' = v" and "parse_addr v = Some addr"
    and "CHR ''.'' \<notin> set svc" and "to_ascii_lowercase x = svc @ CHR ''.'' # domain"
    and "CHR '':'' \<notin> set x" and "to_ascii_lowercase x \<noteq> rt_api_hostname table" and "with_port x h"
  shows "route_for_request table \<lparr>px_uri_host = None, px_host_header = Some h\<rparr> =
    Some \<lparr>upstream_addr = addr, upstream_name = svc\<rparr>"
proof -
  have "rt_service_upstreams table svc = Some addr"
    using upstreams_from_agree [OF assms(1) [unfolded configured_service_upstreams_def] assms(4)]
      assms(2,3,5) by (auto split: if_splits)
  from route_service_host [OF this assms(6-10)] show ?thesis .
qed

lemma configured_service_is_reachable_demo:
  "route_for_request (from_config demo_cfg)
      \<lparr>px_uri_host = None, px_host_header = Some ''my-app.example.com:443''\<rparr> =
    Some \<lparr>upstream_addr = ''10.0.0.7:9000'', upstream_name = ''my-app''\<rparr>"
proof (rule configured_service_is_reachable [where parse_addr = Some and e = demo_environ
      and key = "''RAILYARD_CONTAINER_UPSTREAM_MY_APP''" and v = "''10.0.0.7:9000''"
      and x = "''my-app.example.com''" and domain = "''example.com''"])
  have s: "env_key_to_service_name ''MY_APP'' = ''my-app''" by code_simp
  then show up: "upstream_service ''RAILYARD_CONTAINER_UPSTREAM_MY_APP'' = Some ''my-app''"
    by (simp add: upstream_service_def strip_prefix_def starts_with_def UPSTREAM_ENV_PREFIX_def)
  show "configured_service_upstreams Some demo_environ
      = Inr (rt_service_upstreams (from_config demo_cfg))"
    by (simp add: configured_service_upstreams_def demo_environ_def strip_prefix_def
        starts_with_def UPSTREAM_ENV_PREFIX_def s from_config_def demo_cfg_def)
  show "\<forall>(k, v') \<in> set demo_environ. upstream_service k = Some ''my-app'' \<longrightarrow> v' = ''10.0.0.7:9000''"
    by (simp add: demo_environ_def upstream_service_def strip_prefix_def starts_with_def
        UPSTREAM_ENV_PREFIX_def)
  show "to_ascii_lowercase ''my-app.example.com'' = ''my-app'' @ CHR ''.'' # ''example.com''"
    by code_simp
  show "to_ascii_lowercase ''my-app.example.com'' \<noteq> rt_api_hostname (from_config demo_cfg)"
    by code_simp
qed (simp_all add: demo_environ_def with_port_def)

text \<open>
  The check of the machine's address is the table of special-purpose IPv4 blocks: an address
  counts as public exactly when it lies in none of them, or is one of the two global exceptions.
\<close>

lemma public_addresses_exact:
  "is_public ip =
     (if list_ex (\<lambda>(base, n). in_block base n ip) special_blocks
      then ip \<in> set global_exceptions else True)"
  by (simp add: is_public_blocks)

end
