(* ===== verification/Daemon.thy ===== *)
theory Daemon
  imports Server_Config
begin

text \<open>
  The daemon control of \<^verbatim>\<open>railyard-server\<close> (\<^verbatim>\<open>apps/server/src/cli/daemon.rs\<close>): starting, stopping and
  restarting the server by its pid file.  The operating system is the record \<open>os\<close>: whether a process
  exists at each probe of it in order, the failure of a SIGTERM, of removing a file and of creating
  the runtime directory, and what running the server does.  The host holds the files and records
  probes, sleeps, signals, server runs and lines printed.  \<open>dir\<close> is the runtime directory.
\<close>

record host =
  h_files :: "string \<Rightarrow> string option"
  h_probes :: nat
  h_slept_ms :: nat
  h_signals :: "int list"
  h_runs :: "bool list"
  h_lines :: "string list"

record os =
  os_alive :: "nat \<Rightarrow> int \<Rightarrow> bool"
  os_term_fault :: "int \<Rightarrow> string option"
  os_removes :: "string \<Rightarrow> bool"
  os_mkdir_fault :: "string option"
  os_serve :: "bool \<Rightarrow> string \<Rightarrow> string \<Rightarrow> host \<Rightarrow> unit result \<times> host"

definition say :: "string \<Rightarrow> host \<Rightarrow> host" where
  "say line w = w\<lparr>h_lines := h_lines w @ [line]\<rparr>"

definition show_int :: "int \<Rightarrow> string" where
  "show_int i = (if i < 0 then ''-'' @ show_nat (nat (- i)) else show_nat (nat i))"

definition pid_file_path :: "string \<Rightarrow> string" where
  "pid_file_path dir = path_join dir ''server.pid''"

definition upgrade_sock_path :: "string \<Rightarrow> string" where
  "upgrade_sock_path dir = path_join dir ''upgrade.sock''"

definition read_pid_file :: "string \<Rightarrow> host \<Rightarrow> int option" where
  "read_pid_file path w =
     (case h_files w path of None \<Rightarrow> None | Some raw \<Rightarrow> parse_i32 (trim raw))"

definition process_exists :: "os \<Rightarrow> int \<Rightarrow> host \<Rightarrow> bool \<times> host" where
  "process_exists sys pid w = (os_alive sys (h_probes w) pid, w\<lparr>h_probes := Suc (h_probes w)\<rparr>)"

text \<open>\<^verbatim>\<open>let _ = fs::remove_file(path)\<close>: a failure leaves the file.\<close>

definition remove_file :: "os \<Rightarrow> string \<Rightarrow> host \<Rightarrow> host" where
  "remove_file sys path w =
     (if os_removes sys path then w\<lparr>h_files := (h_files w)(path := None)\<rparr> else w)"

definition read_running_pid :: "os \<Rightarrow> string \<Rightarrow> host \<Rightarrow> int option \<times> host" where
  "read_running_pid sys dir w =
     (case read_pid_file (pid_file_path dir) w of
        None \<Rightarrow> (None, w)
      | Some pid \<Rightarrow>
          (case process_exists sys pid w of
             (True, w') \<Rightarrow> (Some pid, w')
           | (False, w') \<Rightarrow> (None, remove_file sys (pid_file_path dir) w')))"

definition run_server :: "os \<Rightarrow> string \<Rightarrow> bool \<Rightarrow> host \<Rightarrow> unit result \<times> host" where
  "run_server sys dir daemon w =
     os_serve sys daemon (pid_file_path dir) (upgrade_sock_path dir) (w\<lparr>h_runs := h_runs w @ [daemon]\<rparr>)"

definition up :: "os \<Rightarrow> string \<Rightarrow> bool \<Rightarrow> host \<Rightarrow> unit result \<times> host" where
  "up sys dir foreground w =
     (case read_running_pid sys dir w of
        (Some pid, w') \<Rightarrow>
          (Inr (), say (''Railyard server is already running with pid '' @ show_int pid) w')
      | (None, w') \<Rightarrow>
          (case os_mkdir_fault sys of
             Some e \<Rightarrow> (Inl e, w')
           | None \<Rightarrow> run_server sys dir (\<not> foreground) w'))"

text \<open>The polls after SIGTERM, one every 100 ms.\<close>

fun stop_polls :: "os \<Rightarrow> string \<Rightarrow> int \<Rightarrow> nat \<Rightarrow> host \<Rightarrow> unit result \<times> host" where
  "stop_polls sys path pid 0 w =
     (Inr (), say (''Sent SIGTERM to pid '' @ show_int pid @ '', but it is still shutting down'') w)"
| "stop_polls sys path pid (Suc n) w =
     (case process_exists sys pid w of
        (False, w') \<Rightarrow>
          (Inr (), say (''Stopped Railyard server (pid '' @ show_int pid @ '')'') (remove_file sys path w'))
      | (True, w') \<Rightarrow> stop_polls sys path pid n (w'\<lparr>h_slept_ms := h_slept_ms w' + 100\<rparr>))"

definition stop_running_server :: "os \<Rightarrow> string \<Rightarrow> host \<Rightarrow> unit result \<times> host" where
  "stop_running_server sys dir w =
     (let path = pid_file_path dir in
      case read_pid_file path w of
        None \<Rightarrow> (Inr (), say ''Railyard server is not running'' w)
      | Some pid \<Rightarrow>
          (case process_exists sys pid w of
             (False, w') \<Rightarrow>
               (Inr (), say (''Removed stale pid file for pid '' @ show_int pid) (remove_file sys path w'))
           | (True, w') \<Rightarrow>
               (case os_term_fault sys pid of
                  Some e \<Rightarrow> (Inl e, w')
                | None \<Rightarrow> stop_polls sys path pid 50 (w'\<lparr>h_signals := h_signals w' @ [pid]\<rparr>))))"

definition down :: "os \<Rightarrow> string \<Rightarrow> host \<Rightarrow> unit result \<times> host" where
  "down = stop_running_server"

definition restart :: "os \<Rightarrow> string \<Rightarrow> host \<Rightarrow> unit result \<times> host" where
  "restart sys dir w =
     (case stop_running_server sys dir w of
        (Inl e, w') \<Rightarrow> (Inl e, w')
      | (Inr _, w') \<Rightarrow> up sys dir False w')"

definition status :: "os \<Rightarrow> string \<Rightarrow> host \<Rightarrow> host" where
  "status sys dir w =
     (case read_running_pid sys dir w of
        (Some pid, w') \<Rightarrow> say (''Railyard server is running with pid '' @ show_int pid) w'
      | (None, w') \<Rightarrow> say ''Railyard server is not running'' w')"

section \<open>The polling loop\<close>

lemma say_sel [simp]:
  "h_files (say l w) = h_files w" "h_probes (say l w) = h_probes w"
  "h_slept_ms (say l w) = h_slept_ms w" "h_signals (say l w) = h_signals w"
  "h_runs (say l w) = h_runs w" "h_lines (say l w) = h_lines w @ [l]"
  by (simp_all add: say_def)

lemma remove_file_sel [simp]:
  "h_probes (remove_file sys p w) = h_probes w" "h_slept_ms (remove_file sys p w) = h_slept_ms w"
  "h_signals (remove_file sys p w) = h_signals w" "h_runs (remove_file sys p w) = h_runs w"
  "h_lines (remove_file sys p w) = h_lines w"
  "h_files (remove_file sys p w) p = (if os_removes sys p then None else h_files w p)"
  by (simp_all add: remove_file_def)

lemma stop_polls_bounds:
  assumes "stop_polls sys path pid n w = (r, w')"
  shows "r = Inr () \<and> h_signals w' = h_signals w \<and> h_runs w' = h_runs w \<and>
    h_probes w' \<le> h_probes w + n \<and> h_slept_ms w' \<le> h_slept_ms w + 100 * n"
  using assms
proof (induction n arbitrary: w)
  case (Suc n)
  let ?w = "w\<lparr>h_probes := Suc (h_probes w), h_slept_ms := h_slept_ms w + 100\<rparr>"
  show ?case
  proof (cases "os_alive sys (h_probes w) pid")
    case True
    with Suc.prems have "stop_polls sys path pid n ?w = (r, w')" by (simp add: process_exists_def)
    from Suc.IH [OF this] show ?thesis by simp
  next
    case False
    with Suc.prems show ?thesis by (auto simp: process_exists_def)
  qed
qed auto

text \<open>The process exits at the \<open>k\<close>-th poll: the loop stops there.\<close>

lemma stop_polls_exit:
  assumes "k < n" and "\<forall>i < k. os_alive sys (h_probes w + i) pid" and "\<not> os_alive sys (h_probes w + k) pid"
    and "stop_polls sys path pid n w = (r, w')"
  shows "h_files w' path = (if os_removes sys path then None else h_files w path) \<and>
    h_lines w' = h_lines w @ [''Stopped Railyard server (pid '' @ show_int pid @ '')''] \<and>
    h_slept_ms w' = h_slept_ms w + 100 * k"
  using assms
proof (induction k arbitrary: n w)
  case 0
  then show ?case by (cases n) (auto simp: process_exists_def)
next
  case (Suc k)
  from Suc.prems(1) obtain m where m: "n = Suc m" "k < m" by (cases n) auto
  let ?w = "w\<lparr>h_probes := Suc (h_probes w), h_slept_ms := h_slept_ms w + 100\<rparr>"
  have alive: "os_alive sys (h_probes w) pid" using Suc.prems(2) [rule_format, of 0] by simp
  with Suc.prems(4) m have run: "stop_polls sys path pid m ?w = (r, w')"
    by (simp add: process_exists_def)
  have "\<forall>i < k. os_alive sys (h_probes ?w + i) pid" using Suc.prems(2) by auto
  from Suc.IH [OF m(2) this _ run] Suc.prems(3) show ?case by simp
qed

text \<open>The process outlives the loop.\<close>

lemma stop_polls_slow:
  assumes "\<forall>i < n. os_alive sys (h_probes w + i) pid"
  shows "stop_polls sys path pid n w =
    (Inr (), say (''Sent SIGTERM to pid '' @ show_int pid @ '', but it is still shutting down'')
       (w\<lparr>h_probes := h_probes w + n, h_slept_ms := h_slept_ms w + 100 * n\<rparr>))"
  using assms
proof (induction n arbitrary: w)
  case (Suc n)
  have alive: "os_alive sys (h_probes w) pid" using Suc.prems [rule_format, of 0] by simp
  have "\<forall>i < n. os_alive sys (Suc (h_probes w) + i) pid" using Suc.prems by auto
  with Suc.IH [of "w\<lparr>h_probes := Suc (h_probes w), h_slept_ms := h_slept_ms w + 100\<rparr>"] alive
  show ?case by (simp add: process_exists_def algebra_simps)
qed simp

lemma stop_bounds:
  assumes "stop_running_server sys dir w = (r, w')"
  shows "h_runs w' = h_runs w \<and> h_probes w' \<le> h_probes w + 51 \<and> h_slept_ms w' \<le> h_slept_ms w + 5000"
proof (cases "read_pid_file (pid_file_path dir) w")
  case None
  with assms show ?thesis by (auto simp: stop_running_server_def Let_def)
next
  case (Some pid)
  let ?w1 = "w\<lparr>h_probes := Suc (h_probes w), h_signals := h_signals w @ [pid]\<rparr>"
  show ?thesis
  proof (cases "os_alive sys (h_probes w) pid \<and> os_term_fault sys pid = None")
    case True
    with Some assms have "stop_polls sys (pid_file_path dir) pid 50 ?w1 = (r, w')"
      by (simp add: stop_running_server_def process_exists_def Let_def)
    from stop_polls_bounds [OF this] show ?thesis by simp
  next
    case False
    with Some assms show ?thesis
      by (cases "os_alive sys (h_probes w) pid")
        (auto simp: stop_running_server_def process_exists_def Let_def)
  qed
qed

section \<open>Properties\<close>

lemma stop_signals:
  assumes "read_pid_file (pid_file_path dir) w = Some pid" and "os_alive sys (h_probes w) pid"
    and "os_term_fault sys pid = None"
  shows "stop_running_server sys dir w = stop_polls sys (pid_file_path dir) pid 50
    (w\<lparr>h_probes := Suc (h_probes w), h_signals := h_signals w @ [pid]\<rparr>)"
  using assms by (simp add: stop_running_server_def process_exists_def Let_def)

text \<open>
  C37: a restart waits up to five seconds for the old server: if the process of the pid file is running and
  exits at one of the fifty polls, one every 100 ms, the signal can be sent, the pid file can be removed and
  the runtime directory can be made, then the pid file is removed and then the server is started as a
  daemon, exactly once, after 100 ms for every poll that still saw the process.
\<close>

theorem restart_waits_for_exit:
  assumes "read_pid_file (pid_file_path dir) w = Some pid" and "os_term_fault sys pid = None"
    and "k < 50" and "\<forall>i \<le> k. os_alive sys (h_probes w + i) pid"
    and "\<not> os_alive sys (Suc (h_probes w + k)) pid"
    and "os_removes sys (pid_file_path dir)" and "os_mkdir_fault sys = None"
  shows "\<exists>w1. restart sys dir w = os_serve sys True (pid_file_path dir) (upgrade_sock_path dir) w1 \<and>
    h_runs w1 = h_runs w @ [True] \<and> h_signals w1 = h_signals w @ [pid] \<and>
    h_files w1 (pid_file_path dir) = None \<and> h_slept_ms w1 = h_slept_ms w + 100 * k"
proof -
  define w0 where "w0 = w\<lparr>h_probes := Suc (h_probes w), h_signals := h_signals w @ [pid]\<rparr>"
  obtain r w' where run: "stop_polls sys (pid_file_path dir) pid 50 w0 = (r, w')" by fastforce
  have "os_alive sys (h_probes w) pid" using assms(4) [rule_format, of 0] by simp
  from stop_signals [OF assms(1) this assms(2)] run
  have stop: "stop_running_server sys dir w = (r, w')" by (simp add: w0_def)
  have polls: "\<forall>i < k. os_alive sys (h_probes w0 + i) pid"
  proof (intro allI impI)
    fix i assume "i < k"
    with assms(4) [rule_format, of "Suc i"] show "os_alive sys (h_probes w0 + i) pid"
      by (simp add: w0_def)
  qed
  have gone: "\<not> os_alive sys (h_probes w0 + k) pid" using assms(5) by (simp add: w0_def)
  from stop_polls_exit [OF assms(3) polls gone run] assms(6)
  have files: "h_files w' (pid_file_path dir) = None" and slept: "h_slept_ms w' = h_slept_ms w + 100 * k"
    by (simp_all add: w0_def)
  from stop_polls_bounds [OF run]
  have r: "r = Inr ()" and w': "h_signals w' = h_signals w @ [pid]" "h_runs w' = h_runs w"
    by (simp_all add: w0_def)
  from stop r files assms(7) have "restart sys dir w = os_serve sys True (pid_file_path dir)
      (upgrade_sock_path dir) (w'\<lparr>h_runs := h_runs w' @ [True]\<rparr>)"
    by (simp add: restart_def up_def read_running_pid_def read_pid_file_def run_server_def)
  then show ?thesis using w' files slept by (intro exI [of _ "w'\<lparr>h_runs := h_runs w' @ [True]\<rparr>"]) simp
qed

text \<open>
  A server that takes longer to stop is not restarted: when the process is still there at every
  probe, the restart sends it SIGTERM, waits five seconds, reports that it is already running, and
  returns success without having started anything; the old server then stops.
\<close>

lemma slow_restart_starts_nothing:
  assumes "read_pid_file (pid_file_path dir) w = Some pid" and "os_term_fault sys pid = None"
    and "\<forall>i < 52. os_alive sys (h_probes w + i) pid"
  shows "\<exists>w'. restart sys dir w = (Inr (), w') \<and> h_runs w' = h_runs w \<and>
    h_signals w' = h_signals w @ [pid] \<and> h_slept_ms w' = h_slept_ms w + 5000 \<and>
    last (h_lines w') = ''Railyard server is already running with pid '' @ show_int pid"
proof -
  define w0 where "w0 = w\<lparr>h_probes := Suc (h_probes w), h_signals := h_signals w @ [pid]\<rparr>"
  have "os_alive sys (h_probes w) pid" using assms(3) [rule_format, of 0] by simp
  note stop = stop_signals [OF assms(1) this assms(2)]
  have "\<forall>i < 50. os_alive sys (h_probes w0 + i) pid"
  proof (intro allI impI)
    fix i :: nat assume "i < 50"
    with assms(3) [rule_format, of "Suc i"] show "os_alive sys (h_probes w0 + i) pid"
      by (simp add: w0_def)
  qed
  note polls = stop_polls_slow [OF this, of "pid_file_path dir"]
  have "os_alive sys (51 + h_probes w) pid" using assms(3) [rule_format, of 51] by (simp add: add.commute)
  with stop polls assms(1) show ?thesis
    by (simp add: restart_def up_def read_running_pid_def read_pid_file_def process_exists_def w0_def)
qed

text \<open>The wait ends when the process is gone, and gives up after the last poll.\<close>

lemma stop_polls_outcome:
  "(\<exists>k<n. (\<forall>i<k. os_alive sys (h_probes w + i) pid) \<and> \<not> os_alive sys (h_probes w + k) pid) \<or>
   (\<forall>i<n. os_alive sys (h_probes w + i) pid)"
proof (cases "\<exists>k<n. \<not> os_alive sys (h_probes w + k) pid")
  case True
  then obtain k where k: "k < n" "\<not> os_alive sys (h_probes w + k) pid" by blast
  then obtain m where "m \<le> k" "\<not> os_alive sys (h_probes w + m) pid" "\<forall>i<m. os_alive sys (h_probes w + i) pid"
    using ex_has_least_nat [of "\<lambda>k. \<not> os_alive sys (h_probes w + k) pid" k id] by (metis id_apply not_le)
  with k(1) show ?thesis by (intro disjI1 exI [of _ m]) simp
qed auto

text \<open>
  C36: \<^verbatim>\<open>railyard-server down\<close> always ends, and says what happened: it probes the process at most 51 times,
  sleeps at most five seconds, sends at most one signal and never starts a server.  Without a pid file
  there is nothing to stop; the file of a process that is gone is removed as stale; a signal that cannot be
  sent is the error, and nothing else happens; otherwise it reports a stop exactly when some poll saw that
  the process was gone, and then removes the file, and that it is still shutting down when none did.
\<close>

theorem down_ends_and_reports:
  assumes "down sys dir w = (r, w')"
  shows "h_runs w' = h_runs w \<and> h_probes w' \<le> h_probes w + 51 \<and> h_slept_ms w' \<le> h_slept_ms w + 5000 \<and>
    (case read_pid_file (pid_file_path dir) w of
       None \<Rightarrow> r = Inr () \<and> w' = say ''Railyard server is not running'' w
     | Some pid \<Rightarrow>
         if \<not> os_alive sys (h_probes w) pid
         then r = Inr () \<and> h_signals w' = h_signals w \<and>
           h_files w' (pid_file_path dir) = (if os_removes sys (pid_file_path dir) then None else h_files w (pid_file_path dir)) \<and>
           h_lines w' = h_lines w @ [''Removed stale pid file for pid '' @ show_int pid]
         else (case os_term_fault sys pid of
             Some e \<Rightarrow> r = Inl e \<and> w' = w\<lparr>h_probes := Suc (h_probes w)\<rparr>
           | None \<Rightarrow> r = Inr () \<and> h_signals w' = h_signals w @ [pid] \<and>
               ((\<exists>k<50. (\<forall>i\<le>k. os_alive sys (h_probes w + i) pid) \<and> \<not> os_alive sys (h_probes w + Suc k) pid \<and>
                   h_files w' (pid_file_path dir) =
                     (if os_removes sys (pid_file_path dir) then None else h_files w (pid_file_path dir)) \<and>
                   h_lines w' = h_lines w @ [''Stopped Railyard server (pid '' @ show_int pid @ '')'']) \<or>
                (\<forall>i\<le>50. os_alive sys (h_probes w + i) pid) \<and> h_files w' = h_files w \<and>
                 h_lines w' = h_lines w @ [''Sent SIGTERM to pid '' @ show_int pid @ '', but it is still shutting down''])))"
proof -
  note stop = assms [unfolded down_def]
  let ?path = "pid_file_path dir"
  show ?thesis
  proof (cases "read_pid_file ?path w")
    case None
    with stop show ?thesis by (auto simp: stop_running_server_def Let_def)
  next
    case (Some pid)
    show ?thesis
    proof (cases "os_alive sys (h_probes w) pid \<and> os_term_fault sys pid = None")
      case False
      with Some stop show ?thesis
        by (cases "os_alive sys (h_probes w) pid")
          (auto simp: stop_running_server_def process_exists_def Let_def)
    next
      case True
      define w1 where "w1 = w\<lparr>h_probes := Suc (h_probes w), h_signals := h_signals w @ [pid]\<rparr>"
      have polls: "stop_polls sys ?path pid 50 w1 = (r, w')"
        using stop stop_signals [OF Some _ _, of sys] True by (simp add: w1_def)
      have upto: "\<forall>i\<le>m. os_alive sys (h_probes w + i) pid" if "\<forall>i<m. os_alive sys (h_probes w1 + i) pid" for m
      proof (intro allI impI)
        fix i
        assume "i \<le> m"
        with that True show "os_alive sys (h_probes w + i) pid" by (cases i) (auto simp: w1_def)
      qed
      from stop_polls_outcome [of 50 sys w1 pid]
      have "(\<exists>k<50. (\<forall>i\<le>k. os_alive sys (h_probes w + i) pid) \<and> \<not> os_alive sys (h_probes w + Suc k) pid \<and>
            h_files w' ?path = (if os_removes sys ?path then None else h_files w ?path) \<and>
            h_lines w' = h_lines w @ [''Stopped Railyard server (pid '' @ show_int pid @ '')'']) \<or>
          (\<forall>i\<le>50. os_alive sys (h_probes w + i) pid) \<and> h_files w' = h_files w \<and>
            h_lines w' = h_lines w @ [''Sent SIGTERM to pid '' @ show_int pid @ '', but it is still shutting down'']"
      proof (elim disjE exE conjE)
        fix k
        assume k: "k < 50" "\<forall>i<k. os_alive sys (h_probes w1 + i) pid" "\<not> os_alive sys (h_probes w1 + k) pid"
        from stop_polls_exit [OF k polls] k upto [of k] show ?thesis
          by (intro disjI1 exI [of _ k]) (simp add: w1_def)
      next
        assume alive: "\<forall>i<50. os_alive sys (h_probes w1 + i) pid"
        from stop_polls_slow [OF this, of ?path] polls upto [OF alive] show ?thesis by (auto simp: w1_def)
      qed
      moreover have "r = Inr ()" "h_signals w' = h_signals w @ [pid]" "h_runs w' = h_runs w"
          "h_probes w' \<le> h_probes w + 51" "h_slept_ms w' \<le> h_slept_ms w + 5000"
        using stop_polls_bounds [OF polls] by (simp_all add: w1_def)
      ultimately show ?thesis using Some True by simp
    qed
  qed
qed

definition demo_os :: "nat \<Rightarrow> os" where
  "demo_os lifetime = \<lparr>os_alive = (\<lambda>n pid. n < lifetime), os_term_fault = (\<lambda>_. None),
     os_removes = (\<lambda>_. True), os_mkdir_fault = None, os_serve = (\<lambda>_ _ _ w. (Inr (), w))\<rparr>"

definition demo_host :: host where
  "demo_host = \<lparr>h_files = [''/run/server.pid'' \<mapsto> ''42''], h_probes = 0, h_slept_ms = 0,
     h_signals = [], h_runs = [], h_lines = []\<rparr>"

lemma demo_pid: "read_pid_file (pid_file_path ''/run'') demo_host = Some 42"
proof -
  have "trim ''42'' = ''42''" by (rule trim_graphic) (simp_all add: ascii_defs)
  then show ?thesis
    by (simp add: read_pid_file_def pid_file_path_def path_join_def starts_with_def demo_host_def
        parse_i32_def parse_uint_def digits_value_def digit_value_def ascii_defs)
qed

theorem restart_waits_for_exit_witness:
  "\<exists>w1. restart (demo_os 4) ''/run'' demo_host = (Inr (), w1) \<and> h_runs w1 = [True] \<and>
     h_slept_ms w1 = 300"
  using restart_waits_for_exit [OF demo_pid, of "demo_os 4" 3]
  by (auto simp: demo_os_def demo_host_def)

theorem down_ends_and_reports_witness:
  "h_lines (snd (down (demo_os 4) ''/run'' demo_host)) = [''Stopped Railyard server (pid '' @ show_int 42 @ '')'']"
proof -
  obtain r w' where run: "down (demo_os 4) ''/run'' demo_host = (r, w')" by fastforce
  have alive: "os_alive (demo_os 4) n pid = (n < 4)" for n pid by (simp add: demo_os_def)
  have "\<not> (\<forall>i\<le>50. os_alive (demo_os 4) (h_probes demo_host + i) 42)"
    unfolding alive by (auto simp: demo_host_def intro: exI [of _ 4])
  moreover have "os_term_fault (demo_os 4) 42 = None" "os_alive (demo_os 4) (h_probes demo_host) 42"
    by (simp_all add: demo_os_def demo_host_def)
  ultimately have "h_lines w' = h_lines demo_host @ [''Stopped Railyard server (pid '' @ show_int 42 @ '')'']"
    using down_ends_and_reports [OF run] by (simp only: demo_pid option.case not_True_eq_False if_False) blast
  then show ?thesis using run by (simp add: demo_host_def)
qed

lemma slow_restart_starts_nothing_demo:
  "\<exists>w'. restart (demo_os 60) ''/run'' demo_host = (Inr (), w') \<and> h_runs w' = []"
  using slow_restart_starts_nothing [OF demo_pid, of "demo_os 60"]
  by (auto simp: demo_os_def demo_host_def)

end
