(* ===== verification/Api_Types.thy ===== *)
theory Api_Types
  imports Rust_Str
begin

text \<open>
  The HTTP contract between client and server (\<^verbatim>\<open>packages/types/src\<close>): request and response
  bodies, the release status with its text form, and the paths.  The string form of a status is
  what the database stores.
\<close>

definition PROJECTS_PATH :: string where "PROJECTS_PATH = ''/api/projects''"
definition USERS_PATH :: string where "USERS_PATH = ''/api/users''"
definition WHOAMI_PATH :: string where "WHOAMI_PATH = ''/api/whoami''"

definition project_releases_path :: "string \<Rightarrow> string" where
  "project_releases_path project_id = PROJECTS_PATH @ ''/'' @ project_id @ ''/releases''"

datatype release_status = Unpacking | Ready | Failed

fun status_as_str :: "release_status \<Rightarrow> string" where
  "status_as_str Unpacking = ''unpacking''"
| "status_as_str Ready = ''ready''"
| "status_as_str Failed = ''failed''"

definition status_parse :: "string \<Rightarrow> release_status option" where
  "status_parse s =
     (if s = ''unpacking'' then Some Unpacking
      else if s = ''ready'' then Some Ready
      else if s = ''failed'' then Some Failed
      else None)"

record create_project_request =
  cpr_name :: string
  cpr_id :: "string option"

record project_summary =
  ps_id :: string
  ps_name :: string
  ps_created_at :: u64

record release_summary =
  rs_id :: string
  rs_project_id :: string
  rs_status :: release_status
  rs_message :: "string option"
  rs_error :: "string option"
  rs_created_at :: u64
  rs_updated_at :: u64

record create_user_request =
  cur_name :: string
  cur_project_id :: "string option"

record create_user_response =
  cus_user_id :: string
  cus_invite_blob :: string
  cus_expires_at :: u64

record user_summary =
  us_id :: string
  us_name :: string
  us_project_id :: "string option"
  us_has_key :: bool
  us_created_at :: u64

record whoami_response =
  who_user_id :: string
  who_name :: string
  who_project_id :: "string option"
  who_project_name :: "string option"

lemma status_parse_as_str [simp]: "status_parse (status_as_str st) = Some st"
  by (cases st) (auto simp: status_parse_def)

lemma status_parse_eq_Some: "status_parse s = Some st \<longleftrightarrow> s = status_as_str st"
  by (cases st) (auto simp: status_parse_def)

lemma status_as_str_inject [simp]: "status_as_str a = status_as_str b \<longleftrightarrow> a = b"
  by (metis option.inject status_parse_as_str)

end
