(* ===== verification/Http.thy ===== *)
theory Http
  imports Api_Types
begin

text \<open>
  Requests and responses as the handlers of the API see them.  axum's routing and (de)serialising
  are third-party code: a response carries its JSON payload as a value, and a request answers what
  \<^verbatim>\<open>headers.get(name)\<close> reads as text.  A body is the sequence of frames it arrives in.
\<close>

section \<open>Responses\<close>

datatype body =
    Empty
  | Text string
  | Json_key string
  | Json_whoami whoami_response
  | Json_project project_summary
  | Json_projects "project_summary list"
  | Json_invite create_user_response
  | Json_users "user_summary list"
  | Json_release release_summary
  | Json_releases "release_summary list"

record response =
  rsp_status :: nat
  rsp_body :: body

definition ok_json :: "body \<Rightarrow> response" where
  "ok_json b = \<lparr>rsp_status = 200, rsp_body = b\<rparr>"

definition no_content :: response where
  "no_content = \<lparr>rsp_status = 204, rsp_body = Empty\<rparr>"

definition bad_request :: "string \<Rightarrow> response" where
  "bad_request m = \<lparr>rsp_status = 400, rsp_body = Text m\<rparr>"

definition unauthorized :: "string \<Rightarrow> response" where
  "unauthorized m = \<lparr>rsp_status = 401, rsp_body = Text m\<rparr>"

definition forbidden :: "string \<Rightarrow> response" where
  "forbidden m = \<lparr>rsp_status = 403, rsp_body = Text m\<rparr>"

definition not_found :: "string \<Rightarrow> response" where
  "not_found m = \<lparr>rsp_status = 404, rsp_body = Text m\<rparr>"

definition conflict :: "string \<Rightarrow> response" where
  "conflict m = \<lparr>rsp_status = 409, rsp_body = Text m\<rparr>"

definition internal_error :: response where
  "internal_error = \<lparr>rsp_status = 500, rsp_body = Empty\<rparr>"

lemmas response_defs =
  ok_json_def no_content_def bad_request_def unauthorized_def forbidden_def not_found_def
  conflict_def internal_error_def

lemma response_status [simp]:
  "rsp_status (ok_json b) = 200"
  "rsp_status no_content = 204"
  "rsp_status (bad_request m) = 400"
  "rsp_status (unauthorized m) = 401"
  "rsp_status (forbidden m) = 403"
  "rsp_status (not_found m) = 404"
  "rsp_status (conflict m) = 409"
  "rsp_status internal_error = 500"
  by (simp_all add: response_defs)

lemma ok_json_inject [simp]: "ok_json a = ok_json b \<longleftrightarrow> a = b"
  by (simp add: ok_json_def)

section \<open>Requests\<close>

datatype frame =
    Data string
  | Trailers
  | Broken string

record http_request =
  rq_method :: string
  rq_authority :: "string option"
  rq_path_and_query :: "string option"
  rq_header :: "string \<Rightarrow> string option"
  rq_body :: "frame list"

end
