(* ===== verification/Server_Cli.thy ===== *)
theory Server_Cli
  imports Daemon Http
begin

text \<open>
  The commands of \<^verbatim>\<open>railyard-server\<close> (\<^verbatim>\<open>apps/server/src/cli/mod.rs\<close>) and its user commands
  (\<^verbatim>\<open>apps/server/src/cli/user.rs\<close>), which talk to the daemon's admin socket.  A request is
  \<open>sc_request\<close>: a method, a path and a body to a status and the bytes of the reply; \<open>admin_request\<close> is
  the one the commands use, over a socket and an HTTP client that are parameters.
\<close>

record 'w socket_client =
  sc_request :: "string \<Rightarrow> string \<Rightarrow> string option \<Rightarrow> 'w \<Rightarrow> (nat \<times> string) result \<times> 'w"
  sc_json_new_user :: "create_user_request \<Rightarrow> string result"
  sc_parse_new_user :: "string \<Rightarrow> create_user_response result"
  sc_parse_users :: "string \<Rightarrow> user_summary list result"
  sc_status_text :: "nat \<Rightarrow> string"
  sc_clock :: "'w \<Rightarrow> u64"

text \<open>A command answers whether it succeeded, the lines it printed, and the world after it.\<close>

type_synonym 'w command = "'w \<Rightarrow> unit result \<times> string list \<times> 'w"

definition admin_failed :: "'w socket_client \<Rightarrow> string \<Rightarrow> nat \<Rightarrow> string \<Rightarrow> string" where
  "admin_failed sc action code_nr body =
     action @ '' failed ('' @ sc_status_text sc code_nr @ ''): '' @ from_utf8_lossy body"

definition status_is_success :: "nat \<Rightarrow> bool" where
  "status_is_success code_nr \<longleftrightarrow> 200 \<le> code_nr \<and> code_nr < 300"

definition format_age :: "u64 \<Rightarrow> string" where
  "format_age seconds =
     (if seconds < 60 then show_u64 seconds @ ''s''
      else if seconds < 3600 then show_u64 (seconds div 60) @ ''m''
      else if seconds < 86400 then show_u64 (seconds div 3600) @ ''h''
      else show_u64 (seconds div 86400) @ ''d'')"

definition user_line :: "u64 \<Rightarrow> user_summary \<Rightarrow> string" where
  "user_line now u =
     us_name u @ [CHR 0x09] @ us_id u @ [CHR 0x09] @
     (case us_project_id u of None \<Rightarrow> ''admin'' | Some p \<Rightarrow> p) @ [CHR 0x09] @
     (if us_has_key u then ''active'' else ''invited'') @ [CHR 0x09] @
     ''created '' @ format_age (if us_created_at u \<le> now then now - us_created_at u else 0) @ '' ago''"

definition user_add :: "'w socket_client \<Rightarrow> string \<Rightarrow> 'w command" where
  "user_add sc name w =
     (case sc_json_new_user sc \<lparr>cur_name = name, cur_project_id = None\<rparr> of
        Inl e \<Rightarrow> (Inl e, [], w)
      | Inr body \<Rightarrow>
     (case sc_request sc ''POST'' USERS_PATH (Some body) w of
        (Inl e, w') \<Rightarrow> (Inl e, [], w')
      | (Inr (code_nr, bytes), w') \<Rightarrow>
          if \<not> status_is_success code_nr
          then (Inl (admin_failed sc ''user creation'' code_nr bytes), [], w')
          else (case sc_parse_new_user sc bytes of
                  Inl e \<Rightarrow> (Inl e, [], w')
                | Inr created \<Rightarrow>
                    (Inr (),
                     [''Created user '' @ name @ ''.'',
                      ''Single-use invite, expires in 24h. Redeem with `railyard login <blob>`:'',
                      [], cus_invite_blob created], w'))))"

definition user_list :: "'w socket_client \<Rightarrow> 'w command" where
  "user_list sc w =
     (case sc_request sc ''GET'' USERS_PATH None w of
        (Inl e, w') \<Rightarrow> (Inl e, [], w')
      | (Inr (code_nr, bytes), w') \<Rightarrow>
          if \<not> status_is_success code_nr
          then (Inl (admin_failed sc ''user listing'' code_nr bytes), [], w')
          else (case sc_parse_users sc bytes of
                  Inl e \<Rightarrow> (Inl e, [], w')
                | Inr [] \<Rightarrow>
                    (Inr (), [''No users. Create one with `railyard-server user add <name>`.''], w')
                | Inr listed \<Rightarrow> (Inr (), map (user_line (sc_clock sc w')) listed, w')))"

definition user_remove :: "'w socket_client \<Rightarrow> string \<Rightarrow> 'w command" where
  "user_remove sc name w =
     (case sc_request sc ''DELETE'' (USERS_PATH @ ''/'' @ name) None w of
        (Inl e, w') \<Rightarrow> (Inl e, [], w')
      | (Inr (code_nr, bytes), w') \<Rightarrow>
          if code_nr = 204 then (Inr (), [''Removed user '' @ name @ '' and revoked its key.''], w')
          else if code_nr = 404 then (Inr (), [''No user named '' @ name @ ''.''], w')
          else (Inl (admin_failed sc ''user removal'' code_nr bytes), [], w'))"

section \<open>The request on the admin socket\<close>

text \<open>
  What tokio and hyper do: connecting to the socket, the handshake, refusing a path that is no URI,
  sending, with the status of the reply and its collected bytes.
\<close>

record 'w transport =
  tr_connect :: "string \<Rightarrow> 'w \<Rightarrow> unit result \<times> 'w"
  tr_handshake :: "'w \<Rightarrow> unit result \<times> 'w"
  tr_bad_uri :: "string \<Rightarrow> string option"
  tr_send :: "http_request \<Rightarrow> 'w \<Rightarrow> (nat \<times> string result) result \<times> 'w"

definition admin_http_request :: "string \<Rightarrow> string \<Rightarrow> string option \<Rightarrow> http_request" where
  "admin_http_request method path body =
     \<lparr>rq_method = method, rq_authority = None, rq_path_and_query = Some path,
      rq_header = map_of ([(''host'', ''railyard'')] @
        (if body \<noteq> None then [(''content-type'', ''application/json'')] else [])),
      rq_body = (case body of None \<Rightarrow> [] | Some b \<Rightarrow> if b = [] then [] else [Data b])\<rparr>"

definition admin_request ::
    "'w transport \<Rightarrow> string \<Rightarrow> string \<Rightarrow> string \<Rightarrow> string option \<Rightarrow> 'w \<Rightarrow> (nat \<times> string) result \<times> 'w" where
  "admin_request tr sock method path body w =
     (case tr_connect tr sock w of
        (Inl e, w1) \<Rightarrow> (Inl (''could not reach the railyard-server daemon ('' @ e @
          ''); start it with `railyard-server up`''), w1)
      | (Inr _, w1) \<Rightarrow>
     (case tr_handshake tr w1 of
        (Inl e, w2) \<Rightarrow> (Inl e, w2)
      | (Inr _, w2) \<Rightarrow>
     (case tr_bad_uri tr path of
        Some e \<Rightarrow> (Inl e, w2)
      | None \<Rightarrow>
     (case tr_send tr (admin_http_request method path body) w2 of
        (Inl e, w3) \<Rightarrow> (Inl e, w3)
      | (Inr (_, Inl e), w3) \<Rightarrow> (Inl e, w3)
      | (Inr (code_nr, Inr bytes), w3) \<Rightarrow> (Inr (code_nr, bytes), w3)))))"

text \<open>The commands' client, with serde's functions and the clock of the machine.\<close>

definition over_socket :: "'w transport \<Rightarrow> string \<Rightarrow> 'w socket_client \<Rightarrow> 'w socket_client" where
  "over_socket tr sock sc = sc\<lparr>sc_request := admin_request tr sock\<rparr>"

section \<open>Facts\<close>

text \<open>A user command never prints anything when it fails.\<close>

lemma failed_commands_silent:
  "user_add sc name w = (Inl e, ls, w') \<Longrightarrow> ls = []"
  "user_list sc w = (Inl e, ls, w') \<Longrightarrow> ls = []"
  "user_remove sc name w = (Inl e, ls, w') \<Longrightarrow> ls = []"
  by (auto simp: user_add_def user_list_def user_remove_def
      split: sum.splits prod.splits if_splits list.splits)

text \<open>The invite is printed on a line of its own, as the login over SSH expects it.\<close>

lemma user_add_prints_blob:
  assumes "user_add sc name w = (Inr (), ls, w')"
  obtains body code_nr bytes created where
    "sc_json_new_user sc \<lparr>cur_name = name, cur_project_id = None\<rparr> = Inr body"
    and "sc_request sc ''POST'' USERS_PATH (Some body) w = (Inr (code_nr, bytes), w')"
    and "status_is_success code_nr" and "sc_parse_new_user sc bytes = Inr created"
    and "ls = [''Created user '' @ name @ ''.'',
      ''Single-use invite, expires in 24h. Redeem with `railyard login <blob>`:'', [], cus_invite_blob created]"
  using assms by (auto simp: user_add_def split: sum.splits prod.splits if_splits)

lemma admin_request_Inr:
  assumes "admin_request tr sock method path body w = (Inr (code_nr, bytes), w')"
  obtains w1 w2 where "tr_connect tr sock w = (Inr (), w1)" and "tr_handshake tr w1 = (Inr (), w2)"
    and "tr_send tr (admin_http_request method path body) w2 = (Inr (code_nr, Inr bytes), w')"
  using assms by (auto simp: admin_request_def split: sum.splits prod.splits option.splits)

end
