(* ===== verification/Db_Tables.thy ===== *)
theory Db_Tables
  imports Rust_Str
begin

text \<open>
  The server's database (\<^verbatim>\<open>apps/server/src/api/db/mod.rs\<close>): the four tables of \<^verbatim>\<open>SCHEMA\<close> as lists of
  rows in insertion order, and the execution of one SQL statement.  A statement may fail
  (\<^verbatim>\<open>map_err(db_error)\<close> on every call of the driver): the field \<open>faults\<close> is the schedule of
  failures, one entry per statement, \<open>None\<close> for success; once it is used up every statement
  succeeds.  A failed statement has no effect.  A failure while stepping through the rows of a
  query is the failure of that query.
\<close>

record user_row =
  usr_id :: string
  usr_name :: string
  usr_public_key :: "string option"
  usr_project_id :: "string option"
  usr_created_at :: i64

record invite_row =
  inv_token_hash :: string
  inv_user_id :: string
  inv_expires_at :: i64
  inv_redeemed_at :: "i64 option"
  inv_created_at :: i64

record project_row =
  prow_id :: string
  prow_name :: string
  prow_created_at :: i64

record release_row =
  rel_id :: string
  rel_project_id :: string
  rel_status :: string
  rel_message :: "string option"
  rel_error :: "string option"
  rel_created_at :: i64
  rel_updated_at :: i64

record db =
  users :: "user_row list"
  invites :: "invite_row list"
  projects :: "project_row list"
  releases :: "release_row list"
  faults :: "string option list"

definition empty_db :: db where
  "empty_db = \<lparr>users = [], invites = [], projects = [], releases = [], faults = []\<rparr>"

section \<open>Statements\<close>

type_synonym 'a dbm = "db \<Rightarrow> 'a result \<times> db"

definition db_error :: "string \<Rightarrow> string" where
  "db_error e = ''database error: '' @ e"

definition dreturn :: "'a \<Rightarrow> 'a dbm" where
  "dreturn x = (\<lambda>s. (Inr x, s))"

text \<open>Sequencing with the early return of \<^verbatim>\<open>?\<close>.\<close>

definition dbind :: "'a dbm \<Rightarrow> ('a \<Rightarrow> 'b dbm) \<Rightarrow> 'b dbm" where
  "dbind m f = (\<lambda>s. case m s of (Inl e, s') \<Rightarrow> (Inl e, s') | (Inr x, s') \<Rightarrow> f x s')"

definition statement :: "'a dbm \<Rightarrow> 'a dbm" where
  "statement act = (\<lambda>s.
     case faults s of
       [] \<Rightarrow> act s
     | None # fs \<Rightarrow> act (s\<lparr>faults := fs\<rparr>)
     | Some e # fs \<Rightarrow> (Inl (db_error e), s\<lparr>faults := fs\<rparr>))"

text \<open>A query reads; \<open>execute\<close> changes the tables and returns the number of rows affected, or is
  refused by a constraint.\<close>

definition query :: "(db \<Rightarrow> 'a result) \<Rightarrow> 'a dbm" where
  "query f = statement (\<lambda>s. (f s, s))"

definition execute :: "(db \<Rightarrow> (db \<times> nat) result) \<Rightarrow> nat dbm" where
  "execute f = statement (\<lambda>s.
     case f s of Inl e \<Rightarrow> (Inl (db_error e), s) | Inr (s', n) \<Rightarrow> (Inr n, s'))"

section \<open>Tables with unique columns\<close>

text \<open>
  \<^verbatim>\<open>INSERT\<close> into a table with \<^verbatim>\<open>PRIMARY KEY\<close> and \<^verbatim>\<open>UNIQUE\<close> columns: refused when a row already has
  one of the values.
\<close>

definition insert_unique :: "('r \<Rightarrow> string) list \<Rightarrow> 'r \<Rightarrow> 'r list \<Rightarrow> 'r list option" where
  "insert_unique columns r rs =
     (if list_ex (\<lambda>c. c r \<in> set (map c rs)) columns then None else Some (rs @ [r]))"

definition insert_user_row :: "user_row \<Rightarrow> user_row list \<Rightarrow> user_row list option" where
  "insert_user_row = insert_unique [usr_id, usr_name]"

definition insert_invite_row :: "invite_row \<Rightarrow> invite_row list \<Rightarrow> invite_row list option" where
  "insert_invite_row = insert_unique [inv_token_hash]"

definition insert_project_row :: "project_row \<Rightarrow> project_row list \<Rightarrow> project_row list option" where
  "insert_project_row = insert_unique [prow_id, prow_name]"

definition insert_release_row :: "release_row \<Rightarrow> release_row list \<Rightarrow> release_row list option" where
  "insert_release_row = insert_unique [rel_id]"

text \<open>The contract of such a table.\<close>

locale unique_table =
  fixes columns :: "('r \<Rightarrow> string) list"
    and insert_row :: "'r \<Rightarrow> 'r list \<Rightarrow> 'r list option"
  assumes inserted: "insert_row r rs = Some rs' \<Longrightarrow>
      rs' = rs @ [r] \<and> (\<forall>c \<in> set columns. c r \<notin> c ` set rs)"
    and rejected: "insert_row r rs = None \<Longrightarrow> \<exists>c \<in> set columns. c r \<in> c ` set rs"
begin

lemma rows: "insert_row r rs = Some rs' \<Longrightarrow> set rs' = insert r (set rs)"
  by (auto dest: inserted)

lemma keeps_distinct:
  "\<lbrakk>insert_row r rs = Some rs'; c \<in> set columns; distinct (map c rs)\<rbrakk> \<Longrightarrow> distinct (map c rs')"
  by (auto dest!: inserted)

lemma fresh: "\<lbrakk>insert_row r rs = Some rs'; c \<in> set columns\<rbrakk> \<Longrightarrow> c r \<notin> c ` set rs"
  by (auto dest!: inserted)

lemma accepts_iff:
  "(\<exists>rs'. insert_row r rs = Some rs') \<longleftrightarrow> (\<forall>c \<in> set columns. c r \<notin> c ` set rs)"
  using inserted rejected by (metis not_Some_eq)

lemma find_inserted:
  assumes "insert_row r rs = Some rs'" and "c \<in> set columns"
  shows "find (\<lambda>x. c x = c r) rs' = Some r"
proof -
  have "rs' = rs @ [r]" and "c r \<notin> c ` set rs" using inserted [OF assms(1)] assms(2) by auto
  moreover have "find (\<lambda>x. c x = c r) (rs @ [r]) = Some r" if "c r \<notin> c ` set rs"
    using that by (induction rs) auto
  ultimately show ?thesis by simp
qed

lemma find_others:
  assumes "insert_row r rs = Some rs'" and "\<not> P r"
  shows "find P rs' = find P rs"
proof -
  have "rs' = rs @ [r]" using inserted [OF assms(1)] by simp
  moreover have "find P (rs @ [r]) = find P rs" using assms(2) by (induction rs) auto
  ultimately show ?thesis by simp
qed

end

lemma insert_unique_table: "unique_table columns (insert_unique columns)"
  by unfold_locales (auto simp: insert_unique_def list_ex_iff split: if_splits)

interpretation users_table: unique_table "[usr_id, usr_name]" insert_user_row
  unfolding insert_user_row_def by (rule insert_unique_table)

interpretation invites_table: unique_table "[inv_token_hash]" insert_invite_row
  unfolding insert_invite_row_def by (rule insert_unique_table)

interpretation projects_table: unique_table "[prow_id, prow_name]" insert_project_row
  unfolding insert_project_row_def by (rule insert_unique_table)

interpretation releases_table: unique_table "[rel_id]" insert_release_row
  unfolding insert_release_row_def by (rule insert_unique_table)

section \<open>Reasoning about statements\<close>

text \<open>
  Every program built from these pieces relates the database before and after by a relation on
  tables; the schedule of faults is only consumed.  \<open>db_rel R m\<close>: whatever faults occur, the
  tables afterwards are related by \<open>R\<close> to those before.
\<close>

definition same_tables :: "db \<Rightarrow> db \<Rightarrow> bool" where
  "same_tables s t \<longleftrightarrow> t\<lparr>faults := faults s\<rparr> = s"

lemma same_tables_iff:
  "same_tables s t \<longleftrightarrow>
     users t = users s \<and> invites t = invites s \<and> projects t = projects s \<and> releases t = releases s"
  by (cases s; cases t) (auto simp: same_tables_def)

lemma same_tables_refl [simp]: "same_tables s s"
  by (simp add: same_tables_def)

lemma same_tables_trans: "same_tables s t \<Longrightarrow> same_tables t u \<Longrightarrow> same_tables s u"
  by (simp add: same_tables_iff)

lemma same_tables_faults [simp]: "same_tables s (s\<lparr>faults := f\<rparr>)"
  by (simp add: same_tables_iff)

text \<open>A statement either fails, leaving the tables, or runs its action on the same tables.\<close>

lemma statement_cases:
  assumes "statement act s = (r, t)"
  obtains (fault) e where "r = Inl (db_error e)" and "same_tables s t"
    | (run) s0 where "same_tables s s0" and "act s0 = (r, t)"
proof (cases "faults s")
  case Nil
  with assms have "act s = (r, t)" by (simp add: statement_def)
  then show thesis using run [OF same_tables_refl] by blast
next
  case (Cons x fs)
  show thesis
  proof (cases x)
    case None
    with Cons assms have "act (s\<lparr>faults := fs\<rparr>) = (r, t)" by (simp add: statement_def)
    then show thesis using run [OF same_tables_faults] by blast
  next
    case (Some e)
    with Cons assms have "r = Inl (db_error e)" and "t = s\<lparr>faults := fs\<rparr>"
      by (auto simp: statement_def)
    then show thesis using fault same_tables_faults by blast
  qed
qed

lemma statement_no_faults: "faults s = [] \<Longrightarrow> statement act s = act s"
  by (simp add: statement_def)

lemma dbind_cases:
  assumes "dbind m f s = (r, t)"
  obtains (stop) e where "m s = (Inl e, t)" and "r = Inl e"
    | (cont) x s' where "m s = (Inr x, s')" and "f x s' = (r, t)"
  using assms by (auto simp: dbind_def split: prod.splits sum.splits)

lemma dbind_Inr: "m s = (Inr x, s') \<Longrightarrow> dbind m f s = f x s'"
  by (simp add: dbind_def)

lemma dbind_Inl: "m s = (Inl e, s') \<Longrightarrow> dbind m f s = (Inl e, s')"
  by (simp add: dbind_def)

lemma dreturn_eq [simp]: "dreturn x s = (r, t) \<longleftrightarrow> r = Inr x \<and> t = s"
  by (auto simp: dreturn_def)

lemma query_cases:
  assumes "query f s = (r, t)"
  obtains (fault) e where "r = Inl (db_error e)" and "same_tables s t"
    | (run) s0 where "same_tables s s0" and "r = f s0" and "t = s0"
  using assms unfolding query_def by (elim statement_cases) auto

lemma execute_cases:
  assumes "execute f s = (r, t)"
  obtains (fault) e where "r = Inl (db_error e)" and "same_tables s t"
    | (run) s0 n where "same_tables s s0" and "f s0 = Inr (t, n)" and "r = Inr n"
  using assms unfolding execute_def
  by (elim statement_cases) (auto split: sum.splits prod.splits)

lemma query_same_tables: "query f s = (r, t) \<Longrightarrow> same_tables s t"
  by (erule query_cases) auto

end
