(* ===== verification/Server_Start.thy ===== *)
theory Server_Start
  imports Proxy Server_Cli Db_Tables "HOL-Library.Sublist"
begin

text \<open>
  The start of the server: the process (\<^verbatim>\<open>apps/server/src/server.rs\<close>), the API service with its database
  and its two listeners (\<^verbatim>\<open>apps/server/src/api/mod.rs\<close>, \<^verbatim>\<open>Db::open\<close> of \<^verbatim>\<open>api/db/mod.rs\<close>), and the
  dispatch of the server's commands (\<^verbatim>\<open>cli/mod.rs\<close>, \<^verbatim>\<open>main.rs\<close>).  pingora, libsql and the operating
  system are outside: what a start does is the sequence of its effects on them, each of which may fail.
\<close>

section \<open>Effects\<close>

datatype 'addr effect =
    Made_dirs string
  | Opened_database string
  | Connected
  | Set_busy_timeout nat
  | Set_journal_wal
  | Created_schema
  | Bound_api 'addr
  | Removed_socket string
  | Bound_admin string
  | Restricted string nat
  | Notified_ready

text \<open>
  \<open>sp_fault\<close>: the failure of an effect after the effects before it, its \<^verbatim>\<open>Display\<close> and its \<^verbatim>\<open>Debug\<close> text.
  A failed effect leaves no trace.
\<close>

record 'addr startup =
  sp_fault :: "'addr effect list \<Rightarrow> 'addr effect \<Rightarrow> string option"
  sp_debug :: "string \<Rightarrow> string"

type_synonym 'addr start = "'addr effect list \<Rightarrow> unit result \<times> 'addr effect list"

definition perform :: "'addr startup \<Rightarrow> 'addr effect \<Rightarrow> 'addr start" where
  "perform sp ev = (\<lambda>done_before. case sp_fault sp done_before ev of
     Some e \<Rightarrow> (Inl e, done_before) | None \<Rightarrow> (Inr (), done_before @ [ev]))"

definition followed_by :: "'addr start \<Rightarrow> 'addr start \<Rightarrow> 'addr start" where
  "followed_by m n = (\<lambda>pre. case m pre of (Inl e, post) \<Rightarrow> (Inl e, post) | (Inr _, post) \<Rightarrow> n post)"

text \<open>\<^verbatim>\<open>map_err(db_error)\<close>, \<^verbatim>\<open>expect(msg)\<close> whose panic ends the service, and a result that is ignored.\<close>

definition with_db_error :: "'addr start \<Rightarrow> 'addr start" where
  "with_db_error m = (\<lambda>pre. case m pre of (Inl e, post) \<Rightarrow> (Inl (db_error e), post) | r \<Rightarrow> r)"

definition expecting :: "'addr startup \<Rightarrow> string \<Rightarrow> 'addr start \<Rightarrow> 'addr start" where
  "expecting sp msg m = (\<lambda>pre. case m pre of
     (Inl e, post) \<Rightarrow> (Inl (msg @ '': '' @ sp_debug sp e), post) | r \<Rightarrow> r)"

definition ignoring :: "'addr start \<Rightarrow> 'addr start" where
  "ignoring m = (\<lambda>pre. case m pre of (_, post) \<Rightarrow> (Inr (), post))"

section \<open>The database\<close>

text \<open>The path of the database has a parent; \<open>dir\<close> is it.  Paths are UTF-8 here.\<close>

definition open_database :: "'addr startup \<Rightarrow> string \<Rightarrow> string \<Rightarrow> 'addr start" where
  "open_database sp dir path =
     followed_by (perform sp (Made_dirs dir))
    (followed_by (with_db_error (perform sp (Opened_database path)))
    (followed_by (with_db_error (perform sp Connected))
    (followed_by (with_db_error (perform sp (Set_busy_timeout 5)))
    (followed_by (with_db_error (perform sp Set_journal_wal))
                 (with_db_error (perform sp Created_schema))))))"

section \<open>The API service\<close>

definition bind_admin_socket :: "'addr startup \<Rightarrow> string \<Rightarrow> 'addr start" where
  "bind_admin_socket sp path =
     followed_by (ignoring (perform sp (Removed_socket path)))
    (followed_by (expecting sp ''failed to bind admin socket listener'' (perform sp (Bound_admin path)))
                 (expecting sp ''failed to restrict admin socket permissions''
                    (perform sp (Restricted path 384))))"

text \<open>
  The call that tells pingora that the service is ready.  What pingora does with it, and what it makes of a
  notifier that a panicking start drops without the call, is outside of this model.
\<close>

definition notify_ready :: "'addr start" where
  "notify_ready = (\<lambda>pre. (Inr (), pre @ [Notified_ready]))"

text \<open>Up to the point where both listeners serve.\<close>

definition start_api :: "'addr startup \<Rightarrow> string \<Rightarrow> string \<Rightarrow> string \<Rightarrow> 'addr config \<Rightarrow> 'addr start" where
  "start_api sp data database socket cfg =
     followed_by (expecting sp ''failed to open auth database'' (open_database sp data database))
    (followed_by (expecting sp ''failed to bind internal API listener'' (perform sp (Bound_api (api_addr cfg))))
    (followed_by (bind_admin_socket sp socket)
                 notify_ready))"

text \<open>
  How the service ends, once both listeners have stopped serving, after a shutdown or an error of their
  own: an error of the first is reported before one of the second.
\<close>

definition joined_listeners :: "'addr startup \<Rightarrow> unit result \<Rightarrow> unit result \<Rightarrow> unit result" where
  "joined_listeners sp tcp admin =
     (case tcp of
        Inl e \<Rightarrow> Inl (''API service exited with error: '' @ sp_debug sp e)
      | Inr _ \<Rightarrow>
          (case admin of
             Inl e \<Rightarrow> Inl (''admin socket service exited with error: '' @ sp_debug sp e)
           | Inr _ \<Rightarrow> Inr ()))"

section \<open>The process\<close>

record server_conf =
  pc_daemon :: bool
  pc_pid_file :: string
  pc_upgrade_sock :: string
  pc_grace_period_seconds :: nat
  pc_shutdown_timeout_seconds :: nat

text \<open>\<open>base\<close> is pingora's default configuration, which may be missing.\<close>

definition pingora_conf ::
    "server_conf option \<Rightarrow> bool \<Rightarrow> string \<Rightarrow> string \<Rightarrow> server_conf result" where
  "pingora_conf base daemon pid_file upgrade_sock =
     (case base of
        None \<Rightarrow> Inl ''failed to create pingora config''
      | Some conf \<Rightarrow> Inr (conf\<lparr>pc_daemon := daemon, pc_pid_file := pid_file,
          pc_upgrade_sock := upgrade_sock, pc_grace_period_seconds := 1,
          pc_shutdown_timeout_seconds := 3\<rparr>))"

text \<open>
  What the process hands to pingora when it starts to run: its configuration, the routes and address
  of the proxy, the configuration of the API service, which service waits for which, and the lines
  printed.
\<close>

record 'addr launch =
  ln_conf :: server_conf
  ln_api_config :: "'addr config"
  ln_routes :: "'addr routing_table"
  ln_listen :: string
  ln_waits_for :: "(string \<times> string) list"
  ln_lines :: "string list"

definition launch_server ::
    "('addr \<Rightarrow> string) \<Rightarrow> 'addr config result \<Rightarrow> server_conf option \<Rightarrow> bool \<Rightarrow> string \<Rightarrow> string
      \<Rightarrow> 'addr launch result" where
  "launch_server show_addr loaded base daemon pid_file upgrade_sock =
     rbind loaded (\<lambda>cfg.
     let routes = from_config cfg in
     rbind (pingora_conf base daemon pid_file upgrade_sock) (\<lambda>conf.
     Inr \<lparr>ln_conf = conf, ln_api_config = cfg, ln_routes = routes,
          ln_listen = show_addr (proxy_addr cfg), ln_waits_for = [(''proxy'', ''api'')],
          ln_lines = [''Starting railyard ingress on http://'' @ show_addr (proxy_addr cfg),
            ''Internal API bound to http://'' @ show_addr (api_addr cfg),
            ''Dashboard URL: '' @ server_url cfg]\<rparr>))"

section \<open>The commands\<close>

datatype server_user_command =
    Add_user string
  | List_users
  | Remove_user string

datatype server_command =
    Up_command bool
  | Down_command
  | Restart_command
  | Status_command
  | User_command server_user_command

text \<open>A user command's lines are printed like the others.\<close>

definition printing :: "host command \<Rightarrow> host \<Rightarrow> unit result \<times> host" where
  "printing cmd w = (case cmd w of (r, lines, w') \<Rightarrow> (r, foldl (\<lambda>v l. say l v) w' lines))"

definition run_server_command ::
    "os \<Rightarrow> host socket_client \<Rightarrow> string \<Rightarrow> server_command \<Rightarrow> host \<Rightarrow> unit result \<times> host" where
  "run_server_command sys sc dir cmd w =
     (case cmd of
        Up_command foreground \<Rightarrow> up sys dir foreground w
      | Down_command \<Rightarrow> down sys dir w
      | Restart_command \<Rightarrow> restart sys dir w
      | Status_command \<Rightarrow> (Inr (), status sys dir w)
      | User_command (Add_user name) \<Rightarrow> printing (user_add sc name) w
      | User_command List_users \<Rightarrow> printing (user_list sc) w
      | User_command (Remove_user name) \<Rightarrow> printing (user_remove sc name) w)"

text \<open>The exit code and what goes to standard error.\<close>

definition server_main ::
    "os \<Rightarrow> host socket_client \<Rightarrow> string \<Rightarrow> server_command \<Rightarrow> host \<Rightarrow> nat \<times> string list \<times> host" where
  "server_main sys sc dir cmd w =
     (case run_server_command sys sc dir cmd w of
        (Inr _, w') \<Rightarrow> (0, [], w')
      | (Inl e, w') \<Rightarrow> (1, [e], w'))"

section \<open>The order of the start\<close>

lemma followed_by_cases:
  assumes "followed_by m n pre = (r, post)"
  obtains (stopped) e where "m pre = (Inl e, post)" and "r = Inl e"
    | (went_on) mid where "m pre = (Inr (), mid)" and "n mid = (r, post)"
  using assms by (auto simp: followed_by_def split: prod.splits sum.splits)

lemma wrapped_cases:
  "with_db_error m pre = (r, post) \<Longrightarrow> \<exists>r0. m pre = (r0, post) \<and> (r = Inr () \<longleftrightarrow> r0 = Inr ())"
  "expecting sp msg m pre = (r, post) \<Longrightarrow> \<exists>r0. m pre = (r0, post) \<and> (r = Inr () \<longleftrightarrow> r0 = Inr ())"
  by (auto simp: with_db_error_def expecting_def split: prod.splits sum.splits)

text \<open>
  A part of the start: on success it did all its effects in order, otherwise it stopped before the end
  of them.
\<close>

definition does :: "'addr start \<Rightarrow> 'addr effect list set \<Rightarrow> bool" where
  "does m full \<longleftrightarrow> (\<forall>pre r post. m pre = (r, post) \<longrightarrow>
     (\<exists>evs. post = pre @ evs \<and> (if r = Inr () then evs \<in> full else \<exists>f\<in>full. strict_prefix evs f)))"

lemma does_perform: "does (perform sp ev) {[ev]}"
  by (auto simp: does_def perform_def split: option.splits)

lemma does_same_outcome:
  assumes "does m F"
    and "\<And>pre r post. m' pre = (r, post) \<Longrightarrow> \<exists>r0. m pre = (r0, post) \<and> (r = Inr () \<longleftrightarrow> r0 = Inr ())"
  shows "does m' F"
  unfolding does_def
proof (intro allI impI)
  fix pre r post
  assume "m' pre = (r, post)"
  then obtain r0 where "m pre = (r0, post)" and same: "r = Inr () \<longleftrightarrow> r0 = Inr ()" using assms(2) by blast
  with assms(1) obtain evs where "post = pre @ evs"
    "if r0 = Inr () then evs \<in> F else \<exists>f\<in>F. strict_prefix evs f" unfolding does_def by blast
  with same show "\<exists>evs. post = pre @ evs \<and> (if r = Inr () then evs \<in> F else \<exists>f\<in>F. strict_prefix evs f)"
    by (intro exI [of _ evs]) simp
qed

lemma does_wrapped:
  "does m F \<Longrightarrow> does (with_db_error m) F"
  "does m F \<Longrightarrow> does (expecting sp msg m) F"
  using does_same_outcome wrapped_cases by blast+

lemma does_ignoring_perform: "does (ignoring (perform sp ev)) {[], [ev]}"
  by (auto simp: does_def ignoring_def perform_def split: option.splits)

lemma does_notify_ready: "does notify_ready {[Notified_ready]}"
  by (auto simp: does_def notify_ready_def)

lemma does_followed_by:
  assumes "does m F" and "does n G" and "G \<noteq> {}"
  shows "does (followed_by m n) {a @ b |a b. a \<in> F \<and> b \<in> G}"
  unfolding does_def
proof (intro allI impI)
  fix pre r post
  assume "followed_by m n pre = (r, post)"
  then show "\<exists>evs. post = pre @ evs \<and> (if r = Inr () then evs \<in> {a @ b |a b. a \<in> F \<and> b \<in> G}
      else \<exists>f\<in>{a @ b |a b. a \<in> F \<and> b \<in> G}. strict_prefix evs f)"
  proof (cases rule: followed_by_cases)
    case (stopped e)
    with assms(1) obtain evs f where "post = pre @ evs" "f \<in> F" "strict_prefix evs f"
      unfolding does_def by (metis sum.distinct(1))
    moreover from assms(3) obtain g where "g \<in> G" by blast
    moreover have "strict_prefix evs (f @ g)"
      using \<open>strict_prefix evs f\<close> by (simp add: prefix_order.less_le_trans)
    ultimately show ?thesis using stopped(2) by auto
  next
    case (went_on mid)
    with assms(1) obtain a where a: "mid = pre @ a" "a \<in> F" unfolding does_def by metis
    from assms(2) went_on(2) obtain b where b: "post = mid @ b"
      "if r = Inr () then b \<in> G else \<exists>g\<in>G. strict_prefix b g"
      unfolding does_def by blast
    show ?thesis
    proof (cases "r = Inr ()")
      case True
      with a b show ?thesis by auto
    next
      case False
      with b obtain g where "g \<in> G" "strict_prefix b g" by auto
      then have "strict_prefix (a @ b) (a @ g)" by (simp add: strict_prefix_def)
      with a b False \<open>g \<in> G\<close> show ?thesis by (intro exI [of _ "a @ b"]) auto
    qed
  qed
qed

definition database_trace :: "string \<Rightarrow> string \<Rightarrow> 'addr effect list" where
  "database_trace data database =
     [Made_dirs data, Opened_database database, Connected, Set_busy_timeout 5, Set_journal_wal, Created_schema]"

definition start_traces :: "string \<Rightarrow> string \<Rightarrow> string \<Rightarrow> 'addr config \<Rightarrow> 'addr effect list set" where
  "start_traces data database socket cfg =
     {database_trace data database @ [Bound_api (api_addr cfg)] @ stale @
        [Bound_admin socket, Restricted socket 384, Notified_ready] |stale. stale \<in> {[], [Removed_socket socket]}}"

lemmas does_parts = does_followed_by does_wrapped does_perform does_ignoring_perform does_notify_ready

lemma does_open_database: "does (open_database sp data database) {database_trace data database}"
proof -
  have "does (open_database sp data database) {a @ b |a b. a \<in> {[Made_dirs data]} \<and>
    b \<in> {a @ b |a b. a \<in> {[Opened_database database]} \<and> b \<in> {a @ b |a b. a \<in> {[Connected]} \<and>
    b \<in> {a @ b |a b. a \<in> {[Set_busy_timeout 5]} \<and> b \<in> {a @ b |a b. a \<in> {[Set_journal_wal]} \<and>
    b \<in> {[Created_schema]}}}}}}"
    unfolding open_database_def by (intro does_parts) auto
  then show ?thesis by (simp add: database_trace_def)
qed

lemma does_start_api:
  "does (start_api sp data database socket cfg) (start_traces data database socket cfg)"
proof -
  have "does (start_api sp data database socket cfg) {a @ b |a b. a \<in> {database_trace data database} \<and>
    b \<in> {a @ b |a b. a \<in> {[Bound_api (api_addr cfg)]} \<and> b \<in> {a @ b |a b.
      a \<in> {a @ b |a b. a \<in> {[], [Removed_socket socket]} \<and>
        b \<in> {a @ b |a b. a \<in> {[Bound_admin socket]} \<and> b \<in> {[Restricted socket 384]}}} \<and>
      b \<in> {[Notified_ready]}}}}"
    unfolding start_api_def bind_admin_socket_def by (intro does_parts does_open_database) auto
  also have "{a @ b |a b. a \<in> {database_trace data database} \<and>
    b \<in> {a @ b |a b. a \<in> {[Bound_api (api_addr cfg)]} \<and> b \<in> {a @ b |a b.
      a \<in> {a @ b |a b. a \<in> {[], [Removed_socket socket]} \<and>
        b \<in> {a @ b |a b. a \<in> {[Bound_admin socket]} \<and> b \<in> {[Restricted socket 384]}}} \<and>
      b \<in> {[Notified_ready]}}}} = start_traces data database socket cfg"
    by (rule set_eqI) (force simp: start_traces_def)
  finally show ?thesis .
qed

lemma notified_at_the_end:
  assumes "f \<in> start_traces data database socket cfg"
  shows "Notified_ready \<in> set f" and "strict_prefix evs f \<Longrightarrow> Notified_ready \<notin> set evs"
proof -
  from assms obtain xs where f: "f = xs @ [Notified_ready]" "Notified_ready \<notin> set xs"
    by (force simp: start_traces_def database_trace_def)
  then show "Notified_ready \<in> set f" by simp
  show "strict_prefix evs f \<Longrightarrow> Notified_ready \<notin> set evs"
    using f set_mono_prefix by (fastforce simp: strict_prefix_def prefix_snoc)
qed

text \<open>
  C9: the API service reports that it is ready exactly when its whole start succeeded, and that report is
  the last thing its start does: by then the database had been opened, set to its write-ahead log and given
  its schema, both listeners were bound, a stale admin socket was removed before the bind and the new one
  restricted to its owner, in this order.  A failed start stops at its first failure, before the report.
  The launched server registers the proxy as depending on this service.
\<close>

theorem api_ready_when_bound:
  assumes "launch_server show_addr (Inr cfg) base daemon pid_file upgrade_sock = Inr plan"
    and "start_api sp data database socket (ln_api_config plan) [] = (r, evs)"
  shows "(Notified_ready \<in> set evs \<longleftrightarrow> r = Inr ()) \<and> (''proxy'', ''api'') \<in> set (ln_waits_for plan) \<and>
    (if r = Inr ()
     then \<exists>stale. evs = [Made_dirs data, Opened_database database, Connected, Set_busy_timeout 5, Set_journal_wal,
         Created_schema, Bound_api (api_addr cfg)] @ stale @
         [Bound_admin socket, Restricted socket 384, Notified_ready] \<and> stale \<in> {[], [Removed_socket socket]}
     else \<exists>f\<in>start_traces data database socket cfg. strict_prefix evs f)"
proof -
  from assms(1) have plan: "ln_api_config plan = cfg" "ln_waits_for plan = [(''proxy'', ''api'')]"
    by (auto simp: launch_server_def Let_def rbind_eq_Inr)
  with assms(2) does_start_api [of sp data database socket cfg]
  have trace: "if r = Inr () then evs \<in> start_traces data database socket cfg
     else \<exists>f\<in>start_traces data database socket cfg. strict_prefix evs f"
    unfolding does_def by (metis append_Nil)
  then have "Notified_ready \<in> set evs \<longleftrightarrow> r = Inr ()"
    using notified_at_the_end by (metis (no_types))
  with plan trace show ?thesis by (auto simp: start_traces_def database_trace_def)
qed

definition demo_startup :: "string startup" where
  "demo_startup = \<lparr>sp_fault = (\<lambda>evs ev. if ev = Removed_socket ''admin.sock'' then Some ''not found'' else None),
     sp_debug = debug_str\<rparr>"

definition demo_conf :: server_conf where
  "demo_conf = \<lparr>pc_daemon = False, pc_pid_file = ''/tmp/pingora.pid'', pc_upgrade_sock = ''/tmp/up.sock'',
     pc_grace_period_seconds = 300, pc_shutdown_timeout_seconds = 0\<rparr>"

theorem api_ready_when_bound_witness:
  "\<exists>plan evs. launch_server id (Inr demo_cfg) (Some demo_conf) True ''pid'' ''sock'' = Inr plan \<and>
     start_api demo_startup ''d'' ''d/api.db'' ''admin.sock'' (ln_api_config plan) [] = (Inr (), evs) \<and>
     Notified_ready \<in> set evs \<and> [Made_dirs ''d'', Opened_database ''d/api.db'', Connected] = take 3 evs"
proof -
  obtain plan where plan: "launch_server id (Inr demo_cfg) (Some demo_conf) True ''pid'' ''sock'' = Inr plan"
    by (simp add: launch_server_def pingora_conf_def Let_def)
  obtain evs where start: "start_api demo_startup ''d'' ''d/api.db'' ''admin.sock'' (ln_api_config plan) [] =
      (Inr (), evs)"
    by (simp add: start_api_def bind_admin_socket_def open_database_def followed_by_def perform_def
        with_db_error_def expecting_def ignoring_def notify_ready_def demo_startup_def)
  from api_ready_when_bound [OF plan start] plan start show ?thesis by auto
qed

end
