(* ===== verification/Db_Ops.thy ===== *)
theory Db_Ops
  imports Db_Tables Api_Types
begin

text \<open>
  The operations of \<^verbatim>\<open>Db\<close> (\<^verbatim>\<open>apps/server/src/api/db/user.rs\<close>, \<^verbatim>\<open>invite.rs\<close>, \<^verbatim>\<open>project.rs\<close>,
  \<^verbatim>\<open>release.rs\<close>), statement by statement.  Random identifiers are built from eight random bytes in
  hexadecimal; the digits drawn are an argument.  The clock is read by the callers.
\<close>

section \<open>Structs\<close>

record user_info =
  ui_id :: string
  ui_name :: string
  ui_project_id :: "string option"
  ui_has_key :: bool
  ui_created_at :: u64

record auth_user =
  au_id :: string
  au_name :: string
  au_project_id :: "string option"

record project_info =
  pi_id :: string
  pi_name :: string
  pi_created_at :: u64

record release =
  rls_id :: string
  rls_project_id :: string
  rls_status :: release_status
  rls_message :: "string option"
  rls_error :: "string option"
  rls_created_at :: u64
  rls_updated_at :: u64

definition new_user_id :: "string \<Rightarrow> string" where
  "new_user_id hex_bytes = ''usr_'' @ hex_bytes"

definition new_project_id :: "string \<Rightarrow> string" where
  "new_project_id hex_bytes = ''prj_'' @ hex_bytes"

definition new_release_id :: "string \<Rightarrow> string" where
  "new_release_id hex_bytes = ''rel_'' @ hex_bytes"

definition unique_failed :: "string \<Rightarrow> string" where
  "unique_failed table = ''UNIQUE constraint failed: '' @ table"

section \<open>Users\<close>

definition user_id_by_name :: "string \<Rightarrow> string option dbm" where
  "user_id_by_name name =
     query (\<lambda>s. Inr (map_option usr_id (find (\<lambda>u. usr_name u = name) (users s))))"

definition insert_user :: "user_row \<Rightarrow> nat dbm" where
  "insert_user r = execute (\<lambda>s.
     case insert_user_row r (users s) of
       None \<Rightarrow> Inl (unique_failed ''users'')
     | Some rs \<Rightarrow> Inr (s\<lparr>users := rs\<rparr>, 1))"

definition create_user :: "string \<Rightarrow> string option \<Rightarrow> u64 \<Rightarrow> string \<Rightarrow> string option dbm" where
  "create_user name project_id now hex_bytes =
     dbind (user_id_by_name name) (\<lambda>existing.
       case existing of
         Some _ \<Rightarrow> dreturn None
       | None \<Rightarrow>
           let user_id = new_user_id hex_bytes in
           dbind (insert_user
               \<lparr>usr_id = user_id, usr_name = name, usr_public_key = None,
                usr_project_id = project_id, usr_created_at = as_i64 now\<rparr>)
             (\<lambda>_. dreturn (Some user_id)))"

definition user_of_row :: "user_row \<Rightarrow> user_info" where
  "user_of_row u =
     \<lparr>ui_id = usr_id u, ui_name = usr_name u, ui_project_id = usr_project_id u,
      ui_has_key = (usr_public_key u \<noteq> None), ui_created_at = as_u64 (usr_created_at u)\<rparr>"

definition list_users :: "user_info list dbm" where
  "list_users = query (\<lambda>s. Inr (map user_of_row
     (sort_key (\<lambda>u. (usr_created_at u, usr_name u)) (users s))))"

definition delete_invites_of :: "string \<Rightarrow> nat dbm" where
  "delete_invites_of user_id = execute (\<lambda>s. Inr
     (s\<lparr>invites := filter (\<lambda>i. inv_user_id i \<noteq> user_id) (invites s)\<rparr>,
      length (filter (\<lambda>i. inv_user_id i = user_id) (invites s))))"

definition delete_user :: "string \<Rightarrow> nat dbm" where
  "delete_user user_id = execute (\<lambda>s. Inr
     (s\<lparr>users := filter (\<lambda>u. usr_id u \<noteq> user_id) (users s)\<rparr>,
      length (filter (\<lambda>u. usr_id u = user_id) (users s))))"

definition remove_user :: "string \<Rightarrow> bool dbm" where
  "remove_user name =
     dbind (user_id_by_name name) (\<lambda>found.
       case found of
         None \<Rightarrow> dreturn False
       | Some user_id \<Rightarrow>
           dbind (delete_invites_of user_id) (\<lambda>_.
           dbind (delete_user user_id) (\<lambda>_. dreturn True)))"

definition auth_user_of_row :: "user_row \<Rightarrow> auth_user" where
  "auth_user_of_row u =
     \<lparr>au_id = usr_id u, au_name = usr_name u, au_project_id = usr_project_id u\<rparr>"

definition key_owner :: "string \<Rightarrow> (string \<times> auth_user) option dbm" where
  "key_owner key_id = query (\<lambda>s. Inr
     (case find (\<lambda>u. usr_id u = key_id \<and> usr_public_key u \<noteq> None) (users s) of
        None \<Rightarrow> None
      | Some u \<Rightarrow> map_option (\<lambda>k. (k, auth_user_of_row u)) (usr_public_key u)))"

section \<open>Invites\<close>

definition insert_invite :: "invite_row \<Rightarrow> nat dbm" where
  "insert_invite r = execute (\<lambda>s.
     case insert_invite_row r (invites s) of
       None \<Rightarrow> Inl (unique_failed ''invites'')
     | Some rs \<Rightarrow> Inr (s\<lparr>invites := rs\<rparr>, 1))"

definition create_invite :: "string \<Rightarrow> string \<Rightarrow> u64 \<Rightarrow> u64 \<Rightarrow> unit dbm" where
  "create_invite user_id token_hash now expires_at =
     dbind (insert_invite
         \<lparr>inv_token_hash = token_hash, inv_user_id = user_id, inv_expires_at = as_i64 expires_at,
          inv_redeemed_at = None, inv_created_at = as_i64 now\<rparr>)
       (\<lambda>_. dreturn ())"

text \<open>The three statements of a redemption.\<close>

definition redeemable :: "string \<Rightarrow> u64 \<Rightarrow> invite_row \<Rightarrow> bool" where
  "redeemable token_hash now i \<longleftrightarrow>
     inv_token_hash i = token_hash \<and> inv_redeemed_at i = None \<and> as_i64 now < inv_expires_at i"

definition mark_redeemed :: "string \<Rightarrow> u64 \<Rightarrow> db \<Rightarrow> db" where
  "mark_redeemed token_hash now s =
     s\<lparr>invites := map (\<lambda>i. if redeemable token_hash now i
                        then i\<lparr>inv_redeemed_at := Some (as_i64 now)\<rparr> else i) (invites s)\<rparr>"

definition consume_invite :: "string \<Rightarrow> u64 \<Rightarrow> nat dbm" where
  "consume_invite token_hash now = execute (\<lambda>s. Inr
     (mark_redeemed token_hash now s, length (filter (redeemable token_hash now) (invites s))))"

definition invite_user :: "string \<Rightarrow> string option dbm" where
  "invite_user token_hash = query (\<lambda>s. Inr
     (map_option inv_user_id (find (\<lambda>i. inv_token_hash i = token_hash) (invites s))))"

definition put_key :: "string \<Rightarrow> string \<Rightarrow> db \<Rightarrow> db" where
  "put_key user_id public_key s =
     s\<lparr>users := map (\<lambda>u. if usr_id u = user_id then u\<lparr>usr_public_key := Some public_key\<rparr> else u)
                  (users s)\<rparr>"

definition bind_key :: "string \<Rightarrow> string \<Rightarrow> nat dbm" where
  "bind_key user_id public_key = execute (\<lambda>s. Inr
     (put_key user_id public_key s, length (filter (\<lambda>u. usr_id u = user_id) (users s))))"

definition redeem_invite :: "string \<Rightarrow> string \<Rightarrow> u64 \<Rightarrow> string option dbm" where
  "redeem_invite token_hash public_key now =
     dbind (consume_invite token_hash now) (\<lambda>consumed.
       if consumed = 0 then dreturn None
       else dbind (invite_user token_hash) (\<lambda>row.
         case row of
           None \<Rightarrow> (\<lambda>s. (Inl ''redeemed invite row disappeared'', s))
         | Some user_id \<Rightarrow>
             dbind (bind_key user_id public_key) (\<lambda>_. dreturn (Some user_id))))"

section \<open>Projects\<close>

definition project_of_row :: "project_row \<Rightarrow> project_info" where
  "project_of_row p =
     \<lparr>pi_id = prow_id p, pi_name = prow_name p, pi_created_at = as_u64 (prow_created_at p)\<rparr>"

definition project_by_id :: "string \<Rightarrow> project_info option dbm" where
  "project_by_id ident =
     query (\<lambda>s. Inr (map_option project_of_row (find (\<lambda>p. prow_id p = ident) (projects s))))"

definition project_id_by_name :: "string \<Rightarrow> string option dbm" where
  "project_id_by_name name =
     query (\<lambda>s. Inr (map_option prow_id (find (\<lambda>p. prow_name p = name) (projects s))))"

definition insert_project :: "project_row \<Rightarrow> nat dbm" where
  "insert_project r = execute (\<lambda>s.
     case insert_project_row r (projects s) of
       None \<Rightarrow> Inl (unique_failed ''projects'')
     | Some rs \<Rightarrow> Inr (s\<lparr>projects := rs\<rparr>, 1))"

definition insert_new_project :: "string \<Rightarrow> string option \<Rightarrow> u64 \<Rightarrow> string \<Rightarrow> project_info option dbm"
where
  "insert_new_project name ident now hex_bytes =
     (let project_id = (case ident of Some i \<Rightarrow> i | None \<Rightarrow> new_project_id hex_bytes) in
      dbind (insert_project
          \<lparr>prow_id = project_id, prow_name = name, prow_created_at = as_i64 now\<rparr>)
        (\<lambda>_. dreturn (Some \<lparr>pi_id = project_id, pi_name = name, pi_created_at = now\<rparr>)))"

definition create_project ::
    "string \<Rightarrow> string option \<Rightarrow> u64 \<Rightarrow> string \<Rightarrow> project_info option dbm" where
  "create_project name ident now hex_bytes =
     dbind (project_id_by_name name) (\<lambda>same_name.
       case same_name of
         Some _ \<Rightarrow> dreturn None
       | None \<Rightarrow>
           (case ident of
              None \<Rightarrow> insert_new_project name ident now hex_bytes
            | Some i \<Rightarrow>
                dbind (project_by_id i) (\<lambda>same_id.
                  case same_id of
                    Some _ \<Rightarrow> dreturn None
                  | None \<Rightarrow> insert_new_project name ident now hex_bytes)))"

definition list_projects :: "project_info list dbm" where
  "list_projects = query (\<lambda>s. Inr (map project_of_row
     (sort_key (\<lambda>p. (prow_created_at p, prow_name p)) (projects s))))"

section \<open>Releases\<close>

definition insert_release :: "release_row \<Rightarrow> nat dbm" where
  "insert_release r = execute (\<lambda>s.
     case insert_release_row r (releases s) of
       None \<Rightarrow> Inl (unique_failed ''releases'')
     | Some rs \<Rightarrow> Inr (s\<lparr>releases := rs\<rparr>, 1))"

definition create_release ::
    "string \<Rightarrow> release_status \<Rightarrow> string option \<Rightarrow> u64 \<Rightarrow> string \<Rightarrow> release dbm" where
  "create_release project_id status message now hex_bytes =
     (let ident = new_release_id hex_bytes in
      dbind (insert_release
          \<lparr>rel_id = ident, rel_project_id = project_id, rel_status = status_as_str status,
           rel_message = message, rel_error = None, rel_created_at = as_i64 now,
           rel_updated_at = as_i64 now\<rparr>)
        (\<lambda>_. dreturn
          \<lparr>rls_id = ident, rls_project_id = project_id, rls_status = status,
           rls_message = message, rls_error = None, rls_created_at = now, rls_updated_at = now\<rparr>))"

definition set_release_status ::
    "string \<Rightarrow> release_status \<Rightarrow> string option \<Rightarrow> u64 \<Rightarrow> unit dbm" where
  "set_release_status ident status err now =
     dbind (execute (\<lambda>s. Inr
         (s\<lparr>releases := map (\<lambda>r. if rel_id r = ident
              then r\<lparr>rel_status := status_as_str status, rel_error := err,
                     rel_updated_at := as_i64 now\<rparr> else r) (releases s)\<rparr>,
          length (filter (\<lambda>r. rel_id r = ident) (releases s)))))
       (\<lambda>_. dreturn ())"

definition release_of_row :: "release_row \<Rightarrow> release result" where
  "release_of_row r =
     (case status_parse (rel_status r) of
        None \<Rightarrow> Inl (''unknown release status '' @ debug_str (rel_status r))
      | Some st \<Rightarrow> Inr
          \<lparr>rls_id = rel_id r, rls_project_id = rel_project_id r, rls_status = st,
           rls_message = rel_message r, rls_error = rel_error r,
           rls_created_at = as_u64 (rel_created_at r),
           rls_updated_at = as_u64 (rel_updated_at r)\<rparr>)"

fun releases_of_rows :: "release_row list \<Rightarrow> release list result" where
  "releases_of_rows [] = Inr []"
| "releases_of_rows (r # rs) =
     (case release_of_row r of
        Inl e \<Rightarrow> Inl e
      | Inr x \<Rightarrow> (case releases_of_rows rs of Inl e \<Rightarrow> Inl e | Inr xs \<Rightarrow> Inr (x # xs)))"

text \<open>\<^verbatim>\<open>ORDER BY created_at DESC, id DESC\<close>; ids are unique, so the order is the reversed ascending one.\<close>

definition list_releases :: "string \<Rightarrow> release list dbm" where
  "list_releases project_id = query (\<lambda>s. releases_of_rows
     (rev (sort_key (\<lambda>r. (rel_created_at r, rel_id r))
        (filter (\<lambda>r. rel_project_id r = project_id) (releases s)))))"

end
