(* ===== verification/Db_Columns.thy ===== *)
theory Db_Columns
  imports Db_Ops
begin

text \<open>
  The rows of the database as the driver returns them: values with a dynamic type, read by position
  (\<^verbatim>\<open>text_column\<close>, \<^verbatim>\<open>optional_text_column\<close>, \<^verbatim>\<open>integer_column\<close> of \<^verbatim>\<open>apps/server/src/api/db/mod.rs\<close>, and
  the decoding loops of \<^verbatim>\<open>user.rs\<close>, \<^verbatim>\<open>project.rs\<close>, \<^verbatim>\<open>release.rs\<close>).  The operations of \<^verbatim>\<open>Db_Ops\<close> work on
  typed rows; here they are shown to be what the code reads off the columns.
\<close>

section \<open>Values\<close>

text \<open>\<^verbatim>\<open>libsql::Value\<close>.\<close>

datatype column =
    Null
  | Integer i64
  | Real string
  | Text string
  | Blob string

text \<open>The driver: how a value prints with \<^verbatim>\<open>{:?}\<close>, and its error for a position that does not exist.\<close>

record driver =
  dr_show :: "column \<Rightarrow> string"
  dr_bad_position :: "nat \<Rightarrow> string"

definition get_value :: "driver \<Rightarrow> column list \<Rightarrow> nat \<Rightarrow> column result" where
  "get_value dr row index =
     (if index < length row then Inr (row ! index) else Inl (db_error (dr_bad_position dr index)))"

definition text_column :: "driver \<Rightarrow> column list \<Rightarrow> nat \<Rightarrow> string result" where
  "text_column dr row index =
     rbind (get_value dr row index) (\<lambda>v. case v of
       Text s \<Rightarrow> Inr s
     | other \<Rightarrow> Inl (''expected text in column '' @ show_nat index @ '', got '' @ dr_show dr other))"

definition optional_text_column :: "driver \<Rightarrow> column list \<Rightarrow> nat \<Rightarrow> string option result" where
  "optional_text_column dr row index =
     rbind (get_value dr row index) (\<lambda>v. case v of
       Text s \<Rightarrow> Inr (Some s)
     | Null \<Rightarrow> Inr None
     | other \<Rightarrow> Inl (''expected text or null in column '' @ show_nat index @ '', got '' @ dr_show dr other))"

definition integer_column :: "driver \<Rightarrow> column list \<Rightarrow> nat \<Rightarrow> i64 result" where
  "integer_column dr row index =
     rbind (get_value dr row index) (\<lambda>v. case v of
       Integer i \<Rightarrow> Inr i
     | other \<Rightarrow> Inl (''expected integer in column '' @ show_nat index @ '', got '' @ dr_show dr other))"

definition status_column :: "driver \<Rightarrow> column list \<Rightarrow> nat \<Rightarrow> release_status result" where
  "status_column dr row index =
     rbind (text_column dr row index) (\<lambda>text. case status_parse text of
       Some st \<Rightarrow> Inr st
     | None \<Rightarrow> Inl (''unknown release status '' @ debug_str text))"

section \<open>Tables\<close>

text \<open>
  The columns of a table: name, type, and whether a row may hold NULL there.  (SQLite lets a TEXT
  primary key be NULL; every insert of the code gives it, so it is listed without.)
\<close>

datatype column_type = T_text | T_integer

type_synonym columns = "(string \<times> column_type \<times> bool) list"

definition USERS :: columns where
  "USERS = [(''id'', T_text, False), (''name'', T_text, False), (''public_key'', T_text, True),
     (''project_id'', T_text, True), (''created_at'', T_integer, False)]"

definition PROJECTS :: columns where
  "PROJECTS = [(''id'', T_text, False), (''name'', T_text, False), (''created_at'', T_integer, False)]"

definition INVITES :: columns where
  "INVITES = [(''token_hash'', T_text, False), (''user_id'', T_text, False),
     (''expires_at'', T_integer, False), (''redeemed_at'', T_integer, True), (''created_at'', T_integer, False)]"

definition RELEASES :: columns where
  "RELEASES = [(''id'', T_text, False), (''project_id'', T_text, False), (''status'', T_text, False),
     (''message'', T_text, True), (''error'', T_text, True), (''created_at'', T_integer, False),
     (''updated_at'', T_integer, False)]"

fun fits :: "column_type \<Rightarrow> bool \<Rightarrow> column \<Rightarrow> bool" where
  "fits T_text nullable (Text s) = True"
| "fits T_integer nullable (Integer i) = True"
| "fits ty nullable Null = nullable"
| "fits ty nullable v = False"

definition conforms :: "columns \<Rightarrow> column list \<Rightarrow> bool" where
  "conforms cols row = list_all2 (\<lambda>(n, ty, nullable) v. fits ty nullable v) cols row"

text \<open>\<^verbatim>\<open>SELECT\<close> of columns by name, in the order of the names.\<close>

definition select_columns :: "string list \<Rightarrow> columns \<Rightarrow> column list \<Rightarrow> column list" where
  "select_columns names cols row =
     map (\<lambda>n. case map_of (zip (map fst cols) row) n of Some v \<Rightarrow> v | None \<Rightarrow> Null) names"

fun opt_text :: "string option \<Rightarrow> column" where
  "opt_text None = Null"
| "opt_text (Some s) = Text s"

definition user_columns :: "user_row \<Rightarrow> column list" where
  "user_columns u = [Text (usr_id u), Text (usr_name u), opt_text (usr_public_key u),
     opt_text (usr_project_id u), Integer (usr_created_at u)]"

definition invite_columns :: "invite_row \<Rightarrow> column list" where
  "invite_columns i = [Text (inv_token_hash i), Text (inv_user_id i), Integer (inv_expires_at i),
     (case inv_redeemed_at i of None \<Rightarrow> Null | Some t \<Rightarrow> Integer t), Integer (inv_created_at i)]"

definition project_columns :: "project_row \<Rightarrow> column list" where
  "project_columns p = [Text (prow_id p), Text (prow_name p), Integer (prow_created_at p)]"

definition release_columns :: "release_row \<Rightarrow> column list" where
  "release_columns r = [Text (rel_id r), Text (rel_project_id r), Text (rel_status r),
     opt_text (rel_message r), opt_text (rel_error r), Integer (rel_created_at r),
     Integer (rel_updated_at r)]"

section \<open>Decoding\<close>

text \<open>\<^verbatim>\<open>while let Some(row) = rows.next()\<close>, with the first error ending the loop.\<close>

fun decode_rows :: "(column list \<Rightarrow> 'a result) \<Rightarrow> column list list \<Rightarrow> 'a list result" where
  "decode_rows decode [] = Inr []"
| "decode_rows decode (row # rows) =
     rbind (decode row) (\<lambda>x. rbind (decode_rows decode rows) (\<lambda>xs. Inr (x # xs)))"

definition user_of_columns :: "driver \<Rightarrow> column list \<Rightarrow> user_info result" where
  "user_of_columns dr row =
     rbind (text_column dr row 0) (\<lambda>i.
     rbind (text_column dr row 1) (\<lambda>name.
     rbind (optional_text_column dr row 2) (\<lambda>project.
     rbind (get_value dr row 3) (\<lambda>key.
     rbind (integer_column dr row 4) (\<lambda>created. Inr
       \<lparr>ui_id = i, ui_name = name, ui_project_id = project, ui_has_key = (key \<noteq> Null),
        ui_created_at = as_u64 created\<rparr>)))))"

definition key_owner_of_columns :: "driver \<Rightarrow> column list \<Rightarrow> (string \<times> auth_user) result" where
  "key_owner_of_columns dr row =
     rbind (text_column dr row 0) (\<lambda>key.
     rbind (text_column dr row 1) (\<lambda>i.
     rbind (text_column dr row 2) (\<lambda>name.
     rbind (optional_text_column dr row 3) (\<lambda>project. Inr
       (key, \<lparr>au_id = i, au_name = name, au_project_id = project\<rparr>)))))"

definition project_of_columns :: "driver \<Rightarrow> column list \<Rightarrow> project_info result" where
  "project_of_columns dr row =
     rbind (text_column dr row 0) (\<lambda>i.
     rbind (text_column dr row 1) (\<lambda>name.
     rbind (integer_column dr row 2) (\<lambda>created. Inr
       \<lparr>pi_id = i, pi_name = name, pi_created_at = as_u64 created\<rparr>)))"

definition release_of_columns :: "driver \<Rightarrow> column list \<Rightarrow> release result" where
  "release_of_columns dr row =
     rbind (text_column dr row 0) (\<lambda>i.
     rbind (text_column dr row 1) (\<lambda>project.
     rbind (status_column dr row 2) (\<lambda>st.
     rbind (optional_text_column dr row 3) (\<lambda>message.
     rbind (optional_text_column dr row 4) (\<lambda>err.
     rbind (integer_column dr row 5) (\<lambda>created.
     rbind (integer_column dr row 6) (\<lambda>updated. Inr
       \<lparr>rls_id = i, rls_project_id = project, rls_status = st, rls_message = message,
        rls_error = err, rls_created_at = as_u64 created, rls_updated_at = as_u64 updated\<rparr>)))))))"

section \<open>The queries\<close>

definition user_fields :: "string list" where
  "user_fields = [''id'', ''name'', ''project_id'', ''public_key'', ''created_at'']"

definition key_owner_fields :: "string list" where
  "key_owner_fields = [''public_key'', ''id'', ''name'', ''project_id'']"

definition project_fields :: "string list" where
  "project_fields = [''id'', ''name'', ''created_at'']"

definition release_fields :: "string list" where
  "release_fields = [''id'', ''project_id'', ''status'', ''message'', ''error'', ''created_at'', ''updated_at'']"

definition read_users :: "driver \<Rightarrow> user_info list dbm" where
  "read_users dr = query (\<lambda>s. decode_rows (user_of_columns dr)
     (map (select_columns user_fields USERS \<circ> user_columns)
       (sort_key (\<lambda>u. (usr_created_at u, usr_name u)) (users s))))"

text \<open>At most the first row is decoded.\<close>

definition decode_first :: "(column list \<Rightarrow> 'a result) \<Rightarrow> column list list \<Rightarrow> 'a option result" where
  "decode_first decode rows =
     (case rows of [] \<Rightarrow> Inr None | row # _ \<Rightarrow> rbind (decode row) (\<lambda>x. Inr (Some x)))"

definition read_key_owner :: "driver \<Rightarrow> string \<Rightarrow> (string \<times> auth_user) option dbm" where
  "read_key_owner dr key_id = query (\<lambda>s. decode_first (key_owner_of_columns dr)
     (map (select_columns key_owner_fields USERS \<circ> user_columns)
       (filter (\<lambda>u. usr_id u = key_id \<and> usr_public_key u \<noteq> None) (users s))))"

definition read_user_id :: "driver \<Rightarrow> string \<Rightarrow> string option dbm" where
  "read_user_id dr name = query (\<lambda>s. decode_first (\<lambda>row. text_column dr row 0)
     (map (select_columns [''id''] USERS \<circ> user_columns) (filter (\<lambda>u. usr_name u = name) (users s))))"

definition read_invite_user :: "driver \<Rightarrow> string \<Rightarrow> string option dbm" where
  "read_invite_user dr token_hash = query (\<lambda>s. decode_first (\<lambda>row. text_column dr row 0)
     (map (select_columns [''user_id''] INVITES \<circ> invite_columns)
       (filter (\<lambda>i. inv_token_hash i = token_hash) (invites s))))"

definition read_project :: "driver \<Rightarrow> string \<Rightarrow> project_info option dbm" where
  "read_project dr ident = query (\<lambda>s. decode_first (project_of_columns dr)
     (map (select_columns project_fields PROJECTS \<circ> project_columns)
       (filter (\<lambda>p. prow_id p = ident) (projects s))))"

definition read_project_id :: "driver \<Rightarrow> string \<Rightarrow> string option dbm" where
  "read_project_id dr name = query (\<lambda>s. decode_first (\<lambda>row. text_column dr row 0)
     (map (select_columns [''id''] PROJECTS \<circ> project_columns)
       (filter (\<lambda>p. prow_name p = name) (projects s))))"

definition read_projects :: "driver \<Rightarrow> project_info list dbm" where
  "read_projects dr = query (\<lambda>s. decode_rows (project_of_columns dr)
     (map (select_columns project_fields PROJECTS \<circ> project_columns)
       (sort_key (\<lambda>p. (prow_created_at p, prow_name p)) (projects s))))"

definition read_releases :: "driver \<Rightarrow> string \<Rightarrow> release list dbm" where
  "read_releases dr project_id = query (\<lambda>s. decode_rows (release_of_columns dr)
     (map (select_columns release_fields RELEASES \<circ> release_columns)
       (rev (sort_key (\<lambda>r. (rel_created_at r, rel_id r))
         (filter (\<lambda>r. rel_project_id r = project_id) (releases s))))))"

section \<open>Typed rows are what is stored and read\<close>

lemmas column_reads = text_column_def optional_text_column_def integer_column_def status_column_def
  get_value_def

lemma opt_text_cases [simp]:
  "(case opt_text v of Null \<Rightarrow> Inr None | Integer x \<Rightarrow> f1 x | Real y \<Rightarrow> f2 y | Text s \<Rightarrow> Inr (Some s)
     | Blob z \<Rightarrow> f3 z) = Inr v"
  "(opt_text v = Null) = (v = None)"
  by (cases v; simp)+

lemma selected:
  "select_columns user_fields USERS (user_columns u) = [Text (usr_id u), Text (usr_name u),
     opt_text (usr_project_id u), opt_text (usr_public_key u), Integer (usr_created_at u)]"
  "select_columns key_owner_fields USERS (user_columns u) = [opt_text (usr_public_key u), Text (usr_id u),
     Text (usr_name u), opt_text (usr_project_id u)]"
  "select_columns [''id''] USERS (user_columns u) = [Text (usr_id u)]"
  "select_columns [''user_id''] INVITES (invite_columns i) = [Text (inv_user_id i)]"
  "select_columns project_fields PROJECTS (project_columns p) = project_columns p"
  "select_columns [''id''] PROJECTS (project_columns p) = [Text (prow_id p)]"
  "select_columns release_fields RELEASES (release_columns r) = release_columns r"
  by (simp_all add: select_columns_def user_fields_def key_owner_fields_def project_fields_def
      release_fields_def USERS_def INVITES_def PROJECTS_def RELEASES_def user_columns_def
      invite_columns_def project_columns_def release_columns_def)

lemma decoded:
  "user_of_columns dr (select_columns user_fields USERS (user_columns u)) = Inr (user_of_row u)"
  "usr_public_key u = Some k \<Longrightarrow>
     key_owner_of_columns dr (select_columns key_owner_fields USERS (user_columns u)) =
       Inr (k, auth_user_of_row u)"
  "project_of_columns dr (select_columns project_fields PROJECTS (project_columns p)) =
     Inr (project_of_row p)"
  "release_of_columns dr (select_columns release_fields RELEASES (release_columns r)) = release_of_row r"
  unfolding selected
  by (simp_all add: user_of_columns_def user_of_row_def key_owner_of_columns_def auth_user_of_row_def
      project_of_columns_def project_of_row_def project_columns_def release_of_columns_def
      release_of_row_def release_columns_def column_reads split: option.split)

lemma decode_rows_map: "(\<And>x. decode (f x) = Inr (g x)) \<Longrightarrow> decode_rows decode (map f xs) = Inr (map g xs)"
  by (induction xs) simp_all

lemma decode_first_map:
  "(\<And>x. P x \<Longrightarrow> decode (f x) = Inr (g x)) \<Longrightarrow>
     decode_first decode (map f (filter P xs)) = Inr (map_option g (find P xs))"
  by (induction xs) (auto simp: decode_first_def)

lemma decode_releases:
  "decode_rows (release_of_columns dr) (map (select_columns release_fields RELEASES \<circ> release_columns) rs) =
     releases_of_rows rs"
  using decoded(4) [of dr] by (induction rs) (simp_all add: o_def split: sum.split)

lemma key_owner_find:
  "decode_first (key_owner_of_columns dr) (map (select_columns key_owner_fields USERS \<circ> user_columns)
       (filter (\<lambda>u. usr_id u = i \<and> usr_public_key u \<noteq> None) us)) =
     Inr (case find (\<lambda>u. usr_id u = i \<and> usr_public_key u \<noteq> None) us of None \<Rightarrow> None
       | Some u \<Rightarrow> map_option (\<lambda>k. (k, auth_user_of_row u)) (usr_public_key u))"
  using decoded(2) by (induction us) (auto simp: decode_first_def)

lemma typed_queries:
  "read_users dr = list_users"
  "read_key_owner dr i = key_owner i"
  "read_user_id dr n = user_id_by_name n"
  "read_invite_user dr h = invite_user h"
  "read_project dr i = project_by_id i"
  "read_project_id dr n = project_id_by_name n"
  "read_projects dr = list_projects"
  "read_releases dr i = list_releases i"
  unfolding read_users_def list_users_def read_key_owner_def key_owner_def read_user_id_def
    user_id_by_name_def read_invite_user_def invite_user_def read_project_def project_by_id_def
    read_project_id_def project_id_by_name_def read_projects_def list_projects_def read_releases_def
    list_releases_def key_owner_find decode_releases
  by (simp_all add: decode_rows_map decode_first_map decoded o_def)
    (simp_all add: selected decode_first_map column_reads)

text \<open>A row has the declared types exactly when it is the columns of a typed row.\<close>

lemma fits_iff:
  "fits T_text False v \<longleftrightarrow> (\<exists>s. v = Text s)"
  "fits T_text True v \<longleftrightarrow> (\<exists>w. v = opt_text w)"
  "fits T_integer False v \<longleftrightarrow> (\<exists>i. v = Integer i)"
  "fits T_integer True v \<longleftrightarrow> (\<exists>w. v = (case w of None \<Rightarrow> Null | Some i \<Rightarrow> Integer i))"
  by (cases v; simp add: split_option_ex)+

lemma conforms_iff:
  "conforms USERS row \<longleftrightarrow> (\<exists>u. row = user_columns u)"
  "conforms INVITES row \<longleftrightarrow> (\<exists>i. row = invite_columns i)"
  "conforms PROJECTS row \<longleftrightarrow> (\<exists>p. row = project_columns p)"
  "conforms RELEASES row \<longleftrightarrow> (\<exists>r. row = release_columns r)"
proof -
  show "conforms USERS row \<longleftrightarrow> (\<exists>u. row = user_columns u)"
  proof
    assume "conforms USERS row"
    then obtain i n k p c where "row = [Text i, Text n, opt_text k, opt_text p, Integer c]"
      by (auto simp: conforms_def USERS_def list_all2_Cons1 fits_iff)
    then have "row = user_columns \<lparr>usr_id = i, usr_name = n, usr_public_key = k, usr_project_id = p,
        usr_created_at = c\<rparr>" by (simp add: user_columns_def)
    then show "\<exists>u. row = user_columns u" ..
  qed (auto simp: conforms_def USERS_def user_columns_def fits_iff)
  show "conforms INVITES row \<longleftrightarrow> (\<exists>i. row = invite_columns i)"
  proof
    assume "conforms INVITES row"
    then obtain h i e r c where "row = [Text h, Text i, Integer e,
        (case r of None \<Rightarrow> Null | Some i \<Rightarrow> Integer i), Integer c]"
      by (auto simp: conforms_def INVITES_def list_all2_Cons1 fits_iff)
    then have "row = invite_columns \<lparr>inv_token_hash = h, inv_user_id = i, inv_expires_at = e,
        inv_redeemed_at = r, inv_created_at = c\<rparr>" by (simp add: invite_columns_def)
    then show "\<exists>i. row = invite_columns i" ..
  qed (auto simp: conforms_def INVITES_def invite_columns_def fits_iff)
  show "conforms PROJECTS row \<longleftrightarrow> (\<exists>p. row = project_columns p)"
  proof
    assume "conforms PROJECTS row"
    then obtain i n c where "row = [Text i, Text n, Integer c]"
      by (auto simp: conforms_def PROJECTS_def list_all2_Cons1 fits_iff)
    then have "row = project_columns \<lparr>prow_id = i, prow_name = n, prow_created_at = c\<rparr>"
      by (simp add: project_columns_def)
    then show "\<exists>p. row = project_columns p" ..
  qed (auto simp: conforms_def PROJECTS_def project_columns_def fits_iff)
  show "conforms RELEASES row \<longleftrightarrow> (\<exists>r. row = release_columns r)"
  proof
    assume "conforms RELEASES row"
    then obtain i p st m e c u where
      "row = [Text i, Text p, Text st, opt_text m, opt_text e, Integer c, Integer u]"
      by (auto simp: conforms_def RELEASES_def list_all2_Cons1 fits_iff)
    then have "row = release_columns \<lparr>rel_id = i, rel_project_id = p, rel_status = st, rel_message = m,
        rel_error = e, rel_created_at = c, rel_updated_at = u\<rparr>" by (simp add: release_columns_def)
    then show "\<exists>r. row = release_columns r" ..
  qed (auto simp: conforms_def RELEASES_def release_columns_def fits_iff)
qed

text \<open>
  C29: the tables are read with the right types: a row conforms to the declared columns exactly when it
  is a typed row, and every query, which takes its values by position from the columns it selects by
  name and checks their types on the way, answers what the typed model of the query answers; no read of
  a conforming row ends in a type error.
\<close>

theorem queries_are_typed:
  "((conforms USERS row = (\<exists>u. row = user_columns u)) \<and> (conforms INVITES row = (\<exists>i. row = invite_columns i)) \<and>
    (conforms PROJECTS row = (\<exists>p. row = project_columns p)) \<and>
    (conforms RELEASES row = (\<exists>r. row = release_columns r))) \<and>
   read_users dr = list_users \<and> read_key_owner dr i = key_owner i \<and>
   read_user_id dr n = user_id_by_name n \<and> read_invite_user dr h = invite_user h \<and>
   read_project dr i = project_by_id i \<and> read_project_id dr n = project_id_by_name n \<and>
   read_projects dr = list_projects \<and> read_releases dr i = list_releases i"
  by (intro conjI conforms_iff typed_queries)

end
