(* ===== verification/Db_Inv.thy ===== *)
theory Db_Inv
  imports Db_Ops
begin

text \<open>
  What each database operation does on every branch, failures included: the value it returns, the
  tables it leaves (up to the schedule of faults), and what that says of the tables it started from.
\<close>

section \<open>Outcomes of the operations\<close>

lemma find_None_notin: "find (\<lambda>x. f x = v) xs = None \<longleftrightarrow> v \<notin> f ` set xs"
  by (auto simp: find_None_iff)

lemma find_Some_in: "find P xs = Some x \<Longrightarrow> x \<in> set xs \<and> P x"
  by (auto simp: find_Some_iff)

lemma user_id_by_name_cases:
  assumes "user_id_by_name name s = (r, t)"
  obtains (fault) e where "r = Inl e" and "same_tables s t"
    | (none) "r = Inr None" and "same_tables s t" and "name \<notin> usr_name ` set (users s)"
    | (found) u where "r = Inr (Some (usr_id u))" and "same_tables s t" and "u \<in> set (users s)"
        and "usr_name u = name"
  using assms unfolding user_id_by_name_def
proof (cases rule: query_cases)
  case (run s0)
  then show thesis
    using none found
    by (cases "find (\<lambda>u. usr_name u = name) (users s0)")
      (auto simp: find_None_notin same_tables_iff dest!: find_Some_in)
qed (use fault in blast)

lemma insert_user_cases:
  assumes "insert_user row s = (r, t)"
  obtains (failed) e where "r = Inl e" and "same_tables s t"
    | (inserted) "r = Inr 1" and "same_tables (s\<lparr>users := users s @ [row]\<rparr>) t"
        and "usr_id row \<notin> usr_id ` set (users s)" and "usr_name row \<notin> usr_name ` set (users s)"
  using assms unfolding insert_user_def
proof (cases rule: execute_cases)
  case (run s0 n)
  then obtain rs where rs: "insert_user_row row (users s0) = Some rs"
    and t: "t = s0\<lparr>users := rs\<rparr>" and n: "n = 1"
    by (auto split: option.splits)
  from users_table.inserted [OF rs] run(1) t n run(3) show thesis
    by (intro inserted) (auto simp: same_tables_iff)
qed (use failed in blast)

definition new_user_row :: "string \<Rightarrow> string option \<Rightarrow> u64 \<Rightarrow> string \<Rightarrow> user_row" where
  "new_user_row name project_id now hex_bytes =
     \<lparr>usr_id = new_user_id hex_bytes, usr_name = name, usr_public_key = None,
      usr_project_id = project_id, usr_created_at = as_i64 now\<rparr>"

lemma create_user_cases:
  assumes "create_user name pid now hx s = (r, t)"
  obtains (failed) e where "r = Inl e" and "same_tables s t"
    | (exists) "r = Inr None" and "same_tables s t" and "name \<in> usr_name ` set (users s)"
    | (created) "r = Inr (Some (new_user_id hx))"
        and "same_tables (s\<lparr>users := users s @ [new_user_row name pid now hx]\<rparr>) t"
        and "new_user_id hx \<notin> usr_id ` set (users s)" and "name \<notin> usr_name ` set (users s)"
proof -
  obtain r1 s1 where q: "user_id_by_name name s = (r1, s1)" by fastforce
  then show thesis
  proof (cases rule: user_id_by_name_cases)
    case (fault e)
    with q assms show thesis by (intro failed) (auto simp: create_user_def dbind_def)
  next
    case (found u)
    with q assms show thesis by (intro exists) (auto simp: create_user_def dbind_def dreturn_def)
  next
    case none
    obtain r2 s2 where i: "insert_user (new_user_row name pid now hx) s1 = (r2, s2)" by fastforce
    have step: "create_user name pid now hx s
        = dbind (insert_user (new_user_row name pid now hx)) (\<lambda>_. dreturn (Some (new_user_id hx))) s1"
      using q none(1) by (simp add: create_user_def dbind_def new_user_row_def Let_def)
    from i show thesis
    proof (cases rule: insert_user_cases)
      case (failed e)
      with i step assms none(2) show thesis
        by (intro that(1)) (auto simp: dbind_def intro: same_tables_trans)
    next
      case inserted
      with i step assms none(2,3) show thesis
        by (intro created) (auto simp: dbind_def dreturn_def same_tables_iff new_user_row_def)
    qed
  qed
qed

lemma insert_invite_cases:
  assumes "insert_invite row s = (r, t)"
  obtains (failed) e where "r = Inl e" and "same_tables s t"
    | (inserted) "r = Inr 1" and "same_tables (s\<lparr>invites := invites s @ [row]\<rparr>) t"
        and "inv_token_hash row \<notin> inv_token_hash ` set (invites s)"
  using assms unfolding insert_invite_def
proof (cases rule: execute_cases)
  case (run s0 n)
  then obtain rs where rs: "insert_invite_row row (invites s0) = Some rs"
    and t: "t = s0\<lparr>invites := rs\<rparr>" and n: "n = 1"
    by (auto split: option.splits)
  from invites_table.inserted [OF rs] run(1) t n run(3) show thesis
    by (intro inserted) (auto simp: same_tables_iff)
qed (use failed in blast)

definition new_invite_row :: "string \<Rightarrow> string \<Rightarrow> u64 \<Rightarrow> u64 \<Rightarrow> invite_row" where
  "new_invite_row user_id th now expires_at =
     \<lparr>inv_token_hash = th, inv_user_id = user_id, inv_expires_at = as_i64 expires_at,
      inv_redeemed_at = None, inv_created_at = as_i64 now\<rparr>"

lemma create_invite_cases:
  assumes "create_invite user_id th now ex s = (r, t)"
  obtains (failed) e where "r = Inl e" and "same_tables s t"
    | (created) "r = Inr ()"
        and "same_tables (s\<lparr>invites := invites s @ [new_invite_row user_id th now ex]\<rparr>) t"
        and "th \<notin> inv_token_hash ` set (invites s)"
proof -
  obtain r1 s1 where i: "insert_invite (new_invite_row user_id th now ex) s = (r1, s1)" by fastforce
  have step: "create_invite user_id th now ex s
      = dbind (insert_invite (new_invite_row user_id th now ex)) (\<lambda>_. dreturn ()) s"
    by (simp add: create_invite_def new_invite_row_def)
  from i show thesis
  proof (cases rule: insert_invite_cases)
    case (failed e)
    with i step assms show thesis by (intro that(1)) (auto simp: dbind_def)
  next
    case inserted
    with i step assms show thesis
      by (intro created) (auto simp: dbind_def dreturn_def new_invite_row_def)
  qed
qed

lemma execute_total_cases:
  assumes "execute (\<lambda>s. Inr (g s, c s)) s = (r, t)"
  obtains (fault) e where "r = Inl e" and "same_tables s t"
    | (run) s0 where "same_tables s s0" and "r = Inr (c s0)" and "t = g s0"
  using assms by (cases rule: execute_cases) auto

definition drop_user :: "string \<Rightarrow> db \<Rightarrow> db" where
  "drop_user user_id s = s\<lparr>users := filter (\<lambda>u. usr_id u \<noteq> user_id) (users s)\<rparr>"

definition drop_invites :: "string \<Rightarrow> db \<Rightarrow> db" where
  "drop_invites user_id s = s\<lparr>invites := filter (\<lambda>i. inv_user_id i \<noteq> user_id) (invites s)\<rparr>"

lemma remove_user_cases:
  assumes "remove_user name s = (r, t)"
  obtains (failed) e where "r = Inl e" and "same_tables s t"
    | (half) e u where "r = Inl e" and "same_tables (drop_invites (usr_id u) s) t"
        and "u \<in> set (users s)" and "usr_name u = name"
    | (unknown) "r = Inr False" and "same_tables s t" and "name \<notin> usr_name ` set (users s)"
    | (removed) u where "r = Inr True"
        and "same_tables (drop_user (usr_id u) (drop_invites (usr_id u) s)) t"
        and "u \<in> set (users s)" and "usr_name u = name"
proof -
  obtain r1 s1 where q: "user_id_by_name name s = (r1, s1)" by fastforce
  then show thesis
  proof (cases rule: user_id_by_name_cases)
    case (fault e)
    with q assms show thesis by (intro failed) (auto simp: remove_user_def dbind_def)
  next
    case none
    with q assms show thesis by (intro unknown) (auto simp: remove_user_def dbind_def dreturn_def)
  next
    case (found u)
    obtain r2 s2 where i: "delete_invites_of (usr_id u) s1 = (r2, s2)" by fastforce
    obtain r3 s3 where d: "delete_user (usr_id u) s2 = (r3, s3)" by fastforce
    have step: "remove_user name s
        = dbind (delete_invites_of (usr_id u)) (\<lambda>_. dbind (delete_user (usr_id u)) (\<lambda>_. dreturn True)) s1"
      using q found(1) by (simp add: remove_user_def dbind_def)
    from i [unfolded delete_invites_of_def] show thesis
    proof (cases rule: execute_total_cases)
      case (fault e)
      with i step assms found(2) show thesis
        by (intro failed) (auto simp: dbind_def intro: same_tables_trans)
    next
      case (run s0)
      then have s2: "same_tables (drop_invites (usr_id u) s) s2"
        using found(2) by (simp add: same_tables_iff drop_invites_def)
      have rest: "remove_user name s = dbind (delete_user (usr_id u)) (\<lambda>_. dreturn True) s2"
        using i step run(2) by (simp add: dbind_def)
      from d [unfolded delete_user_def] show thesis
      proof (cases rule: execute_total_cases)
        case (fault e)
        with d rest assms s2 found(3,4) show thesis
          by (intro half [of e u]) (auto simp: dbind_def intro: same_tables_trans)
      next
        case (run s0)
        with d rest assms s2 found(3,4) show thesis
          by (intro removed [of u])
            (auto simp: dbind_def dreturn_def same_tables_iff drop_user_def)
      qed
    qed
  qed
qed

lemma redeemable_same: "same_tables s s0 \<Longrightarrow> invites s0 = invites s"
  by (simp add: same_tables_iff)

lemma find_mark_redeemed:
  "find (\<lambda>i. inv_token_hash i = th) (invites (mark_redeemed th now s)) =
     map_option (\<lambda>i. if redeemable th now i then i\<lparr>inv_redeemed_at := Some (as_i64 now)\<rparr> else i)
       (find (\<lambda>i. inv_token_hash i = th) (invites s))"
proof -
  have "find (\<lambda>i. inv_token_hash i = th)
      (map (\<lambda>i. if redeemable th now i then i\<lparr>inv_redeemed_at := Some (as_i64 now)\<rparr> else i) is)
    = map_option (\<lambda>i. if redeemable th now i then i\<lparr>inv_redeemed_at := Some (as_i64 now)\<rparr> else i)
        (find (\<lambda>i. inv_token_hash i = th) is)" for "is"
    by (induction "is") auto
  then show ?thesis by (simp add: mark_redeemed_def)
qed

lemma mark_redeemed_same: "same_tables s s0 \<Longrightarrow> same_tables (mark_redeemed th now s) (mark_redeemed th now s0)"
  by (simp add: same_tables_iff mark_redeemed_def)

lemma redeem_invite_cases:
  assumes "redeem_invite th key now s = (r, t)"
  obtains (failed) e where "r = Inl e" and "same_tables s t"
    | (half) e where "r = Inl e" and "same_tables (mark_redeemed th now s) t"
    | (refused) "r = Inr None" and "same_tables s t"
        and "\<forall>i \<in> set (invites s). \<not> redeemable th now i"
    | (redeemed) i where "r = Inr (Some (inv_user_id i))"
        and "same_tables (put_key (inv_user_id i) key (mark_redeemed th now s)) t"
        and "find (\<lambda>i. inv_token_hash i = th) (invites s) = Some i"
        and "\<exists>j \<in> set (invites s). redeemable th now j"
proof -
  obtain r1 s1 where c: "consume_invite th now s = (r1, s1)" by fastforce
  from c [unfolded consume_invite_def] show thesis
  proof (cases rule: execute_total_cases)
    case (fault e)
    with c assms show thesis by (intro failed) (auto simp: redeem_invite_def dbind_def)
  next
    case (run s0)
    have inv0: "invites s0 = invites s" using run(1) by (simp add: same_tables_iff)
    have s1: "same_tables (mark_redeemed th now s) s1"
      using run(1,3) by (simp add: mark_redeemed_same)
    show thesis
    proof (cases "\<exists>i \<in> set (invites s). redeemable th now i")
      case False
      then have none: "filter (redeemable th now) (invites s) = []"
        by (auto simp: filter_empty_conv)
      then have "mark_redeemed th now s0 = s0"
        using inv0 False by (cases s0) (auto simp: mark_redeemed_def intro!: map_idI)
      then have "redeem_invite th key now s = (Inr None, s0)"
        using c run(2,3) none inv0 by (simp add: redeem_invite_def dbind_def dreturn_def)
      with assms run(1) False show thesis by (intro refused) auto
    next
      case True
      then have pos: "length (filter (redeemable th now) (invites s0)) \<noteq> 0"
        using inv0 by (auto simp: filter_empty_conv)
      obtain r2 s2 where q: "invite_user th s1 = (r2, s2)" by fastforce
      have step: "redeem_invite th key now s = dbind (invite_user th)
          (\<lambda>row. case row of None \<Rightarrow> (\<lambda>s. (Inl ''redeemed invite row disappeared'', s))
             | Some uid \<Rightarrow> dbind (bind_key uid key) (\<lambda>_. dreturn (Some uid))) s1"
        using c run(2) pos by (simp add: redeem_invite_def dbind_Inr)
      from q [unfolded invite_user_def] show thesis
      proof (cases rule: query_cases)
        case (fault e)
        with q step have "redeem_invite th key now s = (Inl (db_error e), s2)"
          by (simp add: dbind_Inl)
        with assms have r: "r = Inl (db_error e)" and t: "t = s2" by auto
        show thesis using same_tables_trans [OF s1 fault(2)] unfolding t [symmetric]
          by (rule half [OF r])
      next
        case (run s0')
        have "find (\<lambda>i. inv_token_hash i = th) (invites s) \<noteq> None"
          using True by (auto simp: find_None_iff redeemable_def)
        then obtain i where i: "find (\<lambda>i. inv_token_hash i = th) (invites s) = Some i"
          by blast
        have "invites s0' = invites (mark_redeemed th now s)"
          using run(1) s1 by (simp add: same_tables_iff)
        then have r2: "r2 = Inr (Some (inv_user_id i))"
          using run(2) i by (simp add: find_mark_redeemed)
        obtain r3 s3 where b: "bind_key (inv_user_id i) key s2 = (r3, s3)" by fastforce
        have s2: "same_tables (mark_redeemed th now s) s2"
          using s1 run(1,3) by (auto intro: same_tables_trans)
        have step2: "redeem_invite th key now s
            = dbind (bind_key (inv_user_id i) key) (\<lambda>_. dreturn (Some (inv_user_id i))) s2"
          using step q r2 by (simp add: dbind_def)
        from b [unfolded bind_key_def] show thesis
        proof (cases rule: execute_total_cases)
          case (fault e)
          with b step2 have "redeem_invite th key now s = (Inl e, s3)" by (simp add: dbind_Inl)
          with assms have r: "r = Inl e" and t: "t = s3" by auto
          show thesis using same_tables_trans [OF s2 fault(2)] unfolding t [symmetric]
            by (rule half [OF r])
        next
          case (run s0)
          with b step2 assms s2 i True show thesis
            by (intro redeemed [of i])
              (auto simp: dbind_def dreturn_def same_tables_iff put_key_def)
        qed
      qed
    qed
  qed
qed

lemma key_owner_cases:
  assumes "key_owner key_id s = (r, t)"
  obtains (failed) e where "r = Inl e" and "same_tables s t"
    | (unknown) "r = Inr None" and "same_tables s t"
        and "\<forall>u \<in> set (users s). usr_id u = key_id \<longrightarrow> usr_public_key u = None"
    | (known) u k where "r = Inr (Some (k, auth_user_of_row u))" and "same_tables s t"
        and "u \<in> set (users s)" and "usr_id u = key_id" and "usr_public_key u = Some k"
  using assms unfolding key_owner_def
proof (cases rule: query_cases)
  case (run s0)
  show thesis
  proof (cases "find (\<lambda>u. usr_id u = key_id \<and> usr_public_key u \<noteq> None) (users s0)")
    case None
    with run(2) have "r = Inr None" by simp
    moreover have "\<forall>u \<in> set (users s). usr_id u = key_id \<longrightarrow> usr_public_key u = None"
      using None run(1) by (auto simp: find_None_iff same_tables_iff)
    ultimately show thesis using run by (intro unknown) auto
  next
    case (Some u)
    then obtain k where "usr_public_key u = Some k" by (auto dest!: find_Some_in)
    with run Some show thesis
      by (intro known [of k u]) (auto simp: same_tables_iff dest!: find_Some_in)
  qed
qed (use failed in blast)

lemma project_by_id_cases:
  assumes "project_by_id ident s = (r, t)"
  obtains (failed) e where "r = Inl e" and "same_tables s t"
    | (unknown) "r = Inr None" and "same_tables s t" and "ident \<notin> prow_id ` set (projects s)"
    | (known) p where "r = Inr (Some (project_of_row p))" and "same_tables s t"
        and "p \<in> set (projects s)" and "prow_id p = ident"
  using assms unfolding project_by_id_def
proof (cases rule: query_cases)
  case (run s0)
  then show thesis
    using unknown known
    by (cases "find (\<lambda>p. prow_id p = ident) (projects s0)")
      (auto simp: find_None_notin same_tables_iff dest!: find_Some_in)
qed (use failed in blast)

lemma project_id_by_name_cases:
  assumes "project_id_by_name name s = (r, t)"
  obtains (failed) e where "r = Inl e" and "same_tables s t"
    | (unknown) "r = Inr None" and "same_tables s t" and "name \<notin> prow_name ` set (projects s)"
    | (known) i where "r = Inr (Some i)" and "same_tables s t"
        and "name \<in> prow_name ` set (projects s)"
  using assms unfolding project_id_by_name_def
proof (cases rule: query_cases)
  case (run s0)
  then show thesis
    using unknown known
    by (cases "find (\<lambda>p. prow_name p = name) (projects s0)")
      (auto simp: find_None_notin same_tables_iff dest!: find_Some_in)
qed (use failed in blast)

definition new_project_row :: "string \<Rightarrow> string \<Rightarrow> u64 \<Rightarrow> project_row" where
  "new_project_row ident name now =
     \<lparr>prow_id = ident, prow_name = name, prow_created_at = as_i64 now\<rparr>"

definition chosen_id :: "string option \<Rightarrow> string \<Rightarrow> string" where
  "chosen_id ident hx = (case ident of Some i \<Rightarrow> i | None \<Rightarrow> new_project_id hx)"

lemma insert_new_project_cases:
  assumes "insert_new_project name ident now hx s = (r, t)"
  obtains (failed) e where "r = Inl e" and "same_tables s t"
    | (created) "r = Inr (Some (project_of_row (new_project_row (chosen_id ident hx) name now)))"
        and "same_tables
               (s\<lparr>projects := projects s @ [new_project_row (chosen_id ident hx) name now]\<rparr>) t"
        and "chosen_id ident hx \<notin> prow_id ` set (projects s)"
        and "name \<notin> prow_name ` set (projects s)"
proof -
  let ?row = "new_project_row (chosen_id ident hx) name now"
  obtain r1 s1 where i: "insert_project ?row s = (r1, s1)" by fastforce
  have step: "insert_new_project name ident now hx s
      = dbind (insert_project ?row) (\<lambda>_. dreturn (Some (project_of_row ?row))) s"
    by (simp add: insert_new_project_def new_project_row_def chosen_id_def Let_def
        project_of_row_def)
  from i [unfolded insert_project_def] show thesis
  proof (cases rule: execute_cases)
    case (fault e)
    with i step assms show thesis by (intro failed) (auto simp: dbind_def)
  next
    case (run s0 n)
    then obtain rs where rs: "insert_project_row ?row (projects s0) = Some rs"
      and s1: "s1 = s0\<lparr>projects := rs\<rparr>" and n: "n = 1"
      by (auto split: option.splits)
    from projects_table.inserted [OF rs] run(1,3) s1 n i step assms show thesis
      by (intro created) (auto simp: dbind_def dreturn_def same_tables_iff new_project_row_def)
  qed
qed

lemma create_project_cases:
  assumes "create_project name ident now hx s = (r, t)"
  obtains (failed) e where "r = Inl e" and "same_tables s t"
    | (exists) "r = Inr None" and "same_tables s t"
        and "name \<in> prow_name ` set (projects s)
             \<or> (\<exists>i. ident = Some i \<and> i \<in> prow_id ` set (projects s))"
    | (created) "r = Inr (Some (project_of_row (new_project_row (chosen_id ident hx) name now)))"
        and "same_tables
               (s\<lparr>projects := projects s @ [new_project_row (chosen_id ident hx) name now]\<rparr>) t"
        and "chosen_id ident hx \<notin> prow_id ` set (projects s)"
        and "name \<notin> prow_name ` set (projects s)"
proof -
  have ins: thesis if "insert_new_project name ident now hx s1 = (r, t)" and st: "same_tables s s1" for s1
    using that(1)
  proof (cases rule: insert_new_project_cases)
    case fl: (failed e)
    with st show thesis by (intro failed) (auto intro: same_tables_trans)
  next
    case cr: created
    with st show thesis by (intro created) (auto simp: same_tables_iff)
  qed
  obtain r1 s1 where q: "project_id_by_name name s = (r1, s1)" by fastforce
  then show thesis
  proof (cases rule: project_id_by_name_cases)
    case (failed e)
    with q assms show thesis by (intro that(1)) (auto simp: create_project_def dbind_def)
  next
    case (known i)
    with q assms show thesis by (intro exists) (auto simp: create_project_def dbind_def dreturn_def)
  next
    case unknown
    show thesis
    proof (cases ident)
      case None
      with q unknown assms have "insert_new_project name ident now hx s1 = (r, t)"
        by (simp add: create_project_def dbind_def)
      then show thesis using unknown(2) by (rule ins)
    next
      case (Some i)
      obtain r2 s2 where q2: "project_by_id i s1 = (r2, s2)" by fastforce
      have step: "create_project name ident now hx s
          = dbind (project_by_id i) (\<lambda>same_id. case same_id of Some _ \<Rightarrow> dreturn None
              | None \<Rightarrow> insert_new_project name ident now hx) s1"
        using q unknown(1) unfolding Some by (simp add: create_project_def dbind_Inr)
      from q2 show thesis
      proof (cases rule: project_by_id_cases)
        case (failed e)
        with q2 step assms unknown(2) show thesis
          by (intro that(1)) (auto simp: dbind_def intro: same_tables_trans)
      next
        case (known p)
        with q2 step assms unknown(2) Some show thesis
          by (intro exists) (auto simp: dbind_def dreturn_def same_tables_iff)
      next
        case unknown2: unknown
        with q2 step assms have "insert_new_project name ident now hx s2 = (r, t)"
          by (simp add: dbind_def)
        moreover have "same_tables s s2" using unknown(2) unknown2(2) by (rule same_tables_trans)
        ultimately show thesis by (rule ins)
      qed
    qed
  qed
qed

definition new_release_row :: "string \<Rightarrow> release_status \<Rightarrow> string option \<Rightarrow> u64 \<Rightarrow> string \<Rightarrow> release_row" where
  "new_release_row pid st message now hex_bytes =
     \<lparr>rel_id = new_release_id hex_bytes, rel_project_id = pid, rel_status = status_as_str st,
      rel_message = message, rel_error = None, rel_created_at = as_i64 now,
      rel_updated_at = as_i64 now\<rparr>"

definition release_of_new :: "string \<Rightarrow> release_status \<Rightarrow> string option \<Rightarrow> u64 \<Rightarrow> string \<Rightarrow> release" where
  "release_of_new pid st message now hex_bytes =
     \<lparr>rls_id = new_release_id hex_bytes, rls_project_id = pid, rls_status = st,
      rls_message = message, rls_error = None, rls_created_at = now, rls_updated_at = now\<rparr>"

lemma create_release_cases:
  assumes "create_release pid st message now hx s = (r, t)"
  obtains (failed) e where "r = Inl e" and "same_tables s t"
    | (created) "r = Inr (release_of_new pid st message now hx)"
        and "same_tables (s\<lparr>releases := releases s @ [new_release_row pid st message now hx]\<rparr>) t"
        and "new_release_id hx \<notin> rel_id ` set (releases s)"
proof -
  let ?row = "new_release_row pid st message now hx"
  obtain r1 s1 where i: "insert_release ?row s = (r1, s1)" by fastforce
  have step: "create_release pid st message now hx s
      = dbind (insert_release ?row) (\<lambda>_. dreturn (release_of_new pid st message now hx)) s"
    by (simp add: create_release_def new_release_row_def release_of_new_def Let_def)
  from i [unfolded insert_release_def] show thesis
  proof (cases rule: execute_cases)
    case (fault e)
    with i step assms show thesis by (intro failed) (auto simp: dbind_def)
  next
    case (run s0 n)
    then obtain rs where rs: "insert_release_row ?row (releases s0) = Some rs"
      and s1: "s1 = s0\<lparr>releases := rs\<rparr>" and n: "n = 1"
      by (auto split: option.splits)
    from releases_table.inserted [OF rs] run(1,3) s1 n i step assms show thesis
      by (intro created) (auto simp: dbind_def dreturn_def same_tables_iff new_release_row_def)
  qed
qed

definition put_status :: "string \<Rightarrow> release_status \<Rightarrow> string option \<Rightarrow> u64 \<Rightarrow> db \<Rightarrow> db" where
  "put_status ident st err now s =
     s\<lparr>releases := map (\<lambda>r. if rel_id r = ident
        then r\<lparr>rel_status := status_as_str st, rel_error := err, rel_updated_at := as_i64 now\<rparr>
        else r) (releases s)\<rparr>"

lemma set_release_status_cases:
  assumes "set_release_status ident st err now s = (r, t)"
  obtains (failed) e where "r = Inl e" and "same_tables s t"
    | (stored) "r = Inr ()" and "same_tables (put_status ident st err now s) t"
proof -
  have "set_release_status ident st err now s = dbind
      (execute (\<lambda>s. Inr (put_status ident st err now s,
         length (filter (\<lambda>r. rel_id r = ident) (releases s))))) (\<lambda>_. dreturn ()) s"
    by (simp add: set_release_status_def put_status_def)
  with assms show thesis
  proof (elim dbind_cases [OF trans [OF sym]])
    fix e
    assume "execute (\<lambda>s. Inr (put_status ident st err now s,
         length (filter (\<lambda>r. rel_id r = ident) (releases s)))) s = (Inl e, t)" "r = Inl e"
    then show thesis by (auto elim!: execute_total_cases intro: failed)
  next
    fix x s'
    assume "execute (\<lambda>s. Inr (put_status ident st err now s,
         length (filter (\<lambda>r. rel_id r = ident) (releases s)))) s = (Inr x, s')"
      and "dreturn () s' = (r, t)"
    then show thesis
      by (auto elim!: execute_total_cases intro!: stored simp: same_tables_iff put_status_def)
  qed
qed

text \<open>Listings: the rows in the order asked for, or a failure.\<close>

lemma list_users_cases:
  assumes "list_users s = (r, t)"
  obtains (failed) e where "r = Inl e" and "same_tables s t"
    | (listed) "r = Inr (map user_of_row (sort_key (\<lambda>u. (usr_created_at u, usr_name u)) (users s)))"
        and "same_tables s t"
  using assms unfolding list_users_def
  by (elim query_cases) (auto simp: same_tables_iff intro: failed listed)

lemma list_projects_cases:
  assumes "list_projects s = (r, t)"
  obtains (failed) e where "r = Inl e" and "same_tables s t"
    | (listed) "r = Inr (map project_of_row (sort_key (\<lambda>p. (prow_created_at p, prow_name p)) (projects s)))"
        and "same_tables s t"
  using assms unfolding list_projects_def
  by (elim query_cases) (auto simp: same_tables_iff intro: failed listed)

definition releases_newest_first :: "string \<Rightarrow> db \<Rightarrow> release_row list" where
  "releases_newest_first pid s = rev (sort_key (\<lambda>r. (rel_created_at r, rel_id r))
     (filter (\<lambda>r. rel_project_id r = pid) (releases s)))"

lemma list_releases_cases:
  assumes "list_releases pid s = (r, t)"
  obtains (failed) e where "r = Inl e" and "same_tables s t"
    | (listed) "r = releases_of_rows (releases_newest_first pid s)" and "same_tables s t"
  using assms unfolding list_releases_def
  by (elim query_cases) (auto simp: same_tables_iff releases_newest_first_def intro: failed listed)

end
