(* ===== verification/Db_Safety.thy ===== *)
theory Db_Safety
  imports Db_Inv
begin

text \<open>
  The invariant of the database, and that every operation keeps it whatever statements fail:
  identifiers, names and token hashes are unique; every invite belongs to an existing user and a
  user has at most one; users and releases refer to existing projects; a user who holds a key has
  no open invite, so no invite can replace a key; release states are readable.
\<close>

definition keyed_closed :: "user_row list \<Rightarrow> invite_row list \<Rightarrow> bool" where
  "keyed_closed us is \<longleftrightarrow>
     (\<forall>u \<in> set us. \<forall>i \<in> set is. usr_public_key u \<noteq> None \<and> inv_user_id i = usr_id u
        \<longrightarrow> inv_redeemed_at i \<noteq> None)"

definition users_ok :: "db \<Rightarrow> bool" where
  "users_ok s \<longleftrightarrow> distinct (map usr_id (users s)) \<and> distinct (map usr_name (users s)) \<and>
     (\<forall>u \<in> set (users s). \<forall>p. usr_project_id u = Some p \<longrightarrow> p \<in> prow_id ` set (projects s))"

definition invites_ok :: "db \<Rightarrow> bool" where
  "invites_ok s \<longleftrightarrow> distinct (map inv_token_hash (invites s)) \<and>
     distinct (map inv_user_id (invites s)) \<and>
     inv_user_id ` set (invites s) \<subseteq> usr_id ` set (users s) \<and>
     keyed_closed (users s) (invites s)"

definition projects_ok :: "db \<Rightarrow> bool" where
  "projects_ok s \<longleftrightarrow> distinct (map prow_id (projects s)) \<and> distinct (map prow_name (projects s))"

definition releases_ok :: "db \<Rightarrow> bool" where
  "releases_ok s \<longleftrightarrow> distinct (map rel_id (releases s)) \<and>
     (\<forall>r \<in> set (releases s). rel_project_id r \<in> prow_id ` set (projects s) \<and>
        status_parse (rel_status r) \<noteq> None)"

definition db_ok :: "db \<Rightarrow> bool" where
  "db_ok s \<longleftrightarrow> users_ok s \<and> invites_ok s \<and> projects_ok s \<and> releases_ok s"

lemmas db_ok_defs = db_ok_def users_ok_def invites_ok_def projects_ok_def releases_ok_def

lemma empty_db_ok: "db_ok empty_db"
  by (simp add: db_ok_defs empty_db_def keyed_closed_def)

lemma db_ok_same: "same_tables s t \<Longrightarrow> db_ok t = db_ok s"
  by (simp add: db_ok_defs same_tables_iff)

text \<open>A user without an invite is found by no invite.\<close>

lemma open_user:
  assumes "db_ok s" and "u \<in> set (users s)" and "i \<in> set (invites s)"
    and "inv_user_id i = usr_id u" and "inv_redeemed_at i = None"
  shows "usr_public_key u = None"
proof -
  have "keyed_closed (users s) (invites s)" using assms(1) by (simp add: db_ok_defs)
  with assms(2-) show ?thesis unfolding keyed_closed_def by blast
qed

section \<open>Preservation\<close>

lemma add_user_ok:
  assumes "db_ok s" and "usr_id row \<notin> usr_id ` set (users s)"
    and "usr_name row \<notin> usr_name ` set (users s)" and "usr_public_key row = None"
    and "\<forall>p. usr_project_id row = Some p \<longrightarrow> p \<in> prow_id ` set (projects s)"
  shows "db_ok (s\<lparr>users := users s @ [row]\<rparr>)"
  using assms by (auto simp: db_ok_defs keyed_closed_def)

lemma create_user_ok:
  assumes "create_user name pid now hx s = (r, t)" and "db_ok s"
    and "\<forall>p. pid = Some p \<longrightarrow> p \<in> prow_id ` set (projects s)"
  shows "db_ok t"
  using assms(1)
proof (cases rule: create_user_cases)
  case created
  have "db_ok (s\<lparr>users := users s @ [new_user_row name pid now hx]\<rparr>)"
    using created(3,4) assms(2,3) by (intro add_user_ok) (auto simp: new_user_row_def)
  with created(2) show ?thesis by (simp add: db_ok_same)
qed (use assms in \<open>auto simp: db_ok_same\<close>)

lemma add_invite_ok:
  assumes "db_ok s" and "inv_token_hash row \<notin> inv_token_hash ` set (invites s)"
    and "inv_user_id row \<notin> inv_user_id ` set (invites s)"
    and "u \<in> set (users s)" and "usr_id u = inv_user_id row" and "usr_public_key u = None"
  shows "db_ok (s\<lparr>invites := invites s @ [row]\<rparr>)"
proof -
  have inj: "inj_on usr_id (set (users s))"
    using assms(1) by (simp add: db_ok_defs distinct_map)
  have "u' = u" if "u' \<in> set (users s)" "usr_id u' = inv_user_id row" for u'
    using inj_onD [OF inj, of u' u] assms(4,5) that by simp
  then have "keyed_closed (users s) (invites s @ [row])"
    using assms(1,6) by (auto simp: db_ok_defs keyed_closed_def)
  moreover have "inv_user_id row \<in> usr_id ` set (users s)" using assms(4,5) by force
  ultimately show ?thesis using assms(1-3) by (simp add: db_ok_defs)
qed

lemma create_invite_ok:
  assumes "create_invite uid th now ex s = (r, t)" and "db_ok s"
    and "uid \<notin> inv_user_id ` set (invites s)"
    and "u \<in> set (users s)" and "usr_id u = uid" and "usr_public_key u = None"
  shows "db_ok t"
  using assms(1)
proof (cases rule: create_invite_cases)
  case created
  have "db_ok (s\<lparr>invites := invites s @ [new_invite_row uid th now ex]\<rparr>)"
    using created(3) assms(2-) by (intro add_invite_ok) (auto simp: new_invite_row_def)
  with created(2) show ?thesis by (simp add: db_ok_same)
qed (use assms in \<open>auto simp: db_ok_same\<close>)

lemma distinct_map_filterI: "distinct (map f xs) \<Longrightarrow> distinct (map f (filter P xs))"
  by (induction xs) auto

lemma drop_invites_ok: "db_ok s \<Longrightarrow> db_ok (drop_invites uid s)"
  by (auto simp: db_ok_defs drop_invites_def keyed_closed_def intro: distinct_map_filterI)

lemma drop_user_ok:
  assumes "db_ok s" and "uid \<notin> inv_user_id ` set (invites s)"
  shows "db_ok (drop_user uid s)"
proof -
  have "inv_user_id ` set (invites s) \<subseteq> usr_id ` set (users s) - {uid}"
    using assms unfolding db_ok_defs by blast
  also have "\<dots> = usr_id ` {u \<in> set (users s). usr_id u \<noteq> uid}" by auto
  finally have "inv_user_id ` set (invites s) \<subseteq> usr_id ` {u \<in> set (users s). usr_id u \<noteq> uid}" .
  with assms show ?thesis
    by (auto simp: db_ok_defs drop_user_def keyed_closed_def intro: distinct_map_filterI)
qed

lemma remove_user_ok:
  assumes "remove_user name s = (r, t)" and "db_ok s"
  shows "db_ok t"
  using assms(1)
proof (cases rule: remove_user_cases)
  case (removed u)
  have "db_ok (drop_user (usr_id u) (drop_invites (usr_id u) s))"
    using assms(2) by (intro drop_user_ok drop_invites_ok) (auto simp: drop_invites_def)
  with removed(2) show ?thesis by (simp add: db_ok_same)
qed (use assms drop_invites_ok in \<open>auto simp: db_ok_same\<close>)

lemma mark_redeemed_maps [simp]:
  "map inv_token_hash (invites (mark_redeemed th now s)) = map inv_token_hash (invites s)"
  "map inv_user_id (invites (mark_redeemed th now s)) = map inv_user_id (invites s)"
  "users (mark_redeemed th now s) = users s"
  "projects (mark_redeemed th now s) = projects s"
  "releases (mark_redeemed th now s) = releases s"
  by (auto simp: mark_redeemed_def)

lemma mark_redeemed_user_ids [simp]:
  "inv_user_id ` set (invites (mark_redeemed th now s)) = inv_user_id ` set (invites s)"
  by (metis list.set_map mark_redeemed_maps(2))

lemma mark_redeemed_ok: "db_ok s \<Longrightarrow> db_ok (mark_redeemed th now s)"
  unfolding db_ok_defs mark_redeemed_maps mark_redeemed_user_ids
  by (auto simp: keyed_closed_def mark_redeemed_def split: if_splits)

lemma put_key_maps [simp]:
  "map usr_id (users (put_key uid key s)) = map usr_id (users s)"
  "map usr_name (users (put_key uid key s)) = map usr_name (users s)"
  "invites (put_key uid key s) = invites s"
  "projects (put_key uid key s) = projects s"
  "releases (put_key uid key s) = releases s"
  by (auto simp: put_key_def)

lemma put_key_user_ids [simp]:
  "usr_id ` set (users (put_key uid key s)) = usr_id ` set (users s)"
  by (metis list.set_map put_key_maps(1))

lemma put_key_ok:
  assumes "db_ok s" and "\<forall>i \<in> set (invites s). inv_user_id i = uid \<longrightarrow> inv_redeemed_at i \<noteq> None"
  shows "db_ok (put_key uid key s)"
  using assms unfolding db_ok_defs put_key_maps put_key_user_ids
  by (auto simp: keyed_closed_def put_key_def split: if_splits)

lemma redeem_invite_ok:
  assumes "redeem_invite th key now s = (r, t)" and "db_ok s"
  shows "db_ok t"
  using assms(1)
proof (cases rule: redeem_invite_cases)
  case (redeemed i)
  then obtain j where j: "j \<in> set (invites s)" "redeemable th now j" by auto
  have i: "i \<in> set (invites s)" "inv_token_hash i = th"
    using redeemed(3) by (auto dest: find_Some_in)
  have "i = j" using assms(2) i j by (auto simp: db_ok_defs distinct_map inj_on_def redeemable_def)
  have uniq: "k = i" if "k \<in> set (invites s)" "inv_user_id k = inv_user_id i" for k
    using assms(2) i that by (auto simp: db_ok_defs distinct_map inj_on_def)
  have "db_ok (put_key (inv_user_id i) key (mark_redeemed th now s))"
    using uniq j \<open>i = j\<close>
    by (intro put_key_ok mark_redeemed_ok assms(2)) (auto simp: mark_redeemed_def)
  with redeemed(2) show ?thesis by (simp add: db_ok_same)
qed (use assms mark_redeemed_ok in \<open>auto simp: db_ok_same\<close>)

lemma create_project_ok:
  assumes "create_project name ident now hx s = (r, t)" and "db_ok s"
  shows "db_ok t"
  using assms(1)
proof (cases rule: create_project_cases)
  case created
  have "db_ok (s\<lparr>projects := projects s @ [new_project_row (chosen_id ident hx) name now]\<rparr>)"
    using created(3,4) assms(2) by (auto simp: db_ok_defs new_project_row_def)
  with created(2) show ?thesis by (simp add: db_ok_same)
qed (use assms in \<open>auto simp: db_ok_same\<close>)

lemma add_release_ok:
  assumes "db_ok s" and "rel_id row \<notin> rel_id ` set (releases s)"
    and "rel_project_id row \<in> prow_id ` set (projects s)" and "status_parse (rel_status row) \<noteq> None"
  shows "db_ok (s\<lparr>releases := releases s @ [row]\<rparr>)"
  using assms by (auto simp: db_ok_defs)

lemma new_release_row_sel [simp]:
  "rel_id (new_release_row pid st m now hx) = new_release_id hx"
  "rel_project_id (new_release_row pid st m now hx) = pid"
  "rel_status (new_release_row pid st m now hx) = status_as_str st"
  "rel_message (new_release_row pid st m now hx) = m"
  by (simp_all add: new_release_row_def)

lemma create_release_ok:
  assumes "create_release pid st message now hx s = (r, t)" and "db_ok s"
    and "pid \<in> prow_id ` set (projects s)"
  shows "db_ok t"
  using assms(1)
proof (cases rule: create_release_cases)
  case created
  have "db_ok (s\<lparr>releases := releases s @ [new_release_row pid st message now hx]\<rparr>)"
    using created(3) assms(2,3) by (intro add_release_ok) auto
  with created(2) show ?thesis by (simp add: db_ok_same)
qed (use assms in \<open>auto simp: db_ok_same\<close>)

lemma put_status_ok:
  assumes "db_ok s"
  shows "db_ok (put_status ident st err now s)"
proof -
  have "map rel_id (releases (put_status ident st err now s)) = map rel_id (releases s)"
    by (auto simp: put_status_def)
  moreover have "\<forall>r \<in> set (releases (put_status ident st err now s)).
      rel_project_id r \<in> prow_id ` set (projects s) \<and> status_parse (rel_status r) \<noteq> None"
    using assms by (auto simp: db_ok_defs put_status_def)
  moreover have "users (put_status ident st err now s) = users s"
      "invites (put_status ident st err now s) = invites s"
      "projects (put_status ident st err now s) = projects s"
    by (simp_all add: put_status_def)
  ultimately show ?thesis using assms unfolding db_ok_defs by simp
qed

lemma set_release_status_ok:
  assumes "set_release_status ident st err now s = (r, t)" and "db_ok s"
  shows "db_ok t"
  using assms(1) by (cases rule: set_release_status_cases) (use assms put_status_ok in \<open>auto simp: db_ok_same\<close>)

text \<open>Queries change no table.\<close>

lemma reads_only:
  "user_id_by_name name s = (r1, t) \<Longrightarrow> same_tables s t"
  "list_users s = (r2, t) \<Longrightarrow> same_tables s t"
  "key_owner key_id s = (r3, t) \<Longrightarrow> same_tables s t"
  "project_by_id ident s = (r4, t) \<Longrightarrow> same_tables s t"
  "project_id_by_name name s = (r5, t) \<Longrightarrow> same_tables s t"
  "list_projects s = (r6, t) \<Longrightarrow> same_tables s t"
  "list_releases ident s = (r7, t) \<Longrightarrow> same_tables s t"
  unfolding user_id_by_name_def list_users_def key_owner_def project_by_id_def
    project_id_by_name_def list_projects_def list_releases_def
  by (erule query_same_tables)+

lemma reads_ok:
  assumes "same_tables s t" and "db_ok s"
  shows "db_ok t"
  using assms by (simp add: db_ok_same)

section \<open>Readable listings\<close>

lemma release_of_row_ok:
  "status_parse (rel_status r) = Some st \<Longrightarrow> \<exists>x. release_of_row r = Inr x \<and> rls_id x = rel_id r"
  by (simp add: release_of_row_def)

lemma releases_of_rows_ok:
  assumes "\<forall>r \<in> set rs. status_parse (rel_status r) \<noteq> None"
  shows "\<exists>xs. releases_of_rows rs = Inr xs \<and> map rls_id xs = map rel_id rs
      \<and> map rls_project_id xs = map rel_project_id rs"
  using assms
proof (induction rs)
  case (Cons r rs)
  then obtain st where "status_parse (rel_status r) = Some st" by auto
  with Cons show ?case by (auto simp: release_of_row_def)
qed simp

end
