(* ===== verification/Signing.thy ===== *)
theory Signing
  imports Rust_Str
begin

text \<open>
  How a caller proves who it is (\<^verbatim>\<open>packages/auth/src\<close>): the text a request's signature covers, and
  the invite blob that bootstraps a signing key.  Base64, JSON, SHA-256 and ed25519 are third-party
  code: the record \<open>crypto\<close> holds the functions the code calls, and every definition that uses one
  takes the record as an argument.  Byte strings are \<open>string\<close>s, like texts.
\<close>

record 'k crypto =
  std_encode :: "string \<Rightarrow> string"
  std_decode :: "string \<Rightarrow> string option"
  url_encode :: "string \<Rightarrow> string"
  url_decode :: "string \<Rightarrow> string option"
  sha256_hex :: "string \<Rightarrow> string"
  key_from_bytes :: "string \<Rightarrow> 'k option"
  verify_sig :: "'k \<Rightarrow> string \<Rightarrow> string \<Rightarrow> bool"

section \<open>The signed text\<close>

definition SIGNATURE_VERSION :: string where "SIGNATURE_VERSION = ''v1''"

definition HEADER_SIGNATURE_VERSION :: string where
  "HEADER_SIGNATURE_VERSION = ''x-railyard-signature-version''"
definition HEADER_KEY_ID :: string where "HEADER_KEY_ID = ''x-railyard-key-id''"
definition HEADER_TIMESTAMP :: string where "HEADER_TIMESTAMP = ''x-railyard-timestamp''"
definition HEADER_NONCE :: string where "HEADER_NONCE = ''x-railyard-nonce''"
definition HEADER_CONTENT_SHA256 :: string where
  "HEADER_CONTENT_SHA256 = ''x-railyard-content-sha256''"
definition HEADER_SIGNATURE :: string where "HEADER_SIGNATURE = ''x-railyard-signature''"

lemmas header_defs =
  HEADER_SIGNATURE_VERSION_def HEADER_KEY_ID_def HEADER_TIMESTAMP_def HEADER_NONCE_def
  HEADER_CONTENT_SHA256_def HEADER_SIGNATURE_def

abbreviation nl :: char where "nl \<equiv> CHR 0x0A"

definition canonical_request ::
    "string \<Rightarrow> u64 \<Rightarrow> string \<Rightarrow> string \<Rightarrow> string \<Rightarrow> string \<Rightarrow> string \<Rightarrow> string" where
  "canonical_request key_id timestamp nonce method path_and_query host content_sha256 =
     ''RAILYARD-REQUEST-V1'' @ [nl] @
     ''key_id:'' @ key_id @ [nl] @
     ''timestamp:'' @ show_u64 timestamp @ [nl] @
     ''nonce:'' @ nonce @ [nl] @
     ''method:'' @ method @ [nl] @
     ''path:'' @ path_and_query @ [nl] @
     ''host:'' @ host @ [nl] @
     ''content_sha256:'' @ content_sha256"

lemma show_u64_no_nl: "nl \<notin> set (show_u64 w)"
  using show_u64_chars [of nl w] by (auto simp: ascii_defs)

text \<open>
  One line per field, so fields without a line break are determined by the text: a signature covers
  exactly one key, time, nonce, method, path, host and content hash.
\<close>

lemma canonical_request_inject:
  assumes "canonical_request k t n m p h c = canonical_request k' t' n' m' p' h' c'"
    and "nl \<notin> set k" "nl \<notin> set k'" "nl \<notin> set n" "nl \<notin> set n'" "nl \<notin> set m" "nl \<notin> set m'"
    and "nl \<notin> set p" "nl \<notin> set p'" "nl \<notin> set h" "nl \<notin> set h'"
  shows "k = k' \<and> t = t' \<and> n = n' \<and> m = m' \<and> p = p' \<and> h = h' \<and> c = c'"
  using assms show_u64_no_nl unfolding canonical_request_def by (auto dest!: append_sep_eq)

section \<open>Invites\<close>

definition INVITE_BLOB_PREFIX :: string where "INVITE_BLOB_PREFIX = ''ryd-invite-v1.''"

definition REDEEM_INVITE_PATH :: string where "REDEEM_INVITE_PATH = ''/api/auth/redeem-invite''"

record invite_project =
  ip_id :: string
  ip_name :: string

record invite_payload =
  inv_server_url :: string
  inv_server_name :: string
  inv_user :: string
  inv_user_name :: string
  inv_project :: "invite_project option"
  inv_token :: string
  inv_expires :: u64

definition invalid_blob :: string where
  "invalid_blob = ''not a valid '' @ INVITE_BLOB_PREFIX @ ''* invite blob''"

text \<open>\<^verbatim>\<open>to_json\<close> and \<^verbatim>\<open>from_json\<close> are serde's serialiser and deserialiser for the payload.\<close>

definition encode_invite :: "'k crypto \<Rightarrow> (invite_payload \<Rightarrow> string) \<Rightarrow> invite_payload \<Rightarrow> string" where
  "encode_invite cr to_json p = INVITE_BLOB_PREFIX @ url_encode cr (to_json p)"

definition parse_invite ::
    "'k crypto \<Rightarrow> (string \<Rightarrow> invite_payload option) \<Rightarrow> string \<Rightarrow> invite_payload result" where
  "parse_invite cr from_json blob =
     (case strip_prefix (trim blob) INVITE_BLOB_PREFIX of
        None \<Rightarrow> Inl invalid_blob
      | Some encoded \<Rightarrow>
          (case url_decode cr encoded of
             None \<Rightarrow> Inl invalid_blob
           | Some json \<Rightarrow>
               (case from_json json of None \<Rightarrow> Inl invalid_blob | Some p \<Rightarrow> Inr p)))"

definition printable :: "string \<Rightarrow> bool" where
  "printable s \<longleftrightarrow> list_all is_ascii_graphic s"

text \<open>A blob pasted with blanks or line breaks around it is read back; base64 text is printable.\<close>

lemma parse_encode_invite:
  assumes "from_json (to_json p) = Some p"
    and "url_decode cr (url_encode cr (to_json p)) = Some (to_json p)"
    and "printable (url_encode cr (to_json p))"
    and "set before \<subseteq> set ascii_blanks" and "set after \<subseteq> set ascii_blanks"
  shows "parse_invite cr from_json (before @ encode_invite cr to_json p @ after) = Inr p"
proof -
  have "list_all is_ascii_graphic (encode_invite cr to_json p)"
    using assms(3)
    by (simp add: encode_invite_def printable_def INVITE_BLOB_PREFIX_def ascii_defs)
  moreover have "encode_invite cr to_json p \<noteq> []"
    by (simp add: encode_invite_def INVITE_BLOB_PREFIX_def)
  ultimately have "trim (before @ encode_invite cr to_json p @ after) = encode_invite cr to_json p"
    using assms(4,5) by (intro trim_pad) (auto simp: list_all_iff)
  then show ?thesis
    using assms(1,2)
    by (simp add: parse_invite_def encode_invite_def strip_prefix_def starts_with_iff)
qed

lemma parse_invite_Inl: "parse_invite cr from_json blob = Inl e \<Longrightarrow> e = invalid_blob"
  by (auto simp: parse_invite_def split: option.splits)

lemma parse_invite_Inr_prefix:
  "parse_invite cr from_json blob = Inr p \<Longrightarrow> \<exists>enc json. trim blob = INVITE_BLOB_PREFIX @ enc
     \<and> url_decode cr enc = Some json \<and> from_json json = Some p"
  by (auto simp: parse_invite_def str_simps split: option.splits)

end
