(* ===== verification/Api_Auth.thy ===== *)
theory Api_Auth
  imports Http Signing Db_Safety
begin

text \<open>
  Authentication on the server (\<^verbatim>\<open>apps/server/src/api/auth.rs\<close>): redeeming an invite, checking the
  signature of a request from its headers, the map of nonces seen within the window, and the check
  of the body against the signed hash.  The clock is read once per request and passed in as \<open>now\<close>.
\<close>

definition TIMESTAMP_WINDOW_SECONDS :: u64 where "TIMESTAMP_WINDOW_SECONDS = 300"

definition MAX_BODY_BYTES :: nat where "MAX_BODY_BYTES = 4 * 1024 * 1024"

definition parse_public_key :: "'k crypto \<Rightarrow> string \<Rightarrow> 'k option" where
  "parse_public_key cr encoded =
     (case std_decode cr encoded of
        None \<Rightarrow> None
      | Some bytes \<Rightarrow> if length bytes = 32 then key_from_bytes cr bytes else None)"

definition token_hash :: "'k crypto \<Rightarrow> string \<Rightarrow> string" where
  "token_hash cr token = sha256_hex cr token"

section \<open>Redeeming an invite\<close>

definition redeem_invite_handler ::
    "'k crypto \<Rightarrow> u64 \<Rightarrow> string \<Rightarrow> string \<Rightarrow> db \<Rightarrow> response \<times> db" where
  "redeem_invite_handler cr now invite_token public_key s =
     (if parse_public_key cr public_key = None
      then (bad_request ''public_key must be a base64 ed25519 public key'', s)
      else (case redeem_invite (token_hash cr invite_token) public_key now s of
              (Inr (Some key_id), t) \<Rightarrow> (ok_json (Json_key key_id), t)
            | (Inr None, t) \<Rightarrow>
                (unauthorized ''invite is invalid, expired, or already redeemed'', t)
            | (Inl _, t) \<Rightarrow> (internal_error, t)))"

section \<open>Nonces\<close>

type_synonym nonces = "string \<Rightarrow> u64 option"

definition retain_recent :: "u64 \<Rightarrow> nonces \<Rightarrow> nonces" where
  "retain_recent now seen = (\<lambda>n. case seen n of
     None \<Rightarrow> None
   | Some seen_at \<Rightarrow>
       if abs_diff now seen_at \<le> TIMESTAMP_WINDOW_SECONDS then Some seen_at else None)"

text \<open>Whether the nonce was there already, and the map with it inserted.\<close>

definition record_nonce :: "u64 \<Rightarrow> string \<Rightarrow> nonces \<Rightarrow> bool \<times> nonces" where
  "record_nonce now nonce seen =
     (let kept = retain_recent now seen in (kept nonce \<noteq> None, kept(nonce \<mapsto> now)))"

section \<open>The state of the API\<close>

text \<open>
  \<^verbatim>\<open>ApiState\<close> without the configuration: the database, the nonces, and what the release handler
  stores on disk (the archive of each release directory).
\<close>

record api_state =
  as_db :: db
  as_nonces :: nonces
  as_files :: "string \<Rightarrow> string option"

definition on_db :: "(db \<Rightarrow> 'a \<times> db) \<Rightarrow> api_state \<Rightarrow> 'a \<times> api_state" where
  "on_db f st = (case f (as_db st) of (r, t) \<Rightarrow> (r, st\<lparr>as_db := t\<rparr>))"

section \<open>Signed requests\<close>

record signed_headers =
  sh_key_id :: string
  sh_nonce :: string
  sh_content_sha256 :: string
  sh_signature :: string
  sh_timestamp :: u64

definition header :: "http_request \<Rightarrow> string \<Rightarrow> string result" where
  "header rq name = (case rq_header rq name of
     None \<Rightarrow> Inl (''missing or malformed '' @ name @ '' header'') | Some v \<Rightarrow> Inr v)"

definition read_headers :: "http_request \<Rightarrow> signed_headers result" where
  "read_headers rq =
     rbind (header rq HEADER_SIGNATURE_VERSION) (\<lambda>version.
     if version \<noteq> SIGNATURE_VERSION then Inl ''unsupported signature version''
     else rbind (header rq HEADER_KEY_ID) (\<lambda>key_id.
          rbind (header rq HEADER_NONCE) (\<lambda>nonce.
          rbind (header rq HEADER_CONTENT_SHA256) (\<lambda>content_sha256.
          rbind (header rq HEADER_SIGNATURE) (\<lambda>signature.
          rbind (header rq HEADER_TIMESTAMP) (\<lambda>timestamp.
          case parse_u64 timestamp of
            None \<Rightarrow> Inl ''timestamp is not unix seconds''
          | Some ts \<Rightarrow> Inr
              \<lparr>sh_key_id = key_id, sh_nonce = nonce, sh_content_sha256 = content_sha256,
               sh_signature = signature, sh_timestamp = ts\<rparr>))))))"

definition in_window :: "u64 \<Rightarrow> u64 \<Rightarrow> bool" where
  "in_window now timestamp \<longleftrightarrow> abs_diff now timestamp \<le> TIMESTAMP_WINDOW_SECONDS"

definition decode_signature :: "'k crypto \<Rightarrow> string \<Rightarrow> string option" where
  "decode_signature cr signature =
     (case std_decode cr signature of
        None \<Rightarrow> None | Some bytes \<Rightarrow> if length bytes = 64 then Some bytes else None)"

definition signed_host :: "http_request \<Rightarrow> string option" where
  "signed_host rq = (case rq_header rq ''host'' of Some h \<Rightarrow> Some h | None \<Rightarrow> rq_authority rq)"

definition signed_path :: "http_request \<Rightarrow> string" where
  "signed_path rq = (case rq_path_and_query rq of Some p \<Rightarrow> p | None \<Rightarrow> ''/'')"

text \<open>The text the signature must cover, read off the request.\<close>

definition canonical_of :: "http_request \<Rightarrow> signed_headers \<Rightarrow> string \<Rightarrow> string" where
  "canonical_of rq h host =
     canonical_request (sh_key_id h) (sh_timestamp h) (sh_nonce h) (rq_method rq) (signed_path rq)
       host (sh_content_sha256 h)"

text \<open>The signature check proper, once the key is known.\<close>

definition check_signature ::
    "'k crypto \<Rightarrow> http_request \<Rightarrow> signed_headers \<Rightarrow> string \<Rightarrow> unit result" where
  "check_signature cr rq h public_key =
     (case parse_public_key cr public_key of
        None \<Rightarrow> Inl ''stored public key is corrupt''
      | Some k \<Rightarrow>
     (case decode_signature cr (sh_signature h) of
        None \<Rightarrow> Inl ''signature is not base64 ed25519''
      | Some sg \<Rightarrow>
     (case signed_host rq of
        None \<Rightarrow> Inl ''request has no host''
      | Some host \<Rightarrow>
          if verify_sig cr k (canonical_of rq h host) sg then Inr ()
          else Inl ''signature verification failed'')))"

text \<open>
  The whole middleware: the caller and the content hash it signed, in lower case, are attached to
  the request.
\<close>

definition checked_request ::
    "'k crypto \<Rightarrow> u64 \<Rightarrow> http_request \<Rightarrow> api_state \<Rightarrow> (auth_user \<times> string) result \<times> api_state"
where
  "checked_request cr now rq st =
     (case read_headers rq of
        Inl e \<Rightarrow> (Inl e, st)
      | Inr h \<Rightarrow>
          if \<not> in_window now (sh_timestamp h)
          then (Inl ''timestamp outside the allowed window'', st)
          else (case on_db (key_owner (sh_key_id h)) st of
                  (Inl _, st1) \<Rightarrow> (Inl ''key lookup failed'', st1)
                | (Inr None, st1) \<Rightarrow> (Inl ''unknown or revoked key'', st1)
                | (Inr (Some (public_key, user)), st1) \<Rightarrow>
                    (case check_signature cr rq h public_key of
                       Inl e \<Rightarrow> (Inl e, st1)
                     | Inr _ \<Rightarrow>
                         let (used, seen) = record_nonce now (sh_nonce h) (as_nonces st);
                             st2 = st1\<lparr>as_nonces := seen\<rparr>
                         in if used then (Inl ''nonce already used'', st2)
                            else (Inr (user, to_ascii_lowercase (sh_content_sha256 h)), st2))))"

definition verify_signature ::
    "'k crypto \<Rightarrow> u64 \<Rightarrow> http_request \<Rightarrow> (auth_user \<Rightarrow> string \<Rightarrow> api_state \<Rightarrow> response \<times> api_state)
      \<Rightarrow> api_state \<Rightarrow> response \<times> api_state" where
  "verify_signature cr now rq next_handler st =
     (case checked_request cr now rq st of
        (Inr (user, hash), st') \<Rightarrow> next_handler user hash st'
      | (Inl reason, st') \<Rightarrow> (unauthorized (''unauthorized: '' @ reason), st'))"

text \<open>
  The body check of the buffered routes.  \<open>to_bytes limit\<close> is axum's collector: the bytes of the
  body, or nothing when they exceed the limit or the stream breaks.
\<close>

definition verify_body_hash ::
    "'k crypto \<Rightarrow> (nat \<Rightarrow> frame list \<Rightarrow> string option) \<Rightarrow> string option \<Rightarrow> frame list
      \<Rightarrow> response + frame list" where
  "verify_body_hash cr to_bytes claimed frames =
     (case claimed of
        None \<Rightarrow> Inr frames
      | Some expected \<Rightarrow>
          (case to_bytes MAX_BODY_BYTES frames of
             None \<Rightarrow> Inl (bad_request ''failed to read request body'')
           | Some bytes \<Rightarrow>
               if sha256_hex cr bytes \<noteq> expected
               then Inl (unauthorized ''unauthorized: body does not match content hash'')
               else Inr [Data bytes]))"

end
