(* ===== verification/Routes.thy ===== *)
theory Routes
  imports Api_Auth Server_Config
begin

text \<open>
  The request handlers of the API (\<^verbatim>\<open>apps/server/src/api/routes.rs\<close>), the minting of invites
  (\<^verbatim>\<open>apps/server/src/api/invite.rs\<close>), and their composition into the signed listener and the admin
  socket.  A handler is a function from the state to a response and the state after it.
\<close>

section \<open>What a request reads from outside\<close>

text \<open>
  The clock (by the authentication, by the handler, and at the end of an upload), the random bytes, the server's name, and the outcomes of the file
  operations of an upload in order (\<open>None\<close> is success; once used up all succeed); \<open>unpack\<close> is the
  outcome of unpacking an archive.
\<close>

record outside =
  clock_auth :: u64
  clock :: u64
  clock_after :: u64
  id_hex :: string
  token_bytes :: string
  server_name_env :: "string option"
  os_hostname :: "string option result"
  data_root :: string
  io_faults :: "string option list"
  unpack :: "string \<Rightarrow> unit result"

text \<open>The library functions: cryptography and encodings, and axum's extractors.\<close>

record 'k platform =
  pf_crypto :: "'k crypto"
  pf_to_bytes :: "nat \<Rightarrow> frame list \<Rightarrow> string option"
  pf_invite_json :: "invite_payload \<Rightarrow> string"
  pf_project_request :: "frame list \<Rightarrow> response + create_project_request"
  pf_user_request :: "frame list \<Rightarrow> response + create_user_request"
  pf_redeem_request :: "frame list \<Rightarrow> response + string \<times> string"
  pf_query_message :: "string option \<Rightarrow> response + string option"

section \<open>Invites\<close>

definition INVITE_TTL_SECONDS :: u64 where "INVITE_TTL_SECONDS = 24 * 60 * 60"

record minted_invite =
  mi_user_id :: string
  mi_blob :: string
  mi_expires_at :: u64

definition is_valid_user_name :: "string \<Rightarrow> bool" where
  "is_valid_user_name name \<longleftrightarrow> name \<noteq> [] \<and>
     list_all (\<lambda>c. is_ascii_lowercase c \<or> is_ascii_digit c \<or> c = CHR ''-'' \<or> c = CHR ''_'') name"

definition validated_name :: "string \<Rightarrow> string result" where
  "validated_name name =
     (if is_valid_user_name name then Inr name
      else Inl (''user name '' @ debug_str name @ '' must be lowercase letters, digits, - or _''))"

definition server_name :: "outside \<Rightarrow> string result" where
  "server_name out =
     rbind (case server_name_env out of
              Some name \<Rightarrow> Inr name
            | None \<Rightarrow> rbind (os_hostname out) (\<lambda>h. Inr
                (case h of None \<Rightarrow> [] | Some hostname \<Rightarrow> hd (split_on (CHR ''.'') hostname))))
       (\<lambda>name.
          if trim name = []
          then Inl ''could not determine a server name from the hostname; set RAILYARD_SERVER_NAME''
          else Inr (trim name))"

definition random_token :: "'k crypto \<Rightarrow> outside \<Rightarrow> string" where
  "random_token cr out = url_encode cr (token_bytes out)"

definition mint_invite ::
    "'k platform \<Rightarrow> outside \<Rightarrow> string \<Rightarrow> string \<Rightarrow> invite_project option \<Rightarrow> minted_invite option dbm"
where
  "mint_invite pf out srv_url name project = (\<lambda>s.
     case validated_name name of Inl e \<Rightarrow> (Inl e, s) | Inr user_name \<Rightarrow>
     (case server_name out of Inl e \<Rightarrow> (Inl e, s) | Inr srv_name \<Rightarrow>
        let token = random_token (pf_crypto pf) out;
            now = clock out;
            expires_at = now + INVITE_TTL_SECONDS
        in dbind (create_user user_name (map_option ip_id project) now (id_hex out)) (\<lambda>created.
             case created of
               None \<Rightarrow> dreturn None
             | Some user_id \<Rightarrow>
                 dbind (create_invite user_id (token_hash (pf_crypto pf) token) now expires_at) (\<lambda>_.
                 dreturn (Some
                   \<lparr>mi_user_id = user_id,
                    mi_blob = encode_invite (pf_crypto pf) (pf_invite_json pf)
                      \<lparr>inv_server_url = srv_url, inv_server_name = srv_name, inv_user = user_id,
                       inv_user_name = user_name, inv_project = project, inv_token = token,
                       inv_expires = expires_at\<rparr>,
                    mi_expires_at = expires_at\<rparr>))) s))"

section \<open>Shapes of names and ids\<close>

definition is_valid_project_id :: "string \<Rightarrow> bool" where
  "is_valid_project_id ident =
     (case strip_prefix ident ''prj_'' of
        None \<Rightarrow> False
      | Some hx \<Rightarrow> length hx = 16 \<and>
          list_all (\<lambda>c. is_ascii_digit c \<or> (code (CHR ''a'') \<le> code c \<and> code c \<le> code (CHR ''f''))) hx)"

definition is_valid_project_name :: "string \<Rightarrow> bool" where
  "is_valid_project_name name \<longleftrightarrow>
     name \<noteq> [] \<and> length name \<le> 63 \<and>
     list_all (\<lambda>c. is_ascii_lowercase c \<or> is_ascii_digit c \<or> c = CHR ''-'') name \<and>
     \<not> starts_with name ''-'' \<and> \<not> ends_with name ''-''"

section \<open>Summaries\<close>

definition project_summary_of :: "project_info \<Rightarrow> project_summary" where
  "project_summary_of p = \<lparr>ps_id = pi_id p, ps_name = pi_name p, ps_created_at = pi_created_at p\<rparr>"

definition release_summary_of :: "release \<Rightarrow> release_summary" where
  "release_summary_of r =
     \<lparr>rs_id = rls_id r, rs_project_id = rls_project_id r, rs_status = rls_status r,
      rs_message = rls_message r, rs_error = rls_error r, rs_created_at = rls_created_at r,
      rs_updated_at = rls_updated_at r\<rparr>"

definition user_summary_of :: "user_info \<Rightarrow> user_summary" where
  "user_summary_of u =
     \<lparr>us_id = ui_id u, us_name = ui_name u, us_project_id = ui_project_id u,
      us_has_key = ui_has_key u, us_created_at = ui_created_at u\<rparr>"

section \<open>Handlers\<close>

type_synonym handler = "db \<Rightarrow> response \<times> db"

definition whoami :: "auth_user \<Rightarrow> handler" where
  "whoami caller s =
     (let answer = (\<lambda>name. ok_json (Json_whoami
            \<lparr>who_user_id = au_id caller, who_name = au_name caller,
             who_project_id = au_project_id caller, who_project_name = name\<rparr>))
      in case au_project_id caller of
           None \<Rightarrow> (answer None, s)
         | Some i \<Rightarrow>
             (case project_by_id i s of
                (Inr p, t) \<Rightarrow> (answer (map_option pi_name p), t)
              | (Inl _, t) \<Rightarrow> (internal_error, t)))"

definition root_handler :: "('addr \<Rightarrow> string) \<Rightarrow> 'addr config \<Rightarrow> response" where
  "root_handler show_addr cfg =
     \<lparr>rsp_status = 200,
      rsp_body = Text (''Railyard API is running.'' @ [nl] @ ''proxy='' @ show_addr (proxy_addr cfg) @
        [nl] @ ''api='' @ show_addr (api_addr cfg) @ [nl] @ ''services='' @
        show_nat (card (dom (service_upstreams cfg))))\<rparr>"

definition healthz :: response where
  "healthz = \<lparr>rsp_status = 200, rsp_body = Text ''ok''\<rparr>"

definition create_project_handler :: "outside \<Rightarrow> auth_user \<Rightarrow> create_project_request \<Rightarrow> handler" where
  "create_project_handler out caller rq s =
     (if au_project_id caller \<noteq> None
      then (forbidden ''only server admins can create projects'', s)
      else if \<not> is_valid_project_name (cpr_name rq)
      then (bad_request
        ''project name must be a lowercase DNS label (a-z, 0-9, hyphens; max 63 chars)'', s)
      else if (case cpr_id rq of None \<Rightarrow> False | Some i \<Rightarrow> \<not> is_valid_project_id i)
      then (bad_request ''project id must look like prj_<16 hex chars>'', s)
      else (case create_project (cpr_name rq) (cpr_id rq) (clock out) (id_hex out) s of
              (Inr (Some p), t) \<Rightarrow> (ok_json (Json_project (project_summary_of p)), t)
            | (Inr None, t) \<Rightarrow> (conflict ''project name or id already exists'', t)
            | (Inl _, t) \<Rightarrow> (internal_error, t)))"

text \<open>The tail of \<^verbatim>\<open>create_user\<close>, once the project is known.\<close>

definition answer_mint ::
    "'k platform \<Rightarrow> outside \<Rightarrow> string \<Rightarrow> string \<Rightarrow> invite_project option \<Rightarrow> handler" where
  "answer_mint pf out srv_url name project s =
     (case mint_invite pf out srv_url name project s of
        (Inr (Some m), t) \<Rightarrow>
          (ok_json (Json_invite
             \<lparr>cus_user_id = mi_user_id m, cus_invite_blob = mi_blob m,
              cus_expires_at = mi_expires_at m\<rparr>), t)
      | (Inr None, t) \<Rightarrow> (conflict (''user '' @ name @ '' already exists''), t)
      | (Inl _, t) \<Rightarrow> (internal_error, t))"

definition create_user_handler ::
    "'k platform \<Rightarrow> outside \<Rightarrow> string \<Rightarrow> auth_user \<Rightarrow> create_user_request \<Rightarrow> handler" where
  "create_user_handler pf out srv_url inviter rq s =
     (if au_project_id inviter \<noteq> None
      then (forbidden ''only server admins can create users and invites'', s)
      else case validated_name (cur_name rq) of
        Inl e \<Rightarrow> (bad_request e, s)
      | Inr _ \<Rightarrow>
          (case cur_project_id rq of
             None \<Rightarrow> answer_mint pf out srv_url (cur_name rq) None s
           | Some i \<Rightarrow>
               (case project_by_id i s of
                  (Inr (Some p), t) \<Rightarrow>
                    answer_mint pf out srv_url (cur_name rq)
                      (Some \<lparr>ip_id = pi_id p, ip_name = pi_name p\<rparr>) t
                | (Inr None, t) \<Rightarrow> (not_found (''no project '' @ i @ '' on this server''), t)
                | (Inl _, t) \<Rightarrow> (internal_error, t))))"

definition list_users_handler :: "auth_user \<Rightarrow> handler" where
  "list_users_handler caller s =
     (if au_project_id caller \<noteq> None
      then (forbidden ''only server admins can list users'', s)
      else (case list_users s of
              (Inr us, t) \<Rightarrow> (ok_json (Json_users (map user_summary_of us)), t)
            | (Inl _, t) \<Rightarrow> (internal_error, t)))"

definition remove_user_handler :: "auth_user \<Rightarrow> string \<Rightarrow> handler" where
  "remove_user_handler caller name s =
     (if au_project_id caller \<noteq> None
      then (forbidden ''only server admins can remove users'', s)
      else (case remove_user name s of
              (Inr True, t) \<Rightarrow> (no_content, t)
            | (Inr False, t) \<Rightarrow> (not_found (''no user named '' @ name), t)
            | (Inl _, t) \<Rightarrow> (internal_error, t)))"

definition list_projects_handler :: "auth_user \<Rightarrow> handler" where
  "list_projects_handler caller s =
     (case list_projects s of
        (Inr ps, t) \<Rightarrow>
          (ok_json (Json_projects (map project_summary_of
             (filter (\<lambda>p. case au_project_id caller of None \<Rightarrow> True | Some scope \<Rightarrow> pi_id p = scope)
                ps))), t)
      | (Inl _, t) \<Rightarrow> (internal_error, t))"

text \<open>The guard of the release routes; \<open>Inl\<close> is the response that ends the request.\<close>

definition confirm_project_access ::
    "auth_user \<Rightarrow> string \<Rightarrow> db \<Rightarrow> (response + unit) \<times> db" where
  "confirm_project_access caller project_id s =
     (if (case au_project_id caller of None \<Rightarrow> False | Some scope \<Rightarrow> scope \<noteq> project_id)
      then (Inl (forbidden ''key is not scoped to this project''), s)
      else (case project_by_id project_id s of
              (Inr (Some _), t) \<Rightarrow> (Inr (), t)
            | (Inr None, t) \<Rightarrow>
                (Inl (not_found (''no project '' @ project_id @ '' on this server'')), t)
            | (Inl _, t) \<Rightarrow> (Inl internal_error, t)))"

definition list_releases_handler :: "auth_user \<Rightarrow> string \<Rightarrow> handler" where
  "list_releases_handler caller project_id s =
     (case confirm_project_access caller project_id s of
        (Inl r, t) \<Rightarrow> (r, t)
      | (Inr _, t) \<Rightarrow>
          (case list_releases project_id t of
             (Inr rs, u) \<Rightarrow> (ok_json (Json_releases (map release_summary_of rs)), u)
           | (Inl _, u) \<Rightarrow> (internal_error, u)))"

section \<open>Uploads\<close>

definition MAX_ARCHIVE_BYTES :: u64 where "MAX_ARCHIVE_BYTES = 2 * 1024 * 1024 * 1024"

text \<open>One file operation.\<close>

fun io_step :: "string option list \<Rightarrow> unit result \<times> string option list" where
  "io_step [] = (Inr (), [])"
| "io_step (None # io) = (Inr (), io)"
| "io_step (Some e # io) = (Inl e, io)"

text \<open>
  The loop over the frames: bytes received so far, and the bytes hashed and written.  Each frame is
  counted and checked against the limit before it is written.
\<close>

fun receive_frames ::
    "frame list \<Rightarrow> u64 \<Rightarrow> string \<Rightarrow> string option list
      \<Rightarrow> (u64 \<times> string) result \<times> string option list" where
  "receive_frames [] received written io = (Inr (received, written), io)"
| "receive_frames (Broken e # frames) received written io = (Inl e, io)"
| "receive_frames (Trailers # frames) received written io = receive_frames frames received written io"
| "receive_frames (Data d # frames) received written io =
     (let total = received + of_nat (length d) in
      if MAX_ARCHIVE_BYTES < total
      then (Inl (''archive exceeds the '' @ show_u64 MAX_ARCHIVE_BYTES @ '' byte limit''), io)
      else (case io_step io of
              (Inl e, io') \<Rightarrow> (Inl e, io')
            | (Inr _, io') \<Rightarrow> receive_frames frames total (written @ d) io'))"

definition check_received :: "'k crypto \<Rightarrow> string option \<Rightarrow> u64 \<Rightarrow> string \<Rightarrow> unit result" where
  "check_received cr signed_hash received written =
     (if received = 0
      then Inl ''request body must be a gzipped tarball of the project source''
      else case signed_hash of
        None \<Rightarrow> Inr ()
      | Some expected \<Rightarrow>
          if sha256_hex cr written \<noteq> expected
          then Inl ''body does not match the signed content hash'' else Inr ())"

text \<open>
  The files hold the archives that were written completely (flushed); what a failed write leaves
  behind is not described.  The directory and the file are created first.
\<close>

definition receive_archive ::
    "'k crypto \<Rightarrow> string option list \<Rightarrow> string \<Rightarrow> frame list \<Rightarrow> string option
      \<Rightarrow> (string \<Rightarrow> string option) \<Rightarrow> unit result \<times> (string \<Rightarrow> string option)" where
  "receive_archive cr io dir frames signed_hash files =
     (case io_step io of (Inl e, _) \<Rightarrow> (Inl e, files) | (Inr _, io1) \<Rightarrow>
     (case io_step io1 of (Inl e, _) \<Rightarrow> (Inl e, files) | (Inr _, io2) \<Rightarrow>
     (case receive_frames frames 0 [] io2 of
        (Inl e, _) \<Rightarrow> (Inl e, files)
      | (Inr (received, written), io3) \<Rightarrow>
          (case io_step io3 of
             (Inl e, _) \<Rightarrow> (Inl e, files)
           | (Inr _, _) \<Rightarrow>
               (check_received cr signed_hash received written, files(dir \<mapsto> written))))))"

definition unpack_archive :: "outside \<Rightarrow> string \<Rightarrow> (string \<Rightarrow> string option) \<Rightarrow> unit result" where
  "unpack_archive out dir files =
     (case files dir of None \<Rightarrow> Inl ''No such file or directory (os error 2)'' | Some a \<Rightarrow> unpack out a)"

definition nonempty_message :: "string option \<Rightarrow> string option" where
  "nonempty_message m = (case m of Some (c # t) \<Rightarrow> Some (c # t) | _ \<Rightarrow> None)"

text \<open>The end of an upload: the release's row gets its outcome, and the caller the response.\<close>

definition finish_release ::
    "outside \<Rightarrow> string \<Rightarrow> release \<Rightarrow> unit result \<Rightarrow> api_state \<Rightarrow> response \<times> api_state" where
  "finish_release out project_id rel unpacked st =
     (let (status, err) = (case unpacked of Inr _ \<Rightarrow> (Ready, None) | Inl e \<Rightarrow> (Failed, Some e));
          (_, st') = on_db (set_release_status (rls_id rel) status err (clock_after out)) st
      in case unpacked of
           Inr _ \<Rightarrow>
             (ok_json (Json_release
                \<lparr>rs_id = rls_id rel, rs_project_id = project_id, rs_status = status,
                 rs_message = rls_message rel, rs_error = err, rs_created_at = rls_created_at rel,
                 rs_updated_at = clock_after out\<rparr>), st')
         | Inl failure \<Rightarrow>
             (bad_request (''release '' @ rls_id rel @ '' failed: '' @ failure), st'))"

definition create_release_handler ::
    "'k platform \<Rightarrow> outside \<Rightarrow> auth_user \<Rightarrow> string \<Rightarrow> string option \<Rightarrow> string option \<Rightarrow> frame list
      \<Rightarrow> api_state \<Rightarrow> response \<times> api_state" where
  "create_release_handler pf out caller project_id message signed_hash frames st =
     (case on_db (confirm_project_access caller project_id) st of
        (Inl r, st1) \<Rightarrow> (r, st1)
      | (Inr _, st1) \<Rightarrow>
     (case on_db (create_release project_id Unpacking (nonempty_message message) (clock out)
                   (id_hex out)) st1 of
        (Inl _, st2) \<Rightarrow> (internal_error, st2)
      | (Inr rel, st2) \<Rightarrow>
          let dir = release_dir (data_root out) project_id (rls_id rel);
              (received, files) =
                receive_archive (pf_crypto pf) (io_faults out) dir frames signed_hash (as_files st2);
              unpacked = (case received of
                Inl e \<Rightarrow> Inl e | Inr _ \<Rightarrow> unpack_archive out dir files)
          in finish_release out project_id rel unpacked (st2\<lparr>as_files := files\<rparr>)))"

end
