(* ===== verification/Interleaving.thy ===== *)
theory Interleaving
  imports Db_Safety Routes
begin

text \<open>
  The server handles requests concurrently and no operation of \<^verbatim>\<open>Db\<close> runs in a transaction
  (\<^verbatim>\<open>apps/server/src/api/db/user.rs\<close>, \<^verbatim>\<open>invite.rs\<close>, \<^verbatim>\<open>apps/server/src/api/invite.rs\<close>): between two
  statements of a handler, statements of other handlers run.  A task is a handler at the point
  before its next statement; a step of the system executes one statement of one task.
\<close>

section \<open>Tasks\<close>

text \<open>What a request to mint an invite has decided before its first statement.\<close>

record mint_task =
  mt_name :: string
  mt_project :: "string option"
  mt_now :: u64
  mt_hex :: string
  mt_token_hash :: string
  mt_expires :: u64

datatype task =
    Mint_lookup mint_task
  | Mint_user mint_task
  | Mint_row string mint_task
  | Minted string
  | Mint_conflict
  | Redeem_consume string string u64
  | Redeem_lookup string string
  | Redeem_bind string string string
  | Redeemed string string string
  | Redeem_refused
  | Remove_lookup string
  | Remove_invites string string
  | Remove_row string string
  | Removed string
  | Remove_unknown
  | Failed string

fun finished :: "task \<Rightarrow> bool" where
  "finished (Minted _) = True"
| "finished Mint_conflict = True"
| "finished (Redeemed _ _ _) = True"
| "finished Redeem_refused = True"
| "finished (Removed _) = True"
| "finished Remove_unknown = True"
| "finished (Failed _) = True"
| "finished _ = False"

definition after :: "'a dbm \<Rightarrow> ('a \<Rightarrow> task) \<Rightarrow> db \<Rightarrow> task \<times> db" where
  "after m f s = (case m s of (Inl e, t) \<Rightarrow> (Failed e, t) | (Inr x, t) \<Rightarrow> (f x, t))"

text \<open>The next statement of a task, and the point it gets to.\<close>

fun advance :: "task \<Rightarrow> db \<Rightarrow> task \<times> db" where
  "advance (Mint_lookup m) = after (user_id_by_name (mt_name m))
     (\<lambda>existing. case existing of Some _ \<Rightarrow> Mint_conflict | None \<Rightarrow> Mint_user m)"
| "advance (Mint_user m) = after
     (insert_user \<lparr>usr_id = new_user_id (mt_hex m), usr_name = mt_name m, usr_public_key = None,
        usr_project_id = mt_project m, usr_created_at = as_i64 (mt_now m)\<rparr>)
     (\<lambda>_. Mint_row (new_user_id (mt_hex m)) m)"
| "advance (Mint_row user_id m) = after
     (create_invite user_id (mt_token_hash m) (mt_now m) (mt_expires m)) (\<lambda>_. Minted user_id)"
| "advance (Redeem_consume th key now) = after (consume_invite th now)
     (\<lambda>consumed. if consumed = 0 then Redeem_refused else Redeem_lookup th key)"
| "advance (Redeem_lookup th key) = after (invite_user th)
     (\<lambda>row. case row of
        None \<Rightarrow> Failed ''redeemed invite row disappeared''
      | Some user_id \<Rightarrow> Redeem_bind th key user_id)"
| "advance (Redeem_bind th key user_id) = after (bind_key user_id key)
     (\<lambda>_. Redeemed th key user_id)"
| "advance (Remove_lookup name) = after (user_id_by_name name)
     (\<lambda>found. case found of None \<Rightarrow> Remove_unknown | Some user_id \<Rightarrow> Remove_invites name user_id)"
| "advance (Remove_invites name user_id) = after (delete_invites_of user_id)
     (\<lambda>_. Remove_row name user_id)"
| "advance (Remove_row name user_id) = after (delete_user user_id) (\<lambda>_. Removed name)"
| "advance t = Pair t"

section \<open>The system\<close>

type_synonym system = "db \<times> task list"

inductive step :: "system \<Rightarrow> system \<Rightarrow> bool" where
  "\<lbrakk>i < length ts; \<not> finished (ts ! i); advance (ts ! i) s = (t', s')\<rbrakk>
     \<Longrightarrow> step (s, ts) (s', ts[i := t'])"

inductive_cases stepE: "step (s, ts) c'"

abbreviation steps :: "system \<Rightarrow> system \<Rightarrow> bool" where
  "steps \<equiv> step\<^sup>*\<^sup>*"

text \<open>The steps along a given schedule of tasks.\<close>

fun run_schedule :: "nat list \<Rightarrow> system \<Rightarrow> system option" where
  "run_schedule [] c = Some c"
| "run_schedule (i # is) (s, ts) =
     (if i < length ts \<and> \<not> finished (ts ! i)
      then (case advance (ts ! i) s of (t', s') \<Rightarrow> run_schedule is (s', ts[i := t']))
      else None)"

lemma run_schedule_steps: "run_schedule is c = Some c' \<Longrightarrow> steps c c'"
proof (induction "is" c rule: run_schedule.induct)
  case (2 i "is" s ts)
  then obtain t' s' where "i < length ts" "\<not> finished (ts ! i)" "advance (ts ! i) s = (t', s')"
    and "run_schedule is (s', ts[i := t']) = Some c'"
    by (auto split: if_splits prod.splits)
  with 2 step.intros [of i ts s t' s'] show ?case by (auto intro: converse_rtranclp_into_rtranclp)
qed simp

text \<open>An invariant of steps that holds of the system and of every task on its own.\<close>

lemma steps_invariant:
  assumes "steps c c'" and "I c" and "\<And>c c'. step c c' \<Longrightarrow> I c \<Longrightarrow> I c'"
  shows "I c'"
  using assms(1,2) by (induction rule: rtranclp_induct) (auto intro: assms(3))

lemma steps_decreasing:
  fixes f :: "system \<Rightarrow> nat"
  assumes "steps c c'" and "\<And>c c'. step c c' \<Longrightarrow> f c' \<le> f c"
  shows "f c' \<le> f c"
  using assms(1) by (induction rule: rtranclp_induct) (auto dest: assms(2))

section \<open>A task alone is the operation\<close>

fun alone :: "nat \<Rightarrow> task \<Rightarrow> db \<Rightarrow> task \<times> db" where
  "alone 0 t s = (t, s)"
| "alone (Suc n) t s =
     (if finished t then (t, s) else case advance t s of (t', s') \<Rightarrow> alone n t' s')"

definition outcome :: "('a \<Rightarrow> task) \<Rightarrow> 'a result \<times> db \<Rightarrow> task \<times> db" where
  "outcome f r = (case r of (Inl e, t) \<Rightarrow> (Failed e, t) | (Inr x, t) \<Rightarrow> (f x, t))"

definition mint_task_of ::
    "'k platform \<Rightarrow> outside \<Rightarrow> string \<Rightarrow> invite_project option \<Rightarrow> mint_task" where
  "mint_task_of pf out user_name project =
     \<lparr>mt_name = user_name, mt_project = map_option ip_id project, mt_now = clock out,
      mt_hex = id_hex out,
      mt_token_hash = token_hash (pf_crypto pf) (random_token (pf_crypto pf) out),
      mt_expires = clock out + INVITE_TTL_SECONDS\<rparr>"

definition mint_alone ::
    "'k platform \<Rightarrow> outside \<Rightarrow> string \<Rightarrow> invite_project option \<Rightarrow> db \<Rightarrow> task \<times> db" where
  "mint_alone pf out name project s =
     (case validated_name name of Inl e \<Rightarrow> (Failed e, s) | Inr user_name \<Rightarrow>
     (case server_name out of Inl e \<Rightarrow> (Failed e, s) | Inr _ \<Rightarrow>
        alone 3 (Mint_lookup (mint_task_of pf out user_name project)) s))"

lemma alone_finished [simp]: "finished t \<Longrightarrow> alone n t s = (t, s)"
  by (cases n) auto

lemma alone_step:
  assumes "\<not> finished t" and "advance t = after m f"
  shows "alone (Suc n) t s =
    (case m s of (Inl e, s') \<Rightarrow> (Failed e, s') | (Inr x, s') \<Rightarrow> alone n (f x) s')"
  using assms by (auto simp: after_def split: prod.splits sum.splits)

lemmas alone_simps = numeral_3_eq_3 alone_step [OF _ advance.simps(1)] alone_step [OF _ advance.simps(2)]
  alone_step [OF _ advance.simps(3)] alone_step [OF _ advance.simps(4)]
  alone_step [OF _ advance.simps(5)] alone_step [OF _ advance.simps(6)]
  alone_step [OF _ advance.simps(7)] alone_step [OF _ advance.simps(8)]
  alone_step [OF _ advance.simps(9)]

lemmas operation_defs = outcome_def dbind_def dreturn_def

lemma alone_redeem:
  "alone 3 (Redeem_consume th key now) s =
     outcome (\<lambda>r. case r of None \<Rightarrow> Redeem_refused | Some uid \<Rightarrow> Redeemed th key uid)
       (redeem_invite th key now s)"
  by (auto simp: alone_simps operation_defs redeem_invite_def simp del: alone.simps
      split: prod.split sum.split option.split)

lemma alone_remove:
  "alone 3 (Remove_lookup name) s =
     outcome (\<lambda>removed. if removed then Removed name else Remove_unknown) (remove_user name s)"
  by (auto simp: alone_simps operation_defs remove_user_def simp del: alone.simps
      split: prod.split sum.split option.split)

lemma alone_mint:
  "alone 3 (Mint_lookup m) s =
     outcome (\<lambda>r. case r of None \<Rightarrow> Mint_conflict | Some uid \<Rightarrow> Minted uid)
       (dbind (create_user (mt_name m) (mt_project m) (mt_now m) (mt_hex m)) (\<lambda>created.
          case created of
            None \<Rightarrow> dreturn None
          | Some uid \<Rightarrow> dbind (create_invite uid (mt_token_hash m) (mt_now m) (mt_expires m))
              (\<lambda>_. dreturn (Some uid))) s)"
  by (auto simp: alone_simps operation_defs create_user_def Let_def simp del: alone.simps
      split: prod.split sum.split option.split)

lemma mint_alone_eq:
  "mint_alone pf out name project s =
     outcome (\<lambda>r. case r of None \<Rightarrow> Mint_conflict | Some m \<Rightarrow> Minted (mi_user_id m))
       (mint_invite pf out url name project s)"
proof (cases "validated_name name")
  case (Inr user_name)
  then show ?thesis
    by (cases "server_name out")
      (auto simp: mint_alone_def mint_invite_def alone_mint mint_task_of_def operation_defs Let_def
        split: prod.split sum.split option.split)
qed (simp add: mint_alone_def mint_invite_def outcome_def)

section \<open>What a step does\<close>

lemma after_cases:
  assumes "after m f s = (t', s')"
  obtains (stop) e where "m s = (Inl e, s')" and "t' = Failed e"
    | (cont) x where "m s = (Inr x, s')" and "t' = f x"
  using assms by (auto simp: after_def split: prod.splits sum.splits)

lemma consume_invite_cases:
  assumes "consume_invite th now s = (r, t)"
  obtains (fault) e where "r = Inl e" and "same_tables s t"
    | (none) "r = Inr 0" and "same_tables s t"
    | (some) n where "r = Inr n" and "n \<noteq> 0" and "same_tables (mark_redeemed th now s) t"
        and "\<exists>i \<in> set (invites s). redeemable th now i"
  using assms unfolding consume_invite_def
proof (cases rule: execute_total_cases)
  case (run s0)
  show thesis
  proof (cases "filter (redeemable th now) (invites s0) = []")
    case True
    then have "map (\<lambda>i. if redeemable th now i then i\<lparr>inv_redeemed_at := Some (as_i64 now)\<rparr> else i)
        (invites s0) = invites s0"
      by (intro map_idI) (auto simp: filter_empty_conv)
    then have "mark_redeemed th now s0 = s0" by (simp add: mark_redeemed_def)
    with run True show thesis by (intro none) auto
  next
    case False
    with run show thesis
      by (intro some [of "length (filter (redeemable th now) (invites s0))"])
        (auto simp: filter_empty_conv same_tables_iff mark_redeemed_def)
  qed
qed (use fault in blast)

lemma invite_user_cases:
  assumes "invite_user th s = (r, t)"
  obtains (other) "\<forall>uid. r \<noteq> Inr (Some uid)" and "same_tables s t"
    | (found) i where "r = Inr (Some (inv_user_id i))" and "same_tables s t"
        and "i \<in> set (invites s)" and "inv_token_hash i = th"
  using assms unfolding invite_user_def
proof (cases rule: query_cases)
  case (run s0)
  then show thesis
    using other found
    by (cases "find (\<lambda>i. inv_token_hash i = th) (invites s0)")
      (auto simp: same_tables_iff dest!: find_Some_in)
qed (use other in blast)

lemma bind_key_cases:
  assumes "bind_key uid key s = (r, t)"
  obtains (fault) e where "r = Inl e" and "same_tables s t"
    | (ran) n where "r = Inr n" and "same_tables (put_key uid key s) t"
  using assms unfolding bind_key_def
  by (cases rule: execute_total_cases) (auto simp: same_tables_iff put_key_def intro: that)

lemma delete_invites_of_cases:
  assumes "delete_invites_of uid s = (r, t)"
  obtains (fault) e where "r = Inl e" and "same_tables s t"
    | (ran) n where "r = Inr n" and "same_tables (drop_invites uid s) t"
  using assms unfolding delete_invites_of_def
  by (cases rule: execute_total_cases) (auto simp: same_tables_iff drop_invites_def intro: that)

lemma delete_user_cases:
  assumes "delete_user uid s = (r, t)"
  obtains (fault) e where "r = Inl e" and "same_tables s t"
    | (ran) n where "r = Inr n" and "same_tables (drop_user uid s) t"
  using assms unfolding delete_user_def
  by (cases rule: execute_total_cases) (auto simp: same_tables_iff drop_user_def intro: that)

text \<open>A step leaves the tables, or makes one of five changes to them.\<close>

definition mint_user_row :: "mint_task \<Rightarrow> user_row" where
  "mint_user_row m = new_user_row (mt_name m) (mt_project m) (mt_now m) (mt_hex m)"

lemma advance_cases:
  assumes "advance t s = (t', s')" and "\<not> finished t"
  obtains (idle) "same_tables s s'" and "t' \<in> {Mint_conflict, Redeem_refused, Remove_unknown} \<union> range Failed"
    | (mint_free) m where "t = Mint_lookup m" and "t' = Mint_user m" and "same_tables s s'"
    | (user_added) m where "t = Mint_user m" and "t' = Mint_row (new_user_id (mt_hex m)) m"
        and "same_tables (s\<lparr>users := users s @ [mint_user_row m]\<rparr>) s'"
        and "new_user_id (mt_hex m) \<notin> usr_id ` set (users s)"
        and "mt_name m \<notin> usr_name ` set (users s)"
    | (invite_added) uid m where "t = Mint_row uid m" and "t' = Minted uid"
        and "same_tables (s\<lparr>invites := invites s @
               [new_invite_row uid (mt_token_hash m) (mt_now m) (mt_expires m)]\<rparr>) s'"
        and "mt_token_hash m \<notin> inv_token_hash ` set (invites s)"
    | (consumed) th key now where "t = Redeem_consume th key now" and "t' = Redeem_lookup th key"
        and "same_tables (mark_redeemed th now s) s'"
        and "\<exists>i \<in> set (invites s). redeemable th now i"
    | (looked_up) th key i where "t = Redeem_lookup th key" and "t' = Redeem_bind th key (inv_user_id i)"
        and "same_tables s s'" and "i \<in> set (invites s)" and "inv_token_hash i = th"
    | (bound) th key uid where "t = Redeem_bind th key uid" and "t' = Redeemed th key uid"
        and "same_tables (put_key uid key s) s'"
    | (remove_found) u where "t = Remove_lookup (usr_name u)"
        and "t' = Remove_invites (usr_name u) (usr_id u)" and "same_tables s s'" and "u \<in> set (users s)"
    | (invites_dropped) name uid where "t = Remove_invites name uid" and "t' = Remove_row name uid"
        and "same_tables (drop_invites uid s) s'"
    | (user_dropped) name uid where "t = Remove_row name uid" and "t' = Removed name"
        and "same_tables (drop_user uid s) s'"
proof (cases t)
  case (Mint_lookup m)
  with assms(1) have a: "after (user_id_by_name (mt_name m))
      (\<lambda>existing. case existing of Some _ \<Rightarrow> Mint_conflict | None \<Rightarrow> Mint_user m) s = (t', s')" by simp
  then show thesis
    by (cases rule: after_cases)
      (use Mint_lookup in \<open>auto elim!: user_id_by_name_cases intro: idle mint_free\<close>)
next
  case (Mint_user m)
  with assms(1) have a: "after (insert_user (mint_user_row m))
      (\<lambda>_. Mint_row (new_user_id (mt_hex m)) m) s = (t', s')"
    by (simp add: mint_user_row_def new_user_row_def)
  then show thesis
  proof (cases rule: after_cases)
    case (stop e)
    from stop(1) show thesis
      by (cases rule: insert_user_cases) (use stop(2) in \<open>auto intro: idle\<close>)
  next
    case (cont x)
    from cont(1) show thesis
      by (cases rule: insert_user_cases)
        (use Mint_user cont(2) in \<open>auto simp: mint_user_row_def new_user_row_def intro!: user_added\<close>)
  qed
next
  case (Mint_row uid m)
  then show thesis
    using assms(1) by (auto elim!: after_cases create_invite_cases intro: idle invite_added)
next
  case (Redeem_consume th key now)
  then show thesis
    using assms(1) by (auto elim!: after_cases consume_invite_cases intro: idle consumed)
next
  case (Redeem_lookup th key)
  then show thesis
    using assms(1)
    by (auto elim!: after_cases invite_user_cases intro: idle looked_up split: option.splits)
next
  case (Redeem_bind th key uid)
  then show thesis
    using assms(1) by (auto elim!: after_cases bind_key_cases intro: idle bound)
next
  case (Remove_lookup name)
  then show thesis
    using assms(1) by (auto elim!: after_cases user_id_by_name_cases intro: idle remove_found)
next
  case (Remove_invites name uid)
  then show thesis
    using assms(1) by (auto elim!: after_cases delete_invites_of_cases intro: idle invites_dropped)
next
  case (Remove_row name uid)
  then show thesis
    using assms(1) by (auto elim!: after_cases delete_user_cases intro: idle user_dropped)
qed (use assms(2) in auto)

section \<open>Redemptions of an invite\<close>

text \<open>The tasks that have consumed the invite of a token, and those that will issue it.\<close>

fun holds_invite :: "string \<Rightarrow> task \<Rightarrow> bool" where
  "holds_invite th (Redeem_lookup th' _) \<longleftrightarrow> th' = th"
| "holds_invite th (Redeem_bind th' _ _) \<longleftrightarrow> th' = th"
| "holds_invite th (Redeemed th' _ _) \<longleftrightarrow> th' = th"
| "holds_invite th _ \<longleftrightarrow> False"

fun issues_invite :: "string \<Rightarrow> task \<Rightarrow> bool" where
  "issues_invite th (Mint_lookup m) \<longleftrightarrow> mt_token_hash m = th"
| "issues_invite th (Mint_user m) \<longleftrightarrow> mt_token_hash m = th"
| "issues_invite th (Mint_row _ m) \<longleftrightarrow> mt_token_hash m = th"
| "issues_invite th _ \<longleftrightarrow> False"

definition redemptions :: "string \<Rightarrow> task list \<Rightarrow> nat" where
  "redemptions th ts = length (filter (holds_invite th) ts)"

definition issuers :: "string \<Rightarrow> task list \<Rightarrow> nat" where
  "issuers th ts = length (filter (issues_invite th) ts)"

definition is_open :: "string \<Rightarrow> invite_row \<Rightarrow> bool" where
  "is_open th i \<longleftrightarrow> inv_token_hash i = th \<and> inv_redeemed_at i = None"

definition open_invites :: "string \<Rightarrow> db \<Rightarrow> nat" where
  "open_invites th s = length (filter (is_open th) (invites s))"

text \<open>The invites of a token still to come, open, or consumed: their number never grows.\<close>

definition share :: "string \<Rightarrow> task \<Rightarrow> nat" where
  "share th t = of_bool (holds_invite th t \<or> issues_invite th t)"

definition supply_of :: "string \<Rightarrow> system \<Rightarrow> nat" where
  "supply_of th c = open_invites th (fst c) + sum_list (map (share th) (snd c))"

lemma open_invites_same: "same_tables s t \<Longrightarrow> open_invites th t = open_invites th s"
  by (simp add: open_invites_def same_tables_iff)

lemma open_invites_changes [simp]:
  "open_invites th (s\<lparr>users := us\<rparr>) = open_invites th s"
  "open_invites th (drop_user uid s) = open_invites th s"
  "open_invites th (put_key uid key s) = open_invites th s"
  by (simp_all add: open_invites_def drop_user_def)

lemma length_filter_mono: "(\<And>x. P x \<Longrightarrow> Q x) \<Longrightarrow> length (filter P xs) \<le> length (filter Q xs)"
  by (induction xs) (auto simp: le_SucI)

lemma filter_length_less:
  "\<lbrakk>x \<in> set xs; Q x; \<not> P x; \<And>x. P x \<Longrightarrow> Q x\<rbrakk> \<Longrightarrow> length (filter P xs) < length (filter Q xs)"
proof (induction xs)
  case (Cons y ys)
  show ?case
  proof (cases "y = x")
    case True
    with Cons.prems length_filter_mono [of P Q ys] show ?thesis by simp
  next
    case False
    with Cons show ?thesis by auto
  qed
qed simp

lemma open_after_consume:
  "filter (is_open th) (invites (mark_redeemed th' now s)) =
     filter (\<lambda>i. is_open th i \<and> \<not> redeemable th' now i) (invites s)"
proof -
  have "filter (is_open th) (map (\<lambda>i. if redeemable th' now i
        then i\<lparr>inv_redeemed_at := Some (as_i64 now)\<rparr> else i) is)
      = filter (\<lambda>i. is_open th i \<and> \<not> redeemable th' now i) is" for "is"
    by (induction "is") (auto simp: is_open_def)
  then show ?thesis by (simp add: mark_redeemed_def)
qed

lemma consume_uses_one:
  assumes "\<exists>i \<in> set (invites s). redeemable th' now i"
  shows "open_invites th (mark_redeemed th' now s) + of_bool (th' = th) \<le> open_invites th s"
proof (cases "th' = th")
  case True
  from assms obtain i where "i \<in> set (invites s)" "redeemable th' now i" by blast
  with True have "length (filter (\<lambda>i. is_open th i \<and> \<not> redeemable th' now i) (invites s))
      < length (filter (is_open th) (invites s))"
    by (intro filter_length_less [of i]) (auto simp: is_open_def redeemable_def)
  with True show ?thesis by (simp add: open_invites_def open_after_consume)
next
  case False
  then show ?thesis
    using length_filter_mono [of "\<lambda>i. is_open th i \<and> \<not> redeemable th' now i" "is_open th" "invites s"]
    by (simp add: open_invites_def open_after_consume)
qed

lemma open_after_drop: "open_invites th (drop_invites uid s) \<le> open_invites th s"
  by (simp add: open_invites_def drop_invites_def) (rule length_filter_mono, simp)

lemma advance_supply:
  assumes "advance t s = (t', s')" and "\<not> finished t"
  shows "open_invites th s' + share th t' \<le> open_invites th s + share th t"
  using assms
proof (cases rule: advance_cases)
  case (invite_added uid m)
  from open_invites_same [OF invite_added(3)] invite_added(1,2) show ?thesis
    by (simp add: share_def) (simp add: open_invites_def new_invite_row_def is_open_def)
next
  case (consumed th' key now)
  with consume_uses_one [of s th' now th] show ?thesis by (auto simp: open_invites_same share_def)
next
  case (invites_dropped name uid)
  with open_after_drop [of th uid s] show ?thesis by (simp add: open_invites_same share_def)
qed (auto simp: open_invites_same share_def)

lemma step_supply: "step c c' \<Longrightarrow> supply_of th c' \<le> supply_of th c"
proof (induction rule: step.induct)
  case (1 i ts s t' s')
  have "share th (ts ! i) \<le> sum_list (map (share th) ts)"
    using 1(1) by (intro member_le_sum_list) auto
  with advance_supply [OF 1(3,2), of th] 1(1) show ?case
    by (simp add: supply_of_def map_update sum_list_update)
qed

lemma sum_share: "sum_list (map (share th) ts) \<ge> redemptions th ts"
  by (induction ts) (auto simp: share_def redemptions_def)

lemma sum_share_start:
  "\<forall>t \<in> set ts. \<not> holds_invite th t \<Longrightarrow> sum_list (map (share th) ts) = issuers th ts"
  by (induction ts) (auto simp: share_def issuers_def)

lemma redemptions_bounded:
  assumes "steps (s, ts) (s', ts')" and "\<forall>t \<in> set ts. \<not> holds_invite th t"
  shows "redemptions th ts' \<le> open_invites th s + issuers th ts"
proof -
  have "supply_of th (s', ts') \<le> supply_of th (s, ts)"
    using assms(1) by (rule steps_decreasing) (rule step_supply)
  with sum_share [of th ts'] sum_share_start [OF assms(2)] show ?thesis
    by (simp add: supply_of_def)
qed

section \<open>Users of an interleaving without removals\<close>

definition keyed_ids :: "db \<Rightarrow> string set" where
  "keyed_ids s = usr_id ` set (filter (\<lambda>u. usr_public_key u \<noteq> None) (users s))"

definition user_ids :: "db \<Rightarrow> string set" where
  "user_ids s = usr_id ` set (users s)"

fun removes :: "task \<Rightarrow> bool" where
  "removes (Remove_lookup _) = True"
| "removes (Remove_invites _ _) = True"
| "removes (Remove_row _ _) = True"
| "removes _ = False"

fun has_user :: "db \<Rightarrow> task \<Rightarrow> bool" where
  "has_user s (Mint_row uid _) \<longleftrightarrow> uid \<in> user_ids s"
| "has_user s (Minted uid) \<longleftrightarrow> uid \<in> user_ids s"
| "has_user s (Redeem_bind _ _ uid) \<longleftrightarrow> uid \<in> user_ids s"
| "has_user s (Redeemed _ _ uid) \<longleftrightarrow> uid \<in> keyed_ids s"
| "has_user s t \<longleftrightarrow> True"

definition invited_exist :: "db \<Rightarrow> bool" where
  "invited_exist s \<longleftrightarrow> inv_user_id ` set (invites s) \<subseteq> user_ids s"

lemma ids_same:
  "same_tables s t \<Longrightarrow> keyed_ids t = keyed_ids s"
  "same_tables s t \<Longrightarrow> user_ids t = user_ids s"
  "same_tables s t \<Longrightarrow> invited_exist t = invited_exist s"
  by (simp_all add: keyed_ids_def user_ids_def invited_exist_def same_tables_iff)

lemma ids_of_changes [simp]:
  "user_ids (s\<lparr>users := users s @ [u]\<rparr>) = insert (usr_id u) (user_ids s)"
  "user_ids (s\<lparr>invites := is\<rparr>) = user_ids s"
  "user_ids (mark_redeemed th now s) = user_ids s"
  "keyed_ids (s\<lparr>invites := is\<rparr>) = keyed_ids s"
  "keyed_ids (mark_redeemed th now s) = keyed_ids s"
  "invited_exist s \<Longrightarrow> invited_exist (s\<lparr>users := users s @ [u]\<rparr>)"
  "invited_exist (mark_redeemed th now s) = invited_exist s"
  "invited_exist (put_key uid key s) = invited_exist s"
  "invited_exist (s\<lparr>invites := invites s @ [i]\<rparr>) \<longleftrightarrow> invited_exist s \<and> inv_user_id i \<in> user_ids s"
  by (auto simp: user_ids_def keyed_ids_def invited_exist_def)

lemma ids_put_key [simp]:
  "user_ids (put_key uid key s) = user_ids s"
  "keyed_ids (put_key uid key s) = keyed_ids s \<union> ({uid} \<inter> user_ids s)"
proof -
  show "user_ids (put_key uid key s) = user_ids s" by (simp add: user_ids_def)
  have "usr_id ` set (filter (\<lambda>u. usr_public_key u \<noteq> None)
          (map (\<lambda>u. if usr_id u = uid then u\<lparr>usr_public_key := Some key\<rparr> else u) us))
      = usr_id ` set (filter (\<lambda>u. usr_public_key u \<noteq> None) us) \<union> ({uid} \<inter> usr_id ` set us)" for us
  proof (induction us)
    case (Cons u us)
    then show ?case by (cases "usr_id u = uid"; cases "usr_public_key u") (simp_all, blast+)
  qed simp
  then show "keyed_ids (put_key uid key s) = keyed_ids s \<union> ({uid} \<inter> user_ids s)"
    by (simp add: keyed_ids_def user_ids_def put_key_def)
qed

lemma keyed_grows: "keyed_ids s \<subseteq> keyed_ids (s\<lparr>users := users s @ [u]\<rparr>)"
  by (auto simp: keyed_ids_def)

lemma has_user_grows:
  "\<lbrakk>has_user s t; user_ids s \<subseteq> user_ids s'; keyed_ids s \<subseteq> keyed_ids s'\<rbrakk> \<Longrightarrow> has_user s' t"
  by (cases t) auto

lemma advance_has_user:
  assumes "advance t s = (t', s')" and "\<not> finished t" and "\<not> removes t"
    and "has_user s t" and "invited_exist s"
  shows "has_user s' t' \<and> \<not> removes t' \<and> invited_exist s' \<and>
    user_ids s \<subseteq> user_ids s' \<and> keyed_ids s \<subseteq> keyed_ids s'"
  using assms(1,2)
proof (cases rule: advance_cases)
  case (user_added m)
  with assms(5) keyed_grows [of s "mint_user_row m"] show ?thesis
    by (auto simp: ids_same mint_user_row_def new_user_row_def)
next
  case (looked_up th key i)
  moreover have "inv_user_id i \<in> user_ids s"
    using assms(5) looked_up(4) by (auto simp: invited_exist_def)
  ultimately show ?thesis using assms(5) by (simp add: ids_same)
qed (use assms(3-5) in \<open>auto simp: ids_same new_invite_row_def\<close>)

definition settled :: "system \<Rightarrow> bool" where
  "settled c \<longleftrightarrow> invited_exist (fst c) \<and> (\<forall>t \<in> set (snd c). has_user (fst c) t \<and> \<not> removes t)"

lemma step_settled: "step c c' \<Longrightarrow> settled c \<Longrightarrow> settled c'"
proof (induction rule: step.induct)
  case (1 i ts s t' s')
  then have mem: "ts ! i \<in> set ts" by simp
  with 1 have "has_user s' t' \<and> \<not> removes t' \<and> invited_exist s' \<and>
      user_ids s \<subseteq> user_ids s' \<and> keyed_ids s \<subseteq> keyed_ids s'"
    by (intro advance_has_user) (auto simp: settled_def)
  with 1(4) set_update_subset_insert [of ts i t'] show ?case
    by (auto simp: settled_def intro: has_user_grows)
qed

section \<open>Progress\<close>

fun remaining :: "task \<Rightarrow> nat" where
  "remaining (Mint_lookup _) = 3"
| "remaining (Mint_user _) = 2"
| "remaining (Mint_row _ _) = 1"
| "remaining (Redeem_consume _ _ _) = 3"
| "remaining (Redeem_lookup _ _) = 2"
| "remaining (Redeem_bind _ _ _) = 1"
| "remaining (Remove_lookup _) = 3"
| "remaining (Remove_invites _ _) = 2"
| "remaining (Remove_row _ _) = 1"
| "remaining _ = 0"

definition remaining_of :: "system \<Rightarrow> nat" where
  "remaining_of c = sum_list (map remaining (snd c))"

lemma advance_remaining:
  assumes "advance t s = (t', s')" and "\<not> finished t"
  shows "remaining t' < remaining t"
  using assms
proof (cases rule: advance_cases)
  case idle
  with assms(2) show ?thesis by (cases t) auto
qed auto

lemma step_remaining: "step c c' \<Longrightarrow> remaining_of c' < remaining_of c"
proof (induction rule: step.induct)
  case (1 i ts s t' s')
  have "remaining (ts ! i) \<le> sum_list (map remaining ts)"
    using 1(1) by (intro member_le_sum_list) auto
  with advance_remaining [OF 1(3,2)] 1(1) show ?case
    by (simp add: remaining_of_def map_update sum_list_update)
qed

lemma steps_remaining: "(step ^^ n) c c' \<Longrightarrow> n \<le> remaining_of c"
proof (induction n arbitrary: c)
  case (Suc n)
  obtain d where "step c d" "(step ^^ n) d c'" using relpowp_Suc_D2 [OF Suc.prems] by blast
  with Suc.IH [of d] step_remaining [of c d] show ?case by simp
qed simp

lemma remaining_bounded: "remaining_of (s, ts) \<le> 3 * length ts"
proof -
  have "remaining t \<le> 3" for t by (cases t) auto
  then show ?thesis unfolding remaining_of_def
    by (induction ts) (auto intro: add_mono [of _ 3, simplified])
qed

lemma step_iff_unfinished: "(\<exists>c. step (s, ts) c) \<longleftrightarrow> \<not> list_all finished ts"
proof
  assume "\<exists>c. step (s, ts) c"
  then show "\<not> list_all finished ts" by (auto elim!: stepE simp: list_all_length)
next
  assume "\<not> list_all finished ts"
  then obtain i where i: "i < length ts" "\<not> finished (ts ! i)" by (auto simp: list_all_length)
  obtain t' s' where "advance (ts ! i) s = (t', s')" by fastforce
  from step.intros [OF i this] show "\<exists>c. step (s, ts) c" ..
qed

end
