(* ===== verification/Interleaving_Props.thy ===== *)
theory Interleaving_Props
  imports Interleaving
begin

text \<open>
  What holds of invites and users when the statements of concurrent requests interleave, and what
  does not.
\<close>

definition demo_mint :: mint_task where
  "demo_mint = \<lparr>mt_name = ''ada'', mt_project = None, mt_now = 100, mt_hex = ''00000000000000aa'',
     mt_token_hash = ''h1'', mt_expires = 86500\<rparr>"

lemma demo_mint_fresh: "as_i64 100 < as_i64 (mt_expires demo_mint)"
  by (simp add: demo_mint_def i64_less_small)

section \<open>Tasks and operations\<close>

text \<open>
  The interleaved model refines the operations: a task that runs without interruption does
  what the operation does, with the same result and the same tables, on every branch and for every
  schedule of failing statements.
\<close>

lemma tasks_refine_operations:
  "alone 3 (Redeem_consume th key now) s =
     outcome (\<lambda>r. case r of None \<Rightarrow> Redeem_refused | Some uid \<Rightarrow> Redeemed th key uid)
       (redeem_invite th key now s) \<and>
   alone 3 (Remove_lookup name) s =
     outcome (\<lambda>removed. if removed then Removed name else Remove_unknown) (remove_user name s) \<and>
   mint_alone pf out name project s =
     outcome (\<lambda>r. case r of None \<Rightarrow> Mint_conflict | Some m \<Rightarrow> Minted (mi_user_id m))
       (mint_invite pf out url name project s)"
  by (simp only: alone_redeem alone_remove mint_alone_eq [of pf out name project s url])

section \<open>Invites are used once\<close>

text \<open>
  C32: under every interleaving of mints, redemptions and removals, the redemptions of a token that
  got past its consumption are at most the invites of that token there were or were being minted:
  an invite minted once is redeemed at most once, however many requests race for it.
\<close>

theorem racing_redemptions_bounded:
  assumes "steps (s, ts) (s', ts')" and "\<forall>t \<in> set ts. \<not> holds_invite th t"
  shows "redemptions th ts' \<le> open_invites th s + issuers th ts"
  using assms by (rule redemptions_bounded)

definition race_tasks :: "task list" where
  "race_tasks = [Mint_lookup demo_mint, Redeem_consume ''h1'' ''k1'' 100, Redeem_consume ''h1'' ''k2'' 100]"

definition race_end :: "task list" where
  "race_end = [Minted ''usr_00000000000000aa'', Redeem_refused,
     Redeemed ''h1'' ''k2'' ''usr_00000000000000aa'']"

lemma race_runs: "\<exists>s'. steps (empty_db, race_tasks) (s', race_end)"
proof -
  have "map_option snd (run_schedule [0, 0, 0, 2, 1, 2, 2] (empty_db, race_tasks)) = Some race_end"
    by code_simp
  then obtain s' where "run_schedule [0, 0, 0, 2, 1, 2, 2] (empty_db, race_tasks) = Some (s', race_end)"
    by auto
  then show ?thesis using run_schedule_steps by blast
qed

theorem racing_redemptions_bounded_witness:
  "\<exists>s'. steps (empty_db, race_tasks) (s', race_end) \<and> redemptions ''h1'' race_end = 1 \<and>
     redemptions ''h1'' race_end \<le> open_invites ''h1'' empty_db + issuers ''h1'' race_tasks"
proof -
  obtain s' where run: "steps (empty_db, race_tasks) (s', race_end)" using race_runs by blast
  have "\<forall>t \<in> set race_tasks. \<not> holds_invite ''h1'' t" by (simp add: race_tasks_def)
  from racing_redemptions_bounded [OF run this] run show ?thesis
    by (auto simp: redemptions_def race_end_def)
qed

section \<open>Redeemed users hold keys\<close>

text \<open>
  C33: as long as no user is being removed, every redemption that reports success has bound a key to
  an existing user, and every mint that reports success has created one, under every interleaving.
\<close>

theorem redeemed_users_hold_keys:
  assumes "steps (s, ts) (s', ts')" and "invited_exist s"
    and "\<forall>t \<in> set ts. \<not> removes t \<and> has_user s t"
  shows "(\<forall>th key uid. Redeemed th key uid \<in> set ts' \<longrightarrow> uid \<in> keyed_ids s') \<and>
    (\<forall>uid. Minted uid \<in> set ts' \<longrightarrow> uid \<in> user_ids s')"
proof -
  have "settled (s, ts)" using assms(2,3) by (simp add: settled_def)
  from steps_invariant [where I = settled, OF assms(1) this step_settled] show ?thesis
    by (force simp: settled_def)
qed

theorem redeemed_users_hold_keys_witness:
  "\<exists>s'. steps (empty_db, race_tasks) (s', race_end) \<and> ''usr_00000000000000aa'' \<in> keyed_ids s'"
proof -
  obtain s' where run: "steps (empty_db, race_tasks) (s', race_end)" using race_runs by blast
  have "invited_exist empty_db" by (simp add: invited_exist_def empty_db_def)
  moreover have "\<forall>t \<in> set race_tasks. \<not> removes t \<and> has_user empty_db t"
    by (simp add: race_tasks_def)
  ultimately show ?thesis
    using redeemed_users_hold_keys [OF run] run by (fastforce simp: race_end_def)
qed

section \<open>A removal in between\<close>

text \<open>
  C34: minting an invite takes two inserts outside a transaction, and a removal can come between
  them: the user is gone, the invite is issued all the same, and its redemption reports success for a
  user that does not exist.  This holds for every mint whose invite has not expired when redeemed.
\<close>

definition removal_race :: "mint_task \<Rightarrow> string \<Rightarrow> u64 \<Rightarrow> task list" where
  "removal_race m key now =
     [Mint_lookup m, Remove_lookup (mt_name m), Redeem_consume (mt_token_hash m) key now]"

definition removal_race_end :: "mint_task \<Rightarrow> string \<Rightarrow> task list" where
  "removal_race_end m key =
     [Minted (new_user_id (mt_hex m)), Removed (mt_name m),
      Redeemed (mt_token_hash m) key (new_user_id (mt_hex m))]"

theorem removal_orphans_invite:
  assumes "as_i64 now < as_i64 (mt_expires m)"
  shows "\<exists>s'. steps (empty_db, removal_race m key now) (s', removal_race_end m key) \<and> users s' = []"
proof -
  obtain s' where "run_schedule [0, 0, 1, 1, 1, 0, 2, 2, 2] (empty_db, removal_race m key now) =
      Some (s', removal_race_end m key)" and "users s' = []"
    using assms
    by (simp add: removal_race_def removal_race_end_def after_def empty_db_def statement_def query_def
        execute_def user_id_by_name_def insert_user_def create_invite_def insert_invite_def
        insert_user_row_def insert_invite_row_def insert_unique_def dbind_def dreturn_def
        consume_invite_def invite_user_def bind_key_def delete_invites_of_def delete_user_def
        redeemable_def mark_redeemed_def put_key_def)
  then show ?thesis using run_schedule_steps by blast
qed

theorem removal_orphans_invite_witness:
  "\<exists>s'. steps (empty_db, removal_race demo_mint ''k'' 100) (s', removal_race_end demo_mint ''k'') \<and>
     users s' = []"
  by (rule removal_orphans_invite [OF demo_mint_fresh])

section \<open>A redemption that fails half way\<close>

lemma mark_redeemed_idle:
  "\<forall>i \<in> set (invites s). \<not> redeemable th now i \<Longrightarrow> mark_redeemed th now s = s"
  by (simp add: mark_redeemed_def map_idI)

lemma mark_redeemed_closes:
  assumes "distinct (map inv_token_hash (invites s))" and "i \<in> set (invites s)" and "redeemable th now i"
    and "j \<in> set (invites (mark_redeemed th now s))"
  shows "\<not> redeemable th now' j"
proof
  assume j: "redeemable th now' j"
  from assms(4) obtain k where k: "k \<in> set (invites s)"
    and jk: "j = (if redeemable th now k then k\<lparr>inv_redeemed_at := Some (as_i64 now)\<rparr> else k)"
    by (auto simp: mark_redeemed_def)
  from jk j have "inv_token_hash k = inv_token_hash i"
    using assms(3) by (auto simp: redeemable_def split: if_splits)
  with assms(1,2) k have "k = i" by (auto simp: distinct_map dest: inj_onD)
  with jk j assms(3) show False by (simp add: redeemable_def)
qed

text \<open>
  C31: a redemption that fails after it consumed the invite loses it: no key is bound, the failure is
  reported, and no later redemption of the token succeeds on those tables, at any time and with any
  key.  The three statements of a redemption are not one transaction.
\<close>

theorem half_redemption_loses_invite:
  assumes "redeem_invite th key now s = (Inl e, t)" and "\<not> same_tables s t"
    and "distinct (map inv_token_hash (invites s))"
  shows "users t = users s \<and> (\<nexists>uid t'. redeem_invite th key' now' t = (Inr (Some uid), t'))"
  using assms(1)
proof (cases rule: redeem_invite_cases)
  case (half e')
  then have "mark_redeemed th now s \<noteq> s" using assms(2) by auto
  then obtain i where "i \<in> set (invites s)" "redeemable th now i"
    using mark_redeemed_idle by blast
  then have closed: "\<not> redeemable th now' j" if "j \<in> set (invites t)" for j
    using mark_redeemed_closes [OF assms(3)] that half(2) by (auto simp: same_tables_iff)
  have "\<not> redeem_invite th key' now' t = (Inr (Some uid), t')" for uid t'
  proof
    assume "redeem_invite th key' now' t = (Inr (Some uid), t')"
    then show False by (cases rule: redeem_invite_cases) (use closed in auto)
  qed
  with half(2) show ?thesis by (auto simp: same_tables_iff)
qed (use assms(2) in auto)

definition half_db :: db where
  "half_db = \<lparr>users = [\<lparr>usr_id = ''usr_1'', usr_name = ''ada'', usr_public_key = None,
       usr_project_id = None, usr_created_at = as_i64 50\<rparr>],
     invites = [\<lparr>inv_token_hash = ''h1'', inv_user_id = ''usr_1'',
       inv_expires_at = as_i64 200, inv_redeemed_at = None, inv_created_at = as_i64 50\<rparr>],
     projects = [], releases = [], faults = [None, None, Some ''disk I/O error'']\<rparr>"

theorem half_redemption_loses_invite_witness:
  "\<exists>e t. redeem_invite ''h1'' ''k'' 100 half_db = (Inl e, t) \<and>
     (\<nexists>uid t'. redeem_invite ''h1'' ''k'' 100 t = (Inr (Some uid), t'))"
proof -
  have "as_i64 100 < as_i64 200" by (simp add: i64_less_small)
  then obtain e t where run: "redeem_invite ''h1'' ''k'' 100 half_db = (Inl e, t)"
    and "\<not> same_tables half_db t"
    by (simp add: redeem_invite_def half_db_def consume_invite_def invite_user_def bind_key_def
        dbind_def query_def execute_def statement_def mark_redeemed_def redeemable_def same_tables_iff)
  moreover have "distinct (map inv_token_hash (invites half_db))" by (simp add: half_db_def)
  ultimately show ?thesis using half_redemption_loses_invite by blast
qed

section \<open>Every interleaving ends\<close>

text \<open>
  Requests cannot block each other: every interleaving ends after at most three statements per
  request, and a system can make a step exactly as long as some request is unfinished.
\<close>

lemma interleavings_end:
  "(\<nexists>n c. 3 * length ts < n \<and> (step ^^ n) (s, ts) c) \<and>
   ((\<exists>c. step (s, ts) c) \<longleftrightarrow> \<not> list_all finished ts)"
proof
  have "remaining_of (s, ts) \<le> 3 * length ts" by (rule remaining_bounded)
  then show "\<nexists>n c. 3 * length ts < n \<and> (step ^^ n) (s, ts) c"
    using steps_remaining [of _ "(s, ts)"] by fastforce
  show "(\<exists>c. step (s, ts) c) \<longleftrightarrow> \<not> list_all finished ts" by (rule step_iff_unfinished)
qed

end
