(* ===== verification/Client_World.thy ===== *)
theory Client_World
  imports Server_Config Signing Http Manifest "HOL-Library.AList"
begin

text \<open>
  What a command of the client (\<^verbatim>\<open>apps/cli/src\<close>) runs in: its files, the answers typed at prompts,
  the lines printed, the network, and the failures of file operations.  A command is a state
  transformer that stops at the first error, as the code does with \<^verbatim>\<open>?\<close>.

  The record \<open>tools\<close> holds the library code and the machine the client relies on: serde's JSON
  functions, the \<^verbatim>\<open>url\<close> crate, the key type of ed25519, sending a request, the environment, the clock
  and the random bytes.
\<close>

section \<open>Errors\<close>

text \<open>
  The distinctions the code makes: a file that does not exist, a network failure (no connection or a
  timeout), any other error with its message.
\<close>

datatype cerr =
    Absent_file
  | Network string
  | Message string

fun show_cerr :: "cerr \<Rightarrow> string" where
  "show_cerr Absent_file = ''No such file or directory (os error 2)''"
| "show_cerr (Network e) = e"
| "show_cerr (Message e) = e"

section \<open>The state\<close>

datatype answer =
    Yes_no bool
  | Picked nat
  | Typed string

text \<open>
  A file operation fails with the message of the system, before it had an effect or, when a file is being
  written, after it was emptied and the first bytes of the new contents went in.
\<close>

datatype io_fault =
    Refused string
  | Cut_short string nat

fun fault_text :: "io_fault \<Rightarrow> string" where
  "fault_text (Refused e) = e"
| "fault_text (Cut_short e _) = e"

record 'n client =
  cl_files :: "(string \<times> string) list"
  cl_io_faults :: "io_fault option list"
  cl_answers :: "answer list"
  cl_net :: 'n
  cl_draws :: nat
  cl_prompts :: "string list"
  cl_out :: "string list"
  cl_err :: "string list"

type_synonym ('n, 'a) cio = "'n client \<Rightarrow> (cerr + 'a) \<times> 'n client"

definition creturn :: "'a \<Rightarrow> ('n, 'a) cio" where
  "creturn x = (\<lambda>c. (Inr x, c))"

definition cfail :: "cerr \<Rightarrow> ('n, 'a) cio" where
  "cfail e = (\<lambda>c. (Inl e, c))"

definition cbind :: "('n, 'a) cio \<Rightarrow> ('a \<Rightarrow> ('n, 'b) cio) \<Rightarrow> ('n, 'b) cio" where
  "cbind m f = (\<lambda>c. case m c of (Inl e, c') \<Rightarrow> (Inl e, c') | (Inr x, c') \<Rightarrow> f x c')"

text \<open>The outcome of an operation as a value, where the code matches on it.\<close>

definition attempt :: "('n, 'a) cio \<Rightarrow> ('n, cerr + 'a) cio" where
  "attempt m = (\<lambda>c. case m c of (r, c') \<Rightarrow> (Inr r, c'))"

definition of_result :: "cerr + 'a \<Rightarrow> ('n, 'a) cio" where
  "of_result r = (case r of Inl e \<Rightarrow> cfail e | Inr x \<Rightarrow> creturn x)"

definition println :: "string \<Rightarrow> ('n, unit) cio" where
  "println l = (\<lambda>c. (Inr (), c\<lparr>cl_out := cl_out c @ [l]\<rparr>))"

definition eprintln :: "string \<Rightarrow> ('n, unit) cio" where
  "eprintln l = (\<lambda>c. (Inr (), c\<lparr>cl_err := cl_err c @ [l]\<rparr>))"

text \<open>The dash of some messages, as UTF-8.\<close>

definition em_dash :: string where
  "em_dash = [CHR 0xE2, CHR 0x80, CHR 0x94]"

section \<open>Files\<close>

text \<open>
  Every file operation may fail: \<open>cl_io_faults\<close> is the schedule, one entry per operation, \<open>None\<close> for
  success, and once it is used up every operation succeeds.  A failed operation changes nothing, but a
  write that is cut short leaves the bytes that were written: \<^verbatim>\<open>fs::write\<close> truncates the file first.
\<close>

definition fs_op :: "('n, 'a) cio \<Rightarrow> ('n, 'a) cio" where
  "fs_op act = (\<lambda>c.
     case cl_io_faults c of
       [] \<Rightarrow> act c
     | None # fs \<Rightarrow> act (c\<lparr>cl_io_faults := fs\<rparr>)
     | Some e # fs \<Rightarrow> (Inl (Message (fault_text e)), c\<lparr>cl_io_faults := fs\<rparr>))"

definition read_to_string :: "string \<Rightarrow> ('n, string) cio" where
  "read_to_string path = fs_op (\<lambda>c.
     case map_of (cl_files c) path of None \<Rightarrow> (Inl Absent_file, c) | Some raw \<Rightarrow> (Inr raw, c))"

definition write_file :: "string \<Rightarrow> string \<Rightarrow> ('n, unit) cio" where
  "write_file path raw = (\<lambda>c.
     case cl_io_faults c of
       Some (Cut_short e n) # fs \<Rightarrow>
         (Inl (Message e), c\<lparr>cl_io_faults := fs, cl_files := AList.update path (take n raw) (cl_files c)\<rparr>)
     | _ \<Rightarrow> fs_op (\<lambda>c. (Inr (), c\<lparr>cl_files := AList.update path raw (cl_files c)\<rparr>)) c)"

definition remove_path :: "string \<Rightarrow> ('n, unit) cio" where
  "remove_path path = fs_op (\<lambda>c.
     if map_of (cl_files c) path = None then (Inl Absent_file, c)
     else (Inr (), c\<lparr>cl_files := AList.delete path (cl_files c)\<rparr>))"

text \<open>Creating directories and setting permissions have no effect on the contents of files.\<close>

definition touch_fs :: "('n, unit) cio" where
  "touch_fs = fs_op (creturn ())"

text \<open>\<^verbatim>\<open>read_dir\<close>: the names directly in a directory; one without files is like a missing one.\<close>

definition dir_names :: "string \<Rightarrow> (string \<times> string) list \<Rightarrow> string list" where
  "dir_names dir files = List.map_filter
     (\<lambda>(p, _). case strip_prefix p (dir @ ''/'') of
        None \<Rightarrow> None | Some n \<Rightarrow> if CHR ''/'' \<in> set n then None else Some n) files"

definition read_dir :: "string \<Rightarrow> ('n, string list) cio" where
  "read_dir dir = fs_op (\<lambda>c. (Inr (dir_names dir (cl_files c)), c))"

section \<open>Prompts\<close>

text \<open>A prompt that gets no fitting answer fails, as on an interrupt.\<close>

definition no_answer :: cerr where
  "no_answer = Message ''IO error: not a terminal''"

definition ask :: "string \<Rightarrow> (answer \<Rightarrow> 'a option) \<Rightarrow> ('n, 'a) cio" where
  "ask prompt read = (\<lambda>c.
     let c' = c\<lparr>cl_prompts := cl_prompts c @ [prompt]\<rparr> in
     case cl_answers c of
       [] \<Rightarrow> (Inl no_answer, c')
     | a # as \<Rightarrow> (case read a of None \<Rightarrow> (Inl no_answer, c'\<lparr>cl_answers := as\<rparr>)
                  | Some x \<Rightarrow> (Inr x, c'\<lparr>cl_answers := as\<rparr>)))"

definition confirm :: "string \<Rightarrow> ('n, bool) cio" where
  "confirm prompt = ask prompt (\<lambda>a. case a of Yes_no b \<Rightarrow> Some b | _ \<Rightarrow> None)"

definition select_from :: "string \<Rightarrow> 'a list \<Rightarrow> ('n, nat) cio" where
  "select_from prompt items =
     ask prompt (\<lambda>a. case a of Picked i \<Rightarrow> if i < length items then Some i else None | _ \<Rightarrow> None)"

text \<open>An empty line takes the default.\<close>

definition input_default :: "string \<Rightarrow> string \<Rightarrow> ('n, string) cio" where
  "input_default prompt dflt =
     ask prompt (\<lambda>a. case a of Typed s \<Rightarrow> Some (if s = [] then dflt else s) | _ \<Rightarrow> None)"

section \<open>Stored and exchanged data\<close>

record server_config =
  sc_server_url :: string
  sc_key_id :: string
  sc_key_path :: string

record stored_key =
  sk_key_id :: string
  sk_secret_base64 :: string

text \<open>The reply to a request: its status, and its body or why it could not be read.\<close>

record reply =
  rp_status :: nat
  rp_body :: "string + string"

record ('n, 'u, 'k, 'sk) tools =
  t_env :: environ
  t_cwd :: "cerr + string"
  t_interactive :: bool
  t_clock :: "nat \<Rightarrow> u64"
  t_random :: "nat \<Rightarrow> string"
  t_crypto :: "'k crypto"
  t_new_key :: "string \<Rightarrow> 'sk"
  t_key_bytes :: "'sk \<Rightarrow> string"
  t_key_of_bytes :: "string \<Rightarrow> 'sk"
  t_public_bytes :: "'sk \<Rightarrow> string"
  t_sign :: "'sk \<Rightarrow> string \<Rightarrow> string"
  t_hex :: "string \<Rightarrow> string"
  t_url_parse :: "string \<Rightarrow> string + 'u"
  t_url_with :: "'u \<Rightarrow> string list \<Rightarrow> string option \<Rightarrow> 'u option"
  t_url_host :: "'u \<Rightarrow> string option"
  t_url_port :: "'u \<Rightarrow> u16 option"
  t_url_tail :: "'u \<Rightarrow> string"
  t_send :: "'u \<Rightarrow> http_request \<Rightarrow> 'n \<Rightarrow> (cerr + reply) \<times> 'n"
  t_status_text :: "nat \<Rightarrow> string"
  t_status_error :: "nat \<Rightarrow> string"
  t_base64_error :: "string \<Rightarrow> string"
  t_json_server :: "server_config \<Rightarrow> string"
  t_parse_server :: "string \<Rightarrow> string + server_config"
  t_json_bindings :: "(string \<times> string) list \<Rightarrow> string"
  t_parse_bindings :: "string \<Rightarrow> string + (string \<times> string) list"
  t_json_key :: "stored_key \<Rightarrow> string"
  t_parse_key :: "string \<Rightarrow> string + stored_key"
  t_parse_invite_json :: "string \<Rightarrow> invite_payload option"
  t_json_redeem :: "string \<Rightarrow> string \<Rightarrow> string"
  t_json_new_project :: "create_project_request \<Rightarrow> string"
  t_json_new_user :: "create_user_request \<Rightarrow> string"
  t_parse_redeemed :: "string \<Rightarrow> string + string"
  t_parse_project :: "string \<Rightarrow> string + project_summary"
  t_parse_projects :: "string \<Rightarrow> string + project_summary list"
  t_parse_new_user :: "string \<Rightarrow> string + create_user_response"
  t_parse_users :: "string \<Rightarrow> string + user_summary list"
  t_parse_whoami :: "string \<Rightarrow> string + whoami_response"
  t_parse_release :: "string \<Rightarrow> string + release_summary"
  t_query_pair :: "string \<Rightarrow> string \<Rightarrow> string"
  t_key_order :: "string list \<Rightarrow> string list"
  t_json :: json_reader
  t_json5 :: json_reader
  t_deserialize :: deserializer
  t_json_manifest :: "manifest \<Rightarrow> string"

section \<open>Clock, random bytes and network\<close>

text \<open>Every reading of the clock or of the random generator is a new draw.\<close>

definition draw :: "(nat \<Rightarrow> 'a) \<Rightarrow> ('n, 'a) cio" where
  "draw values = (\<lambda>c. (Inr (values (cl_draws c)), c\<lparr>cl_draws := Suc (cl_draws c)\<rparr>))"

definition unix_timestamp :: "('n, 'u, 'k, 'sk) tools \<Rightarrow> ('n, u64) cio" where
  "unix_timestamp t = draw (t_clock t)"

definition send :: "('n, 'u, 'k, 'sk) tools \<Rightarrow> 'u \<Rightarrow> http_request \<Rightarrow> ('n, reply) cio" where
  "send t url rq = (\<lambda>c. case t_send t url rq (cl_net c) of (r, n) \<Rightarrow> (r, c\<lparr>cl_net := n\<rparr>))"

section \<open>Reasoning about commands\<close>

lemma cbind_cases:
  assumes "cbind m f c = (r, c')"
  obtains (stop) e where "m c = (Inl e, c')" and "r = Inl e"
    | (cont) x c1 where "m c = (Inr x, c1)" and "f x c1 = (r, c')"
  using assms by (auto simp: cbind_def split: prod.splits sum.splits)

lemma cbind_Inr [simp]: "m c = (Inr x, c1) \<Longrightarrow> cbind m f c = f x c1"
  by (simp add: cbind_def)

lemma cbind_Inl [simp]: "m c = (Inl e, c1) \<Longrightarrow> cbind m f c = (Inl e, c1)"
  by (simp add: cbind_def)

lemma creturn_app [simp]: "creturn x c = (Inr x, c)"
  by (simp add: creturn_def)

lemma cfail_app [simp]: "cfail e c = (Inl e, c)"
  by (simp add: cfail_def)

lemma cbind_creturn [simp]: "cbind (creturn x) f = f x"
  by (rule ext) simp

lemma cbind_cfail [simp]: "cbind (cfail e) f = cfail e"
  by (rule ext) simp

lemma cbind_assoc: "cbind (cbind m f) g = cbind m (\<lambda>x. cbind (f x) g)"
  by (auto simp: cbind_def split: prod.splits sum.splits)

lemma attempt_app: "attempt m c = (case m c of (r, c') \<Rightarrow> (Inr r, c'))"
  by (simp add: attempt_def)

end
