(* ===== verification/Client_Config.thy ===== *)
theory Client_Config
  imports Client_World
begin

text \<open>
  The client's configuration on disk (\<^verbatim>\<open>apps/cli/src/config.rs\<close>): one file per server entry, one per
  private key, and the global file with the bindings of projects to server entries.
\<close>

section \<open>Paths\<close>

definition is_set :: "environ \<Rightarrow> string \<Rightarrow> bool" where
  "is_set e name \<longleftrightarrow> env_var e name \<noteq> None"

definition config_root :: "('n, 'u, 'k, 'sk) tools \<Rightarrow> cerr + string" where
  "config_root t =
     (if is_set (t_env t) ''RAILYARD_DEV'' then Inr ''.dev-state''
      else case env_var (t_env t) ''XDG_CONFIG_HOME'' of
        Some path \<Rightarrow> Inr (path_join path ''railyard'')
      | None \<Rightarrow>
          (case env_var (t_env t) ''HOME'' of
             Some home \<Rightarrow> Inr (path_join (path_join home ''.config'') ''railyard'')
           | None \<Rightarrow>
               (case env_var (t_env t) ''APPDATA'' of
                  Some appdata \<Rightarrow> Inr (path_join appdata ''railyard'')
                | None \<Rightarrow> Inl (Message
                    ''could not locate a config directory: set XDG_CONFIG_HOME, HOME, or APPDATA''))))"

definition servers_dir :: "('n, 'u, 'k, 'sk) tools \<Rightarrow> cerr + string" where
  "servers_dir t = rbind (config_root t) (\<lambda>r. Inr (path_join (path_join r ''client'') ''servers''))"

definition server_path :: "('n, 'u, 'k, 'sk) tools \<Rightarrow> string \<Rightarrow> cerr + string" where
  "server_path t server_name =
     rbind (config_root t) (\<lambda>r. Inr
       (path_join (path_join (path_join r ''client'') ''servers'') (server_name @ ''.json'')))"

definition key_path :: "('n, 'u, 'k, 'sk) tools \<Rightarrow> string \<Rightarrow> cerr + string" where
  "key_path t key_id =
     rbind (config_root t) (\<lambda>r. Inr
       (path_join (path_join (path_join r ''client'') ''keys'') (key_id @ ''.json'')))"

definition global_config_path :: "('n, 'u, 'k, 'sk) tools \<Rightarrow> cerr + string" where
  "global_config_path t =
     rbind (config_root t) (\<lambda>r. Inr (path_join (path_join r ''client'') ''config.json''))"

definition invalid_data :: "string + 'a \<Rightarrow> cerr + 'a" where
  "invalid_data r = (case r of Inl e \<Rightarrow> Inl (Message e) | Inr x \<Rightarrow> Inr x)"

section \<open>Server entries\<close>

definition write_server ::
    "('n, 'u, 'k, 'sk) tools \<Rightarrow> string \<Rightarrow> server_config \<Rightarrow> ('n, string) cio" where
  "write_server t server_name server =
     cbind (of_result (server_path t server_name)) (\<lambda>path.
     cbind touch_fs (\<lambda>_.
     cbind (write_file path (t_json_server t server)) (\<lambda>_.
     creturn path)))"

definition read_server :: "('n, 'u, 'k, 'sk) tools \<Rightarrow> string \<Rightarrow> ('n, server_config) cio" where
  "read_server t server_name =
     cbind (of_result (server_path t server_name)) (\<lambda>path.
     cbind (read_to_string path) (\<lambda>raw.
     of_result (invalid_data (t_parse_server t raw))))"

definition remove_server :: "('n, 'u, 'k, 'sk) tools \<Rightarrow> string \<Rightarrow> ('n, unit) cio" where
  "remove_server t server_name =
     cbind (attempt (read_server t server_name)) (\<lambda>entry.
     cbind (case entry of
              Inr server \<Rightarrow> cbind (attempt (remove_path (sc_key_path server))) (\<lambda>_. creturn ())
            | Inl _ \<Rightarrow> creturn ()) (\<lambda>_.
     cbind (of_result (server_path t server_name)) remove_path))"

text \<open>\<^verbatim>\<open>Path::file_stem\<close> of a name with the extension \<^verbatim>\<open>json\<close>; \<^verbatim>\<open>.json\<close> itself has no extension.\<close>

definition json_stem :: "string \<Rightarrow> string option" where
  "json_stem name =
     (case strip_suffix name ''.json'' of
        None \<Rightarrow> None | Some stem \<Rightarrow> if stem = [] then None else Some stem)"

fun load_servers ::
    "('n, 'u, 'k, 'sk) tools \<Rightarrow> string \<Rightarrow> string list \<Rightarrow> ('n, (string \<times> server_config) list) cio" where
  "load_servers t dir [] = creturn []"
| "load_servers t dir (entry # rest) =
     (case json_stem entry of
        None \<Rightarrow> load_servers t dir rest
      | Some name \<Rightarrow>
          cbind (read_to_string (path_join dir entry)) (\<lambda>raw.
          (case t_parse_server t raw of
             Inl e \<Rightarrow>
               cbind (eprintln (''warning: skipping unreadable server '' @ name @ '': '' @ e)) (\<lambda>_.
               load_servers t dir rest)
           | Inr server \<Rightarrow>
               cbind (load_servers t dir rest) (\<lambda>servers. creturn ((name, server) # servers)))))"

definition list_servers :: "('n, 'u, 'k, 'sk) tools \<Rightarrow> ('n, (string \<times> server_config) list) cio" where
  "list_servers t =
     cbind (of_result (servers_dir t)) (\<lambda>dir.
     cbind (attempt (read_dir dir)) (\<lambda>entries.
     (case entries of
        Inl Absent_file \<Rightarrow> creturn []
      | Inl e \<Rightarrow> cfail e
      | Inr names \<Rightarrow>
          cbind (load_servers t dir names) (\<lambda>servers. creturn (sort_key fst servers)))))"

section \<open>Project bindings\<close>

definition read_global_config :: "('n, 'u, 'k, 'sk) tools \<Rightarrow> ('n, (string \<times> string) list) cio" where
  "read_global_config t =
     cbind (of_result (global_config_path t)) (\<lambda>path.
     cbind (attempt (read_to_string path)) (\<lambda>r.
     (case r of
        Inr raw \<Rightarrow> of_result (invalid_data (t_parse_bindings t raw))
      | Inl Absent_file \<Rightarrow> creturn []
      | Inl e \<Rightarrow> cfail e)))"

definition write_global_config ::
    "('n, 'u, 'k, 'sk) tools \<Rightarrow> (string \<times> string) list \<Rightarrow> ('n, unit) cio" where
  "write_global_config t bindings =
     cbind (of_result (global_config_path t)) (\<lambda>path.
     cbind touch_fs (\<lambda>_.
     write_file path (t_json_bindings t bindings)))"

definition read_project_binding ::
    "('n, 'u, 'k, 'sk) tools \<Rightarrow> string \<Rightarrow> ('n, string option) cio" where
  "read_project_binding t project_id =
     cbind (read_global_config t) (\<lambda>bindings. creturn (map_of bindings project_id))"

definition record_project_binding ::
    "('n, 'u, 'k, 'sk) tools \<Rightarrow> string \<Rightarrow> string \<Rightarrow> ('n, unit) cio" where
  "record_project_binding t project_id server_name =
     cbind (read_global_config t) (\<lambda>bindings.
     write_global_config t (AList.update project_id server_name bindings))"

definition remove_project_binding ::
    "('n, 'u, 'k, 'sk) tools \<Rightarrow> string \<Rightarrow> ('n, string option) cio" where
  "remove_project_binding t project_id =
     cbind (read_global_config t) (\<lambda>bindings.
     let removed = map_of bindings project_id in
     cbind (if removed \<noteq> None then write_global_config t (AList.delete project_id bindings)
            else creturn ()) (\<lambda>_.
     creturn removed))"

definition rebind_all :: "string \<Rightarrow> string \<Rightarrow> (string \<times> string) list \<Rightarrow> (string \<times> string) list" where
  "rebind_all from to = map (\<lambda>(p, s). (p, if s = from then to else s))"

definition rebind_projects ::
    "('n, 'u, 'k, 'sk) tools \<Rightarrow> string \<Rightarrow> string \<Rightarrow> ('n, nat) cio" where
  "rebind_projects t from to =
     cbind (read_global_config t) (\<lambda>bindings.
     let moved = length (filter (\<lambda>(p, s). s = from) bindings) in
     cbind (if 0 < moved then write_global_config t (rebind_all from to bindings)
            else creturn ()) (\<lambda>_.
     creturn moved))"

section \<open>Signing keys\<close>

definition write_signing_key ::
    "('n, 'u, 'k, 'sk) tools \<Rightarrow> string \<Rightarrow> 'sk \<Rightarrow> ('n, string) cio" where
  "write_signing_key t key_id signing_key =
     cbind (of_result (key_path t key_id)) (\<lambda>path.
     cbind touch_fs (\<lambda>_.
     cbind (write_file path (t_json_key t
        \<lparr>sk_key_id = key_id, sk_secret_base64 = std_encode (t_crypto t) (t_key_bytes t signing_key)\<rparr>))
       (\<lambda>_.
     cbind touch_fs (\<lambda>_.
     creturn path))))"

definition read_signing_key :: "('n, 'u, 'k, 'sk) tools \<Rightarrow> string \<Rightarrow> ('n, 'sk) cio" where
  "read_signing_key t path =
     cbind (read_to_string path) (\<lambda>raw.
     cbind (of_result (invalid_data (t_parse_key t raw))) (\<lambda>stored.
     (case std_decode (t_crypto t) (sk_secret_base64 stored) of
        None \<Rightarrow> cfail (Message (t_base64_error t (sk_secret_base64 stored)))
      | Some secret \<Rightarrow>
          if length secret = 32 then creturn (t_key_of_bytes t secret)
          else cfail (Message ''secret key must be 32 bytes''))))"

section \<open>Names\<close>

definition is_name_char :: "string \<Rightarrow> bool" where
  "is_name_char ch \<longleftrightarrow>
     (case ch of [c] \<Rightarrow> is_ascii_alphanumeric c \<or> c = CHR ''-'' \<or> c = CHR ''_'' | _ \<Rightarrow> False)"

definition sanitize_server_name :: "string \<Rightarrow> string" where
  "sanitize_server_name raw =
     trim_matches (CHR ''-'') (concat (map (\<lambda>ch. if is_name_char ch then ch else ''-'') (utf8_chars raw)))"

end
