(* ===== verification/Client_Http.thy ===== *)
theory Client_Http
  imports Client_Config
begin

text \<open>
  The requests of the client (\<^verbatim>\<open>apps/cli/src/auth.rs\<close>, \<^verbatim>\<open>apps/cli/src/http.rs\<close>): signing, building the
  URL, sending, and reading the reply.  The request built is the record the server's model reads.
\<close>

section \<open>Signing\<close>

record signed_request_headers =
  srh_key_id :: string
  srh_timestamp :: u64
  srh_nonce :: string
  srh_content_sha256 :: string
  srh_signature :: string

definition generate_signing_key :: "('n, 'u, 'k, 'sk) tools \<Rightarrow> ('n, 'sk) cio" where
  "generate_signing_key t = draw (\<lambda>n. t_new_key t (t_random t n))"

definition public_key_base64 :: "('n, 'u, 'k, 'sk) tools \<Rightarrow> 'sk \<Rightarrow> string" where
  "public_key_base64 t signing_key = std_encode (t_crypto t) (t_public_bytes t signing_key)"

definition random_nonce :: "('n, 'u, 'k, 'sk) tools \<Rightarrow> ('n, string) cio" where
  "random_nonce t = draw (\<lambda>n. t_hex t (t_random t n))"

definition sign_with ::
    "('n, 'u, 'k, 'sk) tools \<Rightarrow> 'sk \<Rightarrow> u64 \<Rightarrow> string \<Rightarrow> string \<Rightarrow> string \<Rightarrow> string \<Rightarrow> string \<Rightarrow> string
      \<Rightarrow> signed_request_headers" where
  "sign_with t signing_key timestamp nonce key_id method path_and_query host body =
     (let content_sha256 = sha256_hex (t_crypto t) body;
          canonical = canonical_request key_id timestamp nonce method path_and_query host content_sha256
      in \<lparr>srh_key_id = key_id, srh_timestamp = timestamp, srh_nonce = nonce,
          srh_content_sha256 = content_sha256,
          srh_signature = std_encode (t_crypto t) (t_sign t signing_key canonical)\<rparr>)"

definition sign_request ::
    "('n, 'u, 'k, 'sk) tools \<Rightarrow> 'sk \<Rightarrow> string \<Rightarrow> string \<Rightarrow> string \<Rightarrow> string \<Rightarrow> string
      \<Rightarrow> ('n, signed_request_headers) cio" where
  "sign_request t signing_key key_id method path_and_query host body =
     cbind (unix_timestamp t) (\<lambda>timestamp.
     cbind (random_nonce t) (\<lambda>nonce.
     creturn (sign_with t signing_key timestamp nonce key_id method path_and_query host body)))"

section \<open>URLs\<close>

text \<open>The path segments and the query that replace those of the server's URL.\<close>

definition api_url_parts :: "string \<Rightarrow> string list \<times> string option" where
  "api_url_parts suffix =
     (let (path, query) = (case split_once (CHR ''?'') suffix of
        Some (path, query) \<Rightarrow> (path, Some query) | None \<Rightarrow> (suffix, None))
      in (filter (\<lambda>segment. segment \<noteq> []) (split_on (CHR ''/'') path), query))"

definition control_plane_api_url :: "('n, 'u, 'k, 'sk) tools \<Rightarrow> 'u \<Rightarrow> string \<Rightarrow> cerr + 'u" where
  "control_plane_api_url t base_url suffix =
     (case api_url_parts suffix of (segments, query) \<Rightarrow>
        (case t_url_with t base_url segments query of
           None \<Rightarrow> Inl (Message ''server URL cannot be a cannot-be-a-base URL'')
         | Some url \<Rightarrow> Inr url))"

definition url_host :: "('n, 'u, 'k, 'sk) tools \<Rightarrow> 'u \<Rightarrow> cerr + string" where
  "url_host t url =
     (case t_url_host t url of
        None \<Rightarrow> Inl (Message ''server URL is missing a host'')
      | Some host \<Rightarrow> Inr
          (case t_url_port t url of
             Some port \<Rightarrow> host @ '':'' @ show_nat (unat port)
           | None \<Rightarrow> host))"

section \<open>Requests\<close>

definition signed_header_list ::
    "signed_request_headers \<Rightarrow> string \<Rightarrow> string \<Rightarrow> string \<Rightarrow> (string \<times> string) list" where
  "signed_header_list sg host content_type body =
     [(''host'', host),
      (HEADER_KEY_ID, srh_key_id sg),
      (HEADER_TIMESTAMP, show_u64 (srh_timestamp sg)),
      (HEADER_NONCE, srh_nonce sg),
      (HEADER_CONTENT_SHA256, srh_content_sha256 sg),
      (HEADER_SIGNATURE, srh_signature sg),
      (HEADER_SIGNATURE_VERSION, SIGNATURE_VERSION)] @
     (if body \<noteq> [] then [(''content-type'', content_type)] else [])"

definition http_request_of ::
    "string \<Rightarrow> string \<Rightarrow> (string \<times> string) list \<Rightarrow> string \<Rightarrow> http_request" where
  "http_request_of method path_and_query headers body =
     \<lparr>rq_method = method, rq_authority = None, rq_path_and_query = Some path_and_query,
      rq_header = map_of headers, rq_body = (if body = [] then [] else [Data body])\<rparr>"

definition signed_http_request ::
    "string \<Rightarrow> string \<Rightarrow> string \<Rightarrow> string \<Rightarrow> signed_request_headers \<Rightarrow> string \<Rightarrow> http_request" where
  "signed_http_request method path_and_query host content_type sg body =
     http_request_of method path_and_query (signed_header_list sg host content_type body) body"

definition signed_request_with_type ::
    "('n, 'u, 'k, 'sk) tools \<Rightarrow> server_config \<Rightarrow> string \<Rightarrow> string \<Rightarrow> string \<Rightarrow> string \<Rightarrow> ('n, reply) cio"
where
  "signed_request_with_type t server method suffix body content_type =
     cbind (read_signing_key t (sc_key_path server)) (\<lambda>signing_key.
     cbind (of_result (invalid_data (t_url_parse t (sc_server_url server)))) (\<lambda>server_url.
     cbind (of_result (control_plane_api_url t server_url suffix)) (\<lambda>url.
     cbind (of_result (url_host t url)) (\<lambda>host.
     cbind (sign_request t signing_key (sc_key_id server) method (t_url_tail t url) host body) (\<lambda>sg.
     send t url (signed_http_request method (t_url_tail t url) host content_type sg body))))))"

definition signed_request ::
    "('n, 'u, 'k, 'sk) tools \<Rightarrow> server_config \<Rightarrow> string \<Rightarrow> string \<Rightarrow> string \<Rightarrow> ('n, reply) cio" where
  "signed_request t server method suffix body =
     signed_request_with_type t server method suffix body ''application/json''"

section \<open>Replies\<close>

definition is_success :: "nat \<Rightarrow> bool" where
  "is_success status \<longleftrightarrow> 200 \<le> status \<and> status < 300"

definition text_or_default :: "reply \<Rightarrow> string" where
  "text_or_default rp = (case rp_body rp of Inl _ \<Rightarrow> [] | Inr text \<Rightarrow> text)"

definition request_failed :: "('n, 'u, 'k, 'sk) tools \<Rightarrow> string \<Rightarrow> reply \<Rightarrow> cerr" where
  "request_failed t action rp =
     Message (action @ '' failed ('' @ t_status_text t (rp_status rp) @ ''): '' @ text_or_default rp)"

definition json_of :: "(string \<Rightarrow> string + 'a) \<Rightarrow> reply \<Rightarrow> ('n, 'a) cio" where
  "json_of decode rp =
     (case rp_body rp of
        Inl e \<Rightarrow> cfail (Message e)
      | Inr text \<Rightarrow> of_result (invalid_data (decode text)))"

definition checked_json ::
    "('n, 'u, 'k, 'sk) tools \<Rightarrow> string \<Rightarrow> (string \<Rightarrow> string + 'a) \<Rightarrow> reply \<Rightarrow> ('n, 'a) cio" where
  "checked_json t action decode rp =
     (if \<not> is_success (rp_status rp) then cfail (request_failed t action rp) else json_of decode rp)"

section \<open>The operations of the API\<close>

definition http_redeem_invite ::
    "('n, 'u, 'k, 'sk) tools \<Rightarrow> invite_payload \<Rightarrow> string \<Rightarrow> ('n, string) cio" where
  "http_redeem_invite t invite public_key =
     cbind (of_result (invalid_data (t_url_parse t (inv_server_url invite)))) (\<lambda>base_url.
     cbind (of_result (control_plane_api_url t base_url REDEEM_INVITE_PATH)) (\<lambda>url.
     cbind (send t url (http_request_of ''POST'' (t_url_tail t url)
              [(''content-type'', ''application/json'')] (t_json_redeem t (inv_token invite) public_key)))
       (\<lambda>rp. checked_json t ''invite redemption'' (t_parse_redeemed t) rp)))"

text \<open>\<^verbatim>\<open>error_for_status\<close> refuses client and server errors only.\<close>

definition http_list_projects ::
    "('n, 'u, 'k, 'sk) tools \<Rightarrow> server_config \<Rightarrow> ('n, project_summary list) cio" where
  "http_list_projects t server =
     cbind (signed_request t server ''GET'' PROJECTS_PATH []) (\<lambda>rp.
     if 400 \<le> rp_status rp \<and> rp_status rp < 600 then cfail (Message (t_status_error t (rp_status rp)))
     else json_of (t_parse_projects t) rp)"

definition http_create_project ::
    "('n, 'u, 'k, 'sk) tools \<Rightarrow> server_config \<Rightarrow> string \<Rightarrow> string option \<Rightarrow> ('n, project_summary) cio"
where
  "http_create_project t server name ident =
     cbind (signed_request t server ''POST'' PROJECTS_PATH
              (t_json_new_project t \<lparr>cpr_name = name, cpr_id = ident\<rparr>))
       (checked_json t ''project creation'' (t_parse_project t))"

definition http_create_release ::
    "('n, 'u, 'k, 'sk) tools \<Rightarrow> server_config \<Rightarrow> string \<Rightarrow> string option \<Rightarrow> string \<Rightarrow> ('n, release_summary) cio"
where
  "http_create_release t server project_id message archive =
     (let path = project_releases_path project_id;
          path = (case message of
             None \<Rightarrow> path | Some m \<Rightarrow> path @ ''?'' @ t_query_pair t ''message'' m) in
      cbind (signed_request_with_type t server ''POST'' path archive ''application/gzip'')
        (checked_json t ''release upload'' (t_parse_release t)))"

definition http_create_user ::
    "('n, 'u, 'k, 'sk) tools \<Rightarrow> server_config \<Rightarrow> string \<Rightarrow> string option \<Rightarrow> ('n, create_user_response) cio"
where
  "http_create_user t server name project_id =
     cbind (signed_request t server ''POST'' USERS_PATH
              (t_json_new_user t \<lparr>cur_name = name, cur_project_id = project_id\<rparr>))
       (checked_json t ''user creation'' (t_parse_new_user t))"

definition http_list_users ::
    "('n, 'u, 'k, 'sk) tools \<Rightarrow> server_config \<Rightarrow> ('n, user_summary list) cio" where
  "http_list_users t server =
     cbind (signed_request t server ''GET'' USERS_PATH [])
       (checked_json t ''user listing'' (t_parse_users t))"

definition remove_user_path :: "string \<Rightarrow> string" where
  "remove_user_path name = USERS_PATH @ ''/'' @ name"

definition http_remove_user :: "('n, 'u, 'k, 'sk) tools \<Rightarrow> server_config \<Rightarrow> string \<Rightarrow> ('n, bool) cio" where
  "http_remove_user t server name =
     cbind (signed_request t server ''DELETE'' (remove_user_path name) []) (\<lambda>rp.
     if rp_status rp = 204 then creturn True
     else if rp_status rp = 404 then creturn False
     else cfail (request_failed t ''user removal'' rp))"

datatype whoami_outcome =
    Identity whoami_response
  | Rejected string
  | Unreachable

definition http_whoami :: "('n, 'u, 'k, 'sk) tools \<Rightarrow> server_config \<Rightarrow> ('n, whoami_outcome) cio" where
  "http_whoami t server =
     cbind (attempt (signed_request t server ''GET'' WHOAMI_PATH [])) (\<lambda>r.
     (case r of
        Inl (Network _) \<Rightarrow> creturn Unreachable
      | Inl e \<Rightarrow> cfail e
      | Inr rp \<Rightarrow>
          if is_success (rp_status rp)
          then cbind (json_of (t_parse_whoami t) rp) (\<lambda>who. creturn (Identity who))
          else creturn (Rejected
            (''('' @ t_status_text t (rp_status rp) @ '') '' @ trim (text_or_default rp)))))"

end
