(* ===== verification/Client_Resolve.thy ===== *)
theory Client_Resolve
  imports Client_Http
begin

text \<open>
  Which project and which server a command acts on (\<^verbatim>\<open>apps/cli/src/resolve.rs\<close>): the walk up to the
  nearest manifest, the bindings of projects to server entries, and the offer to link a server.
  Paths are those of the operating system without a trailing slash.
\<close>

definition MANIFEST_FILE :: string where "MANIFEST_FILE = ''.railyard.json''"

definition MANIFEST_FILES :: "string list" where
  "MANIFEST_FILES = [''.railyard.json'', ''.railyard.jsonc'', ''.railyard.json5'']"

record linked_project =
  lp_id :: string
  lp_name :: string
  lp_manifest_path :: "string option"

section \<open>Paths\<close>

text \<open>\<^verbatim>\<open>Path::parent\<close> and \<^verbatim>\<open>Path::file_name\<close>: the parts before and after the last slash.\<close>

definition path_name :: "string \<Rightarrow> string" where
  "path_name p = rev (takeWhile (\<lambda>c. c \<noteq> CHR ''/'') (rev p))"

definition path_parent :: "string \<Rightarrow> string option" where
  "path_parent p =
     (if p = [] \<or> p = ''/'' then None
      else if CHR ''/'' \<notin> set p then Some []
      else case butlast (rev (dropWhile (\<lambda>c. c \<noteq> CHR ''/'') (rev p))) of
        [] \<Rightarrow> Some ''/'' | d \<Rightarrow> Some d)"

lemma path_parent_shorter [termination_simp]: "path_parent p = Some d \<Longrightarrow> length d < length p"
proof -
  assume d: "path_parent p = Some d"
  define r where "r = rev (dropWhile (\<lambda>c. c \<noteq> CHR ''/'') (rev p))"
  have r: "length r \<le> length p" using length_dropWhile_le [of _ "rev p"] by (simp add: r_def)
  show ?thesis
  proof (cases "CHR ''/'' \<in> set p")
    case True
    then have ne: "r \<noteq> []" by (auto simp: r_def dropWhile_eq_Nil_conv)
    have two: "2 \<le> length p"
    proof (rule ccontr)
      assume "\<not> 2 \<le> length p"
      with True have "p = ''/''" by (cases p; cases "tl p") auto
      with d show False by (simp add: path_parent_def)
    qed
    from d True have "d = (case butlast r of [] \<Rightarrow> ''/'' | _ # _ \<Rightarrow> butlast r)"
      by (auto simp: path_parent_def r_def split: if_splits list.splits)
    moreover have "0 < length r" using ne by (rule length_greater_0_conv [THEN iffD2])
    then have "length (butlast r) < length p" unfolding length_butlast using r by linarith
    ultimately show ?thesis using two by (cases "butlast r") auto
  next
    case False
    with d show ?thesis by (auto simp: path_parent_def split: if_splits)
  qed
qed

text \<open>\<^verbatim>\<open>path.extension() == "json"\<close>.\<close>

definition is_json_path :: "string \<Rightarrow> bool" where
  "is_json_path p \<longleftrightarrow> json_stem (path_name p) \<noteq> None"

section \<open>Finding the manifest\<close>

fun read_manifests ::
    "('n, 'u, 'k, 'sk) tools \<Rightarrow> string \<Rightarrow> string list \<Rightarrow> ('n, (string \<times> string) list) cio" where
  "read_manifests t dir [] = creturn []"
| "read_manifests t dir (name # rest) =
     cbind (attempt (read_to_string (path_join dir name))) (\<lambda>r.
     (case r of
        Inr raw \<Rightarrow>
          cbind (read_manifests t dir rest) (\<lambda>found. creturn ((path_join dir name, raw) # found))
      | Inl Absent_file \<Rightarrow> read_manifests t dir rest
      | Inl e \<Rightarrow> cfail e))"

definition manifest_in ::
    "('n, 'u, 'k, 'sk) tools \<Rightarrow> string \<Rightarrow> ('n, (string \<times> string) option) cio" where
  "manifest_in t dir =
     cbind (read_manifests t dir MANIFEST_FILES) (\<lambda>found.
     if 1 < length found
     then cfail (Message (''multiple manifests in '' @ dir @ '': '' @
            join '', '' (map (\<lambda>(path, _). path_name path) found) @ ''; keep one and delete the rest''))
     else creturn (if found = [] then None else Some (last found)))"

function find_manifest ::
    "('n, 'u, 'k, 'sk) tools \<Rightarrow> string \<Rightarrow> ('n, (string \<times> string) option) cio" where
  "find_manifest t dir =
     cbind (manifest_in t dir) (\<lambda>found.
     (case found of
        Some f \<Rightarrow> creturn (Some f)
      | None \<Rightarrow>
          (case path_parent dir of
             None \<Rightarrow> creturn None
           | Some up \<Rightarrow> find_manifest t up)))"
  by pat_completeness auto
termination by (relation "measure (\<lambda>(t, dir). length dir)") (auto intro: path_parent_shorter)

declare find_manifest.simps [simp del]

definition parse_manifest :: "('n, 'u, 'k, 'sk) tools \<Rightarrow> string \<Rightarrow> string \<Rightarrow> cerr + manifest" where
  "parse_manifest t path raw =
     invalid_data
       (if is_json_path path then parse (t_key_order t) (t_json t) (t_deserialize t) raw
        else parse_relaxed (t_key_order t) (t_json5 t) (t_deserialize t) raw)"

definition linked_project :: "('n, 'u, 'k, 'sk) tools \<Rightarrow> ('n, linked_project option) cio" where
  "linked_project t =
     cbind (of_result (t_cwd t)) (\<lambda>cwd.
     cbind (find_manifest t cwd) (\<lambda>found.
     (case found of
        None \<Rightarrow> creturn None
      | Some (path, raw) \<Rightarrow>
          cbind (of_result (parse_manifest t path raw)) (\<lambda>m.
          let manifest_path = (if path_parent path \<noteq> Some cwd then Some path else None) in
          creturn (case mf_project m of
            None \<Rightarrow> None
          | Some p \<Rightarrow> map_option
              (\<lambda>i. \<lparr>lp_id = i, lp_name = prj_name p, lp_manifest_path = manifest_path\<rparr>) (prj_id p))))))"

section \<open>The gate for a manifest further up\<close>

definition confirm_ancestor :: "('n, 'u, 'k, 'sk) tools \<Rightarrow> linked_project \<Rightarrow> ('n, bool) cio" where
  "confirm_ancestor t p =
     (case lp_manifest_path p of
        None \<Rightarrow> creturn True
      | Some path \<Rightarrow>
          if \<not> t_interactive t
          then cfail (Message (''no manifest in this directory, but '' @ path @ '' exists (project '' @
                 lp_name p @ ''); rerun from its directory to use it''))
          else confirm (''Use project '' @ lp_name p @ '' from '' @ path @ ''?''))"

definition confirmed_linked_project :: "('n, 'u, 'k, 'sk) tools \<Rightarrow> ('n, linked_project option) cio"
where
  "confirmed_linked_project t =
     cbind (linked_project t) (\<lambda>found.
     (case found of
        None \<Rightarrow> creturn None
      | Some p \<Rightarrow> cbind (confirm_ancestor t p) (\<lambda>ok. creturn (if ok then Some p else None))))"

section \<open>Bindings\<close>

datatype project_binding =
    Bound string server_config
  | Stale string
  | Unbound

definition project_binding :: "('n, 'u, 'k, 'sk) tools \<Rightarrow> string \<Rightarrow> ('n, project_binding) cio" where
  "project_binding t project_id =
     cbind (read_project_binding t project_id) (\<lambda>bound.
     (case bound of
        None \<Rightarrow> creturn Unbound
      | Some name \<Rightarrow>
          cbind (attempt (read_server t name)) (\<lambda>r.
          (case r of
             Inr server \<Rightarrow> creturn (Bound name server)
           | Inl Absent_file \<Rightarrow> creturn (Stale name)
           | Inl e \<Rightarrow> cfail (Message (''could not read server '' @ name @ '': '' @ show_cerr e))))))"

definition link_to_server ::
    "('n, 'u, 'k, 'sk) tools \<Rightarrow> linked_project \<Rightarrow> string \<Rightarrow> server_config \<Rightarrow> ('n, string \<times> server_config) cio"
where
  "link_to_server t p name server =
     cbind (record_project_binding t (lp_id p) name) (\<lambda>_.
     cbind (println (''Linked project '' @ lp_name p @ '' ('' @ lp_id p @ '') to '' @ name)) (\<lambda>_.
     creturn (name, server)))"

section \<open>Which servers have the project\<close>

datatype project_presence =
    Present
  | Absent
  | Unknown string

definition server_project_presence ::
    "('n, 'u, 'k, 'sk) tools \<Rightarrow> server_config \<Rightarrow> linked_project \<Rightarrow> ('n, project_presence) cio" where
  "server_project_presence t server p =
     cbind (attempt (http_whoami t server)) (\<lambda>r.
     (case r of
        Inl e \<Rightarrow> creturn (Unknown (show_cerr e))
      | Inr Unreachable \<Rightarrow> creturn (Unknown ''unreachable'')
      | Inr (Rejected reason) \<Rightarrow> creturn (Unknown (''key rejected '' @ reason))
      | Inr (Identity who) \<Rightarrow>
          (case who_project_id who of
             Some scoped \<Rightarrow> creturn (if scoped = lp_id p then Present else Absent)
           | None \<Rightarrow>
               cbind (attempt (http_list_projects t server)) (\<lambda>listed.
               creturn (case listed of
                 Inr projects \<Rightarrow>
                   if list_ex (\<lambda>q. ps_id q = lp_id p) projects then Present else Absent
               | Inl e \<Rightarrow> Unknown (''project listing failed: '' @ show_cerr e))))))"

text \<open>The entries that have it, and a report for those that could not be asked.\<close>

fun find_candidates ::
    "('n, 'u, 'k, 'sk) tools \<Rightarrow> linked_project \<Rightarrow> (string \<times> server_config) list
      \<Rightarrow> ('n, (string \<times> server_config) list \<times> string list) cio" where
  "find_candidates t p [] = creturn ([], [])"
| "find_candidates t p ((name, server) # rest) =
     cbind (server_project_presence t server p) (\<lambda>presence.
     cbind (find_candidates t p rest) (\<lambda>(candidates, unchecked).
     creturn (case presence of
        Present \<Rightarrow> ((name, server) # candidates, unchecked)
      | Absent \<Rightarrow> (candidates, unchecked)
      | Unknown reason \<Rightarrow> (candidates, (name @ '' ('' @ reason @ '')'') # unchecked))))"

definition server_item :: "string \<times> server_config \<Rightarrow> string" where
  "server_item s = fst s @ '' ('' @ sc_server_url (snd s) @ '')''"

definition offer_project_link ::
    "('n, 'u, 'k, 'sk) tools \<Rightarrow> linked_project \<Rightarrow> ('n, string \<times> server_config) cio" where
  "offer_project_link t p =
     cbind (list_servers t) (\<lambda>servers.
     cbind (find_candidates t p servers) (\<lambda>(candidates, unchecked).
     (case candidates of
        [] \<Rightarrow>
          if unchecked \<noteq> []
          then cfail (Message (''this project is not linked to a server on this machine, and no reachable server has project '' @
                 lp_name p @ '' ('' @ lp_id p @ ''); could not check '' @ join '', '' unchecked @
                 '' '' @ em_dash @ '' restore access there before running `railyard init`, which would create the project anew''))
          else cfail (Message (''this project is not linked to a server on this machine, and none of your servers have project '' @
                 lp_name p @ '' ('' @ lp_id p @ ''); run `railyard init` to create it''))
      | [(name, server)] \<Rightarrow>
          if \<not> t_interactive t
          then cfail (Message (''found project '' @ lp_name p @ '' ('' @ lp_id p @ '') on server '' @ name @
                 '', but this directory is not linked to it; rerun interactively to link''))
          else cbind (confirm (''Found project '' @ lp_name p @ '' on server '' @ name @
                 ''. Would you like to link it?'')) (\<lambda>confirmed.
               if \<not> confirmed
               then cfail (Message ''this project is not linked to a server on this machine'')
               else link_to_server t p name server)
      | _ \<Rightarrow>
          if \<not> t_interactive t
          then cfail (Message (''project '' @ lp_name p @ '' ('' @ lp_id p @ '') exists on several servers ('' @
                 join '', '' (map fst candidates) @ ''); rerun interactively to choose one to link''))
          else cbind (select_from (''Project '' @ lp_name p @ '' exists on several servers; link which one?'')
                 (map server_item candidates)) (\<lambda>choice.
               link_to_server t p (fst (candidates ! choice)) (snd (candidates ! choice))))))"

definition resolve_project_server ::
    "('n, 'u, 'k, 'sk) tools \<Rightarrow> linked_project \<Rightarrow> ('n, string \<times> server_config) cio" where
  "resolve_project_server t p =
     cbind (project_binding t (lp_id p)) (\<lambda>binding.
     (case binding of
        Bound name server \<Rightarrow> creturn (name, server)
      | Stale stale \<Rightarrow>
          cbind (eprintln (''note: project '' @ lp_name p @ '' was linked to '' @ stale @
            '', which no longer exists on this machine; looking for the project on your other servers''))
            (\<lambda>_. offer_project_link t p)
      | Unbound \<Rightarrow> offer_project_link t p))"

text \<open>\<^verbatim>\<open>--server\<close>, then the sole known server.\<close>

definition resolve_server ::
    "('n, 'u, 'k, 'sk) tools \<Rightarrow> string option \<Rightarrow> ('n, string \<times> server_config) cio" where
  "resolve_server t explicit =
     (case explicit of
        Some name \<Rightarrow>
          cbind (attempt (read_server t name)) (\<lambda>r.
          (case r of
             Inr server \<Rightarrow> creturn (name, server)
           | Inl e \<Rightarrow> cfail (Message (''could not read server '' @ name @ '': '' @ show_cerr e))))
      | None \<Rightarrow>
          cbind (list_servers t) (\<lambda>servers.
          (case servers of
             [] \<Rightarrow> cfail (Message ''no servers found; run `railyard login <blob>` first'')
           | [s] \<Rightarrow> creturn s
           | _ \<Rightarrow> cfail (Message (''multiple servers exist ('' @ join '', '' (map fst servers) @
                    ''); pass --server <name>'')))))"

end
