(* ===== verification/Client_Login.thy ===== *)
theory Client_Login
  imports Client_Resolve
begin

text \<open>
  \<^verbatim>\<open>railyard login\<close> (\<^verbatim>\<open>apps/cli/src/commands/login.rs\<close>): redeeming an invite, or minting one over SSH
  first, and storing the identity as a server entry.  \<open>ssh\<close> is the run of \<^verbatim>\<open>ssh\<close>: its success, its
  standard output and its standard error; \<open>lower\<close> is the standard library's \<^verbatim>\<open>to_lowercase\<close>, whose
  Unicode tables are not modelled.
\<close>

section \<open>Identities already held\<close>

text \<open>The first entry for the URL whose live identity satisfies a condition; errors are skipped.\<close>

fun find_identity ::
    "('n, 'u, 'k, 'sk) tools \<Rightarrow> string \<Rightarrow> (whoami_response \<Rightarrow> bool) \<Rightarrow> (string \<times> server_config) list
      \<Rightarrow> ('n, (string \<times> whoami_response) option) cio" where
  "find_identity t url ok [] = creturn None"
| "find_identity t url ok ((name, server) # rest) =
     (if sc_server_url server \<noteq> url then find_identity t url ok rest
      else cbind (attempt (http_whoami t server)) (\<lambda>r.
        (case r of
           Inr (Identity who) \<Rightarrow>
             if ok who then creturn (Some (name, who)) else find_identity t url ok rest
         | _ \<Rightarrow> find_identity t url ok rest)))"

definition existing_different_user_with_same_scope ::
    "('n, 'u, 'k, 'sk) tools \<Rightarrow> invite_payload \<Rightarrow> ('n, (string \<times> whoami_response) option) cio" where
  "existing_different_user_with_same_scope t invite =
     cbind (list_servers t)
       (find_identity t (inv_server_url invite)
          (\<lambda>who. who_project_id who = map_option ip_id (inv_project invite) \<and>
                 who_user_id who \<noteq> inv_user invite))"

definition existing_access ::
    "('n, 'u, 'k, 'sk) tools \<Rightarrow> string \<Rightarrow> string \<Rightarrow> ('n, (string \<times> whoami_response) option) cio" where
  "existing_access t url project_id =
     cbind (list_servers t)
       (find_identity t url
          (\<lambda>who. who_project_id who = None \<or> who_project_id who = Some project_id))"

section \<open>The name of the entry\<close>

definition resolve_server_name ::
    "('n, 'u, 'k, 'sk) tools \<Rightarrow> string option \<Rightarrow> invite_payload \<Rightarrow> cerr + string" where
  "resolve_server_name t explicit invite =
     (case explicit of
        Some raw \<Rightarrow>
          let name = sanitize_server_name raw in
          if name = [] then Inl (Message ''server name has no usable characters'') else Inr name
      | None \<Rightarrow>
          let from_project = (case inv_project invite of
                None \<Rightarrow> [] | Some p \<Rightarrow> sanitize_server_name (ip_name p));
              from_server = sanitize_server_name (inv_server_name invite);
              from_host = (case t_url_parse t (inv_server_url invite) of
                  Inl _ \<Rightarrow> []
                | Inr url \<Rightarrow> (case t_url_host t url of
                    None \<Rightarrow> [] | Some host \<Rightarrow> sanitize_server_name host))
          in if from_project \<noteq> [] then Inr from_project
             else if from_server \<noteq> [] then Inr from_server
             else if from_host \<noteq> [] then Inr from_host
             else Inl (Message
               ''could not derive a server name from this invite; pass --name <name>''))"

section \<open>Redeeming\<close>

fun supersede_entries ::
    "('n, 'u, 'k, 'sk) tools \<Rightarrow> string \<Rightarrow> string \<Rightarrow> (string \<times> server_config) list \<Rightarrow> ('n, unit) cio"
where
  "supersede_entries t url admin_entry [] = creturn ()"
| "supersede_entries t url admin_entry ((name, server) # rest) =
     (if name = admin_entry \<or> sc_server_url server \<noteq> url then supersede_entries t url admin_entry rest
      else cbind (attempt (http_whoami t server)) (\<lambda>r.
        let project_scoped = (case r of Inr (Identity who) \<Rightarrow> who_project_id who \<noteq> None | _ \<Rightarrow> False) in
        if \<not> project_scoped then supersede_entries t url admin_entry rest
        else cbind (rebind_projects t name admin_entry) (\<lambda>relinked.
             cbind (remove_server t name) (\<lambda>_.
             cbind (println
               (if relinked = 0
                then ''Removed project entry '' @ name @ ''; '' @ admin_entry @ '' covers it now''
                else ''Removed project entry '' @ name @ '' and relinked '' @ show_nat relinked @
                     '' project(s) to '' @ admin_entry)) (\<lambda>_.
             supersede_entries t url admin_entry rest)))))"

definition supersede_project_entries ::
    "('n, 'u, 'k, 'sk) tools \<Rightarrow> string \<Rightarrow> string \<Rightarrow> ('n, unit) cio" where
  "supersede_project_entries t url admin_entry =
     cbind (list_servers t) (supersede_entries t url admin_entry)"

text \<open>From the choice of a name on: the key, the redemption, the entry, and what follows from it.\<close>

definition redeem_and_store ::
    "('n, 'u, 'k, 'sk) tools \<Rightarrow> invite_payload \<Rightarrow> string \<Rightarrow> ('n, unit) cio" where
  "redeem_and_store t invite server_name =
     cbind (generate_signing_key t) (\<lambda>signing_key.
     cbind (http_redeem_invite t invite (public_key_base64 t signing_key)) (\<lambda>key_id.
     cbind (write_signing_key t key_id signing_key) (\<lambda>key_file.
     cbind (write_server t server_name
              \<lparr>sc_server_url = inv_server_url invite, sc_key_id = key_id, sc_key_path = key_file\<rparr>) (\<lambda>_.
     cbind (println (''Logged in to '' @ inv_server_url invite @ '' (key '' @ key_id @ '', server '' @
              server_name @ '')'')) (\<lambda>_.
     cbind (if inv_project invite = None
            then supersede_project_entries t (inv_server_url invite) server_name else creturn ()) (\<lambda>_.
     (case inv_project invite of
        None \<Rightarrow> creturn ()
      | Some p \<Rightarrow>
          cbind (record_project_binding t (ip_id p) server_name) (\<lambda>_.
          println (''Linked project '' @ ip_name p @ '' ('' @ ip_id p @ '') to '' @ server_name)))))))))"

definition name_taken ::
    "('n, 'u, 'k, 'sk) tools \<Rightarrow> string \<Rightarrow> invite_payload \<Rightarrow> ('n, unit) cio" where
  "name_taken t server_name invite =
     cbind (attempt (read_server t server_name)) (\<lambda>r.
     (case r of
        Inr existing \<Rightarrow>
          if sc_server_url existing \<noteq> inv_server_url invite
          then cfail (Message (''server '' @ server_name @ '' already points at '' @
                 sc_server_url existing @ ''; pass --name <name> to pick another name''))
          else creturn ()
      | Inl _ \<Rightarrow> creturn ()))"

definition login ::
    "('n, 'u, 'k, 'sk) tools \<Rightarrow> string \<Rightarrow> string option \<Rightarrow> ('n, unit) cio" where
  "login t blob server_name =
     cbind (of_result (invalid_data (parse_invite (t_crypto t) (t_parse_invite_json t) blob))) (\<lambda>invite.
     cbind (unix_timestamp t) (\<lambda>now.
     if inv_expires invite \<le> now
     then cfail (Message ''this invite has expired; ask for a new one'')
     else
     cbind (existing_different_user_with_same_scope t invite) (\<lambda>other.
     (case other of
        Some (entry_name, identity) \<Rightarrow>
          cfail (Message (''already logged in to '' @ inv_server_url invite @ '' as user '' @
            who_name identity @ '' with the same permissions (server '' @ entry_name @
            ''); this invite is for user '' @ inv_user_name invite @ ''. Log out of '' @ entry_name @
            '' first''))
      | None \<Rightarrow>
     cbind (case inv_project invite of
              None \<Rightarrow> creturn None
            | Some p \<Rightarrow>
                cbind (existing_access t (inv_server_url invite) (ip_id p)) (\<lambda>found.
                creturn (map_option (\<lambda>f. (p, f)) found))) (\<lambda>access.
     (case access of
        Some (p, entry_name, identity) \<Rightarrow>
          cbind (record_project_binding t (ip_id p) entry_name) (\<lambda>_.
          println (''Already have access to project '' @ ip_name p @ '' on '' @ inv_server_url invite @
            '' as user '' @ who_name identity @ '' (server '' @ entry_name @
            ''); linked the project '' @ em_dash @ '' invite left unredeemed''))
      | None \<Rightarrow>
     cbind (of_result (resolve_server_name t server_name invite)) (\<lambda>name.
     cbind (name_taken t name invite) (\<lambda>_.
     redeem_and_store t invite name))))))))"

section \<open>Login over SSH\<close>

definition sanitize_user_name :: "(string \<Rightarrow> string) \<Rightarrow> string \<Rightarrow> string" where
  "sanitize_user_name lower raw =
     filter (\<lambda>c. is_ascii_lowercase c \<or> is_ascii_digit c \<or> c = CHR ''-'' \<or> c = CHR ''_'') (lower raw)"

text \<open>\<^verbatim>\<open>str::lines\<close>: the last line may lack its newline, and a carriage return before one is dropped.\<close>

lemma tl_dropWhile_less: "length (tl (dropWhile P (c # s))) < length (c # s)"
  using length_dropWhile_le [of P "c # s"] by (simp only: length_tl) (simp add: less_Suc_eq_le)

function text_lines :: "string \<Rightarrow> string list" where
  "text_lines [] = []"
| "text_lines (c # s) =
     (let line = takeWhile (\<lambda>c. c \<noteq> nl) (c # s);
          rest = dropWhile (\<lambda>c. c \<noteq> nl) (c # s)
      in (if rest \<noteq> [] then (case strip_suffix line [CHR 0x0D] of Some l \<Rightarrow> l | None \<Rightarrow> line) else line) #
         text_lines (tl rest))"
  by pat_completeness auto
termination by (relation "measure length") (simp_all only: in_measure tl_dropWhile_less wf_measure)

record ssh_output =
  ssh_success :: bool
  ssh_stdout :: string
  ssh_stderr :: string

definition local_user :: "('n, 'u, 'k, 'sk) tools \<Rightarrow> string" where
  "local_user t = (case env_var (t_env t) ''USER'' of
     Some u \<Rightarrow> u
   | None \<Rightarrow> (case env_var (t_env t) ''USERNAME'' of Some u \<Rightarrow> u | None \<Rightarrow> []))"

definition ellipsis :: string where
  "ellipsis = [CHR 0xE2, CHR 0x80, CHR 0xA6]"

definition login_ssh ::
    "('n, 'u, 'k, 'sk) tools \<Rightarrow> (string \<Rightarrow> string) \<Rightarrow> (string \<Rightarrow> string \<Rightarrow> 'n \<Rightarrow> (cerr + ssh_output) \<times> 'n)
      \<Rightarrow> string \<Rightarrow> string option \<Rightarrow> string option \<Rightarrow> ('n, unit) cio" where
  "login_ssh t lower ssh target server_name user_flag =
     cbind (case user_flag of
              Some name \<Rightarrow> creturn name
            | None \<Rightarrow>
                let name = sanitize_user_name lower (local_user t) in
                if name = []
                then cfail (Message ''could not derive a user name from $USER; pass --user <name>'')
                else creturn name) (\<lambda>user_name.
     cbind (println (''Creating user '' @ user_name @ '' on '' @ target @ '' over SSH'' @ ellipsis)) (\<lambda>_.
     cbind (\<lambda>c. case ssh target user_name (cl_net c) of (r, n) \<Rightarrow> (r, c\<lparr>cl_net := n\<rparr>)) (\<lambda>out.
     if \<not> ssh_success out
     then cfail (Message (''`ssh '' @ target @ '' railyard-server user add '' @ user_name @
            ''` failed:'' @ [nl] @ trim (from_utf8_lossy (ssh_stderr out))))
     else
       (case find (\<lambda>line. starts_with line INVITE_BLOB_PREFIX)
               (map trim (text_lines (from_utf8_lossy (ssh_stdout out)))) of
          None \<Rightarrow> cfail (Message ''the remote `user add` printed no invite blob'')
        | Some blob \<Rightarrow> login t blob server_name))))"

definition run_login ::
    "('n, 'u, 'k, 'sk) tools \<Rightarrow> (string \<Rightarrow> string) \<Rightarrow> (string \<Rightarrow> string \<Rightarrow> 'n \<Rightarrow> (cerr + ssh_output) \<times> 'n)
      \<Rightarrow> string \<Rightarrow> string option \<Rightarrow> string option \<Rightarrow> ('n, unit) cio" where
  "run_login t lower ssh target name user =
     (if starts_with target INVITE_BLOB_PREFIX then login t target name
      else login_ssh t lower ssh target name user)"

end
