(* ===== verification/Client_Init.thy ===== *)
theory Client_Init
  imports Client_Resolve
begin

text \<open>
  Creating and linking projects: \<^verbatim>\<open>railyard init\<close>, \<^verbatim>\<open>link\<close> and \<^verbatim>\<open>unlink\<close>
  (\<^verbatim>\<open>apps/cli/src/commands/init.rs\<close>, \<^verbatim>\<open>link.rs\<close>, \<^verbatim>\<open>unlink.rs\<close>).
\<close>

section \<open>Project names\<close>

text \<open>Letters and digits are kept, runs of anything else between them become one dash.\<close>

definition push_name_char :: "string \<Rightarrow> string \<Rightarrow> string" where
  "push_name_char name ch =
     (case ch of
        [c] \<Rightarrow> if is_ascii_lowercase c \<or> is_ascii_digit c then name @ [c]
               else if name \<noteq> [] \<and> last name \<noteq> CHR ''-'' then name @ ''-'' else name
      | _ \<Rightarrow> if name \<noteq> [] \<and> last name \<noteq> CHR ''-'' then name @ ''-'' else name)"

definition sanitize_project_name :: "(string \<Rightarrow> string) \<Rightarrow> string \<Rightarrow> string" where
  "sanitize_project_name lower raw =
     trim_matches (CHR ''-'') (take 63 (foldl push_name_char [] (utf8_chars (lower raw))))"

definition resolve_project_name ::
    "('n, 'u, 'k, 'sk) tools \<Rightarrow> (string \<Rightarrow> string) \<Rightarrow> string option \<Rightarrow> manifest \<Rightarrow> bool \<Rightarrow> ('n, string) cio"
where
  "resolve_project_name t lower explicit m manifest_exists =
     (let manifest_name = map_option prj_name (mf_project m) in
      case explicit of
        Some raw \<Rightarrow>
          (case manifest_name of
             Some existing \<Rightarrow>
               if existing \<noteq> raw
               then cfail (Message (MANIFEST_FILE @ '' already names this project '' @ existing @
                      ''; rerun without a name or edit the file''))
               else creturn raw
           | None \<Rightarrow> creturn raw)
      | None \<Rightarrow>
          (case manifest_name of
             Some existing \<Rightarrow> creturn existing
           | None \<Rightarrow>
               cbind (of_result (t_cwd t)) (\<lambda>dir.
               let name = sanitize_project_name lower (path_name dir) in
               if name = []
               then cfail (Message ''could not derive a project name from this directory; run `railyard init <name>`'')
               else if \<not> manifest_exists \<and> t_interactive t then input_default ''Project name'' name
               else creturn name)))"

section \<open>Questions before a new manifest\<close>

definition confirm_nested_init ::
    "('n, 'u, 'k, 'sk) tools \<Rightarrow> string \<Rightarrow> ('n, unit) cio" where
  "confirm_nested_init t cwd =
     (case path_parent cwd of
        None \<Rightarrow> creturn ()
      | Some parent \<Rightarrow>
          cbind (find_manifest t parent) (\<lambda>found.
          (case found of
             None \<Rightarrow> creturn ()
           | Some (path, raw) \<Rightarrow>
               let project = (case parse_manifest t path raw of
                     Inr m \<Rightarrow> (case mf_project m of
                       Some p \<Rightarrow> '' (project '' @ prj_name p @ '')'' | None \<Rightarrow> [])
                   | Inl _ \<Rightarrow> []) in
               if \<not> t_interactive t
               then cfail (Message (''found '' @ path @ project @ '' in a parent directory; init here would create a separate nested project '' @
                      em_dash @ '' run it from that directory, or rerun interactively to confirm''))
               else cbind (confirm (''Found '' @ path @ project @ '' in a parent directory. Are you sure you want to create a separate project here?''))
                 (\<lambda>confirmed.
                 if \<not> confirmed then cfail (Message ''init cancelled'') else creturn ()))))"

text \<open>\<^verbatim>\<open>Path::ancestors\<close>, the path itself first.\<close>

function ancestors :: "string \<Rightarrow> string list" where
  "ancestors p = p # (case path_parent p of None \<Rightarrow> [] | Some up \<Rightarrow> ancestors up)"
  by pat_completeness auto
termination by (relation "measure length") (auto intro: path_parent_shorter)

declare ancestors.simps [simp del]

text \<open>A path exists when it is a file or a directory with a file below it.\<close>

definition path_exists :: "(string \<times> string) list \<Rightarrow> string \<Rightarrow> bool" where
  "path_exists files p \<longleftrightarrow> list_ex (\<lambda>(f, _). f = p \<or> starts_with f (p @ ''/'')) files"

definition confirm_init_outside_git ::
    "('n, 'u, 'k, 'sk) tools \<Rightarrow> string \<Rightarrow> ('n, unit) cio" where
  "confirm_init_outside_git t cwd = (\<lambda>c.
     if list_ex (\<lambda>dir. path_exists (cl_files c) (path_join dir ''.git'')) (ancestors cwd)
     then (Inr (), c)
     else if \<not> t_interactive t
     then eprintln (''note: '' @ cwd @ '' is not in a git repository'') c
     else cbind (confirm ''This directory is not in a git repository, and Railyard works best in one. Create a project here anyway?'')
       (\<lambda>confirmed.
       if \<not> confirmed
       then cfail (Message ''init cancelled; run `git init` first, then rerun `railyard init`'')
       else creturn ()) c)"

section \<open>Init\<close>

definition resolve_server_for_init ::
    "('n, 'u, 'k, 'sk) tools \<Rightarrow> string option \<Rightarrow> ('n, string \<times> server_config) cio" where
  "resolve_server_for_init t explicit =
     cbind (list_servers t) (\<lambda>servers.
     if explicit \<noteq> None \<or> length servers < 2 \<or> \<not> t_interactive t then resolve_server t explicit
     else cbind (select_from ''Select a server'' (map server_item servers)) (\<lambda>choice.
          creturn (servers ! choice)))"

definition write_manifest ::
    "('n, 'u, 'k, 'sk) tools \<Rightarrow> string \<Rightarrow> manifest \<Rightarrow> string option \<Rightarrow> ('n, unit) cio" where
  "write_manifest t path m raw =
     cbind (write_file path (t_json_manifest t m @ [nl])) (\<lambda>_.
     (case raw of
        Some r \<Rightarrow>
          (case t_json t r of
             Inl _ \<Rightarrow> eprintln (''note: rewrote '' @ path_name path @
                        '' as plain JSON; comments were not preserved'')
           | Inr _ \<Rightarrow> creturn ())
      | None \<Rightarrow> creturn ()))"

definition link_manifest ::
    "('n, 'u, 'k, 'sk) tools \<Rightarrow> string \<Rightarrow> manifest \<Rightarrow> string option \<Rightarrow> string \<Rightarrow> project_summary
      \<Rightarrow> ('n, unit) cio" where
  "link_manifest t path m raw server_name p =
     cbind (write_manifest t path (link_project (ps_name p) (ps_id p) m) raw) (\<lambda>_.
     record_project_binding t (ps_id p) server_name)"

definition create_and_link ::
    "('n, 'u, 'k, 'sk) tools \<Rightarrow> string \<Rightarrow> manifest \<Rightarrow> string option \<Rightarrow> string \<Rightarrow> server_config
      \<Rightarrow> string \<Rightarrow> string option \<Rightarrow> ('n, unit) cio" where
  "create_and_link t path m raw server_name server name ident =
     cbind (http_create_project t server name ident) (\<lambda>created.
     cbind (link_manifest t path m raw server_name created) (\<lambda>_.
     println (''Created project '' @ ps_name created @ '' ('' @ ps_id created @ '') and linked '' @
       path_name path)))"

text \<open>A manifest whose project id the server already has: link to it, or create another project.\<close>

definition adopt_or_create ::
    "('n, 'u, 'k, 'sk) tools \<Rightarrow> string \<Rightarrow> manifest \<Rightarrow> string option \<Rightarrow> string \<Rightarrow> server_config
      \<Rightarrow> string \<Rightarrow> string \<Rightarrow> project_summary \<Rightarrow> ('n, unit) cio" where
  "adopt_or_create t path m raw server_name server project_name ident p =
     (if \<not> t_interactive t
      then cfail (Message (''project '' @ ps_name p @ '' ('' @ ident @ '') already exists on '' @ server_name @
             ''; rerun `railyard init` interactively to link this directory or create a new project''))
      else
      cbind (select_from (''Project '' @ ps_name p @ '' ('' @ ident @ '') already exists on '' @ server_name @
               ''. What would you like to do?'')
               [''Link this directory to project '' @ ps_name p,
                ''Create a new project and replace the ID in this directory'']) (\<lambda>choice.
      if choice = 0
      then cbind (link_manifest t path m raw server_name p) (\<lambda>_.
           println (''Linked this directory to project '' @ ps_name p @ '' ('' @ ps_id p @ '') on '' @
             server_name))
      else
      cbind (if project_name = ps_name p
             then input_default ''Name for the new project'' (project_name @ ''-new'')
             else creturn project_name) (\<lambda>name.
      cbind (println (''Creating project '' @ name @ '' on '' @ server_name @ '' ('' @
               sc_server_url server @ '') with a new id'')) (\<lambda>_.
      create_and_link t path m raw server_name server name None))))"

definition init_project ::
    "('n, 'u, 'k, 'sk) tools \<Rightarrow> string \<Rightarrow> manifest \<Rightarrow> string option \<Rightarrow> string \<Rightarrow> string \<Rightarrow> server_config
      \<Rightarrow> ('n, unit) cio" where
  "init_project t path m raw project_name server_name server =
     (let creating = ''Creating project '' @ project_name @ '' on '' @ server_name @ '' ('' @
            sc_server_url server @ '')'' in
      case (case mf_project m of None \<Rightarrow> None | Some p \<Rightarrow> prj_id p) of
        None \<Rightarrow>
          cbind (println creating) (\<lambda>_. create_and_link t path m raw server_name server project_name None)
      | Some ident \<Rightarrow>
          cbind (http_list_projects t server) (\<lambda>projects.
          (case find (\<lambda>p. ps_id p = ident) projects of
             Some p \<Rightarrow> adopt_or_create t path m raw server_name server project_name ident p
           | None \<Rightarrow>
               cbind (println (creating @ '' with existing id '' @ ident)) (\<lambda>_.
               create_and_link t path m raw server_name server project_name (Some ident)))))"

definition nothing_to_do :: "string \<Rightarrow> string \<Rightarrow> string \<Rightarrow> ('n, unit) cio" where
  "nothing_to_do name ident bound =
     cbind (println (''Project '' @ name @ '' ('' @ ident @ '') is already linked to '' @ bound @ '' '' @
       em_dash @ '' nothing to do.'')) (\<lambda>_.
     println ''To link this project to another server, run `railyard unlink` first.'')"

text \<open>Whether the directory is linked already: \<open>True\<close> ends the command.\<close>

definition already_linked ::
    "('n, 'u, 'k, 'sk) tools \<Rightarrow> string option \<Rightarrow> manifest \<Rightarrow> ('n, bool) cio" where
  "already_linked t server_flag m =
     (case mf_project m of
        None \<Rightarrow> creturn False
      | Some p \<Rightarrow>
     (case prj_id p of
        None \<Rightarrow> creturn False
      | Some ident \<Rightarrow>
          cbind (project_binding t ident) (\<lambda>binding.
          (case binding of
             Bound bound _ \<Rightarrow>
               if server_flag \<noteq> None \<and> server_flag \<noteq> Some bound
               then cfail (Message (''project '' @ prj_name p @ '' ('' @ ident @ '') is already linked to '' @ bound @
                      ''; run `railyard unlink` first to link it to another server''))
               else cbind (nothing_to_do (prj_name p) ident bound) (\<lambda>_. creturn True)
           | Stale stale \<Rightarrow>
               cbind (eprintln (''note: ignoring the link to '' @ stale @
                        '', which no longer exists on this machine'')) (\<lambda>_. creturn False)
           | Unbound \<Rightarrow> creturn False))))"

definition run_init ::
    "('n, 'u, 'k, 'sk) tools \<Rightarrow> (string \<Rightarrow> string) \<Rightarrow> string option \<Rightarrow> string option \<Rightarrow> ('n, unit) cio"
where
  "run_init t lower name server_flag =
     cbind (of_result (t_cwd t)) (\<lambda>cwd.
     cbind (manifest_in t cwd) (\<lambda>found.
     cbind (case found of
              Some (path, raw) \<Rightarrow>
                cbind (of_result (parse_manifest t path raw)) (\<lambda>m. creturn (path, m, Some raw))
            | None \<Rightarrow>
                cbind (confirm_nested_init t cwd) (\<lambda>_.
                cbind (confirm_init_outside_git t cwd) (\<lambda>_.
                creturn (path_join cwd MANIFEST_FILE, default_manifest, None)))) (\<lambda>(path, m, raw).
     cbind (already_linked t server_flag m) (\<lambda>linked.
     if linked then creturn ()
     else
     cbind (resolve_project_name t lower name m (raw \<noteq> None)) (\<lambda>project_name.
     cbind (resolve_server_for_init t server_flag) (\<lambda>(server_name, server).
     init_project t path m raw project_name server_name server))))))"

section \<open>Link and unlink\<close>

definition run_link :: "('n, 'u, 'k, 'sk) tools \<Rightarrow> ('n, unit) cio" where
  "run_link t =
     cbind (confirmed_linked_project t) (\<lambda>found.
     (case found of
        None \<Rightarrow> cfail (Message (''no project in this directory ('' @ MANIFEST_FILE @
                  '' with a project.id); run `railyard init` to create one''))
      | Some p \<Rightarrow>
     cbind (project_binding t (lp_id p)) (\<lambda>binding.
     (case binding of
        Bound name _ \<Rightarrow> nothing_to_do (lp_name p) (lp_id p) name
      | _ \<Rightarrow>
     cbind (case binding of
              Stale stale \<Rightarrow> eprintln (''note: ignoring the link to '' @ stale @
                '', which no longer exists on this machine'')
            | _ \<Rightarrow> creturn ()) (\<lambda>_.
     cbind (list_servers t) (\<lambda>servers.
     if servers = [] then cfail (Message ''no servers found; run `railyard login <blob>` first'')
     else if \<not> t_interactive t
     then cfail (Message (''`railyard link` picks a server interactively; rerun on a TTY (project '' @
            lp_name p @ '', '' @ lp_id p @ '')''))
     else
     cbind (select_from (''Link project '' @ lp_name p @ '' to which server?'') (map server_item servers))
       (\<lambda>choice.
     let (name, server) = servers ! choice in
     cbind (server_project_presence t server p) (\<lambda>presence.
     (case presence of
        Present \<Rightarrow> cbind (link_to_server t p name server) (\<lambda>_. creturn ())
      | Absent \<Rightarrow> cfail (Message (name @ '' does not have project '' @ lp_name p @ '' ('' @ lp_id p @
                    ''); run `railyard init --server '' @ name @ ''` to create it there''))
      | Unknown reason \<Rightarrow> cfail (Message (''could not check '' @ name @ '' for project '' @ lp_name p @
                    '' ('' @ reason @ ''); restore access there and retry'')))))))))))"

definition run_unlink :: "('n, 'u, 'k, 'sk) tools \<Rightarrow> ('n, unit) cio" where
  "run_unlink t =
     cbind (confirmed_linked_project t) (\<lambda>found.
     (case found of
        None \<Rightarrow> cfail (Message (''no project linked in this directory ('' @ MANIFEST_FILE @
                  '' with a project.id)''))
      | Some p \<Rightarrow>
          cbind (remove_project_binding t (lp_id p)) (\<lambda>removed.
          println (case removed of
             Some server_name \<Rightarrow> ''Unlinked project '' @ lp_name p @ '' ('' @ lp_id p @ '') from '' @
               server_name @ ''; '' @ MANIFEST_FILE @ '' keeps its id, so `railyard init` can link it again''
           | None \<Rightarrow> ''Project '' @ lp_name p @ '' ('' @ lp_id p @ '') is not linked to any server '' @
               em_dash @ '' nothing to do.''))))"

end
