(* ===== verification/Client_Commands.thy ===== *)
theory Client_Commands
  imports Client_Resolve
begin

text \<open>
  The commands that act on a project or a server: \<^verbatim>\<open>railyard up\<close>, \<^verbatim>\<open>user\<close> and \<^verbatim>\<open>whoami\<close>
  (\<^verbatim>\<open>apps/cli/src/commands/up.rs\<close>, \<^verbatim>\<open>user.rs\<close>, \<^verbatim>\<open>whoami.rs\<close>).
\<close>

section \<open>Sizes\<close>

text \<open>
  A \<^verbatim>\<open>u64\<close> as \<^verbatim>\<open>f64\<close> keeps 53 bits, and \<^verbatim>\<open>{:.1}\<close> rounds the exact value; both round half to even.
  Dividing by 1024 is exact, so the size is the number of bytes over a power of 1024.
\<close>

definition div_half_even :: "nat \<Rightarrow> nat \<Rightarrow> nat" where
  "div_half_even a b =
     (let q = a div b; r = a mod b in
      if 2 * r < b \<or> (2 * r = b \<and> even q) then q else q + 1)"

fun f64_exponent :: "nat \<Rightarrow> nat" where
  "f64_exponent n = (if n < 2 ^ 53 then 0 else Suc (f64_exponent (n div 2)))"

declare f64_exponent.simps [simp del]

definition f64_of_nat :: "nat \<Rightarrow> nat" where
  "f64_of_nat n = (let e = f64_exponent n in div_half_even n (2 ^ e) * 2 ^ e)"

definition UNITS :: "string list" where
  "UNITS = [''KiB'', ''MiB'', ''GiB'', ''TiB'']"

fun size_unit :: "nat \<Rightarrow> nat \<Rightarrow> string option \<Rightarrow> string list \<Rightarrow> nat \<times> string option" where
  "size_unit amount factor unit [] = (factor, unit)"
| "size_unit amount factor unit (next_unit # rest) =
     (if amount < 1024 * factor then (factor, unit)
      else size_unit amount (1024 * factor) (Some next_unit) rest)"

definition human_size :: "u64 \<Rightarrow> string" where
  "human_size bytes =
     (let amount = f64_of_nat (unat bytes) in
      case size_unit amount 1 None UNITS of
        (factor, Some unit) \<Rightarrow>
          (let tenths = div_half_even (10 * amount) factor in
           show_nat (tenths div 10) @ ''.'' @ show_nat (tenths mod 10) @ '' '' @ unit)
      | (_, None) \<Rightarrow> show_u64 bytes @ '' B'')"

section \<open>Packing the repository\<close>

text \<open>
  The walk over the directory and the archive format are third-party code (\<^verbatim>\<open>ignore\<close>, \<^verbatim>\<open>tar\<close>,
  \<^verbatim>\<open>flate2\<close>): \<open>pk_walk root keep\<close> is what the walk visits in order, each with its path and whether
  it is a directory, below entries that satisfy the filter; \<open>pk_append\<close> is the failure of adding a
  path to the archive, and \<open>pk_archive\<close> the archive of the paths added under their names.
\<close>

record packing =
  pk_walk :: "string \<Rightarrow> (string \<Rightarrow> bool) \<Rightarrow> (string + string \<times> bool) list"
  pk_append :: "string \<Rightarrow> string option"
  pk_archive :: "(string \<times> string) list \<Rightarrow> string"
  pk_temp_dir :: string
  pk_git_log :: "string \<Rightarrow> (bool \<times> string option) option"

definition keep_entry :: "string \<Rightarrow> string \<Rightarrow> bool" where
  "keep_entry output path \<longleftrightarrow>
     path_name path \<noteq> ''.git'' \<and> path_name path \<noteq> ''node_modules'' \<and> path \<noteq> output"

definition relative_to :: "string \<Rightarrow> string \<Rightarrow> string option" where
  "relative_to base path =
     (if path = base then Some []
      else strip_prefix path (if base = ''/'' then base else base @ ''/''))"

fun pack_entries ::
    "packing \<Rightarrow> string \<Rightarrow> (string + string \<times> bool) list \<Rightarrow> string + (string \<times> string) list \<times> nat"
where
  "pack_entries pk base [] = Inr ([], 0)"
| "pack_entries pk base (Inl e # rest) = Inl e"
| "pack_entries pk base (Inr (path, is_dir) # rest) =
     (case relative_to base path of
        None \<Rightarrow> Inl ''prefix not found''
      | Some [] \<Rightarrow> pack_entries pk base rest
      | Some relative \<Rightarrow>
          (case pk_append pk path of
             Some e \<Rightarrow> Inl e
           | None \<Rightarrow>
               rbind (pack_entries pk base rest) (\<lambda>(packed, files).
               Inr ((path, relative) # packed, if is_dir then files else files + 1))))"

definition pack_repository :: "packing \<Rightarrow> string \<Rightarrow> string \<Rightarrow> ('n, nat) cio" where
  "pack_repository pk base output =
     cbind (write_file output []) (\<lambda>_.
     cbind (of_result (invalid_data (pack_entries pk base (pk_walk pk base (keep_entry output)))))
       (\<lambda>(packed, files).
     cbind (write_file output (pk_archive pk packed)) (\<lambda>_.
     creturn files)))"

text \<open>\<open>pk_git_log\<close>: nothing when git cannot run, else its success and its output as UTF-8.\<close>

definition latest_commit_subject :: "packing \<Rightarrow> string \<Rightarrow> string option" where
  "latest_commit_subject pk base =
     (case pk_git_log pk base of
        Some (True, Some out) \<Rightarrow> if trim out = [] then None else Some (trim out)
      | _ \<Rightarrow> None)"

section \<open>Up\<close>

definition manifest_project ::
    "string \<Rightarrow> string \<Rightarrow> string \<Rightarrow> manifest \<Rightarrow> linked_project option" where
  "manifest_project base cwd manifest_path m =
     (case mf_project m of
        None \<Rightarrow> None
      | Some p \<Rightarrow> map_option
          (\<lambda>i. \<lparr>lp_id = i, lp_name = prj_name p,
                lp_manifest_path = (if base \<noteq> cwd then Some manifest_path else None)\<rparr>) (prj_id p))"

text \<open>The project must exist on the server that was chosen.\<close>

definition require_presence ::
    "('n, 'u, 'k, 'sk) tools \<Rightarrow> linked_project \<Rightarrow> string \<Rightarrow> server_config \<Rightarrow> ('n, unit) cio" where
  "require_presence t p server_name server =
     cbind (server_project_presence t server p) (\<lambda>presence.
     (case presence of
        Present \<Rightarrow> creturn ()
      | Absent \<Rightarrow> cfail (Message (''server '' @ server_name @ '' ('' @ sc_server_url server @
                    '') does not have project '' @ lp_name p @ '' ('' @ lp_id p @
                    ''); check --server or run `railyard init`''))
      | Unknown reason \<Rightarrow> cfail (Message (''could not confirm project '' @ lp_name p @ '' on '' @
                    server_name @ '': '' @ reason))))"

definition pack_and_upload ::
    "('n, 'u, 'k, 'sk) tools \<Rightarrow> packing \<Rightarrow> string \<Rightarrow> linked_project \<Rightarrow> string \<Rightarrow> server_config
      \<Rightarrow> string option \<Rightarrow> ('n, unit) cio" where
  "pack_and_upload t pk base p server_name server message_flag =
     (let archive_path = path_join (pk_temp_dir pk) (''railyard-up-'' @ lp_id p @ ''.tar.gz'') in
      cbind (println (''Packing '' @ base @ '' for project '' @ lp_name p @ '' on '' @ server_name @
               '' ('' @ sc_server_url server @ '')'')) (\<lambda>_.
      cbind (pack_repository pk base archive_path) (\<lambda>files.
      cbind (read_to_string archive_path) (\<lambda>archive.
      cbind (println (''Packed '' @ show_nat files @ '' files ('' @
               human_size (of_nat (length archive)) @ '')'')) (\<lambda>_.
      let message = (case message_flag of
            Some m \<Rightarrow> Some m | None \<Rightarrow> latest_commit_subject pk base) in
      cbind (println (''Uploading to '' @ server_name @ ''...'')) (\<lambda>_.
      cbind (http_create_release t server (lp_id p) message archive) (\<lambda>release.
      cbind (attempt (remove_path archive_path)) (\<lambda>_.
      println (''Release '' @ rs_id release @ '' is '' @ status_as_str (rs_status release))))))))))"

definition run_up ::
    "('n, 'u, 'k, 'sk) tools \<Rightarrow> packing \<Rightarrow> string option \<Rightarrow> string option \<Rightarrow> ('n, unit) cio" where
  "run_up t pk server_flag message_flag =
     cbind (of_result (t_cwd t)) (\<lambda>cwd.
     cbind (find_manifest t cwd) (\<lambda>found.
     (case found of
        None \<Rightarrow> cfail (Message (''no '' @ MANIFEST_FILE @
                  '' found here or in any ancestor; run `railyard init` first''))
      | Some (manifest_path, raw) \<Rightarrow>
     (case path_parent manifest_path of
        None \<Rightarrow> cfail (Message ''manifest has no parent directory'')
      | Some base \<Rightarrow>
     (case parse_manifest t manifest_path raw of
        Inl e \<Rightarrow> cfail (Message (manifest_path @ '' is invalid:'' @ [nl] @ show_cerr e))
      | Inr m \<Rightarrow>
     (case manifest_project base cwd manifest_path m of
        None \<Rightarrow> cfail (Message (manifest_path @
                  '' has no project.id; run `railyard init` to create the project on a server''))
      | Some p \<Rightarrow>
     cbind (confirm_ancestor t p) (\<lambda>ok.
     if \<not> ok then cfail (Message ''up cancelled'')
     else
     cbind (case server_flag of
              Some name \<Rightarrow> resolve_server t (Some name)
            | None \<Rightarrow> resolve_project_server t p) (\<lambda>(server_name, server).
     cbind (require_presence t p server_name server) (\<lambda>_.
     pack_and_upload t pk base p server_name server message_flag)))))))))"

section \<open>Users\<close>

abbreviation tab :: string where "tab \<equiv> [CHR 0x09]"

definition client_format_age :: "u64 \<Rightarrow> string" where
  "client_format_age seconds =
     (if seconds < 60 then show_u64 seconds @ ''s''
      else if seconds < 3600 then show_u64 (seconds div 60) @ ''m''
      else if seconds < 86400 then show_u64 (seconds div 3600) @ ''h''
      else show_u64 (seconds div 86400) @ ''d'')"

definition saturating_sub :: "u64 \<Rightarrow> u64 \<Rightarrow> u64" where
  "saturating_sub a b = (if b \<le> a then a - b else 0)"

definition client_user_line :: "u64 \<Rightarrow> user_summary \<Rightarrow> string" where
  "client_user_line now u =
     us_name u @ tab @ us_id u @ tab @
     (case us_project_id u of None \<Rightarrow> ''admin'' | Some p \<Rightarrow> p) @ tab @
     (if us_has_key u then ''active'' else ''invited'') @ tab @
     ''created '' @ client_format_age (saturating_sub now (us_created_at u)) @ '' ago''"

fun print_lines :: "string list \<Rightarrow> ('n, unit) cio" where
  "print_lines [] = creturn ()"
| "print_lines (l # ls) = cbind (println l) (\<lambda>_. print_lines ls)"

definition print_invite :: "string \<Rightarrow> ('n, unit) cio" where
  "print_invite blob = print_lines
     [''Single-use invite, expires in 24h. Redeem with `railyard login <blob>`:'', [], blob]"

definition is_admin_identity :: "('n, 'u, 'k, 'sk) tools \<Rightarrow> server_config \<Rightarrow> ('n, bool) cio" where
  "is_admin_identity t server =
     cbind (attempt (http_whoami t server)) (\<lambda>r.
     creturn (case r of Inr (Identity who) \<Rightarrow> who_project_id who = None | _ \<Rightarrow> False))"

fun admin_entries ::
    "('n, 'u, 'k, 'sk) tools \<Rightarrow> (string \<times> server_config) list \<Rightarrow> ('n, (string \<times> server_config) list) cio"
where
  "admin_entries t [] = creturn []"
| "admin_entries t ((name, server) # rest) =
     cbind (is_admin_identity t server) (\<lambda>admin.
     cbind (admin_entries t rest) (\<lambda>found.
     creturn (if admin then (name, server) # found else found)))"

definition resolve_admin_server ::
    "('n, 'u, 'k, 'sk) tools \<Rightarrow> string option \<Rightarrow> ('n, string \<times> server_config) cio" where
  "resolve_admin_server t explicit =
     cbind (list_servers t) (\<lambda>servers.
     if explicit \<noteq> None \<or> length servers < 2 \<or> \<not> t_interactive t then resolve_server t explicit
     else
     cbind (admin_entries t servers) (\<lambda>candidates.
     (case candidates of
        [] \<Rightarrow> cfail (Message ''none of your servers answered with an admin identity, and only admins can mint invites; check `railyard whoami`'')
      | [(name, server)] \<Rightarrow>
          cbind (confirm (''Only '' @ name @ '' ('' @ sc_server_url server @
                   '') holds an admin identity here. Create the admin invite there?'')) (\<lambda>confirmed.
          if \<not> confirmed then cfail (Message ''no server chosen; pass --server <name> to pick one'')
          else creturn (name, server))
      | _ \<Rightarrow>
          cbind (select_from ''Create the admin invite on which server?'' (map server_item candidates))
            (\<lambda>choice. creturn (candidates ! choice)))))"

definition add_admin ::
    "('n, 'u, 'k, 'sk) tools \<Rightarrow> string \<Rightarrow> string option \<Rightarrow> ('n, unit) cio" where
  "add_admin t name server_flag =
     cbind (resolve_admin_server t server_flag) (\<lambda>(server_name, server).
     cbind (http_create_user t server name None) (\<lambda>created.
     cbind (println (''Created admin user '' @ name @ '' with access to all of '' @ server_name @ ''.'')) (\<lambda>_.
     print_invite (cus_invite_blob created))))"

definition add_user ::
    "('n, 'u, 'k, 'sk) tools \<Rightarrow> string \<Rightarrow> bool \<Rightarrow> string option \<Rightarrow> ('n, unit) cio" where
  "add_user t name admin server_flag =
     (if admin then add_admin t name server_flag
      else
      cbind (confirmed_linked_project t) (\<lambda>found.
      (case found of
         None \<Rightarrow> cfail (Message (''no project linked in this directory ('' @ MANIFEST_FILE @
                   '' with a project.id); run `railyard init` first, or pass --admin to invite someone to a whole server''))
       | Some p \<Rightarrow>
      cbind (case server_flag of
               Some server_name \<Rightarrow> resolve_server t (Some server_name)
             | None \<Rightarrow> resolve_project_server t p) (\<lambda>(server_name, server).
      cbind (http_create_user t server name (Some (lp_id p))) (\<lambda>created.
      cbind (println (''Created user '' @ name @ '' scoped to project '' @ lp_name p @ '' on '' @
               server_name @ ''.'')) (\<lambda>_.
      print_invite (cus_invite_blob created)))))))"

definition list_server_users ::
    "('n, 'u, 'k, 'sk) tools \<Rightarrow> string option \<Rightarrow> ('n, unit) cio" where
  "list_server_users t server_flag =
     cbind (resolve_server t server_flag) (\<lambda>(server_name, server).
     cbind (http_list_users t server) (\<lambda>listed.
     if listed = [] then println (''No users on '' @ server_name @ ''.'')
     else cbind (unix_timestamp t) (\<lambda>now. print_lines (map (client_user_line now) listed))))"

definition remove_server_user ::
    "('n, 'u, 'k, 'sk) tools \<Rightarrow> string \<Rightarrow> string option \<Rightarrow> ('n, unit) cio" where
  "remove_server_user t name server_flag =
     cbind (resolve_server t server_flag) (\<lambda>(server_name, server).
     cbind (http_remove_user t server name) (\<lambda>removed.
     println (if removed
       then ''Removed user '' @ name @ '' from '' @ server_name @ '' and revoked its keys.''
       else ''No user named '' @ name @ '' on '' @ server_name @ ''.'')))"

section \<open>Whoami\<close>

definition describe_identity :: "whoami_response \<Rightarrow> string" where
  "describe_identity who =
     ''user '' @ who_name who @ '' '' @ em_dash @ '' '' @
     (case (who_project_id who, who_project_name who) of
        (None, _) \<Rightarrow> ''admin''
      | (Some i, None) \<Rightarrow> ''project '' @ i
      | (Some _, Some project) \<Rightarrow> ''project '' @ project)"

text \<open>The entry that commands in this directory would use, and a note why.\<close>

definition selected_entry ::
    "('n, 'u, 'k, 'sk) tools \<Rightarrow> (string \<times> server_config) list \<Rightarrow> ('n, string option \<times> string) cio"
where
  "selected_entry t servers =
     cbind (linked_project t) (\<lambda>found.
     (case found of
        Some p \<Rightarrow>
          let via = (case lp_manifest_path p of
                Some path \<Rightarrow> '', manifest at '' @ path | None \<Rightarrow> []) in
          cbind (attempt (project_binding t (lp_id p))) (\<lambda>binding.
          creturn (case binding of
             Inr (Bound name _) \<Rightarrow> (Some name, ''selected for this directory (project '' @ lp_name p @
               '', '' @ lp_id p @ via @ '')'')
           | Inr (Stale stale) \<Rightarrow> (None, ''project '' @ lp_name p @ '' ('' @ lp_id p @ via @
               '') is linked to '' @ stale @
               '', which no longer exists here; any project command re-offers the link, `railyard unlink` forgets it'')
           | Inr Unbound \<Rightarrow> (None, ''project '' @ lp_name p @ '' ('' @ lp_id p @ via @
               '') is not linked here yet'')
           | Inl e \<Rightarrow> (None, show_cerr e)))
      | None \<Rightarrow>
          (case servers of
             [(name, _)] \<Rightarrow> creturn (Some name, ''selected as the only known server'')
           | _ \<Rightarrow> creturn (None,
               ''no project in this directory; commands here need --server <name>''))))"

fun whoami_rows ::
    "('n, 'u, 'k, 'sk) tools \<Rightarrow> string option \<Rightarrow> (string \<times> server_config) list \<Rightarrow> ('n, unit) cio" where
  "whoami_rows t selected [] = creturn ()"
| "whoami_rows t selected ((name, server) # rest) =
     cbind (attempt (http_whoami t server)) (\<lambda>r.
     let who = (case r of
           Inr (Identity identity) \<Rightarrow> describe_identity identity
         | Inr (Rejected reason) \<Rightarrow> ''key rejected '' @ reason
         | Inr Unreachable \<Rightarrow> ''unreachable''
         | Inl e \<Rightarrow> ''error: '' @ show_cerr e) in
     cbind (println ((if selected = Some name then ''*'' else '' '') @ '' '' @ name @ tab @
              sc_server_url server @ tab @ who)) (\<lambda>_.
     whoami_rows t selected rest))"

definition run_whoami :: "('n, 'u, 'k, 'sk) tools \<Rightarrow> string option \<Rightarrow> ('n, unit) cio" where
  "run_whoami t server_flag =
     cbind (list_servers t) (\<lambda>servers.
     if servers = [] then cfail (Message ''no servers found; run `railyard login <blob>` first'')
     else
     let chosen = (case server_flag of
           Some name \<Rightarrow> filter (\<lambda>s. fst s = name) servers | None \<Rightarrow> servers) in
     cbind (case server_flag of
              Some name \<Rightarrow>
                if chosen = [] then cfail (Message (''no server named '' @ name))
                else creturn (Some name, ''selected by --server '' @ name)
            | None \<Rightarrow> selected_entry t servers) (\<lambda>(selected, note).
     cbind (whoami_rows t selected chosen) (\<lambda>_.
     cbind (println []) (\<lambda>_.
     println note))))"

end
