(* ===== verification/Client_Proofs.thy ===== *)
theory Client_Proofs
  imports Client_Login Client_Init Client_Commands
begin

text \<open>
  What the commands of the client leave alone: which files, answers and network they touch, and what
  a resolved server rests on.
\<close>

section \<open>Relations that commands respect\<close>

definition obeys :: "('n client \<Rightarrow> 'n client \<Rightarrow> bool) \<Rightarrow> ('n, 'a) cio \<Rightarrow> bool" where
  "obeys R m \<longleftrightarrow> (\<forall>c. R c (snd (m c)))"

lemma obeysD: "\<lbrakk>obeys R m; m c = (r, c')\<rbrakk> \<Longrightarrow> R c c'"
  unfolding obeys_def by (metis snd_conv)

text \<open>The contract: a preorder on states.  Commands built from parts that respect it respect it.\<close>

locale client_preorder =
  fixes R :: "'n client \<Rightarrow> 'n client \<Rightarrow> bool"
  assumes self: "R c c" and chain: "\<lbrakk>R a b; R b d\<rbrakk> \<Longrightarrow> R a d"
begin

lemma obeys_creturn: "obeys R (creturn x)"
  by (simp add: obeys_def self)

lemma obeys_cfail: "obeys R (cfail e)"
  by (simp add: obeys_def self)

lemma obeys_Pair: "obeys R (Pair r)"
  by (simp add: obeys_def self)

lemma obeys_of_result: "obeys R (of_result r)"
  by (simp add: of_result_def obeys_creturn obeys_cfail split: sum.split)

lemma obeys_attempt: "obeys R m \<Longrightarrow> obeys R (attempt m)"
  by (auto simp: obeys_def attempt_def split: prod.split) (metis snd_conv)

lemma obeys_cbind_result:
  assumes "obeys R m" and "\<And>c x c'. m c = (Inr x, c') \<Longrightarrow> obeys R (f x)"
  shows "obeys R (cbind m f)"
  unfolding obeys_def
proof
  fix c
  obtain r c1 where m: "m c = (r, c1)" by fastforce
  with assms(1) have "R c c1" by (rule obeysD)
  with m assms(2) show "R c (snd (cbind m f c))"
    by (cases r) (auto simp: obeys_def cbind_def intro: chain)
qed

lemma obeys_cbind: "\<lbrakk>obeys R m; \<And>x. obeys R (f x)\<rbrakk> \<Longrightarrow> obeys R (cbind m f)"
  by (rule obeys_cbind_result)

lemmas obeys_intros = obeys_Pair obeys_creturn obeys_cfail obeys_of_result obeys_attempt obeys_cbind

end

section \<open>Files\<close>

text \<open>The files of a set of paths keep their contents.\<close>

definition files_kept :: "(string \<Rightarrow> bool) \<Rightarrow> 'n client \<Rightarrow> 'n client \<Rightarrow> bool" where
  "files_kept P c c' \<longleftrightarrow> (\<forall>p. P p \<longrightarrow> map_of (cl_files c') p = map_of (cl_files c) p)"

interpretation kept: client_preorder "files_kept P" for P :: "string \<Rightarrow> bool"
  by unfold_locales (auto simp: files_kept_def)

text \<open>Nothing local changes: files and answers stay and nothing is asked at the terminal, whatever is
  printed or asked of the network, and no failure appears that was not scheduled.\<close>

definition only_reads :: "'n client \<Rightarrow> 'n client \<Rightarrow> bool" where
  "only_reads c c' \<longleftrightarrow> cl_files c' = cl_files c \<and> cl_answers c' = cl_answers c \<and>
     cl_prompts c' = cl_prompts c \<and> (cl_io_faults c = [] \<longrightarrow> cl_io_faults c' = [])"

interpretation reads: client_preorder only_reads
  by unfold_locales (auto simp: only_reads_def)

lemma only_reads_kept: "obeys only_reads m \<Longrightarrow> obeys (files_kept P) m"
  by (auto simp: obeys_def only_reads_def files_kept_def)

lemma fs_op_only_reads: "obeys only_reads act \<Longrightarrow> obeys only_reads (fs_op act)"
  unfolding obeys_def fs_op_def only_reads_def
  by (auto split: list.split option.split)

named_theorems reading \<open>commands that only read\<close>

lemma basic_reads [reading]:
  "obeys only_reads (println l)"
  "obeys only_reads (eprintln l)"
  "obeys only_reads (draw g)"
  "obeys only_reads (send t u rq)"
  "obeys only_reads (unix_timestamp t)"
  by (auto simp: obeys_def only_reads_def println_def eprintln_def draw_def send_def
      unix_timestamp_def split: prod.split)

lemma fs_reads [reading]:
  "obeys only_reads (read_to_string p)"
  "obeys only_reads (read_dir d)"
  "obeys only_reads touch_fs"
  unfolding read_to_string_def read_dir_def touch_fs_def
  by (rule fs_op_only_reads; auto simp: obeys_def only_reads_def split: option.split)+

lemma read_server_reads [reading]: "obeys only_reads (read_server t n)"
  unfolding read_server_def by (intro reads.obeys_intros reading)

lemma read_signing_key_reads [reading]: "obeys only_reads (read_signing_key t n)"
  unfolding read_signing_key_def by (intro reads.obeys_intros reading) (auto split: option.split intro!: reads.obeys_intros reading)

lemma load_servers_reads [reading]: "obeys only_reads (load_servers t d ns)"
  by (induction t d ns rule: load_servers.induct)
    (auto split: option.split sum.split intro!: reads.obeys_intros reading)

lemma list_servers_reads [reading]: "obeys only_reads (list_servers t)"
  unfolding list_servers_def
  by (intro reads.obeys_intros reading) (auto split: sum.split cerr.split intro!: reads.obeys_intros reading)

lemma read_bindings_reads [reading]:
  "obeys only_reads (read_global_config t)"
  "obeys only_reads (read_project_binding t i)"
  unfolding read_project_binding_def read_global_config_def
  by (auto split: sum.split cerr.split intro!: reads.obeys_intros reading)

lemma signed_request_reads [reading]:
  "obeys only_reads (signed_request_with_type t s m p b ct)"
  "obeys only_reads (signed_request t s m p b)"
proof -
  show "obeys only_reads (signed_request_with_type t s m p b ct)" for ct
    unfolding signed_request_with_type_def sign_request_def random_nonce_def
    by (intro reads.obeys_intros reading)
  then show "obeys only_reads (signed_request t s m p b)" by (simp add: signed_request_def)
qed

lemma json_of_reads [reading]: "obeys only_reads (json_of d rp)"
  unfolding json_of_def by (auto split: sum.split intro!: reads.obeys_intros reading)

lemma http_reads [reading]:
  "obeys only_reads (http_list_projects t s)"
  "obeys only_reads (http_whoami t s)"
  "obeys only_reads (http_redeem_invite t i k)"
  "obeys only_reads (generate_signing_key t)"
  unfolding http_list_projects_def http_whoami_def http_redeem_invite_def checked_json_def
    generate_signing_key_def
  by (auto split: sum.split cerr.split intro!: reads.obeys_intros reading)

lemma project_binding_reads [reading]: "obeys only_reads (project_binding t i)"
  unfolding project_binding_def
  by (intro reads.obeys_intros reading) (auto split: option.split sum.split cerr.split intro!: reads.obeys_intros reading)

lemma presence_reads [reading]: "obeys only_reads (server_project_presence t s p)"
  unfolding server_project_presence_def
  by (intro reads.obeys_intros reading) (auto split: sum.split option.split whoami_outcome.split intro!: reads.obeys_intros reading)

lemma find_candidates_reads [reading]: "obeys only_reads (find_candidates t p ss)"
  by (induction t p ss rule: find_candidates.induct)
    (auto split: prod.split intro!: reads.obeys_intros reading)

lemma find_identity_reads [reading]: "obeys only_reads (find_identity t u ok ss)"
  by (induction t u ok ss rule: find_identity.induct)
    (auto split: sum.split whoami_outcome.split intro!: reads.obeys_intros reading)

section \<open>Answers\<close>

definition answers_kept :: "'n client \<Rightarrow> 'n client \<Rightarrow> bool" where
  "answers_kept c c' \<longleftrightarrow> cl_answers c' = cl_answers c"

interpretation unasked: client_preorder answers_kept
  by unfold_locales (auto simp: answers_kept_def)

named_theorems silent \<open>commands that ask nothing\<close>

lemma only_reads_silent: "obeys only_reads m \<Longrightarrow> obeys answers_kept m"
  by (auto simp: obeys_def only_reads_def answers_kept_def)

lemma write_file_silent [silent]: "obeys answers_kept (write_file p raw)"
  by (auto simp: obeys_def answers_kept_def write_file_def fs_op_def
      split: list.split option.split io_fault.split)

lemmas reading_silent [silent] = basic_reads [THEN only_reads_silent]
  fs_reads [THEN only_reads_silent] read_bindings_reads [THEN only_reads_silent]

lemma record_binding_silent [silent]: "obeys answers_kept (record_project_binding t i n)"
  unfolding record_project_binding_def write_global_config_def
  by (auto intro!: unasked.obeys_intros silent)

lemma link_to_server_silent [silent]: "obeys answers_kept (link_to_server t p n s)"
  unfolding link_to_server_def by (auto intro!: unasked.obeys_intros silent)

text \<open>A question that is answered takes the next answer, and that answer is the one it acts on.\<close>

lemma confirm_Inr:
  "confirm prompt c = (Inr b, c') \<Longrightarrow>
     cl_answers c = Yes_no b # cl_answers c' \<and> cl_files c' = cl_files c"
  by (auto simp: confirm_def ask_def Let_def split: list.splits option.splits answer.splits)

lemma select_from_Inr:
  "select_from prompt items c = (Inr i, c') \<Longrightarrow>
     cl_answers c = Picked i # cl_answers c' \<and> i < length items \<and> cl_files c' = cl_files c"
  by (auto simp: select_from_def ask_def Let_def split: list.splits option.splits answer.splits if_splits)

section \<open>What a resolved server rests on\<close>

definition entry_in :: "('n, 'u, 'k, 'sk) tools \<Rightarrow> 'n client \<Rightarrow> string \<Rightarrow> server_config \<Rightarrow> bool" where
  "entry_in t c name server \<longleftrightarrow>
     (\<exists>path raw. server_path t name = Inr path \<and> map_of (cl_files c) path = Some raw \<and>
        t_parse_server t raw = Inr server)"

definition bound_in :: "('n, 'u, 'k, 'sk) tools \<Rightarrow> 'n client \<Rightarrow> string \<Rightarrow> string \<Rightarrow> bool" where
  "bound_in t c project_id name \<longleftrightarrow>
     (\<exists>path raw bindings. global_config_path t = Inr path \<and> map_of (cl_files c) path = Some raw \<and>
        t_parse_bindings t raw = Inr bindings \<and> map_of bindings project_id = Some name)"

text \<open>
  A server was found to have the project: it was asked in a state that reading and requests led to, in
  which the files and the answers are those of the start.
\<close>

definition found_present ::
    "('n, 'u, 'k, 'sk) tools \<Rightarrow> linked_project \<Rightarrow> 'n client \<Rightarrow> server_config \<Rightarrow> bool" where
  "found_present t p c server \<longleftrightarrow>
     (\<exists>c1 c2. only_reads c c1 \<and> server_project_presence t server p c1 = (Inr Present, c2))"

lemma found_present_here: "server_project_presence t s p c = (Inr Present, c') \<Longrightarrow> found_present t p c s"
  unfolding found_present_def using reads.self by blast

lemma found_present_reads: "\<lbrakk>only_reads c c1; found_present t p c1 s\<rbrakk> \<Longrightarrow> found_present t p c s"
  unfolding found_present_def using reads.chain by blast

lemma of_result_eq [simp]: "of_result r c = (r, c)"
  by (simp add: of_result_def split: sum.split)

lemma invalid_data_eq [simp]: "invalid_data r = Inr x \<longleftrightarrow> r = Inr x"
  by (simp add: invalid_data_def split: sum.split)

lemma read_to_string_Inr:
  "read_to_string p c = (Inr raw, c') \<Longrightarrow> map_of (cl_files c) p = Some raw"
  by (auto simp: read_to_string_def fs_op_def split: list.splits option.splits)

lemma read_server_Inr: "read_server t name c = (Inr server, c') \<Longrightarrow> entry_in t c name server"
  unfolding read_server_def entry_in_def
  by (elim cbind_cases) (auto dest!: read_to_string_Inr)

lemma entry_in_reads: "only_reads c c' \<Longrightarrow> entry_in t c' n s = entry_in t c n s"
  by (simp add: entry_in_def only_reads_def)

lemma attempt_eq: "attempt m c = (r, c') \<Longrightarrow> \<exists>x. m c = (x, c') \<and> r = Inr x"
  by (auto simp: attempt_def split: prod.splits)

lemma read_bindings_Inr:
  "read_global_config t c = (Inr bs, c') \<Longrightarrow> map_of bs i = Some name \<Longrightarrow> bound_in t c i name"
  unfolding read_global_config_def bound_in_def
  by (elim cbind_cases)
    (auto dest!: attempt_eq split: sum.splits cerr.splits dest: read_to_string_Inr)

lemma project_binding_Bound:
  assumes "project_binding t i c = (Inr (Bound name server), c')"
  shows "bound_in t c i name \<and> entry_in t c name server"
proof -
  from assms obtain c1 where b: "read_project_binding t i c = (Inr (Some name), c1)"
    and r: "read_server t name c1 = (Inr server, c')"
    unfolding project_binding_def
    by (elim cbind_cases) (auto split: option.splits sum.splits cerr.splits elim!: cbind_cases dest!: attempt_eq)
  from b have "bound_in t c i name"
    unfolding read_project_binding_def by (elim cbind_cases) (auto intro: read_bindings_Inr)
  moreover have "entry_in t c1 name server" using r by (rule read_server_Inr)
  moreover have "only_reads c c1"
    using b by (rule obeysD [OF read_bindings_reads(2)])
  ultimately show ?thesis using entry_in_reads by blast
qed

lemma find_candidates_present:
  "find_candidates t p ss c = (Inr (cands, unch), c') \<Longrightarrow> e \<in> set cands
    \<Longrightarrow> e \<in> set ss \<and> found_present t p c (snd e)"
proof (induction t p ss arbitrary: c cands unch c' rule: find_candidates.induct)
  case (2 t p name server rest)
  from 2(2) obtain pr c1 cs us where pr: "server_project_presence t server p c = (Inr pr, c1)"
    and rest: "find_candidates t p rest c1 = (Inr (cs, us), c')"
    and cands: "cands = (if pr = Present then (name, server) # cs else cs)"
    by (auto elim!: cbind_cases split: project_presence.splits)
  have "only_reads c c1" using obeysD [OF presence_reads pr] .
  note later = found_present_reads [OF this]
  show ?case
  proof (cases "e \<in> set cs")
    case True
    with 2(1) [OF rest] later show ?thesis by auto
  next
    case False
    with 2(3) cands have "pr = Present" "e = (name, server)" by (auto split: if_splits)
    with found_present_here pr show ?thesis by simp
  qed
qed simp

lemma link_to_server_Inr:
  "link_to_server t p n s c = (Inr r, c') \<Longrightarrow>
     r = (n, s) \<and> (\<exists>c1. record_project_binding t (lp_id p) n c = (Inr (), c1) \<and> only_reads c1 c')"
  unfolding link_to_server_def
  by (elim cbind_cases) (auto dest: obeysD [OF basic_reads(1)])

text \<open>
  An offer links only what was found present and what the user chose: the one candidate that was
  confirmed, or the one picked among several.
\<close>

definition user_chose ::
    "(string \<times> server_config) list \<Rightarrow> answer \<Rightarrow> string \<times> server_config \<Rightarrow> bool" where
  "user_chose cands a entry \<longleftrightarrow>
     (case a of
        Yes_no yes \<Rightarrow> yes \<and> cands = [entry]
      | Picked i \<Rightarrow> 2 \<le> length cands \<and> i < length cands \<and> cands ! i = entry
      | Typed _ \<Rightarrow> False)"

lemma offer_project_link_Inr:
  assumes "offer_project_link t p c = (Inr entry, c')"
  shows "\<exists>ss c1 cands unch c2 a c3. t_interactive t \<and> list_servers t c = (Inr ss, c1) \<and>
    find_candidates t p ss c1 = (Inr (cands, unch), c2) \<and> cl_answers c = a # cl_answers c3 \<and>
    user_chose cands a entry \<and> cl_files c3 = cl_files c \<and>
    link_to_server t p (fst entry) (snd entry) c3 = (Inr entry, c')"
proof -
  from assms obtain ss c1 cands un c2 where l: "list_servers t c = (Inr ss, c1)"
    and f: "find_candidates t p ss c1 = (Inr (cands, un), c2)"
    and rest: "(case cands of
        [] \<Rightarrow> cfail undefined
      | [(n, s)] \<Rightarrow> if \<not> t_interactive t then cfail undefined
          else cbind (confirm (''Found project '' @ lp_name p @ '' on server '' @ n @
                 ''. Would you like to link it?'')) (\<lambda>ok. if \<not> ok then cfail undefined else link_to_server t p n s)
      | _ \<Rightarrow> if \<not> t_interactive t then cfail undefined
          else cbind (select_from (''Project '' @ lp_name p @ '' exists on several servers; link which one?'')
                 (map server_item cands)) (\<lambda>i. link_to_server t p (fst (cands ! i)) (snd (cands ! i)))) c2
        = (Inr entry, c')"
    unfolding offer_project_link_def
    by (elim cbind_cases) (auto split: list.splits if_splits prod.splits elim!: cbind_cases)
  have inter: "t_interactive t" using rest by (auto split: list.splits if_splits)
  have "only_reads c c2"
    using obeysD [OF list_servers_reads l] obeysD [OF find_candidates_reads f] by (rule reads.chain)
  then have same: "cl_answers c2 = cl_answers c" "cl_files c2 = cl_files c" by (simp_all add: only_reads_def)
  have "\<exists>a c3. cl_answers c2 = a # cl_answers c3 \<and> user_chose cands a entry \<and> cl_files c3 = cl_files c2 \<and>
      link_to_server t p (fst entry) (snd entry) c3 = (Inr entry, c')"
  proof (cases cands)
    case Nil
    with rest show ?thesis by simp
  next
    case (Cons x xs)
    show ?thesis
    proof (cases xs)
      case Nil
      with Cons rest inter obtain c3 where
        ok: "confirm (''Found project '' @ lp_name p @ '' on server '' @ fst x @ ''. Would you like to link it?'') c2
          = (Inr True, c3)"
        and link: "link_to_server t p (fst x) (snd x) c3 = (Inr entry, c')"
        by (cases x) (auto split: if_splits elim!: cbind_cases)
      moreover have "entry = x" using link_to_server_Inr [OF link] by simp
      ultimately show ?thesis
        using confirm_Inr [OF ok] Nil Cons
        by (intro exI [of _ "Yes_no True"] exI [of _ c3]) (simp add: user_chose_def)
    next
      case (Cons y ys)
      with \<open>cands = x # xs\<close> rest inter obtain i c3 where
        sel: "select_from (''Project '' @ lp_name p @ '' exists on several servers; link which one?'')
                 (map server_item cands) c2 = (Inr i, c3)"
        and link: "link_to_server t p (fst (cands ! i)) (snd (cands ! i)) c3 = (Inr entry, c')"
        by (cases x) (auto elim!: cbind_cases)
      have "entry = cands ! i" using link_to_server_Inr [OF link] by simp
      with select_from_Inr [OF sel] link Cons \<open>cands = x # xs\<close> show ?thesis
        by (intro exI [of _ "Picked i"] exI [of _ c3]) (simp add: user_chose_def)
    qed
  qed
  with l f inter show ?thesis unfolding same by blast
qed

lemma resolve_project_server_Inr:
  assumes "resolve_project_server t p c = (Inr entry, c')"
  shows "(bound_in t c (lp_id p) (fst entry) \<and> entry_in t c (fst entry) (snd entry) \<and> only_reads c c') \<or>
    (\<exists>c0. only_reads c c0 \<and> offer_project_link t p c0 = (Inr entry, c'))"
proof -
  from assms obtain b c1 where b: "project_binding t (lp_id p) c = (Inr b, c1)"
    and rest: "b = Bound (fst entry) (snd entry) \<and> c' = c1 \<or> (\<exists>c2. only_reads c1 c2 \<and>
      offer_project_link t p c2 = (Inr entry, c'))"
    unfolding resolve_project_server_def
    by (elim cbind_cases) (auto split: project_binding.splits elim!: cbind_cases
        intro: obeysD [OF basic_reads(2)] reads.self)
  have c1: "only_reads c c1" using b by (rule obeysD [OF project_binding_reads])
  from rest show ?thesis
  proof
    assume "b = Bound (fst entry) (snd entry) \<and> c' = c1"
    with b c1 project_binding_Bound show ?thesis by blast
  next
    assume "\<exists>c2. only_reads c1 c2 \<and> offer_project_link t p c2 = (Inr entry, c')"
    with c1 reads.chain show ?thesis by blast
  qed
qed

end
