(* ===== verification/Client_Main.thy ===== *)
theory Client_Main
  imports Client_Proofs
begin

text \<open>
  The client's entry point (\<^verbatim>\<open>apps/cli/src/main.rs\<close>, the dispatch of \<^verbatim>\<open>commands/user.rs\<close>): the commands
  with their parsed arguments, and that none of them asks anything without a terminal.
\<close>

section \<open>Commands\<close>

datatype user_command =
    Add string bool "string option"
  | Remote_list "string option"
  | Remove string "string option"

datatype client_command =
    Login string "string option" "string option"
  | Whoami "string option"
  | Init "string option" "string option"
  | Up "string option" "string option"
  | Link
  | Unlink
  | User user_command

text \<open>What the commands use besides \<open>tools\<close>: the lower-casing, the packing, and the run of \<^verbatim>\<open>ssh\<close>.\<close>

record 'n programs =
  pr_lower :: "string \<Rightarrow> string"
  pr_packing :: packing
  pr_ssh :: "string \<Rightarrow> string \<Rightarrow> 'n \<Rightarrow> (cerr + ssh_output) \<times> 'n"

definition run_user :: "('n, 'u, 'k, 'sk) tools \<Rightarrow> user_command \<Rightarrow> ('n, unit) cio" where
  "run_user t cmd =
     (case cmd of
        Add name admin server \<Rightarrow> add_user t name admin server
      | Remote_list server \<Rightarrow> list_server_users t server
      | Remove name server \<Rightarrow> remove_server_user t name server)"

definition run_client ::
    "('n, 'u, 'k, 'sk) tools \<Rightarrow> 'n programs \<Rightarrow> client_command \<Rightarrow> ('n, unit) cio" where
  "run_client t pr cmd =
     (case cmd of
        Login target name user \<Rightarrow> run_login t (pr_lower pr) (pr_ssh pr) target name user
      | Whoami server \<Rightarrow> run_whoami t server
      | Init name server \<Rightarrow> run_init t (pr_lower pr) name server
      | Up server message \<Rightarrow> run_up t (pr_packing pr) server message
      | Link \<Rightarrow> run_link t
      | Unlink \<Rightarrow> run_unlink t
      | User cmd \<Rightarrow> run_user t cmd)"

text \<open>The exit code, and the world after the process; an error goes to standard error.\<close>

definition client_main ::
    "('n, 'u, 'k, 'sk) tools \<Rightarrow> 'n programs \<Rightarrow> client_command \<Rightarrow> 'n client \<Rightarrow> nat \<times> 'n client" where
  "client_main t pr cmd c =
     (case run_client t pr cmd c of
        (Inr _, c') \<Rightarrow> (0, c')
      | (Inl e, c') \<Rightarrow> (1, c'\<lparr>cl_err := cl_err c' @ [show_cerr e]\<rparr>))"

section \<open>Without a terminal nothing is asked\<close>

definition prompts_kept :: "'n client \<Rightarrow> 'n client \<Rightarrow> bool" where
  "prompts_kept c c' \<longleftrightarrow> cl_prompts c' = cl_prompts c"

interpretation unprompted: client_preorder prompts_kept
  by unfold_locales (auto simp: prompts_kept_def)

lemma only_reads_unprompted: "obeys only_reads m \<Longrightarrow> obeys prompts_kept m"
  by (auto simp: obeys_def only_reads_def prompts_kept_def)

named_theorems unasking \<open>commands that ask nothing at the terminal\<close>

lemmas reading_unasking [unasking] = reading [THEN only_reads_unprompted]

lemma fs_op_unasking: "obeys prompts_kept act \<Longrightarrow> obeys prompts_kept (fs_op act)"
  unfolding obeys_def fs_op_def prompts_kept_def by (auto split: list.split option.split)

lemma changes_unasking [unasking]:
  "obeys prompts_kept (write_file p raw)"
  "obeys prompts_kept (remove_path p)"
proof -
  show "obeys prompts_kept (write_file p raw)"
    by (auto simp: obeys_def prompts_kept_def write_file_def fs_op_def
        split: list.split option.split io_fault.split)
  show "obeys prompts_kept (remove_path p)"
    unfolding remove_path_def by (rule fs_op_unasking) (auto simp: obeys_def prompts_kept_def)
qed

lemmas steps = unprompted.obeys_intros
lemmas outcome_splits = option.split sum.split prod.split list.split cerr.split project_binding.split
  project_presence.split whoami_outcome.split

lemma config_unasking [unasking]:
  "obeys prompts_kept (write_server t n s)"
  "obeys prompts_kept (write_signing_key t k sk)"
  "obeys prompts_kept (record_project_binding t i n)"
  "obeys prompts_kept (remove_project_binding t i)"
  "obeys prompts_kept (rebind_projects t n m)"
  "obeys prompts_kept (remove_server t n)"
  unfolding write_server_def write_signing_key_def record_project_binding_def write_global_config_def
    remove_project_binding_def rebind_projects_def remove_server_def Let_def
  by (auto intro!: steps unasking split: outcome_splits)

lemma http_unasking [unasking]:
  "obeys prompts_kept (http_create_project t s n i)"
  "obeys prompts_kept (http_create_release t s n m a)"
  "obeys prompts_kept (http_create_user t s n i)"
  "obeys prompts_kept (http_list_users t s)"
  "obeys prompts_kept (http_remove_user t s n)"
  unfolding http_create_project_def http_create_release_def http_create_user_def http_list_users_def
    http_remove_user_def checked_json_def Let_def
  by (auto intro!: steps unasking split: outcome_splits)

lemma read_manifests_unasking [unasking]: "obeys prompts_kept (read_manifests t dir names)"
  by (induction t dir names rule: read_manifests.induct)
    (auto intro!: steps unasking split: outcome_splits)

lemma manifest_in_unasking [unasking]: "obeys prompts_kept (manifest_in t dir)"
  unfolding manifest_in_def by (auto intro!: steps unasking)

lemma find_manifest_unasking [unasking]: "obeys prompts_kept (find_manifest t dir)"
  by (induction t dir rule: find_manifest.induct, subst find_manifest.simps)
    (auto intro!: steps unasking split: outcome_splits)

lemma linked_project_unasking [unasking]: "obeys prompts_kept (linked_project t)"
  unfolding linked_project_def Let_def by (auto intro!: steps unasking split: outcome_splits)

lemma resolve_server_unasking [unasking]: "obeys prompts_kept (resolve_server t explicit)"
  unfolding resolve_server_def by (auto intro!: steps unasking split: outcome_splits)

lemma headless_resolve_unasking [unasking]:
  assumes quiet: "\<not> t_interactive t"
  shows "obeys prompts_kept (confirm_ancestor t p)"
    and "obeys prompts_kept (confirmed_linked_project t)"
    and "obeys prompts_kept (offer_project_link t p)"
    and "obeys prompts_kept (resolve_project_server t p)"
proof -
  show a: "obeys prompts_kept (confirm_ancestor t p)" for p
    unfolding confirm_ancestor_def using quiet by (auto intro!: steps split: option.split)
  show "obeys prompts_kept (confirmed_linked_project t)"
    unfolding confirmed_linked_project_def by (auto intro!: steps unasking a split: outcome_splits)
  show o: "obeys prompts_kept (offer_project_link t p)" for p
    unfolding offer_project_link_def using quiet by (auto intro!: steps unasking split: outcome_splits)
  show "obeys prompts_kept (resolve_project_server t p)"
    unfolding resolve_project_server_def by (auto intro!: steps unasking o split: outcome_splits)
qed

lemma link_unasking [unasking]:
  "obeys prompts_kept (link_to_server t p n s)"
  "obeys prompts_kept (nothing_to_do n j b)"
  "obeys prompts_kept (write_manifest t path m raw)"
  "obeys prompts_kept (link_manifest t path m raw n q)"
  "obeys prompts_kept (create_and_link t path m raw n s nm i)"
  "obeys prompts_kept (already_linked t flag m)"
  unfolding link_to_server_def nothing_to_do_def create_and_link_def link_manifest_def write_manifest_def
    already_linked_def
  by (auto intro!: steps unasking split: outcome_splits)

lemma headless_init_unasking [unasking]:
  assumes quiet: "\<not> t_interactive t"
  shows "obeys prompts_kept (confirm_nested_init t cwd)"
    and "obeys prompts_kept (confirm_init_outside_git t cwd)"
    and "obeys prompts_kept (resolve_project_name t lower name m e)"
    and "obeys prompts_kept (resolve_server_for_init t flag)"
    and "obeys prompts_kept (init_project t path m raw nm n s)"
proof -
  show "obeys prompts_kept (confirm_nested_init t cwd)"
    unfolding confirm_nested_init_def Let_def using quiet
    by (auto intro!: steps unasking split: outcome_splits)
  show "obeys prompts_kept (confirm_init_outside_git t cwd)"
    using quiet by (simp add: confirm_init_outside_git_def obeys_def prompts_kept_def eprintln_def)
  show "obeys prompts_kept (resolve_project_name t lower name m e)"
    unfolding resolve_project_name_def Let_def using quiet
    by (auto intro!: steps unasking split: outcome_splits)
  show "obeys prompts_kept (resolve_server_for_init t flag)"
    unfolding resolve_server_for_init_def using quiet by (auto intro!: steps unasking)
  show "obeys prompts_kept (init_project t path m raw nm n s)"
    unfolding init_project_def adopt_or_create_def Let_def using quiet
    by (auto intro!: steps unasking split: outcome_splits)
qed

lemma login_unasking [unasking]:
  "obeys prompts_kept (name_taken t n invite)"
  "obeys prompts_kept (existing_access t url i)"
  "obeys prompts_kept (existing_different_user_with_same_scope t invite)"
  "obeys prompts_kept (supersede_entries t url n ss)"
  "obeys prompts_kept (redeem_and_store t invite n)"
  "obeys prompts_kept (login t blob nm)"
proof -
  show sup: "obeys prompts_kept (supersede_entries t url n ss)" for url n ss
  proof (induction ss)
    case (Cons s ss)
    then show ?case
      by (cases s) (auto simp: Let_def intro!: steps unasking split: outcome_splits)
  qed (auto intro: steps)
  show nm: "obeys prompts_kept (name_taken t n invite)" for n
    unfolding name_taken_def by (auto intro!: steps unasking split: outcome_splits)
  show acc: "obeys prompts_kept (existing_access t url i)"
      "obeys prompts_kept (existing_different_user_with_same_scope t invite)" for url i invite
    unfolding existing_access_def existing_different_user_with_same_scope_def
    by (auto intro!: steps unasking)
  show red: "obeys prompts_kept (redeem_and_store t invite n)" for n invite
    unfolding redeem_and_store_def supersede_project_entries_def
    by (auto intro!: steps unasking sup split: outcome_splits)
  have nm: "obeys prompts_kept (name_taken t n invite)" for n invite
    unfolding name_taken_def by (auto intro!: steps unasking split: outcome_splits)
  show "obeys prompts_kept (login t blob nm)"
    unfolding login_def by (auto intro!: steps unasking nm acc red split: outcome_splits)
qed

lemma run_login_unasking [unasking]: "obeys prompts_kept (run_login t lower ssh target name user)"
proof -
  have "obeys prompts_kept (\<lambda>c. case ssh target nm (cl_net c) of (r, n) \<Rightarrow> (r, c\<lparr>cl_net := n\<rparr>))" for nm
    by (simp add: obeys_def prompts_kept_def split: prod.split)
  then show ?thesis
    unfolding run_login_def login_ssh_def Let_def
    by (auto intro!: steps unasking split: outcome_splits)
qed

lemma run_init_unasking [unasking]:
  "\<not> t_interactive t \<Longrightarrow> obeys prompts_kept (run_init t lower name flag)"
  unfolding run_init_def by (auto intro!: steps unasking split: outcome_splits)

lemma run_link_unasking [unasking]:
  assumes "\<not> t_interactive t"
  shows "obeys prompts_kept (run_link t)" and "obeys prompts_kept (run_unlink t)"
  unfolding run_link_def run_unlink_def Let_def using assms
  by (auto intro!: steps unasking split: outcome_splits)

lemma run_up_unasking [unasking]:
  assumes "\<not> t_interactive t"
  shows "obeys prompts_kept (run_up t pk server message)"
proof -
  have "obeys prompts_kept (require_presence t p n s)" for p n s
    unfolding require_presence_def by (auto intro!: steps unasking split: outcome_splits)
  moreover have "obeys prompts_kept (pack_and_upload t pk base p n s m)" for base p n s m
    unfolding pack_and_upload_def pack_repository_def Let_def
    by (auto intro!: steps unasking split: outcome_splits)
  ultimately show ?thesis
    unfolding run_up_def using assms by (auto intro!: steps unasking split: outcome_splits)
qed

lemma print_lines_unasking [unasking]: "obeys prompts_kept (print_lines ls)"
  by (induction ls) (auto intro!: steps unasking)

lemma run_user_unasking [unasking]:
  assumes "\<not> t_interactive t"
  shows "obeys prompts_kept (run_user t cmd)"
  unfolding run_user_def add_user_def add_admin_def resolve_admin_server_def print_invite_def
    list_server_users_def remove_server_user_def
  using assms by (auto intro!: steps unasking split: outcome_splits user_command.split)

lemma whoami_rows_unasking [unasking]: "obeys prompts_kept (whoami_rows t sel ss)"
proof (induction ss)
  case (Cons s ss)
  then show ?case
    by (cases s) (auto simp: Let_def intro!: steps unasking)
qed (auto intro: steps)

lemma run_whoami_unasking [unasking]: "obeys prompts_kept (run_whoami t flag)"
  unfolding run_whoami_def selected_entry_def Let_def
  by (auto intro!: steps unasking split: outcome_splits)

lemma client_main_unasking:
  assumes "\<not> t_interactive t"
  shows "prompts_kept c (snd (client_main t pr cmd c))"
proof -
  have "obeys prompts_kept (run_client t pr cmd)"
    unfolding run_client_def using assms by (auto intro!: unasking split: client_command.split)
  then have "prompts_kept c (snd (run_client t pr cmd c))" by (simp add: obeys_def)
  then show ?thesis
    by (auto simp: client_main_def prompts_kept_def split: prod.split sum.split)
qed

end
