(* ===== verification/Client_Props.thy ===== *)
theory Client_Props
  imports Client_Main
begin

text \<open>
  Properties of the client's commands: a login leaves other servers alone, the server a project
  command acts on, and the names the client derives.
\<close>

section \<open>Names\<close>

lemma sanitize_server_name_chars:
  "list_all (\<lambda>c. is_ascii_alphanumeric c \<or> c = CHR ''-'' \<or> c = CHR ''_'') (sanitize_server_name raw)"
proof -
  have "c \<in> set (concat (map (\<lambda>ch. if is_name_char ch then ch else ''-'') chs)) \<Longrightarrow>
      is_ascii_alphanumeric c \<or> c = CHR ''-'' \<or> c = CHR ''_''" for c chs
    by (induction chs) (auto simp: is_name_char_def split: if_splits list.splits)
  then show ?thesis
    unfolding sanitize_server_name_def list_all_iff using set_trim_matches by blast
qed

lemma sanitized_no_slash: "CHR ''/'' \<notin> set (sanitize_server_name raw)"
proof
  assume "CHR ''/'' \<in> set (sanitize_server_name raw)"
  with sanitize_server_name_chars [of raw] have
    "is_ascii_alphanumeric (CHR ''/'') \<or> CHR ''/'' = CHR ''-'' \<or> CHR ''/'' = CHR ''_''"
    unfolding list_all_iff by blast
  then show False by (simp add: ascii_defs)
qed

lemma push_name_chars:
  assumes "list_all (\<lambda>c. is_ascii_lowercase c \<or> is_ascii_digit c \<or> c = CHR ''-'') name"
  shows "list_all (\<lambda>c. is_ascii_lowercase c \<or> is_ascii_digit c \<or> c = CHR ''-'') (foldl push_name_char name chs)"
  using assms
  by (induction chs arbitrary: name) (auto simp: push_name_char_def split: list.splits)

lemma sanitize_project_name_valid:
  assumes "sanitize_project_name lower raw \<noteq> []"
  shows "is_valid_name (sanitize_project_name lower raw)"
proof -
  let ?n = "foldl push_name_char [] (utf8_chars (lower raw))"
  let ?s = "sanitize_project_name lower raw"
  have s: "?s = trim_matches (CHR ''-'') (take 63 ?n)" by (simp add: sanitize_project_name_def)
  have sub: "set ?s \<subseteq> set ?n" using set_trim_matches set_take_subset unfolding s by fast
  have "length ?s \<le> length (take 63 ?n)"
    unfolding s trim_matches_def by (metis length_dropWhile_le length_rev order_trans)
  then have len: "length ?s \<le> 63" by simp
  from trim_matches_ends [of "CHR ''-''" "take 63 ?n"] assms
  have ends: "hd ?s \<noteq> CHR ''-''" "last ?s \<noteq> CHR ''-''" unfolding s by auto
  have "list_all (\<lambda>c. is_ascii_lowercase c \<or> is_ascii_digit c \<or> c = CHR ''-'') ?s"
    using push_name_chars [of "[]" "utf8_chars (lower raw)"] sub by (auto simp: list_all_iff)
  with assms len ends show ?thesis
    by (auto simp: is_valid_name_def starts_with_iff ends_with_iff)
qed

section \<open>Paths of the configuration\<close>

lemma path_join_plain:
  "\<lbrakk>CHR ''/'' \<notin> set b; a \<noteq> []; last a \<noteq> CHR ''/''\<rbrakk> \<Longrightarrow> path_join a b = a @ ''/'' @ b"
  by (cases b) (auto simp: path_join_def starts_with_def)

lemma client_dir:
  obtains d where "path_join r ''client'' = d" and "d \<noteq> []" and "last d \<noteq> CHR ''/''"
  by (rule that [of "path_join r ''client''"]) (auto simp: path_join_def starts_with_def)

text \<open>Entries, keys and the bindings are in different places, and entries are told apart by name.\<close>

lemma config_paths:
  assumes "config_root t = Inr r"
  obtains d where "\<And>n. CHR ''/'' \<notin> set n \<Longrightarrow> server_path t n = Inr (d @ ''/servers/'' @ n @ ''.json'')"
    and "\<And>k. CHR ''/'' \<notin> set k \<Longrightarrow> key_path t k = Inr (d @ ''/keys/'' @ k @ ''.json'')"
    and "global_config_path t = Inr (d @ ''/config.json'')"
proof -
  obtain d where d: "path_join r ''client'' = d" "d \<noteq> []" "last d \<noteq> CHR ''/''" by (rule client_dir)
  show thesis
    by (rule that [of d])
      (simp_all add: server_path_def key_path_def global_config_path_def assms d path_join_plain)
qed

section \<open>What a login writes\<close>

lemma write_file_kept: "\<not> P path \<Longrightarrow> obeys (files_kept P) (write_file path raw)"
  by (auto simp: obeys_def files_kept_def write_file_def fs_op_def update_conv'
      split: list.split option.split io_fault.split)

lemmas reading_kept = reading [THEN only_reads_kept]

lemma redeemed_key_plain:
  assumes "http_redeem_invite t invite pk c = (Inr key_id, c')"
  shows "\<exists>url rq net rp raw. fst (t_send t url rq net) = Inr rp \<and> rp_body rp = Inr raw \<and>
    t_parse_redeemed t raw = Inr key_id"
  using assms unfolding http_redeem_invite_def checked_json_def json_of_def send_def
  by (auto elim!: cbind_cases split: if_splits sum.splits prod.splits) (metis fst_conv)

text \<open>
  The server names keys by file names: no reply that arrives holds a key id with a slash.  The client
  does not check this, so it is a condition on the servers it talks to.
\<close>

definition plain_replies :: "('n, 'u, 'k, 'sk) tools \<Rightarrow> bool" where
  "plain_replies t \<longleftrightarrow> (\<forall>url rq net rp raw key_id. fst (t_send t url rq net) = Inr rp \<longrightarrow>
     rp_body rp = Inr raw \<longrightarrow> t_parse_redeemed t raw = Inr key_id \<longrightarrow> CHR ''/'' \<notin> set key_id)"

lemma redeemed_key_id:
  "\<lbrakk>plain_replies t; http_redeem_invite t invite pk c = (Inr key_id, c')\<rbrakk> \<Longrightarrow> CHR ''/'' \<notin> set key_id"
  by (drule redeemed_key_plain) (auto simp: plain_replies_def)

lemma of_result_Inr: "of_result (Inr x) = creturn x"
  by (simp add: of_result_def)

lemmas kept_steps = kept.obeys_cbind kept.obeys_creturn write_file_kept reading_kept

lemma write_server_kept:
  "\<lbrakk>server_path t name = Inr p; \<not> P p\<rbrakk> \<Longrightarrow> obeys (files_kept P) (write_server t name s)"
  by (auto simp: write_server_def of_result_Inr intro!: kept_steps)

lemma write_signing_key_kept:
  "\<lbrakk>key_path t key_id = Inr p; \<not> P p\<rbrakk> \<Longrightarrow> obeys (files_kept P) (write_signing_key t key_id sk)"
  by (auto simp: write_signing_key_def of_result_Inr intro!: kept_steps)

lemma record_binding_kept:
  "\<lbrakk>global_config_path t = Inr p; \<not> P p\<rbrakk> \<Longrightarrow> obeys (files_kept P) (record_project_binding t i n)"
  by (auto simp: record_project_binding_def write_global_config_def of_result_Inr intro!: kept_steps)

lemma redeem_and_store_kept:
  assumes "config_root t = Inr r" and "plain_replies t" and "inv_project invite = Some p"
    and "CHR ''/'' \<notin> set name" and "CHR ''/'' \<notin> set other" and "name \<noteq> other"
    and "server_path t other = Inr path"
  shows "obeys (files_kept (\<lambda>q. q = path)) (redeem_and_store t invite name)"
proof -
  from assms(1) show ?thesis
  proof (rule config_paths)
    fix d
    assume srv: "\<And>n. CHR ''/'' \<notin> set n \<Longrightarrow> server_path t n = Inr (d @ ''/servers/'' @ n @ ''.json'')"
      and key: "\<And>k. CHR ''/'' \<notin> set k \<Longrightarrow> key_path t k = Inr (d @ ''/keys/'' @ k @ ''.json'')"
      and glob: "global_config_path t = Inr (d @ ''/config.json'')"
    have path: "path = d @ ''/servers/'' @ other @ ''.json''" using srv [OF assms(5)] assms(7) by simp
    have signing: "obeys (files_kept (\<lambda>q. q = path)) (write_signing_key t k sk)"
      if "http_redeem_invite t invite pk c = (Inr k, c')" for k sk pk and c c' :: "'a client"
    proof -
      have "CHR ''/'' \<notin> set k" by (rule redeemed_key_id [OF assms(2) that])
      then show ?thesis by (rule write_signing_key_kept [OF key]) (simp add: path)
    qed
    have server: "obeys (files_kept (\<lambda>q. q = path)) (write_server t name s)" for s
      using assms(6) by (intro write_server_kept [OF srv [OF assms(4)]]) (simp add: path)
    have binding: "obeys (files_kept (\<lambda>q. q = path)) (record_project_binding t i n)" for i n
      by (rule record_binding_kept [OF glob]) (simp add: path)
    show ?thesis
      unfolding redeem_and_store_def
      by (rule kept.obeys_cbind, rule reading_kept, rule kept.obeys_cbind_result, rule reading_kept)
        (auto simp: assms(3) intro!: kept_steps signing server binding)
  qed
qed

text \<open>Reading first: a stored file is still stored, without scheduled failures, when the command goes on.\<close>

definition stored :: "string \<Rightarrow> string \<Rightarrow> 'n client \<Rightarrow> bool" where
  "stored path raw c \<longleftrightarrow> map_of (cl_files c) path = Some raw \<and> cl_io_faults c = []"

definition keeps_content :: "string \<Rightarrow> string \<Rightarrow> ('n, 'a) cio \<Rightarrow> bool" where
  "keeps_content path raw m \<longleftrightarrow>
     (\<forall>c. stored path raw c \<longrightarrow> map_of (cl_files (snd (m c))) path = Some raw)"

lemma read_then_result:
  fixes m :: "('n, 'a) cio" and f :: "'a \<Rightarrow> ('n, 'b) cio"
  assumes "obeys only_reads m"
    and "\<And>c x c1. \<lbrakk>stored path raw c; m c = (Inr x, c1)\<rbrakk> \<Longrightarrow> keeps_content path raw (f x)"
  shows "keeps_content path raw (cbind m f)"
  unfolding keeps_content_def
proof (intro allI impI)
  fix c :: "'n client"
  assume c: "stored path raw c"
  obtain r c1 where m: "m c = (r, c1)" by fastforce
  with obeysD [OF assms(1)] have "only_reads c c1" .
  with c have c1: "stored path raw c1" by (simp add: stored_def only_reads_def)
  show "map_of (cl_files (snd (cbind m f c))) path = Some raw"
  proof (cases r)
    case (Inl e)
    with m c1 show ?thesis by (simp add: stored_def)
  next
    case (Inr x)
    with m c1 assms(2) [OF c] show ?thesis by (simp add: keeps_content_def)
  qed
qed

lemma read_then:
  "\<lbrakk>obeys only_reads m; \<And>x. keeps_content path raw (f x)\<rbrakk> \<Longrightarrow> keeps_content path raw (cbind m f)"
  by (rule read_then_result)

lemma kept_content: "obeys (files_kept (\<lambda>q. q = path)) m \<Longrightarrow> keeps_content path raw m"
  by (auto simp: keeps_content_def stored_def obeys_def files_kept_def)

lemma name_taken_reads: "obeys only_reads (name_taken t name invite)"
  unfolding name_taken_def
  by (intro reads.obeys_intros reading) (auto split: sum.split intro!: reads.obeys_intros)

lemma access_reads:
  "obeys only_reads (existing_access t url i)"
  "obeys only_reads (existing_different_user_with_same_scope t invite)"
  unfolding existing_access_def existing_different_user_with_same_scope_def
  by (intro reads.obeys_intros reading)+

text \<open>A name that belongs to an entry for another server is refused.\<close>

lemma name_taken_other:
  assumes "stored path raw c" and "server_path t name = Inr path"
    and "t_parse_server t raw = Inr existing" and "sc_server_url existing \<noteq> inv_server_url invite"
  shows "\<exists>e c'. name_taken t name invite c = (Inl e, c')"
  using assms
  by (simp add: stored_def name_taken_def read_server_def read_to_string_def fs_op_def cbind_def
      attempt_def invalid_data_def)

lemma resolved_no_slash:
  "resolve_server_name t nm invite = Inr name \<Longrightarrow> CHR ''/'' \<notin> set name"
  using sanitized_no_slash
  by (auto simp: resolve_server_name_def Let_def split: option.splits sum.splits if_splits)

lemma login_keeps_entry:
  assumes invite: "parse_invite (t_crypto t) (t_parse_invite_json t) blob = Inr invite"
      "inv_project invite = Some p"
    and root: "config_root t = Inr r" "plain_replies t"
    and other: "CHR ''/'' \<notin> set other" "server_path t other = Inr path"
      "t_parse_server t raw = Inr existing" "sc_server_url existing \<noteq> inv_server_url invite"
  shows "keeps_content path raw (login t blob nm)"
proof -
  have binding: "obeys (files_kept (\<lambda>q. q = path)) (record_project_binding t i n)" for i n
    by (rule config_paths [OF root(1)], rule record_binding_kept) (use other in auto)
  have rest: "keeps_content path raw
      (cbind (name_taken t name invite) (\<lambda>_. redeem_and_store t invite name))"
    if "resolve_server_name t nm invite = Inr name" for name
  proof (rule read_then_result [OF name_taken_reads])
    fix c x c1
    assume "stored path raw c" "name_taken t name invite c = (Inr x, c1)"
    with name_taken_other other have "name \<noteq> other" by fastforce
    then show "keeps_content path raw (redeem_and_store t invite name)"
      using redeem_and_store_kept [OF root invite(2) resolved_no_slash [OF that] other(1) _ other(2)]
      by (intro kept_content) blast
  qed
  have linked: "keeps_content path raw (cbind (record_project_binding t i n) (\<lambda>_. println l))" for i n l
    by (rule kept_content) (auto intro!: kept_steps binding)
  have stop: "keeps_content path raw (cfail e)" for e
    by (simp add: keeps_content_def stored_def)
  have named: "keeps_content path raw (cbind (of_result (resolve_server_name t nm invite))
      (\<lambda>name. cbind (name_taken t name invite) (\<lambda>_. redeem_and_store t invite name)))"
    using rest stop by (cases "resolve_server_name t nm invite") (simp_all add: of_result_def)
  show ?thesis
    unfolding login_def
    by (auto simp: invite invalid_data_def of_result_Inr split: option.split
        intro!: read_then reading access_reads reads.obeys_cbind reads.obeys_creturn linked stop named)
qed

section \<open>Manifests and files\<close>

lemma parse_manifest_Inr:
  assumes "parse_manifest t path raw = Inr m" and "\<And>ks. set (t_key_order t ks) = set ks"
  shows "manifest_ok m"
  using assms(1) parse_value_Inr [OF assms(2)]
  by (auto simp: parse_manifest_def parse_def parse_relaxed_def split: if_splits sum.splits)

lemma write_file_Inr: "write_file p raw c = (Inr x, c') \<Longrightarrow> map_of (cl_files c') p = Some raw"
  by (auto simp: write_file_def fs_op_def update_conv' split: list.splits option.splits io_fault.splits)

section \<open>Instances\<close>

text \<open>
  A client in development mode.  A stored entry is the URL it points at, the bindings are one name
  for the project \<^verbatim>\<open>prj_1\<close>, and every key is the text it was generated from; the server redeems every
  invite and knows no other request.
\<close>

definition demo_tools :: "(unit, string, string, string) tools" where
  "demo_tools = \<lparr>t_env = [(''RAILYARD_DEV'', ''1'')], t_cwd = Inr ''/w'', t_interactive = False,
     t_clock = (\<lambda>_. 1000), t_random = (\<lambda>_. ''0a''),
     t_crypto = \<lparr>std_encode = (\<lambda>b. b), std_decode = Some, url_encode = (\<lambda>b. b), url_decode = Some,
       sha256_hex = (\<lambda>b. ''h''), key_from_bytes = Some, verify_sig = (\<lambda>k m sg. sg = k @ k)\<rparr>,
     t_new_key = (\<lambda>s. s), t_key_bytes = (\<lambda>k. k), t_key_of_bytes = (\<lambda>k. k), t_public_bytes = (\<lambda>k. k),
     t_sign = (\<lambda>k m. k @ k), t_hex = (\<lambda>b. b),
     t_url_parse = Inr, t_url_with = (\<lambda>u _ _. Some u), t_url_host = Some, t_url_port = (\<lambda>_. None),
     t_url_tail = (\<lambda>_. ''/''),
     t_send = (\<lambda>_ _ n. (Inr \<lparr>rp_status = 200, rp_body = Inr ''usr_1''\<rparr>, n)),
     t_status_text = show_nat, t_status_error = show_nat, t_base64_error = (\<lambda>e. e),
     t_json_server = sc_server_url,
     t_parse_server = (\<lambda>raw. Inr \<lparr>sc_server_url = raw, sc_key_id = ''usr_1'', sc_key_path = ''k''\<rparr>),
     t_json_bindings = concat \<circ> map snd, t_parse_bindings = (\<lambda>raw. Inr [(''prj_1'', raw)]),
     t_json_key = sk_key_id,
     t_parse_key = (\<lambda>raw. Inr \<lparr>sk_key_id = raw, sk_secret_base64 = raw\<rparr>),
     t_parse_invite_json = (\<lambda>j. Some \<lparr>inv_server_url = j, inv_server_name = ''new'', inv_user = ''usr_1'',
       inv_user_name = ''bob'', inv_project = Some \<lparr>ip_id = ''prj_1'', ip_name = ''shop''\<rparr>,
       inv_token = ''tk'', inv_expires = 5000\<rparr>),
     t_json_redeem = (\<lambda>tk k. tk), t_json_new_project = cpr_name, t_json_new_user = cur_name,
     t_parse_redeemed = (\<lambda>_. Inr ''usr_1''), t_parse_project = Inl, t_parse_projects = Inl,
     t_parse_new_user = Inl, t_parse_users = Inl, t_parse_whoami = Inl, t_parse_release = Inl,
     t_query_pair = (\<lambda>k v. k @ ''='' @ v), t_key_order = (\<lambda>ks. ks),
     t_json = (\<lambda>_. Inr JNull), t_json5 = (\<lambda>_. Inr JNull), t_deserialize = (\<lambda>_. Inr default_manifest),
     t_json_manifest = (\<lambda>_. [])\<rparr>"

definition demo_client :: "unit client" where
  "demo_client = \<lparr>cl_files = [(''.dev-state/client/servers/box.json'', ''http://box''),
       (''.dev-state/client/config.json'', ''box'')],
     cl_io_faults = [], cl_answers = [], cl_net = (), cl_draws = 0, cl_prompts = [], cl_out = [],
     cl_err = []\<rparr>"

lemma demo_root: "config_root demo_tools = Inr ''.dev-state''"
  by (simp add: config_root_def is_set_def env_var_def demo_tools_def)

lemma demo_box:
  "server_path demo_tools ''box'' = Inr ''.dev-state/client/servers/box.json''"
  "global_config_path demo_tools = Inr ''.dev-state/client/config.json''"
  by (simp_all add: server_path_def global_config_path_def demo_root path_join_def starts_with_def)

lemma demo_readers:
  "t_parse_server demo_tools raw = Inr \<lparr>sc_server_url = raw, sc_key_id = ''usr_1'', sc_key_path = ''k''\<rparr>"
  "t_parse_bindings demo_tools raw = Inr [(''prj_1'', raw)]"
  by (simp_all add: demo_tools_def)

lemma demo_reads_box:
  "read_server demo_tools ''box'' demo_client = (Inr
     \<lparr>sc_server_url = ''http://box'', sc_key_id = ''usr_1'', sc_key_path = ''k''\<rparr>, demo_client)"
  by (simp add: read_server_def of_result_Inr demo_box cbind_def read_to_string_def fs_op_def
      demo_client_def demo_readers invalid_data_def)

lemma demo_reads_binding:
  "read_project_binding demo_tools ''prj_1'' demo_client = (Inr (Some ''box''), demo_client)"
  by (simp add: read_project_binding_def read_global_config_def of_result_Inr demo_box cbind_def
      attempt_def read_to_string_def fs_op_def demo_client_def demo_readers invalid_data_def)

section \<open>Properties\<close>

text \<open>
  C39: logging in with a project's invite leaves the entries of other servers alone, when no file
  operation fails and no server answers with a key id that has a slash in it: an entry that points at
  another URL keeps its content, whatever name is asked for, also when the name is taken, the server
  refuses, or the invite turns out not to be needed.  (When the entry of the chosen name cannot be read,
  the code takes the name for free and overwrites the entry.)
\<close>

theorem project_login_keeps_other_servers:
  assumes "parse_invite (t_crypto t) (t_parse_invite_json t) blob = Inr invite"
    and "inv_project invite = Some p"
    and "config_root t = Inr r" and "plain_replies t"
    and "CHR ''/'' \<notin> set other" and "server_path t other = Inr path"
    and "map_of (cl_files c) path = Some raw" and "cl_io_faults c = []"
    and "t_parse_server t raw = Inr existing" and "sc_server_url existing \<noteq> inv_server_url invite"
  shows "map_of (cl_files (snd (login t blob name c))) path = Some raw"
  using login_keeps_entry [OF assms(1-6) assms(9-10), of name] assms(7,8)
  by (simp add: keeps_content_def stored_def)

theorem project_login_keeps_other_servers_witness:
  "map_of (cl_files (snd (login demo_tools ''ryd-invite-v1.http://new'' (Some ''box'') demo_client)))
     ''.dev-state/client/servers/box.json'' = Some ''http://box''"
proof (rule project_login_keeps_other_servers)
  have "trim ''ryd-invite-v1.http://new'' = ''ryd-invite-v1.http://new''"
    by (rule trim_graphic) (simp_all add: ascii_defs)
  then show "parse_invite (t_crypto demo_tools) (t_parse_invite_json demo_tools)
      ''ryd-invite-v1.http://new'' = Inr \<lparr>inv_server_url = ''http://new'', inv_server_name = ''new'',
        inv_user = ''usr_1'', inv_user_name = ''bob'',
        inv_project = Some \<lparr>ip_id = ''prj_1'', ip_name = ''shop''\<rparr>, inv_token = ''tk'', inv_expires = 5000\<rparr>"
    by (simp add: parse_invite_def strip_prefix_def starts_with_def INVITE_BLOB_PREFIX_def demo_tools_def)
  show "config_root demo_tools = Inr ''.dev-state''" by (rule demo_root)
  show "plain_replies demo_tools" by (simp add: plain_replies_def demo_tools_def)
  show "t_parse_server demo_tools ''http://box'' =
      Inr \<lparr>sc_server_url = ''http://box'', sc_key_id = ''usr_1'', sc_key_path = ''k''\<rparr>"
    by (rule demo_readers)
  show "server_path demo_tools ''box'' = Inr ''.dev-state/client/servers/box.json''" by (rule demo_box)
qed (simp_all add: demo_client_def)

text \<open>
  C19: the client never waits for an answer that nobody can give: without a terminal no command asks
  a question, whatever the files, the network and the failures are.
\<close>

theorem headless_commands_never_ask:
  assumes "\<not> t_interactive t"
  shows "cl_prompts (snd (client_main t pr cmd c)) = cl_prompts c"
  using client_main_unasking [OF assms, of c pr cmd] by (simp add: prompts_kept_def)

definition demo_programs :: "unit programs" where
  "demo_programs = \<lparr>pr_lower = (\<lambda>s. s),
     pr_packing = \<lparr>pk_walk = (\<lambda>base keep.
         filter (\<lambda>e. case e of Inl _ \<Rightarrow> True | Inr (p, _) \<Rightarrow> keep p)
           [Inr (base, True), Inr (base @ ''/a'', False)]),
       pk_append = (\<lambda>_. None), pk_archive = (\<lambda>es. concat (map snd es)), pk_temp_dir = ''/tmp'',
       pk_git_log = (\<lambda>_. None)\<rparr>,
     pr_ssh = (\<lambda>_ _ n. (Inl Absent_file, n))\<rparr>"

theorem headless_commands_never_ask_witness:
  "cl_prompts (snd (client_main demo_tools demo_programs (Init None None) demo_client)) = []"
  using headless_commands_never_ask [of demo_tools demo_programs "Init None None" demo_client]
  by (simp add: demo_tools_def demo_client_def)

end
