(* ===== verification/Client_Up_Props.thy ===== *)
theory Client_Up_Props
  imports Client_Props
begin

text \<open>
  What \<^verbatim>\<open>railyard up\<close> sends, with a run of it on a small project: the manifest at \<^verbatim>\<open>/w\<close> names the project
  \<^verbatim>\<open>prj_1\<close>, which is bound to the entry \<^verbatim>\<open>box\<close>.
\<close>

section \<open>Packing and sending\<close>

text \<open>Nothing is sent or received.\<close>

definition net_same :: "'n client \<Rightarrow> 'n client \<Rightarrow> bool" where
  "net_same c c' \<longleftrightarrow> cl_net c' = cl_net c"

interpretation offline: client_preorder net_same
  by unfold_locales (simp_all add: net_same_def)

lemma local_offline:
  "obeys net_same (println l)"
  "obeys net_same (read_to_string p)"
  "obeys net_same (write_file p raw)"
  "obeys net_same (remove_path p)"
  by (auto simp: obeys_def net_same_def println_def read_to_string_def write_file_def remove_path_def fs_op_def
      split: list.split option.split io_fault.split)

lemma pack_repository_offline: "obeys net_same (pack_repository pk base out)"
  unfolding pack_repository_def by (auto intro!: offline.obeys_intros local_offline)

lemma pack_repository_Inr:
  assumes "pack_repository pk base out c = (Inr files, c')"
  obtains packed where "pack_entries pk base (pk_walk pk base (keep_entry out)) = Inr (packed, files)"
    and "map_of (cl_files c') out = Some (pk_archive pk packed)"
  using assms unfolding pack_repository_def
  by (auto elim!: cbind_cases dest: write_file_Inr)

text \<open>The packed paths are the visited ones below the base, each under its name relative to it.\<close>

lemma pack_entries_Inr:
  "pack_entries pk base es = Inr (packed, files) \<Longrightarrow>
     (path, rel) \<in> set packed \<longleftrightarrow> (\<exists>d. Inr (path, d) \<in> set es) \<and> relative_to base path = Some rel \<and> rel \<noteq> []"
proof (induction pk base es arbitrary: packed files rule: pack_entries.induct)
  case (3 pk base p d rest)
  show ?case
  proof (cases "relative_to base p")
    case None
    with 3 show ?thesis by simp
  next
    case (Some r)
    show ?thesis
    proof (cases r)
      case Nil
      with 3 Some show ?thesis by auto
    next
      case (Cons x xs)
      with "3.prems" Some obtain packed' files' where rest: "pack_entries pk base rest = Inr (packed', files')"
        and ok: "pk_append pk p = None" and packed: "packed = (p, r) # packed'"
        by (auto simp: rbind_eq_Inr split: option.splits)
      from "3.IH"(2) [OF Some Cons ok rest] Some Cons packed show ?thesis by auto
    qed
  qed
qed simp_all

text \<open>The upload is one request, made in the network the packing started from, and the last.\<close>

lemma pack_and_upload_Inr:
  fixes t :: "('n, 'u, 'k, 'sk) tools"
  assumes "pack_and_upload t pk base p n server msg c = (Inr x, c')"
  obtains packed files c1 r c2 where
    "pack_entries pk base (pk_walk pk base (keep_entry
        (path_join (pk_temp_dir pk) (''railyard-up-'' @ lp_id p @ ''.tar.gz'')))) = Inr (packed, files)"
    and "cl_net c1 = cl_net c"
    and "http_create_release t server (lp_id p) (case msg of Some m \<Rightarrow> Some m | None \<Rightarrow> latest_commit_subject pk base)
        (pk_archive pk packed) c1 = (Inr r, c2)"
    and "cl_net c' = cl_net c2"
proof -
  define out where "out = path_join (pk_temp_dir pk) (''railyard-up-'' @ lp_id p @ ''.tar.gz'')"
  define message where "message = (case msg of Some m \<Rightarrow> Some m | None \<Rightarrow> latest_commit_subject pk base)"
  obtain l1 l2 l3 :: string and d1 d2 d3 d4 c1 c2 c3 :: "'n client" and r files archive y where
    l1: "println l1 c = (Inr (), d1)"
    and pack: "pack_repository pk base out d1 = (Inr files, d2)"
    and read: "read_to_string out d2 = (Inr archive, d3)"
    and l2: "println l2 d3 = (Inr (), d4)" and l3: "println l3 d4 = (Inr (), c1)"
    and up: "http_create_release t server (lp_id p) message archive c1 = (Inr r, c2)"
    and rm: "attempt (remove_path out) c2 = (Inr y, c3)"
    and l4: "println (''Release '' @ rs_id r @ '' is '' @ status_as_str (rs_status r)) c3 = (Inr x, c')"
    using assms unfolding pack_and_upload_def Let_def out_def [symmetric] message_def [symmetric]
    by (elim cbind_cases; simp)
  have same: "net_same a b" if "println l a = (q, b)" for l q and a b :: "'n client"
    using obeysD [OF local_offline(1) that] .
  from pack obtain packed where packed: "pack_entries pk base (pk_walk pk base (keep_entry out)) = Inr (packed, files)"
    "map_of (cl_files d2) out = Some (pk_archive pk packed)" by (rule pack_repository_Inr)
  have "net_same c c1"
    using same [OF l1] obeysD [OF pack_repository_offline pack] obeysD [OF local_offline(2) read] same [OF l2] same [OF l3]
    by (simp add: net_same_def)
  moreover have "net_same c2 c'"
    using obeysD [OF offline.obeys_attempt [OF local_offline(4)] rm] same [OF l4] by (simp add: net_same_def)
  ultimately show thesis
    using that [folded out_def message_def, OF packed(1)] up read_to_string_Inr [OF read] packed(2)
    by (simp add: net_same_def)
qed

lemma require_presence_Inr:
  "require_presence t p n server c = (Inr x, c') \<Longrightarrow> server_project_presence t server p c = (Inr Present, c')"
  unfolding require_presence_def
  by (auto elim!: cbind_cases split: project_presence.splits)

section \<open>An instance\<close>

definition demo_project :: manifest where
  "demo_project = default_manifest\<lparr>mf_project := Some \<lparr>prj_id = Some ''prj_1'', prj_name = ''shop''\<rparr>\<rparr>"

definition demo_deploy :: "(unit, string, string, string) tools" where
  "demo_deploy = demo_tools\<lparr>t_deserialize := (\<lambda>_. Inr demo_project),
     t_parse_whoami := (\<lambda>_. Inr \<lparr>who_user_id = ''usr_1'', who_name = ''bob'', who_project_id = Some ''prj_1'',
       who_project_name = None\<rparr>),
     t_parse_release := (\<lambda>_. Inr \<lparr>rs_id = ''rel_1'', rs_project_id = ''prj_1'', rs_status = Ready,
       rs_message = None, rs_error = None, rs_created_at = 0, rs_updated_at = 0\<rparr>)\<rparr>"

definition demo_tree :: "unit client" where
  "demo_tree = demo_client\<lparr>cl_files := (''/w/.railyard.json'', ''{}'') # (''k'', replicate 32 (CHR ''k'')) # cl_files demo_client\<rparr>"

definition demo_box_entry :: server_config where
  "demo_box_entry = \<lparr>sc_server_url = ''http://box'', sc_key_id = ''usr_1'', sc_key_path = ''k''\<rparr>"

lemma demo_deploy_sel:
  "t_cwd demo_deploy = Inr ''/w''" "t_interactive demo_deploy = False" "t_key_order demo_deploy = (\<lambda>ks. ks)"
  "t_json demo_deploy = (\<lambda>_. Inr JNull)" "t_deserialize demo_deploy = (\<lambda>_. Inr demo_project)"
  "t_parse_server demo_deploy raw = Inr \<lparr>sc_server_url = raw, sc_key_id = ''usr_1'', sc_key_path = ''k''\<rparr>"
  "t_parse_bindings demo_deploy raw = Inr [(''prj_1'', raw)]"
  "t_env demo_deploy = t_env demo_tools"
  "t_parse_key demo_deploy raw = Inr \<lparr>sk_key_id = raw, sk_secret_base64 = raw\<rparr>"
  "std_decode (t_crypto demo_deploy) = Some" "t_url_parse demo_deploy = Inr"
  "t_url_with demo_deploy = (\<lambda>u _ _. Some u)" "t_url_host demo_deploy = Some" "t_url_port demo_deploy u = None"
  "t_parse_whoami demo_deploy raw = Inr \<lparr>who_user_id = ''usr_1'', who_name = ''bob'',
     who_project_id = Some ''prj_1'', who_project_name = None\<rparr>"
  "t_parse_release demo_deploy raw = Inr \<lparr>rs_id = ''rel_1'', rs_project_id = ''prj_1'', rs_status = Ready,
       rs_message = None, rs_error = None, rs_created_at = 0, rs_updated_at = 0\<rparr>"
  "t_send demo_deploy u rq n = (Inr \<lparr>rp_status = 200, rp_body = Inr ''usr_1''\<rparr>, n)"
  by (simp_all add: demo_deploy_def demo_tools_def)

lemma demo_deploy_paths:
  "server_path demo_deploy ''box'' = Inr ''.dev-state/client/servers/box.json''"
  "global_config_path demo_deploy = Inr ''.dev-state/client/config.json''"
proof -
  have "config_root demo_deploy = Inr ''.dev-state''"
    by (simp add: config_root_def is_set_def env_var_def demo_deploy_def demo_tools_def)
  then show "server_path demo_deploy ''box'' = Inr ''.dev-state/client/servers/box.json''"
    "global_config_path demo_deploy = Inr ''.dev-state/client/config.json''"
    by (simp_all add: server_path_def global_config_path_def path_join_def starts_with_def)
qed

lemma read_plain: "\<lbrakk>cl_io_faults c = []; map_of (cl_files c) p = Some raw\<rbrakk> \<Longrightarrow> read_to_string p c = (Inr raw, c)"
  by (simp add: read_to_string_def fs_op_def)

lemma demo_manifest_in:
  "manifest_in demo_deploy ''/w'' demo_tree = (Inr (Some (''/w/.railyard.json'', ''{}'')), demo_tree)"
  by (simp add: manifest_in_def MANIFEST_FILES_def cbind_def attempt_def read_to_string_def fs_op_def
    path_join_def starts_with_def demo_tree_def demo_client_def)

lemma demo_parses: "parse_manifest demo_deploy ''/w/.railyard.json'' ''{}'' = Inr demo_project"
proof -
  have "validate (\<lambda>ks. ks) demo_project = []" by code_simp
  moreover have "is_json_path ''/w/.railyard.json''" by code_simp
  ultimately show ?thesis
    by (simp add: parse_manifest_def parse_def parse_value_def demo_deploy_sel invalid_data_def)
qed

lemma demo_signed:
  assumes "cl_io_faults c = []" and "map_of (cl_files c) ''k'' = Some (replicate 32 (CHR ''k''))"
  shows "signed_request_with_type demo_deploy demo_box_entry meth suffix body ct c =
    (Inr \<lparr>rp_status = 200, rp_body = Inr ''usr_1''\<rparr>, c\<lparr>cl_draws := Suc (Suc (cl_draws c))\<rparr>)"
  using assms
  by (simp add: signed_request_with_type_def cbind_def read_signing_key_def demo_box_entry_def
    read_plain demo_deploy_sel invalid_data_def control_plane_api_url_def url_host_def sign_request_def
    unix_timestamp_def random_nonce_def draw_def send_def split: prod.split)

lemma demo_presence:
  assumes "cl_io_faults c = []" and "map_of (cl_files c) ''k'' = Some (replicate 32 (CHR ''k''))" and "lp_id p = ''prj_1''"
  shows "require_presence demo_deploy p n demo_box_entry c = (Inr (), c\<lparr>cl_draws := Suc (Suc (cl_draws c))\<rparr>)"
  using assms by (simp add: require_presence_def server_project_presence_def http_whoami_def signed_request_def
   cbind_def attempt_def demo_signed is_success_def json_of_def demo_deploy_sel invalid_data_def)

lemma demo_resolves:
  assumes "lp_id p = ''prj_1''"
  shows "resolve_project_server demo_deploy p demo_tree = (Inr (''box'', demo_box_entry), demo_tree)"
  using assms by (simp add: resolve_project_server_def project_binding_def read_project_binding_def
    read_global_config_def read_server_def cbind_def attempt_def demo_deploy_paths read_plain demo_tree_def demo_client_def
    demo_deploy_sel invalid_data_def demo_box_entry_def)

lemma demo_walk:
  "pk_walk (pr_packing demo_programs) ''/w'' (keep_entry ''/tmp/railyard-up-prj_1.tar.gz'') =
     [Inr (''/w'', True), Inr (''/w/a'', False)]"
  by code_simp

lemma demo_uploads:
  assumes "cl_io_faults c = []" and "map_of (cl_files c) ''k'' = Some (replicate 32 (CHR ''k''))"
    and "lp_id p = ''prj_1''"
  shows "fst (pack_and_upload demo_deploy (pr_packing demo_programs) ''/w'' p n demo_box_entry None c) = Inr ()"
proof -
  let ?out = "''/tmp/railyard-up-prj_1.tar.gz''"
  have out: "path_join (pk_temp_dir (pr_packing demo_programs)) (''railyard-up-'' @ lp_id p @ ''.tar.gz'') = ?out"
    using assms(3) by (simp add: demo_programs_def path_join_def starts_with_def)
  have pack: "pack_entries (pr_packing demo_programs) ''/w''
      (pk_walk (pr_packing demo_programs) ''/w'' (keep_entry ?out)) = Inr ([(''/w/a'', ''a'')], 1)"
    unfolding demo_walk by (simp add: demo_programs_def relative_to_def strip_prefix_def starts_with_def)
  show ?thesis
    unfolding pack_and_upload_def out Let_def pack_repository_def pack
    using assms
    by (simp add: Let_def println_def cbind_def write_file_def fs_op_def invalid_data_def read_to_string_def
        update_conv' http_create_release_def demo_signed checked_json_def is_success_def json_of_def
        demo_deploy_sel attempt_def split: prod.split)
qed

lemma demo_up_runs:
  "\<exists>c'. run_up demo_deploy (pr_packing demo_programs) None None demo_tree = (Inr (), c')"
proof -
  let ?p = "\<lparr>lp_id = ''prj_1'', lp_name = ''shop'', lp_manifest_path = None\<rparr>"
  have found: "find_manifest demo_deploy ''/w'' demo_tree = (Inr (Some (''/w/.railyard.json'', ''{}'')), demo_tree)"
    by (subst find_manifest.simps) (simp add: cbind_def demo_manifest_in)
  have "path_parent ''/w/.railyard.json'' = Some ''/w''" by code_simp
  moreover have "manifest_project ''/w'' ''/w'' ''/w/.railyard.json'' demo_project = Some ?p"
    by (simp add: manifest_project_def demo_project_def)
  moreover have "require_presence demo_deploy ?p ''box'' demo_box_entry demo_tree =
      (Inr (), demo_tree\<lparr>cl_draws := Suc (Suc (cl_draws demo_tree))\<rparr>)"
    by (rule demo_presence) (simp_all add: demo_tree_def demo_client_def)
  moreover have "fst (pack_and_upload demo_deploy (pr_packing demo_programs) ''/w'' ?p ''box'' demo_box_entry None
      (demo_tree\<lparr>cl_draws := Suc (Suc (cl_draws demo_tree))\<rparr>)) = Inr ()"
    by (rule demo_uploads) (simp_all add: demo_tree_def demo_client_def)
  ultimately have "fst (run_up demo_deploy (pr_packing demo_programs) None None demo_tree) = Inr ()"
    using found demo_resolves [of ?p]
    by (simp add: run_up_def cbind_def demo_deploy_sel demo_parses confirm_ancestor_def)
  then show ?thesis by (metis prod.collapse)
qed

section \<open>Uploads\<close>

text \<open>
  C14: an upload that succeeds sent the project of the directory it was run in, and to the right place.
  The manifest is the nearest one at or above the working directory; it is valid and names the project
  with an id, and one above the working directory was confirmed.  The server is the one of \<^verbatim>\<open>--server\<close>, or
  the one the project resolves to; it was asked, and it has the project.  The archive holds exactly what
  the walk below the manifest's own directory kept, under names relative to it, without \<^verbatim>\<open>.git\<close>,
  \<^verbatim>\<open>node_modules\<close> and the archive itself, provided the walk applies the filter it is given; with it goes
  the message of the flag or else the subject of the last commit.  Nothing else is sent after the check.
\<close>

theorem up_uploads_the_project:
  fixes t :: "('n, 'u, 'k, 'sk) tools"
  assumes "run_up t pk server_flag message c = (Inr (), c')"
    and "\<forall>ks. set (t_key_order t ks) = set ks"
    and "\<forall>base keep path d. Inr (path, d) \<in> set (pk_walk pk base keep) \<longrightarrow> keep path"
  shows "\<exists>cwd path raw m base prj p name server c1 c2 c3 c4 c5 r c6 out packed files.
    t_cwd t = Inr cwd \<and> find_manifest t cwd c = (Inr (Some (path, raw)), c1) \<and>
    parse_manifest t path raw = Inr m \<and> manifest_ok m \<and>
    mf_project m = Some prj \<and> prj_id prj = Some (lp_id p) \<and>
    path_parent path = Some base \<and> lp_manifest_path p = (if base = cwd then None else Some path) \<and>
    confirm_ancestor t p c1 = (Inr True, c2) \<and>
    (case server_flag of Some n \<Rightarrow> resolve_server t (Some n) | None \<Rightarrow> resolve_project_server t p) c2 =
      (Inr (name, server), c3) \<and>
    server_project_presence t server p c3 = (Inr Present, c4) \<and>
    cl_net c5 = cl_net c4 \<and>
    http_create_release t server (lp_id p) (case message of Some s \<Rightarrow> Some s | None \<Rightarrow> latest_commit_subject pk base)
      (pk_archive pk packed) c5 = (Inr r, c6) \<and> cl_net c' = cl_net c6 \<and>
    out = path_join (pk_temp_dir pk) (''railyard-up-'' @ lp_id p @ ''.tar.gz'') \<and>
    pack_entries pk base (pk_walk pk base (keep_entry out)) = Inr (packed, files) \<and>
    (\<forall>file rel. (file, rel) \<in> set packed \<longleftrightarrow>
       (\<exists>d. Inr (file, d) \<in> set (pk_walk pk base (keep_entry out))) \<and> relative_to base file = Some rel \<and> rel \<noteq> []) \<and>
    (\<forall>(file, rel) \<in> set packed. file \<noteq> out \<and> path_name file \<noteq> ''.git'' \<and> path_name file \<noteq> ''node_modules'')"
proof -
  from assms(1) obtain cwd path raw m base p name server and c1 c2 c3 c4 :: "'n client" where
    cwd: "t_cwd t = Inr cwd" and found: "find_manifest t cwd c = (Inr (Some (path, raw)), c1)"
    and base: "path_parent path = Some base" and m: "parse_manifest t path raw = Inr m"
    and p: "manifest_project base cwd path m = Some p" and ok: "confirm_ancestor t p c1 = (Inr True, c2)"
    and server: "(case server_flag of Some n \<Rightarrow> resolve_server t (Some n) | None \<Rightarrow> resolve_project_server t p) c2 =
      (Inr (name, server), c3)"
    and present: "require_presence t p name server c3 = (Inr (), c4)"
    and up: "pack_and_upload t pk base p name server message c4 = (Inr (), c')"
    unfolding run_up_def by (elim cbind_cases) (auto split: option.splits sum.splits if_splits elim!: cbind_cases)
  define out where "out = path_join (pk_temp_dir pk) (''railyard-up-'' @ lp_id p @ ''.tar.gz'')"
  from up obtain packed files r and c5 c6 :: "'n client" where
    pack: "pack_entries pk base (pk_walk pk base (keep_entry out)) = Inr (packed, files)"
    and net: "cl_net c5 = cl_net c4"
    and sent: "http_create_release t server (lp_id p) (case message of Some s \<Rightarrow> Some s | None \<Rightarrow> latest_commit_subject pk base)
      (pk_archive pk packed) c5 = (Inr r, c6)" and last: "cl_net c' = cl_net c6"
    unfolding out_def by (rule pack_and_upload_Inr)
  obtain prj where prj: "mf_project m = Some prj" "prj_id prj = Some (lp_id p)"
    and above: "lp_manifest_path p = (if base = cwd then None else Some path)"
    using p by (auto simp: manifest_project_def split: option.splits)
  have valid: "manifest_ok m" using m assms(2) by (intro parse_manifest_Inr) auto
  have all: "\<forall>file rel. (file, rel) \<in> set packed \<longleftrightarrow>
       (\<exists>d. Inr (file, d) \<in> set (pk_walk pk base (keep_entry out))) \<and> relative_to base file = Some rel \<and> rel \<noteq> []"
    using pack_entries_Inr [OF pack] by blast
  have kept: "\<forall>(file, rel) \<in> set packed. file \<noteq> out \<and> path_name file \<noteq> ''.git'' \<and> path_name file \<noteq> ''node_modules''"
    using all assms(3) by (fastforce simp: keep_entry_def)
  show ?thesis
    by (intro exI conjI; (rule cwd found m valid prj base above ok server require_presence_Inr [OF present] net sent
        last out_def pack all kept)?)
qed

theorem up_uploads_the_project_witness:
  "\<exists>c5 r c6. http_create_release demo_deploy demo_box_entry ''prj_1'' None
     (pk_archive (pr_packing demo_programs) [(''/w/a'', ''a'')]) c5 = (Inr r, c6)"
proof -
  from demo_up_runs obtain c' where
    run: "run_up demo_deploy (pr_packing demo_programs) None None demo_tree = (Inr (), c')" by blast
  have order: "\<forall>ks. set (t_key_order demo_deploy ks) = set ks" by (simp add: demo_deploy_sel)
  have walk: "\<forall>base keep path d. Inr (path, d) \<in> set (pk_walk (pr_packing demo_programs) base keep) \<longrightarrow> keep path"
    by (auto simp: demo_programs_def split: if_splits)
  from up_uploads_the_project [OF run order walk] obtain cwd path raw m base prj p name server
      and c1 c2 c3 c4 c5 :: "unit client" and r and c6 :: "unit client" and out packed files where
    up: "t_cwd demo_deploy = Inr cwd" "find_manifest demo_deploy cwd demo_tree = (Inr (Some (path, raw)), c1)"
    "parse_manifest demo_deploy path raw = Inr m" "mf_project m = Some prj" "prj_id prj = Some (lp_id p)"
    "path_parent path = Some base" "lp_manifest_path p = (if base = cwd then None else Some path)"
    "confirm_ancestor demo_deploy p c1 = (Inr True, c2)"
    "resolve_project_server demo_deploy p c2 = (Inr (name, server), c3)"
    "out = path_join (pk_temp_dir (pr_packing demo_programs)) (''railyard-up-'' @ lp_id p @ ''.tar.gz'')"
    "pack_entries (pr_packing demo_programs) base (pk_walk (pr_packing demo_programs) base (keep_entry out))
      = Inr (packed, files)"
    "http_create_release demo_deploy server (lp_id p) (latest_commit_subject (pr_packing demo_programs) base)
      (pk_archive (pr_packing demo_programs) packed) c5 = (Inr r, c6)"
    by (auto simp only: option.case)
  have "find_manifest demo_deploy ''/w'' demo_tree = (Inr (Some (''/w/.railyard.json'', ''{}'')), demo_tree)"
    by (subst find_manifest.simps) (simp add: cbind_def demo_manifest_in)
  moreover have "cwd = ''/w''" using up(1) by (simp add: demo_deploy_sel)
  ultimately have path: "path = ''/w/.railyard.json''" "raw = ''{}''" "c1 = demo_tree" using up(2) by simp_all
  moreover have "path_parent ''/w/.railyard.json'' = Some ''/w''" by code_simp
  ultimately have base: "base = ''/w''" "lp_manifest_path p = None"
    using up(6,7) \<open>cwd = ''/w''\<close> by simp_all
  have "m = demo_project" using up(3) demo_parses by (simp add: path)
  then have i: "lp_id p = ''prj_1''" using up(4,5) by (auto simp: demo_project_def)
  have "c2 = demo_tree" using up(8) base path by (simp add: confirm_ancestor_def)
  then have "server = demo_box_entry" using up(9) demo_resolves [OF i] by simp
  moreover have out: "out = ''/tmp/railyard-up-prj_1.tar.gz''"
    unfolding up(10) i by (simp add: demo_programs_def path_join_def starts_with_def)
  have "packed = [(''/w/a'', ''a'')]"
    using up(11) unfolding base out demo_walk
    by (simp add: demo_programs_def relative_to_def strip_prefix_def starts_with_def)
  moreover have "latest_commit_subject (pr_packing demo_programs) base = None"
    by (simp add: latest_commit_subject_def demo_programs_def)
  ultimately show ?thesis using up(12) i by auto
qed

end
