(* ===== verification/Api_Service.thy ===== *)
theory Api_Service
  imports Routes
begin

text \<open>
  The two listeners of the API: every protected route behind the signature middleware on the public
  side, and the same routes on the admin socket with the caller \<^verbatim>\<open>local\<close>
  (\<^verbatim>\<open>signed_routes\<close>, \<^verbatim>\<open>admin_routes\<close>, \<^verbatim>\<open>protected_routes\<close> in \<^verbatim>\<open>routes.rs\<close>).  axum matches a request to
  a route; the table below says which method and path each route has and which middleware it is
  behind.
\<close>

datatype route =
    R_root
  | R_list_projects
  | R_create_project
  | R_list_users
  | R_create_user
  | R_remove_user string
  | R_whoami
  | R_list_releases string
  | R_create_release string
  | R_redeem_invite
  | R_healthz

fun route_method_path :: "route \<Rightarrow> string \<times> string" where
  "route_method_path R_root = (''GET'', ''/'')"
| "route_method_path R_list_projects = (''GET'', PROJECTS_PATH)"
| "route_method_path R_create_project = (''POST'', PROJECTS_PATH)"
| "route_method_path R_list_users = (''GET'', USERS_PATH)"
| "route_method_path R_create_user = (''POST'', USERS_PATH)"
| "route_method_path (R_remove_user name) = (''DELETE'', USERS_PATH @ ''/'' @ name)"
| "route_method_path R_whoami = (''GET'', WHOAMI_PATH)"
| "route_method_path (R_list_releases i) = (''GET'', PROJECTS_PATH @ ''/'' @ i @ ''/releases'')"
| "route_method_path (R_create_release i) = (''POST'', PROJECTS_PATH @ ''/'' @ i @ ''/releases'')"
| "route_method_path R_redeem_invite = (''POST'', REDEEM_INVITE_PATH)"
| "route_method_path R_healthz = (''GET'', ''/healthz'')"

text \<open>The routes that need a signature, and those whose body is checked before the handler runs.\<close>

fun is_protected :: "route \<Rightarrow> bool" where
  "is_protected R_redeem_invite = False"
| "is_protected R_healthz = False"
| "is_protected _ = True"

fun is_buffered :: "route \<Rightarrow> bool" where
  "is_buffered (R_list_releases _) = False"
| "is_buffered (R_create_release _) = False"
| "is_buffered r = is_protected r"

record ('k, 'addr) server =
  sv_platform :: "'k platform"
  sv_config :: "'addr config"
  sv_show_addr :: "'addr \<Rightarrow> string"

definition local_admin :: auth_user where
  "local_admin = \<lparr>au_id = ''local'', au_name = ''local'', au_project_id = None\<rparr>"

text \<open>
  A protected handler with its extractors, for an authenticated caller.  The two public routes are
  not part of this router; on the admin socket they do not exist.
\<close>

definition run_protected ::
    "('k, 'addr) server \<Rightarrow> outside \<Rightarrow> auth_user \<Rightarrow> string option \<Rightarrow> route \<Rightarrow> string option
      \<Rightarrow> frame list \<Rightarrow> api_state \<Rightarrow> response \<times> api_state" where
  "run_protected sv out caller signed_hash rt path_and_query frames st =
     (case rt of
        R_root \<Rightarrow> (root_handler (sv_show_addr sv) (sv_config sv), st)
      | R_list_projects \<Rightarrow> on_db (list_projects_handler caller) st
      | R_create_project \<Rightarrow>
          (case pf_project_request (sv_platform sv) frames of
             Inl r \<Rightarrow> (r, st)
           | Inr rq \<Rightarrow> on_db (create_project_handler out caller rq) st)
      | R_list_users \<Rightarrow> on_db (list_users_handler caller) st
      | R_create_user \<Rightarrow>
          (case pf_user_request (sv_platform sv) frames of
             Inl r \<Rightarrow> (r, st)
           | Inr rq \<Rightarrow> on_db (create_user_handler (sv_platform sv) out
               (server_url (sv_config sv)) caller rq) st)
      | R_remove_user name \<Rightarrow> on_db (remove_user_handler caller name) st
      | R_whoami \<Rightarrow> on_db (whoami caller) st
      | R_list_releases i \<Rightarrow> on_db (list_releases_handler caller i) st
      | R_create_release i \<Rightarrow>
          (case pf_query_message (sv_platform sv) path_and_query of
             Inl r \<Rightarrow> (r, st)
           | Inr message \<Rightarrow>
               create_release_handler (sv_platform sv) out caller i message signed_hash frames st)
      | R_redeem_invite \<Rightarrow> (not_found [], st)
      | R_healthz \<Rightarrow> (not_found [], st))"

text \<open>With the body check in front of the buffered routes.\<close>

definition run_checked ::
    "('k, 'addr) server \<Rightarrow> outside \<Rightarrow> http_request \<Rightarrow> route \<Rightarrow> auth_user \<Rightarrow> string option
      \<Rightarrow> api_state \<Rightarrow> response \<times> api_state" where
  "run_checked sv out rq rt caller signed_hash st =
     (if is_buffered rt
      then (case verify_body_hash (pf_crypto (sv_platform sv)) (pf_to_bytes (sv_platform sv))
                   signed_hash (rq_body rq) of
              Inl r \<Rightarrow> (r, st)
            | Inr frames \<Rightarrow>
                run_protected sv out caller signed_hash rt (rq_path_and_query rq) frames st)
      else run_protected sv out caller signed_hash rt (rq_path_and_query rq) (rq_body rq) st)"

text \<open>The public listener.\<close>

definition serve_signed ::
    "('k, 'addr) server \<Rightarrow> outside \<Rightarrow> http_request \<Rightarrow> route \<Rightarrow> api_state \<Rightarrow> response \<times> api_state"
where
  "serve_signed sv out rq rt st =
     (case rt of
        R_healthz \<Rightarrow> (healthz, st)
      | R_redeem_invite \<Rightarrow>
          (case pf_redeem_request (sv_platform sv) (rq_body rq) of
             Inl r \<Rightarrow> (r, st)
           | Inr (invite_token, public_key) \<Rightarrow>
               on_db (redeem_invite_handler (pf_crypto (sv_platform sv)) (clock out) invite_token
                 public_key) st)
      | _ \<Rightarrow> verify_signature (pf_crypto (sv_platform sv)) (clock_auth out) rq
               (\<lambda>user hash. run_checked sv out rq rt user (Some hash)) st)"

text \<open>The admin socket: no signature, no hash.\<close>

definition serve_admin ::
    "('k, 'addr) server \<Rightarrow> outside \<Rightarrow> http_request \<Rightarrow> route \<Rightarrow> api_state \<Rightarrow> response \<times> api_state"
where
  "serve_admin sv out rq rt st = run_checked sv out rq rt local_admin None st"

end
