(* ===== verification/Auth_Proofs.thy ===== *)
theory Auth_Proofs
  imports Api_Auth
begin

text \<open>
  What authentication guarantees: the exact condition under which a request is accepted, that
  rejections leave no trace a stranger can cause, and the nonce map against replays.
\<close>

section \<open>Acceptance\<close>

lemma header_eq_Inr: "header rq n = Inr v \<longleftrightarrow> rq_header rq n = Some v"
  by (auto simp: header_def split: option.splits)

text \<open>The headers of a request carry a complete claim.\<close>

definition claims :: "http_request \<Rightarrow> signed_headers \<Rightarrow> bool" where
  "claims rq h \<longleftrightarrow>
     rq_header rq HEADER_SIGNATURE_VERSION = Some SIGNATURE_VERSION \<and>
     rq_header rq HEADER_KEY_ID = Some (sh_key_id h) \<and>
     rq_header rq HEADER_NONCE = Some (sh_nonce h) \<and>
     rq_header rq HEADER_CONTENT_SHA256 = Some (sh_content_sha256 h) \<and>
     rq_header rq HEADER_SIGNATURE = Some (sh_signature h) \<and>
     (\<exists>t. rq_header rq HEADER_TIMESTAMP = Some t \<and> parse_u64 t = Some (sh_timestamp h))"

lemma read_headers_eq_Inr: "read_headers rq = Inr h \<longleftrightarrow> claims rq h"
proof
  assume "read_headers rq = Inr h"
  then show "claims rq h"
    unfolding read_headers_def claims_def
    by (auto simp: rbind_eq_Inr header_eq_Inr split: if_splits option.splits)
next
  assume "claims rq h"
  then show "read_headers rq = Inr h"
    unfolding read_headers_def claims_def by (auto simp: header_def)
qed

text \<open>The signature is the key's, over this request.\<close>

definition signs :: "'k crypto \<Rightarrow> string \<Rightarrow> http_request \<Rightarrow> signed_headers \<Rightarrow> bool" where
  "signs cr public_key rq h \<longleftrightarrow>
     (\<exists>k sg host. parse_public_key cr public_key = Some k \<and>
        decode_signature cr (sh_signature h) = Some sg \<and> signed_host rq = Some host \<and>
        verify_sig cr k
          (canonical_request (sh_key_id h) (sh_timestamp h) (sh_nonce h) (rq_method rq)
             (signed_path rq) host (sh_content_sha256 h)) sg)"


lemma check_signature_Inr: "check_signature cr rq h key = Inr () \<longleftrightarrow> signs cr key rq h"
  by (auto simp: check_signature_def signs_def canonical_of_def split: option.splits)

lemma check_signature_cases:
  "(\<exists>e. check_signature cr rq h key = Inl e) \<or> check_signature cr rq h key = Inr ()"
  by (cases "check_signature cr rq h key") auto

lemma on_db_eq:
  "on_db f st = (r, st') \<longleftrightarrow> (\<exists>t. f (as_db st) = (r, t) \<and> st' = st\<lparr>as_db := t\<rparr>)"
  by (auto simp: on_db_def split: prod.splits)

text \<open>The request is one the given user may make now.\<close>

definition authorised ::
    "'k crypto \<Rightarrow> u64 \<Rightarrow> http_request \<Rightarrow> api_state \<Rightarrow> signed_headers \<Rightarrow> user_row \<Rightarrow> bool" where
  "authorised cr now rq st h u \<longleftrightarrow>
     claims rq h \<and> in_window now (sh_timestamp h) \<and>
     u \<in> set (users (as_db st)) \<and> usr_id u = sh_key_id h \<and>
     (\<exists>k. usr_public_key u = Some k \<and> signs cr k rq h) \<and>
     retain_recent now (as_nonces st) (sh_nonce h) = None"

text \<open>What a check does on every branch.\<close>

lemma checked_request_cases:
  assumes "checked_request cr now rq st = (r, st')"
  obtains (refused) e where "r = Inl e" and "same_tables (as_db st) (as_db st')"
        and "as_nonces st' = as_nonces st" and "as_files st' = as_files st"
    | (replayed) h u k where "r = Inl ''nonce already used''"
        and "same_tables (as_db st) (as_db st')" and "as_files st' = as_files st"
        and "as_nonces st' = (retain_recent now (as_nonces st))(sh_nonce h \<mapsto> now)"
        and "claims rq h" and "u \<in> set (users (as_db st))" and "usr_id u = sh_key_id h"
        and "usr_public_key u = Some k" and "signs cr k rq h"
        and "retain_recent now (as_nonces st) (sh_nonce h) \<noteq> None"
    | (accepted) h u where "r = Inr (auth_user_of_row u, to_ascii_lowercase (sh_content_sha256 h))"
        and "same_tables (as_db st) (as_db st')" and "as_files st' = as_files st"
        and "as_nonces st' = (retain_recent now (as_nonces st))(sh_nonce h \<mapsto> now)"
        and "authorised cr now rq st h u"
proof (cases "read_headers rq")
  case (Inl e)
  with assms show thesis by (intro refused [of e]) (auto simp: checked_request_def)
next
  case (Inr h)
  then have cl: "claims rq h" by (simp add: read_headers_eq_Inr)
  show thesis
  proof (cases "in_window now (sh_timestamp h)")
    case False
    with assms Inr show thesis by (intro refused) (auto simp: checked_request_def)
  next
    case win: True
    obtain q t where k: "key_owner (sh_key_id h) (as_db st) = (q, t)" by fastforce
    from k show thesis
    proof (cases rule: key_owner_cases)
      case (failed e)
      with assms Inr win k show thesis
        by (intro refused) (auto simp: checked_request_def on_db_def)
    next
      case unknown
      with assms Inr win k show thesis
        by (intro refused) (auto simp: checked_request_def on_db_def)
    next
      case (known u pk)
      show thesis
      proof (cases "check_signature cr rq h pk")
        case (Inl e)
        with assms Inr win k known show thesis
          by (intro refused) (auto simp: checked_request_def on_db_def \<open>read_headers rq = Inr h\<close>)
      next
        case (Inr x)
        then have sg: "signs cr pk rq h" by (cases x) (simp add: check_signature_Inr)
        let ?kept = "retain_recent now (as_nonces st)"
        have run: "(r, st') = (let st2 = st\<lparr>as_db := t, as_nonces := ?kept(sh_nonce h \<mapsto> now)\<rparr>
            in if ?kept (sh_nonce h) \<noteq> None then (Inl ''nonce already used'', st2)
               else (Inr (auth_user_of_row u, to_ascii_lowercase (sh_content_sha256 h)), st2))"
          using assms \<open>read_headers rq = Inr h\<close> win k known(1) Inr
          by (simp add: checked_request_def on_db_def record_nonce_def Let_def)
        show thesis
        proof (cases "?kept (sh_nonce h)")
          case None
          with run known cl win sg show thesis
            by (intro accepted [of u h]) (auto simp: authorised_def Let_def)
        next
          case (Some v)
          with run known cl sg show thesis
            by (intro replayed [of h u pk]) (auto simp: Let_def)
        qed
      qed
    qed
  qed
qed

text \<open>Without database failures a request is accepted exactly when it is authorised.\<close>

lemma checked_request_accepts:
  assumes "authorised cr now rq st h u" and "faults (as_db st) = []" and "db_ok (as_db st)"
  shows "checked_request cr now rq st =
    (Inr (auth_user_of_row u, to_ascii_lowercase (sh_content_sha256 h)),
     st\<lparr>as_nonces := (retain_recent now (as_nonces st))(sh_nonce h \<mapsto> now)\<rparr>)"
proof -
  obtain k where k: "usr_public_key u = Some k" "signs cr k rq h"
    and u: "u \<in> set (users (as_db st))" "usr_id u = sh_key_id h"
    using assms(1) by (auto simp: authorised_def)
  have inj: "inj_on usr_id (set (users (as_db st)))"
    using assms(3) by (simp add: db_ok_defs distinct_map)
  have "find (\<lambda>v. usr_id v = sh_key_id h \<and> usr_public_key v \<noteq> None) (users (as_db st)) = Some u"
  proof -
    have "find (\<lambda>v. usr_id v = sh_key_id h \<and> usr_public_key v \<noteq> None) (users (as_db st)) \<noteq> None"
      using u k(1) by (auto simp: find_None_iff)
    then obtain v where v: "find (\<lambda>v. usr_id v = sh_key_id h \<and> usr_public_key v \<noteq> None)
        (users (as_db st)) = Some v" by blast
    from find_Some_in [OF v] have "v = u" using inj_onD [OF inj, of v u] u by simp
    with v show ?thesis by simp
  qed
  then have "key_owner (sh_key_id h) (as_db st) = (Inr (Some (k, auth_user_of_row u)), as_db st)"
    using k(1) assms(2) by (simp add: key_owner_def query_def statement_no_faults)
  then show ?thesis
    using assms(1) k(2)
    by (auto simp: checked_request_def authorised_def on_db_def read_headers_eq_Inr [symmetric]
        check_signature_Inr [symmetric] record_nonce_def Let_def)
qed

lemma claims_unique: "claims rq h \<Longrightarrow> claims rq h' \<Longrightarrow> h = h'"
  by (metis read_headers_eq_Inr sum.inject(2))

section \<open>Replays\<close>

text \<open>
  The middleware over a sequence of requests, each at its own time and against whatever the
  database holds by then; other handlers do not touch the nonces.
\<close>

fun auth_run :: "'k crypto \<Rightarrow> (u64 \<times> http_request \<times> db) list \<Rightarrow> nonces \<Rightarrow> bool list \<times> nonces" where
  "auth_run cr [] seen = ([], seen)"
| "auth_run cr ((now, rq, s) # rest) seen =
     (let (r, st) = checked_request cr now rq \<lparr>as_db = s, as_nonces = seen, as_files = Map.empty\<rparr>;
          (rs, seen') = auth_run cr rest (as_nonces st)
      in ((case r of Inr _ \<Rightarrow> True | Inl _ \<Rightarrow> False) # rs, seen'))"

text \<open>
  A nonce accepted at \<open>t1\<close> is remembered with a time not before \<open>t1\<close>, unless the window has passed.
\<close>

definition remembered :: "string \<Rightarrow> u64 \<Rightarrow> u64 \<Rightarrow> nonces \<Rightarrow> bool" where
  "remembered n t1 now seen \<longleftrightarrow> t1 \<le> now \<and>
     ((\<exists>t. seen n = Some t \<and> t1 \<le> t \<and> t \<le> now) \<or> 300 < unat now - unat t1)"

lemma window_iff: "a \<le> b \<Longrightarrow> abs_diff b a \<le> TIMESTAMP_WINDOW_SECONDS \<longleftrightarrow> unat b - unat a \<le> 300"
  by (auto simp: word_le_nat_alt unat_abs_diff TIMESTAMP_WINDOW_SECONDS_def)

lemma remembered_later: "remembered n t1 now seen \<Longrightarrow> now \<le> now' \<Longrightarrow> remembered n t1 now' seen"
  by (fastforce simp: remembered_def word_le_nat_alt)

lemma remembered_retain:
  assumes "remembered n t1 now seen"
  shows "remembered n t1 now (retain_recent now seen)"
proof (cases "300 < unat now - unat t1")
  case False
  with assms obtain t where t: "seen n = Some t" "t1 \<le> t" "t \<le> now" by (auto simp: remembered_def)
  then have "abs_diff now t \<le> TIMESTAMP_WINDOW_SECONDS"
    using False by (simp add: window_iff) (simp add: word_le_nat_alt)
  with t assms show ?thesis by (simp add: remembered_def retain_recent_def)
qed (use assms in \<open>simp add: remembered_def\<close>)

lemma remembered_insert:
  "remembered n t1 now seen \<Longrightarrow> remembered n t1 now (seen(m \<mapsto> now))"
  by (auto simp: remembered_def)

lemma checked_request_remembers:
  assumes "checked_request cr now rq st = (r, st')" and "remembered n t1 now (as_nonces st)"
  shows "remembered n t1 now (as_nonces st')"
  using assms(1)
  by (cases rule: checked_request_cases)
    (use assms(2) in \<open>simp_all add: remembered_retain remembered_insert\<close>)

lemma auth_run_append:
  "auth_run cr (xs @ ys) seen =
     (let (rs, seen') = auth_run cr xs seen; (rs', seen'') = auth_run cr ys seen'
      in (rs @ rs', seen''))"
  by (induction cr xs seen rule: auth_run.induct) (auto simp: Let_def split: prod.splits)

lemma auth_run_length [simp]: "length (fst (auth_run cr xs seen)) = length xs"
  by (induction cr xs seen rule: auth_run.induct) (auto simp: Let_def split: prod.splits)

lemma auth_run_remembers:
  assumes "auth_run cr xs seen = (rs, seen')" and "remembered n t1 now seen"
    and "sorted (now # map fst xs)"
  shows "remembered n t1 (last (now # map fst xs)) seen'"
  using assms
proof (induction cr xs seen arbitrary: now rs seen' rule: auth_run.induct)
  case (2 cr now' rq s rest seen)
  obtain r st where c: "checked_request cr now' rq
      \<lparr>as_db = s, as_nonces = seen, as_files = Map.empty\<rparr> = (r, st)" by fastforce
  obtain rs1 seen1 where r: "auth_run cr rest (as_nonces st) = (rs1, seen1)" by fastforce
  from 2(2) c r have s': "seen' = seen1" by (auto simp: Let_def)
  have "remembered n t1 now' seen" using remembered_later [OF 2(3)] 2(4) by simp
  then have "remembered n t1 now' (as_nonces st)" using checked_request_remembers [OF c] by simp
  with 2(1) [OF c [symmetric] refl r] 2(4) s' show ?case by simp
qed simp

text \<open>
  A request accepted at \<open>t1\<close> and any later one with its nonce whose timestamp is not after \<open>t1\<close>: the
  later one is refused, as long as the server's clock does not run backwards.
\<close>

lemma remembered_refuses:
  assumes "remembered n t1 now (as_nonces st)" and "claims rq h" and "sh_nonce h = n"
    and "sh_timestamp h \<le> t1"
  shows "\<exists>e. fst (checked_request cr now rq st) = Inl e"
proof -
  obtain r st' where c: "checked_request cr now rq st = (r, st')" by fastforce
  then show ?thesis
  proof (cases rule: checked_request_cases)
    case (accepted h' u)
    then have h: "h' = h" using assms(2) claims_unique by (auto simp: authorised_def)
    have le: "sh_timestamp h \<le> now" using assms(1,4) by (auto simp: remembered_def)
    have "\<not> 300 < unat now - unat t1"
      using accepted(5) h assms(4) le window_iff [OF le]
      by (auto simp: authorised_def in_window_def word_le_nat_alt)
    then have "retain_recent now (as_nonces st) n \<noteq> None"
      using remembered_retain [OF assms(1)] by (auto simp: remembered_def)
    with accepted(5) h assms(3) show ?thesis by (simp add: authorised_def)
  qed (use c in auto)
qed

lemma auth_run_accepts:
  "fst (auth_run cr ((now, rq, s) # rest) seen) ! 0 \<longleftrightarrow>
     (\<exists>x. fst (checked_request cr now rq \<lparr>as_db = s, as_nonces = seen, as_files = Map.empty\<rparr>) = Inr x)"
  by (auto simp: Let_def split: prod.splits sum.splits)

lemma auth_run_no_replay:
  assumes "sorted (t1 # map fst mid @ [t2])"
    and "fst (auth_run cr ((t1, rq1, s1) # mid @ [(t2, rq2, s2)]) seen) ! 0"
    and "claims rq1 h1" and "claims rq2 h2" and "sh_nonce h2 = sh_nonce h1"
    and "sh_timestamp h2 \<le> t1"
  shows "\<not> last (fst (auth_run cr ((t1, rq1, s1) # mid @ [(t2, rq2, s2)]) seen))"
proof -
  let ?st1 = "\<lparr>as_db = s1, as_nonces = seen, as_files = Map.empty\<rparr>"
  obtain r1 st1 where c1: "checked_request cr t1 rq1 ?st1 = (r1, st1)" by fastforce
  obtain rs seen2 where m: "auth_run cr mid (as_nonces st1) = (rs, seen2)" by fastforce
  let ?st2 = "\<lparr>as_db = s2, as_nonces = seen2, as_files = Map.empty\<rparr>"
  obtain r2 st2 where c2: "checked_request cr t2 rq2 ?st2 = (r2, st2)" by fastforce
  obtain x where "r1 = Inr x" using assms(2) c1 by (auto simp: auth_run_accepts simp del: auth_run.simps)
  with c1 have "remembered (sh_nonce h1) t1 t1 (as_nonces st1)"
  proof (cases rule: checked_request_cases)
    case (accepted h u)
    then have "h = h1" using assms(3) claims_unique by (auto simp: authorised_def)
    with accepted(4) show ?thesis by (simp add: remembered_def)
  qed auto
  then have "remembered (sh_nonce h1) t1 (last (t1 # map fst mid)) seen2"
    using auth_run_remembers [OF m] assms(1) by (simp add: sorted_append)
  moreover have "last (t1 # map fst mid) \<le> t2"
    using assms(1) by (cases "map fst mid" rule: rev_cases) (auto simp: sorted_append)
  ultimately have "remembered (sh_nonce h1) t1 t2 (as_nonces ?st2)"
    using remembered_later by fastforce
  from remembered_refuses [OF this assms(4,5,6), of cr] c2 have "\<exists>e. r2 = Inl e" by simp
  moreover have "last (fst (auth_run cr ((t1, rq1, s1) # mid @ [(t2, rq2, s2)]) seen))
      = (case r2 of Inr _ \<Rightarrow> True | Inl _ \<Rightarrow> False)"
    using c1 m c2 by (simp add: auth_run_append)
  ultimately show ?thesis by auto
qed

lemma auth_run_suffix:
  "fst (auth_run cr (pre @ rest) seen) =
     fst (auth_run cr pre seen) @ fst (auth_run cr rest (snd (auth_run cr pre seen)))"
  by (simp add: auth_run_append split: prod.splits)

text \<open>
  A nonce is forgotten when its entry is older than the window, so a timestamp ahead of the clock
  outlives it.
\<close>

lemma authorised_again:
  assumes "authorised cr t1 rq st h u" and "t1 < sh_timestamp h" and "unat t1 + 600 < 2 ^ 64"
    and "st' = st\<lparr>as_nonces := (retain_recent t1 (as_nonces st))(sh_nonce h \<mapsto> t1)\<rparr>"
  shows "authorised cr (t1 + 301) rq st' h u"
proof -
  have t2: "unat (t1 + 301) = unat t1 + 301"
    using assms(3) by (simp add: unat_word_ariths(1))
  have win: "unat (sh_timestamp h) - unat t1 \<le> 300"
    using assms(1,2) by (auto simp: authorised_def in_window_def abs_diff_sym [of t1] window_iff)
  then have "in_window (t1 + 301) (sh_timestamp h)"
    using assms(2) t2
    by (auto simp: in_window_def word_le_nat_alt word_less_nat_alt unat_abs_diff
        TIMESTAMP_WINDOW_SECONDS_def)
  moreover have "abs_diff (t1 + 301) t1 \<le> TIMESTAMP_WINDOW_SECONDS \<longleftrightarrow> False"
    using t2 by (simp add: word_le_nat_alt unat_abs_diff TIMESTAMP_WINDOW_SECONDS_def)
  ultimately show ?thesis
    using assms(1,4) by (simp add: authorised_def retain_recent_def)
qed

end
