(* ===== verification/Api_Proofs.thy ===== *)
theory Api_Proofs
  imports Api_Service Auth_Proofs
begin

text \<open>
  What the handlers guarantee.  The contracts are locales: a handler that keeps the database
  invariant, one that only reads, and one for server admins; the handlers of the API are their
  interpretations.
\<close>

section \<open>Minting\<close>

definition minted_of ::
    "'k platform \<Rightarrow> outside \<Rightarrow> string \<Rightarrow> string \<Rightarrow> string \<Rightarrow> invite_project option \<Rightarrow> minted_invite" where
  "minted_of pf out srv_url srv_name name project =
     \<lparr>mi_user_id = new_user_id (id_hex out),
      mi_blob = encode_invite (pf_crypto pf) (pf_invite_json pf)
        \<lparr>inv_server_url = srv_url, inv_server_name = srv_name,
         inv_user = new_user_id (id_hex out), inv_user_name = name, inv_project = project,
         inv_token = random_token (pf_crypto pf) out,
         inv_expires = clock out + INVITE_TTL_SECONDS\<rparr>,
      mi_expires_at = clock out + INVITE_TTL_SECONDS\<rparr>"

definition minted_invite_row :: "'k platform \<Rightarrow> outside \<Rightarrow> invite_row" where
  "minted_invite_row pf out = new_invite_row (new_user_id (id_hex out))
     (token_hash (pf_crypto pf) (random_token (pf_crypto pf) out)) (clock out)
     (clock out + INVITE_TTL_SECONDS)"

abbreviation minted_user_row :: "outside \<Rightarrow> string \<Rightarrow> invite_project option \<Rightarrow> user_row" where
  "minted_user_row out name project \<equiv>
     new_user_row name (map_option ip_id project) (clock out) (id_hex out)"

lemma mint_invite_cases:
  assumes "mint_invite pf out srv_url name project s = (r, t)"
  obtains (failed) e where "r = Inl e" and "same_tables s t"
    | (half) e where "r = Inl e" and "is_valid_user_name name"
        and "same_tables (s\<lparr>users := users s @ [minted_user_row out name project]\<rparr>) t"
        and "new_user_id (id_hex out) \<notin> usr_id ` set (users s)" and "name \<notin> usr_name ` set (users s)"
    | (exists) "r = Inr None" and "same_tables s t" and "name \<in> usr_name ` set (users s)"
    | (minted) srv_name where "server_name out = Inr srv_name" and "is_valid_user_name name"
        and "r = Inr (Some (minted_of pf out srv_url srv_name name project))"
        and "same_tables (s\<lparr>users := users s @ [minted_user_row out name project],
               invites := invites s @ [minted_invite_row pf out]\<rparr>) t"
        and "new_user_id (id_hex out) \<notin> usr_id ` set (users s)" and "name \<notin> usr_name ` set (users s)"
        and "inv_token_hash (minted_invite_row pf out) \<notin> inv_token_hash ` set (invites s)"
proof (cases "is_valid_user_name name")
  case False
  with assms show thesis by (intro failed) (auto simp: mint_invite_def validated_name_def)
next
  case valid: True
  show thesis
  proof (cases "server_name out")
    case (Inl e)
    with valid assms show thesis by (intro failed) (auto simp: mint_invite_def validated_name_def)
  next
    case srv: (Inr srv_name)
    let ?th = "token_hash (pf_crypto pf) (random_token (pf_crypto pf) out)"
    let ?exp = "clock out + INVITE_TTL_SECONDS"
    let ?uid = "new_user_id (id_hex out)"
    obtain r1 s1 where c: "create_user name (map_option ip_id project) (clock out) (id_hex out) s
        = (r1, s1)" by fastforce
    then show thesis
    proof (cases rule: create_user_cases)
      case fl: (failed e)
      with c assms valid srv show thesis
        by (intro failed) (auto simp: mint_invite_def validated_name_def Let_def dbind_def)
    next
      case ex: exists
      with c assms valid srv show thesis
        by (intro exists) (auto simp: mint_invite_def validated_name_def Let_def dbind_def)
    next
      case created
      obtain r2 s2 where i: "create_invite ?uid ?th (clock out) ?exp s1 = (r2, s2)" by fastforce
      have st: "(r, t) = dbind (create_invite ?uid ?th (clock out) ?exp)
          (\<lambda>_. dreturn (Some (minted_of pf out srv_url srv_name name project))) s1"
        using c created(1) assms valid srv
        by (simp add: mint_invite_def validated_name_def Let_def dbind_Inr minted_of_def)
      from i show thesis
      proof (cases rule: create_invite_cases)
        case fl: (failed e)
        with i st have "r = Inl e" "t = s2" by (simp_all add: dbind_Inl)
        then show thesis using same_tables_trans [OF created(2) fl(2)] created(3,4) valid
          by (intro half) auto
      next
        case cr: created
        with i st have "r = Inr (Some (minted_of pf out srv_url srv_name name project))" "t = s2"
          by (simp_all add: dbind_Inr dreturn_def)
        moreover have "same_tables (s\<lparr>users := users s @ [minted_user_row out name project],
               invites := invites s @ [minted_invite_row pf out]\<rparr>) s2"
          using created(2) cr(2) by (simp add: same_tables_iff minted_invite_row_def)
        moreover have "inv_token_hash (minted_invite_row pf out) \<notin> inv_token_hash ` set (invites s)"
          using created(2) cr(3)
          by (simp add: same_tables_iff minted_invite_row_def new_invite_row_def)
        ultimately show thesis using created(3,4) valid srv by (intro minted) auto
      qed
    qed
  qed
qed

definition scope_exists :: "string option \<Rightarrow> db \<Rightarrow> bool" where
  "scope_exists p s \<longleftrightarrow> (case p of None \<Rightarrow> True | Some i \<Rightarrow> i \<in> prow_id ` set (projects s))"

lemma add_minted_user_ok:
  assumes "db_ok s" and "scope_exists (map_option ip_id project) s"
    and "new_user_id (id_hex out) \<notin> usr_id ` set (users s)" and "name \<notin> usr_name ` set (users s)"
  shows "db_ok (s\<lparr>users := users s @ [minted_user_row out name project]\<rparr>)"
  using assms by (intro add_user_ok) (auto simp: new_user_row_def scope_exists_def)

lemma mint_invite_ok:
  assumes "mint_invite pf out srv_url name project s = (r, t)" and "db_ok s"
    and "scope_exists (map_option ip_id project) s"
  shows "db_ok t"
  using assms(1)
proof (cases rule: mint_invite_cases)
  case (half e)
  with add_minted_user_ok [OF assms(2,3)] show ?thesis by (simp add: db_ok_same)
next
  case (minted srv_name)
  let ?s1 = "s\<lparr>users := users s @ [minted_user_row out name project]\<rparr>"
  have "db_ok ?s1" using add_minted_user_ok assms(2,3) minted(5,6) by blast
  moreover have "new_user_id (id_hex out) \<notin> inv_user_id ` set (invites s)"
    using assms(2) minted(5) by (auto simp: db_ok_defs)
  ultimately have "db_ok (?s1\<lparr>invites := invites ?s1 @ [minted_invite_row pf out]\<rparr>)"
    using minted(7)
    by (intro add_invite_ok [where u = "minted_user_row out name project"])
      (auto simp: minted_invite_row_def new_invite_row_def new_user_row_def)
  with minted(4) show ?thesis by (simp add: db_ok_same)
qed (use assms in \<open>auto simp: db_ok_same\<close>)

section \<open>Contracts\<close>

locale safe_handler =
  fixes handle :: "auth_user \<Rightarrow> 'rq \<Rightarrow> handler"
  assumes keeps: "handle caller rq s = (r, t) \<Longrightarrow> db_ok s \<Longrightarrow> db_ok t"
begin

lemma lifted: "on_db (handle caller rq) st = (r, st') \<Longrightarrow> db_ok (as_db st) \<Longrightarrow> db_ok (as_db st')"
  by (auto simp: on_db_eq dest: keeps)

lemma touches_only_db:
  "on_db (handle caller rq) st = (r, st') \<Longrightarrow> as_nonces st' = as_nonces st \<and> as_files st' = as_files st"
  by (auto simp: on_db_eq)

end

locale reading_handler = safe_handler +
  assumes reads: "handle caller rq s = (r, t) \<Longrightarrow> same_tables s t"
begin

lemma reads_state:
  "on_db (handle caller rq) st = (r, st') \<Longrightarrow> same_tables (as_db st) (as_db st')"
  by (auto simp: on_db_eq dest: reads)

end

locale admin_handler = safe_handler +
  assumes guarded: "au_project_id caller = Some p \<Longrightarrow> \<exists>m. handle caller rq s = (forbidden m, s)"
begin

lemma scoped_refused:
  assumes "au_project_id caller \<noteq> None"
  shows "rsp_status (fst (handle caller rq s)) = 403 \<and> snd (handle caller rq s) = s"
proof -
  from assms obtain p where "au_project_id caller = Some p" by blast
  from guarded [OF this, of rq s] show ?thesis by auto
qed

lemma scoped_refused_lifted:
  assumes "au_project_id caller \<noteq> None"
  shows "rsp_status (fst (on_db (handle caller rq) st)) = 403 \<and> snd (on_db (handle caller rq) st) = st"
  using scoped_refused [OF assms, of rq "as_db st"]
  by (auto simp: on_db_def split: prod.splits)

lemma changes_by_admins:
  "handle caller rq s = (r, t) \<Longrightarrow> \<not> same_tables s t \<Longrightarrow> au_project_id caller = None"
  using guarded by (metis not_Some_eq prod.inject same_tables_refl)

end

text \<open>A reader keeps the invariant.\<close>

lemma reading_handlerI:
  assumes "\<And>caller rq s r t. handle caller rq s = (r, t) \<Longrightarrow> same_tables s t"
  shows "reading_handler handle"
proof
  show "db_ok t" if "handle caller rq s = (r, t)" and "db_ok s" for caller rq s r t
    using assms [OF that(1)] that(2) by (simp add: db_ok_same)
qed (rule assms)

section \<open>The handlers meet their contracts\<close>

lemma whoami_reads: "whoami caller s = (r, t) \<Longrightarrow> same_tables s t"
  by (auto simp: whoami_def Let_def dest: reads_only
      split: option.splits prod.splits sum.splits)

lemma list_users_handler_reads: "list_users_handler caller s = (r, t) \<Longrightarrow> same_tables s t"
  by (auto simp: list_users_handler_def dest: reads_only split: if_splits prod.splits sum.splits)

lemma list_projects_handler_reads: "list_projects_handler caller s = (r, t) \<Longrightarrow> same_tables s t"
  by (auto simp: list_projects_handler_def dest: reads_only split: prod.splits sum.splits)

lemma confirm_project_access_cases:
  assumes "confirm_project_access caller pid s = (r, t)"
  obtains (scoped) p where "au_project_id caller = Some p" and "p \<noteq> pid" and "t = s"
        and "r = Inl (forbidden ''key is not scoped to this project'')"
    | (failed) "r = Inl internal_error" and "same_tables s t"
        and "au_project_id caller \<in> {None, Some pid}"
    | (unknown) "r = Inl (not_found (''no project '' @ pid @ '' on this server''))"
        and "same_tables s t" and "au_project_id caller \<in> {None, Some pid}"
        and "pid \<notin> prow_id ` set (projects s)"
    | (granted) "r = Inr ()" and "same_tables s t" and "au_project_id caller \<in> {None, Some pid}"
        and "pid \<in> prow_id ` set (projects s)"
proof (cases "au_project_id caller \<in> {None, Some pid}")
  case False
  with assms show thesis
    by (cases "au_project_id caller") (auto simp: confirm_project_access_def intro: scoped)
next
  case True
  obtain q u where k: "project_by_id pid s = (q, u)" by fastforce
  have r: "(r, t) = (case (q, u) of (Inr (Some _), t) \<Rightarrow> (Inr (), t)
      | (Inr None, t) \<Rightarrow> (Inl (not_found (''no project '' @ pid @ '' on this server'')), t)
      | (Inl _, t) \<Rightarrow> (Inl internal_error, t))"
    using assms True k by (auto simp: confirm_project_access_def)
  from k show thesis
    by (cases rule: project_by_id_cases) (use r True in \<open>auto intro: failed unknown granted\<close>)
qed

lemma list_releases_handler_reads:
  assumes "list_releases_handler caller pid s = (r, t)"
  shows "same_tables s t"
proof -
  obtain q u where c: "confirm_project_access caller pid s = (q, u)" by fastforce
  then have "same_tables s u" by (cases rule: confirm_project_access_cases) auto
  with assms c show ?thesis
    by (auto simp: list_releases_handler_def intro: same_tables_trans dest: reads_only
        split: sum.splits prod.splits)
qed

lemma create_project_handler_keeps:
  "create_project_handler out caller rq s = (r, t) \<Longrightarrow> db_ok s \<Longrightarrow> db_ok t"
  by (auto simp: create_project_handler_def dest: create_project_ok
      split: if_splits prod.splits sum.splits option.splits)

lemma answer_mint_keeps:
  "\<lbrakk>answer_mint pf out srv_url name project s = (r, t); db_ok s;
    scope_exists (map_option ip_id project) s\<rbrakk> \<Longrightarrow> db_ok t"
  by (auto simp: answer_mint_def dest: mint_invite_ok split: prod.splits sum.splits option.splits)

lemma create_user_handler_keeps:
  assumes "create_user_handler pf out srv_url caller rq s = (r, t)" and "db_ok s"
  shows "db_ok t"
proof (cases "au_project_id caller = None \<and> is_valid_user_name (cur_name rq)")
  case False
  then show ?thesis using assms
    by (cases "au_project_id caller") (auto simp: create_user_handler_def validated_name_def)
next
  case ok: True
  show ?thesis
  proof (cases "cur_project_id rq")
    case None
    with ok assms(1) have "answer_mint pf out srv_url (cur_name rq) None s = (r, t)"
      by (simp add: create_user_handler_def validated_name_def)
    with assms(2) show ?thesis by (auto dest: answer_mint_keeps simp: scope_exists_def)
  next
    case (Some i)
    obtain q u where k: "project_by_id i s = (q, u)" by fastforce
    then have u: "same_tables s u" by (rule reads_only)
    then have "db_ok u" using assms(2) by (simp add: db_ok_same)
    from k show ?thesis
    proof (cases rule: project_by_id_cases)
      case (known p)
      then have "answer_mint pf out srv_url (cur_name rq)
          (Some \<lparr>ip_id = prow_id p, ip_name = prow_name p\<rparr>) u = (r, t)"
        using ok assms(1) k Some
        by (simp add: create_user_handler_def validated_name_def project_of_row_def)
      moreover have "scope_exists (Some (prow_id p)) u"
        using known(3) u by (auto simp: scope_exists_def same_tables_iff)
      ultimately show ?thesis using \<open>db_ok u\<close> by (auto dest: answer_mint_keeps)
    qed (use ok assms k Some \<open>db_ok u\<close> in \<open>auto simp: create_user_handler_def validated_name_def\<close>)
  qed
qed

lemma remove_user_handler_keeps:
  "remove_user_handler caller name s = (r, t) \<Longrightarrow> db_ok s \<Longrightarrow> db_ok t"
  by (auto simp: remove_user_handler_def dest: remove_user_ok
      split: if_splits prod.splits sum.splits bool.splits)

lemma redeem_invite_handler_keeps:
  "redeem_invite_handler cr now token key s = (r, t) \<Longrightarrow> db_ok s \<Longrightarrow> db_ok t"
  by (auto simp: redeem_invite_handler_def dest: redeem_invite_ok
      split: if_splits prod.splits sum.splits option.splits)

interpretation whoami_route: reading_handler "\<lambda>caller _. whoami caller"
  by (rule reading_handlerI) (rule whoami_reads)

interpretation list_projects_route: reading_handler "\<lambda>caller _. list_projects_handler caller"
  by (rule reading_handlerI) (rule list_projects_handler_reads)

interpretation list_releases_route: reading_handler list_releases_handler
  by (rule reading_handlerI) (rule list_releases_handler_reads)

interpretation list_users_read: reading_handler "\<lambda>caller _. list_users_handler caller"
  by (rule reading_handlerI) (rule list_users_handler_reads)

lemma admin_handlerI:
  assumes "\<And>caller rq s r t. handle caller rq s = (r, t) \<Longrightarrow> db_ok s \<Longrightarrow> db_ok t"
    and "\<And>caller p rq s. au_project_id caller = Some p \<Longrightarrow> \<exists>m. handle caller rq s = (forbidden m, s)"
  shows "admin_handler handle"
  by unfold_locales (fact assms)+

interpretation list_users_route: admin_handler "\<lambda>caller _. list_users_handler caller"
  by (rule admin_handlerI, erule (1) list_users_read.keeps, auto simp: list_users_handler_def)

interpretation create_project_route: admin_handler "create_project_handler out" for out
  by (rule admin_handlerI, erule (1) create_project_handler_keeps, auto simp: create_project_handler_def)

interpretation create_user_route: admin_handler "create_user_handler pf out srv_url"
  for pf :: "'k platform" and out srv_url
  by (rule admin_handlerI, erule (1) create_user_handler_keeps, auto simp: create_user_handler_def)

interpretation remove_user_route: admin_handler remove_user_handler
  by (rule admin_handlerI, erule (1) remove_user_handler_keeps, auto simp: remove_user_handler_def)

interpretation redeem_route:
  safe_handler "\<lambda>_. \<lambda>(token, key). redeem_invite_handler cr now token key"
  for cr :: "'k crypto" and now
  by unfold_locales (auto elim: redeem_invite_handler_keeps)

end
