(* ===== verification/Service_Proofs.thy ===== *)
theory Service_Proofs
  imports Api_Proofs
begin

text \<open>
  The upload of a release, and the two listeners as a whole: what they keep, what a caller needs for
  a request to have an effect, and what an accepted upload has stored.
\<close>

section \<open>Receiving an archive\<close>

fun payload :: "frame list \<Rightarrow> string" where
  "payload [] = []"
| "payload (Data d # fs) = d @ payload fs"
| "payload (Trailers # fs) = payload fs"
| "payload (Broken e # fs) = []"

definition intact :: "frame list \<Rightarrow> bool" where
  "intact fs \<longleftrightarrow> list_all (\<lambda>f. case f of Broken _ \<Rightarrow> False | _ \<Rightarrow> True) fs"

text \<open>No single frame reaches the size of the address space (\<open>isize::MAX\<close> bounds every buffer).\<close>

definition frames_bounded :: "frame list \<Rightarrow> bool" where
  "frames_bounded fs \<longleftrightarrow> list_all (\<lambda>f. case f of Data d \<Rightarrow> length d < 2 ^ 63 | _ \<Rightarrow> True) fs"

lemma max_archive: "unat MAX_ARCHIVE_BYTES = 2147483648"
  by (simp add: MAX_ARCHIVE_BYTES_def)

text \<open>
  The counter does not wrap: it is within the limit before every addition, and a frame is shorter
  than \<open>2 ^ 63\<close>.
\<close>

lemma received_total:
  assumes "unat received \<le> 2147483648" and "length d < 2 ^ 63"
  shows "unat (received + of_nat (length d) :: u64) = unat received + length d"
proof -
  have "unat (of_nat (length d) :: u64) = length d"
    using assms(2) by (simp add: unat_of_nat take_bit_nat_eq_self)
  moreover have "unat received + unat (of_nat (length d) :: u64) < 2 ^ LENGTH(64)"
    using assms calculation by simp
  ultimately show ?thesis by (simp add: unat_word_ariths(1) mod_less)
qed

lemma receive_frames_Inr:
  assumes "receive_frames fs received written io = (Inr (n, w), io')"
    and "frames_bounded fs" and "unat received = length written"
    and "length written \<le> 2147483648"
  shows "intact fs \<and> w = written @ payload fs \<and> unat n = length w \<and> length w \<le> 2147483648"
  using assms
proof (induction fs received written io rule: receive_frames.induct)
  case (4 d frames received written io)
  let ?total = "received + of_nat (length d) :: u64"
  have len: "unat ?total = length (written @ d)"
    using received_total [of received d] 4(3-5) by (simp add: frames_bounded_def)
  have small: "\<not> MAX_ARCHIVE_BYTES < ?total"
    using 4(2) by (auto simp: Let_def split: if_splits)
  then have le: "length (written @ d) \<le> 2147483648"
    using len by (simp add: word_less_nat_alt max_archive)
  obtain x io1 where s: "io_step io = (Inr x, io1)"
      and r: "receive_frames frames ?total (written @ d) io1 = (Inr (n, w), io')"
    using 4(2) small by (auto simp: Let_def split: prod.splits sum.splits)
  have "frames_bounded frames" using 4(3) by (simp add: frames_bounded_def)
  from 4(1) [OF refl small s [symmetric] refl r this len le]
  have ih: "intact frames" "w = (written @ d) @ payload frames" "unat n = length w"
      "length w \<le> 2147483648" by blast+
  from ih(2) have "w = written @ payload (Data d # frames)" by simp
  with ih(1,3,4) show ?case unfolding intact_def by (intro conjI) simp_all
qed (auto simp: intact_def frames_bounded_def)

text \<open>Without faults every intact body within the limit is received whole.\<close>

lemma receive_frames_complete:
  assumes "intact fs" and "unat received = length written"
    and "length written + length (payload fs) \<le> 2147483648"
  shows "\<exists>n. receive_frames fs received written [] = (Inr (n, written @ payload fs), []) \<and>
     unat n = length written + length (payload fs)"
  using assms
proof (induction fs received written "[] :: string option list" rule: receive_frames.induct)
  case (4 d frames received written)
  let ?total = "received + of_nat (length d) :: u64"
  have len: "unat ?total = length (written @ d)"
    using received_total [of received d] 4(3,4) by simp
  then have small: "\<not> MAX_ARCHIVE_BYTES < ?total"
    using 4(4) by (simp add: word_less_nat_alt max_archive)
  have "intact frames" using 4(2) by (simp add: intact_def)
  moreover have "length (written @ d) + length (payload frames) \<le> 2147483648" using 4(4) by simp
  moreover have "io_step [] = (Inr (), [])" by simp
  ultimately show ?case using 4(1) [OF refl small _ refl] small len
    by (simp add: Let_def add.assoc)
qed (auto simp: intact_def)

text \<open>An archive accepted is the whole body, not empty, within the limit, with the signed hash.\<close>

lemma receive_archive_Inr:
  assumes "receive_archive cr io dir fs hash files = (Inr u, files')" and "frames_bounded fs"
  shows "intact fs \<and> payload fs \<noteq> [] \<and> length (payload fs) \<le> 2147483648 \<and>
    (\<forall>h. hash = Some h \<longrightarrow> sha256_hex cr (payload fs) = h) \<and> files' = files(dir \<mapsto> payload fs)"
proof -
  obtain io2 n w io3 where r: "receive_frames fs 0 [] io2 = (Inr (n, w), io3)"
    and c: "check_received cr hash n w = Inr u" and f: "files' = files(dir \<mapsto> w)"
    using assms(1) by (auto simp: receive_archive_def split: prod.splits sum.splits)
  from receive_frames_Inr [OF r assms(2)]
  have w: "intact fs" "w = payload fs" "unat n = length w" "length w \<le> 2147483648" by (metis append_Nil list.size(3) unat_0 zero_le)+
  have "n \<noteq> 0" using c by (auto simp: check_received_def)
  then have "w \<noteq> []" using w(3) by (auto simp: unat_eq_zero)
  with w c f show ?thesis by (auto simp: check_received_def split: if_splits option.splits)
qed

lemma receive_archive_files:
  "receive_archive cr io dir fs hash files = (r, files') \<Longrightarrow> d \<noteq> dir \<Longrightarrow> files' d = files d"
  by (auto simp: receive_archive_def split: prod.splits sum.splits)

section \<open>Uploads\<close>

lemma project_by_id_run:
  "faults s = [] \<Longrightarrow> project_by_id i s =
     (Inr (map_option project_of_row (find (\<lambda>p. prow_id p = i) (projects s))), s)"
  by (simp add: project_by_id_def query_def statement_no_faults)

lemma create_release_run:
  assumes "faults s = []" and "new_release_id hx \<notin> rel_id ` set (releases s)"
  shows "create_release pid st message now hx s =
    (Inr (release_of_new pid st message now hx),
     s\<lparr>releases := releases s @ [new_release_row pid st message now hx]\<rparr>)"
proof -
  let ?row = "new_release_row pid st message now hx"
  have "insert_release_row ?row (releases s) = Some (releases s @ [?row])"
    using assms(2) releases_table.accepts_iff [of ?row "releases s"] releases_table.inserted
    by (auto simp: new_release_row_def)
  then have "insert_release ?row s = (Inr 1, s\<lparr>releases := releases s @ [?row]\<rparr>)"
    using assms(1) by (simp add: insert_release_def execute_def statement_no_faults)
  then show ?thesis
    by (simp add: create_release_def release_of_new_def new_release_row_def Let_def dbind_def
        dreturn_def)
qed

lemma set_release_status_run:
  "faults s = [] \<Longrightarrow> set_release_status i st err now s = (Inr (), put_status i st err now s)"
  by (simp add: set_release_status_def execute_def statement_no_faults dbind_def dreturn_def
      put_status_def)

lemma find_Some_ex: "(\<exists>x \<in> set xs. f x = v) \<Longrightarrow> \<exists>x. find (\<lambda>x. f x = v) xs = Some x"
  by (cases "find (\<lambda>x. f x = v) xs") (auto simp: find_None_notin)

lemma confirm_project_access_run:
  assumes "faults s = []" and "au_project_id caller \<in> {None, Some pid}"
    and "pid \<in> prow_id ` set (projects s)"
  shows "confirm_project_access caller pid s = (Inr (), s)"
proof -
  obtain p where "find (\<lambda>p. prow_id p = pid) (projects s) = Some p"
    using assms(3) find_Some_ex [of "projects s" prow_id pid] by auto
  with assms(1,2) show ?thesis
    by (auto simp: confirm_project_access_def project_by_id_run)
qed

text \<open>The outcome of the file work of an upload.\<close>

definition unpacked_of ::
    "'k platform \<Rightarrow> outside \<Rightarrow> string \<Rightarrow> frame list \<Rightarrow> string option \<Rightarrow> (string \<Rightarrow> string option)
      \<Rightarrow> unit result" where
  "unpacked_of pf out dir frames hash files =
     (case receive_archive (pf_crypto pf) (io_faults out) dir frames hash files of
        (Inl e, _) \<Rightarrow> Inl e | (Inr _, files') \<Rightarrow> unpack_archive out dir files')"

definition stored_files ::
    "'k platform \<Rightarrow> outside \<Rightarrow> string \<Rightarrow> frame list \<Rightarrow> string option \<Rightarrow> (string \<Rightarrow> string option)
      \<Rightarrow> string \<Rightarrow> string option" where
  "stored_files pf out dir frames hash files =
     snd (receive_archive (pf_crypto pf) (io_faults out) dir frames hash files)"

abbreviation upload_dir :: "outside \<Rightarrow> string \<Rightarrow> string" where
  "upload_dir out pid \<equiv> release_dir (data_root out) pid (new_release_id (id_hex out))"

lemma create_release_handler_cases:
  assumes "create_release_handler pf out caller pid message hash frames st = (r, st')"
  obtains (refused) "rsp_status r \<in> {403, 404, 500}" and "same_tables (as_db st) (as_db st')"
        and "as_files st' = as_files st" and "as_nonces st' = as_nonces st"
        and "\<forall>p. au_project_id caller = Some p \<and> p \<noteq> pid \<longrightarrow>
               r = forbidden ''key is not scoped to this project''"
    | (done_) st2 where "au_project_id caller \<in> {None, Some pid}"
        and "pid \<in> prow_id ` set (projects (as_db st))"
        and "same_tables ((as_db st)\<lparr>releases := releases (as_db st) @
               [new_release_row pid Unpacking (nonempty_message message) (clock out) (id_hex out)]\<rparr>)
               (as_db st2)"
        and "new_release_id (id_hex out) \<notin> rel_id ` set (releases (as_db st))"
        and "as_nonces st2 = as_nonces st"
        and "as_files st2 =
               stored_files pf out (upload_dir out pid) frames hash (as_files st)"
        and "(r, st') = finish_release out pid
               (release_of_new pid Unpacking (nonempty_message message) (clock out) (id_hex out))
               (unpacked_of pf out (upload_dir out pid) frames hash (as_files st)) st2"
proof -
  let ?rel = "release_of_new pid Unpacking (nonempty_message message) (clock out) (id_hex out)"
  obtain a t where c: "confirm_project_access caller pid (as_db st) = (a, t)" by fastforce
  have stop: "r = x \<and> st' = st\<lparr>as_db := t\<rparr>" if "a = Inl x" for x
    using assms c that by (simp add: create_release_handler_def on_db_def)
  from c show thesis
  proof (cases rule: confirm_project_access_cases)
    case (scoped p)
    with stop [OF scoped(4)] show thesis by (intro refused) simp_all
  next
    case failed
    with stop [OF failed(1)] show thesis by (intro refused) auto
  next
    case unknown
    with stop [OF unknown(1)] show thesis by (intro refused) auto
  next
    case granted
    obtain b u where k: "create_release pid Unpacking (nonempty_message message) (clock out)
        (id_hex out) t = (b, u)" by fastforce
    from k show thesis
    proof (cases rule: create_release_cases)
      case (failed e)
      have "r = internal_error" "st' = st\<lparr>as_db := u\<rparr>"
        using assms c granted(1) k failed(1) by (auto simp: create_release_handler_def on_db_def)
      then show thesis using same_tables_trans [OF granted(2) failed(2)] granted(3)
        by (intro refused) auto
    next
      case created
      have "same_tables ((as_db st)\<lparr>releases := releases (as_db st) @
               [new_release_row pid Unpacking (nonempty_message message) (clock out) (id_hex out)]\<rparr>) u"
        using granted(2) created(2) by (simp add: same_tables_iff)
      moreover have "new_release_id (id_hex out) \<notin> rel_id ` set (releases (as_db st))"
        using granted(2) created(3) by (simp add: same_tables_iff)
      moreover have "(r, st') = finish_release out pid ?rel
          (unpacked_of pf out (upload_dir out pid) frames hash (as_files st))
          (st\<lparr>as_db := u,
              as_files := stored_files pf out (upload_dir out pid) frames hash (as_files st)\<rparr>)"
        using assms c granted(1) k created(1)
        by (cases "receive_archive (pf_crypto pf) (io_faults out) (upload_dir out pid) frames hash
              (as_files st)")
          (auto simp: create_release_handler_def on_db_def Let_def release_of_new_def
            unpacked_of_def stored_files_def split: sum.splits)
      ultimately show thesis using granted(3,4) by (intro done_) auto
    qed
  qed
qed

lemma finish_release_cases:
  assumes "(r, st') = finish_release out pid rel unpacked st"
  obtains "as_nonces st' = as_nonces st" and "as_files st' = as_files st"
    and "as_db st' = snd (set_release_status (rls_id rel)
           (case unpacked of Inr _ \<Rightarrow> Ready | Inl _ \<Rightarrow> Failed)
           (case unpacked of Inr _ \<Rightarrow> None | Inl e \<Rightarrow> Some e) (clock_after out) (as_db st))"
    and "rsp_status r = (case unpacked of Inr _ \<Rightarrow> 200 | Inl _ \<Rightarrow> 400)"
    and "\<forall>e. unpacked = Inl e \<longrightarrow> r = bad_request (''release '' @ rls_id rel @ '' failed: '' @ e)"
  using assms
  by (auto simp: finish_release_def on_db_def Let_def split: sum.splits prod.splits)

lemma create_release_handler_ok:
  assumes "create_release_handler pf out caller pid message hash frames st = (r, st')"
    and "db_ok (as_db st)"
  shows "db_ok (as_db st')"
  using assms(1)
proof (cases rule: create_release_handler_cases)
  case refused
  with assms(2) show ?thesis by (simp add: db_ok_same)
next
  case (done_ st2)
  have "db_ok (as_db st2)"
    unfolding db_ok_same [OF done_(3)]
    using done_(2,4) assms(2) by (intro add_release_ok) (simp_all del: status_as_str.simps)
  with done_(7) show ?thesis
    by (elim finish_release_cases) (auto intro: set_release_status_ok [OF prod.collapse [symmetric]])
qed

text \<open>Nothing of another project, and no other archive, is touched.\<close>

lemma create_release_handler_files:
  assumes "create_release_handler pf out caller pid message hash frames st = (r, st')"
    and "as_files st' d \<noteq> as_files st d"
  shows "d = upload_dir out pid \<and> au_project_id caller \<in> {None, Some pid}
     \<and> pid \<in> prow_id ` set (projects (as_db st))"
  using assms(1)
proof (cases rule: create_release_handler_cases)
  case (done_ st2)
  have "as_files st' = stored_files pf out (upload_dir out pid) frames hash (as_files st)"
    using done_(6,7) by (auto elim: finish_release_cases)
  with assms(2) have "d = upload_dir out pid"
    unfolding stored_files_def by (metis receive_archive_files prod.collapse)
  with done_(1,2) show ?thesis by simp
qed (use assms in auto)

text \<open>What an upload answered with success has stored.\<close>

lemma create_release_handler_accepted:
  assumes "create_release_handler pf out caller pid message hash frames st = (r, st')"
    and "rsp_status r = 200" and "frames_bounded frames"
  shows "intact frames \<and> payload frames \<noteq> [] \<and> length (payload frames) \<le> 2147483648 \<and>
    (\<forall>h. hash = Some h \<longrightarrow> sha256_hex (pf_crypto pf) (payload frames) = h) \<and>
    as_files st' (upload_dir out pid) = Some (payload frames) \<and>
    unpack out (payload frames) = Inr ()"
  using assms(1)
proof (cases rule: create_release_handler_cases)
  case (done_ st2)
  let ?dir = "upload_dir out pid"
  obtain q fs where ra: "receive_archive (pf_crypto pf) (io_faults out) ?dir frames hash
      (as_files st) = (q, fs)" by fastforce
  have files: "as_files st' = fs" and "\<exists>u. unpacked_of pf out ?dir frames hash (as_files st) = Inr u"
    using done_(6,7) assms(2) ra
    by (auto elim!: finish_release_cases simp: stored_files_def split: sum.splits)
  then obtain u v where q: "q = Inr u" and un: "unpack_archive out ?dir fs = Inr v"
    using ra by (auto simp: unpacked_of_def split: sum.splits)
  from receive_archive_Inr [OF ra [unfolded q] assms(3)] files un show ?thesis
    by (auto simp: unpack_archive_def)
qed (use assms in auto)

text \<open>Every upload to an existing project leaves a row with its outcome.\<close>

lemma put_status_member:
  assumes "row \<in> set (releases s)" and "rel_id row = i"
  shows "row\<lparr>rel_status := status_as_str st, rel_error := err, rel_updated_at := as_i64 now\<rparr>
    \<in> set (releases (put_status i st err now s))"
  using assms by (force simp: put_status_def)

lemma upload_recorded:
  assumes "create_release_handler pf out caller pid message hash frames st = (r, st')"
    and "faults (as_db st) = []" and "au_project_id caller \<in> {None, Some pid}"
    and "pid \<in> prow_id ` set (projects (as_db st))"
    and "new_release_id (id_hex out) \<notin> rel_id ` set (releases (as_db st))"
  shows "\<exists>row \<in> set (releases (as_db st')). rel_id row = new_release_id (id_hex out) \<and>
     rel_project_id row = pid \<and> rel_message row = nonempty_message message \<and>
     (rsp_status r = 200 \<and> rel_status row = ''ready'' \<and> rel_error row = None \<or>
      (\<exists>e. r = bad_request (''release '' @ rel_id row @ '' failed: '' @ e) \<and>
           rel_status row = ''failed'' \<and> rel_error row = Some e))"
proof -
  let ?row = "new_release_row pid Unpacking (nonempty_message message) (clock out) (id_hex out)"
  let ?db = "(as_db st)\<lparr>releases := releases (as_db st) @ [?row]\<rparr>"
  let ?un = "unpacked_of pf out (upload_dir out pid) frames hash (as_files st)"
  have "(r, st') = finish_release out pid
      (release_of_new pid Unpacking (nonempty_message message) (clock out) (id_hex out)) ?un
      (st\<lparr>as_db := ?db,
          as_files := stored_files pf out (upload_dir out pid) frames hash (as_files st)\<rparr>)"
    using assms(1) confirm_project_access_run [OF assms(2-4)] create_release_run [OF assms(2,5)]
    by (cases "receive_archive (pf_crypto pf) (io_faults out) (upload_dir out pid) frames hash
          (as_files st)")
      (auto simp: create_release_handler_def on_db_def Let_def release_of_new_def
        unpacked_of_def stored_files_def split: sum.splits)
  then have fin: "as_db st' = put_status (new_release_id (id_hex out))
        (case ?un of Inr _ \<Rightarrow> Ready | Inl _ \<Rightarrow> Failed)
        (case ?un of Inr _ \<Rightarrow> None | Inl e \<Rightarrow> Some e) (clock_after out) ?db"
      "rsp_status r = (case ?un of Inr _ \<Rightarrow> 200 | Inl _ \<Rightarrow> 400)"
      "\<forall>e. ?un = Inl e \<longrightarrow> r = bad_request (''release '' @ new_release_id (id_hex out) @ '' failed: '' @ e)"
    using assms(2)
    by (auto elim!: finish_release_cases simp: set_release_status_run release_of_new_def)
  have row: "?row \<in> set (releases ?db)" "rel_id ?row = new_release_id (id_hex out)" by simp_all
  show ?thesis
  proof (cases ?un)
    case (Inl e)
    with put_status_member [OF row, where st = Failed and err = "Some e" and now = "clock_after out"] fin show ?thesis
      by (intro bexI [of _ "?row\<lparr>rel_status := status_as_str Failed, rel_error := Some e,
            rel_updated_at := as_i64 (clock_after out)\<rparr>"]) simp_all
  next
    case (Inr u)
    with put_status_member [OF row, where st = Ready and err = None and now = "clock_after out"] fin show ?thesis
      by (intro bexI [of _ "?row\<lparr>rel_status := status_as_str Ready, rel_error := None,
            rel_updated_at := as_i64 (clock_after out)\<rparr>"]) simp_all
  qed
qed

section \<open>The listeners\<close>

lemma run_protected_ok:
  assumes "run_protected sv out caller hash rt pq frames st = (r, st')" and "db_ok (as_db st)"
  shows "db_ok (as_db st')"
proof (cases rt)
  case (R_create_release i)
  with assms show ?thesis
    by (auto simp: run_protected_def split: sum.splits dest: create_release_handler_ok)
qed (use assms in \<open>auto simp: run_protected_def split: sum.splits
  dest: list_projects_route.lifted create_project_route.lifted list_users_read.lifted
    create_user_route.lifted remove_user_route.lifted whoami_route.lifted
    list_releases_route.lifted\<close>)

lemma run_checked_ok:
  assumes "run_checked sv out rq rt caller hash st = (r, st')" and "db_ok (as_db st)"
  shows "db_ok (as_db st')"
  using assms by (auto simp: run_checked_def split: if_splits sum.splits dest: run_protected_ok)

lemma serve_admin_ok:
  "serve_admin sv out rq rt st = (r, st') \<Longrightarrow> db_ok (as_db st) \<Longrightarrow> db_ok (as_db st')"
  by (auto simp: serve_admin_def dest: run_checked_ok)

text \<open>A protected route on the public side is the middleware around its handler.\<close>

lemma serve_signed_protected:
  "is_protected rt \<Longrightarrow> serve_signed sv out rq rt st =
     verify_signature (pf_crypto (sv_platform sv)) (clock_auth out) rq
       (\<lambda>user hash. run_checked sv out rq rt user (Some hash)) st"
  by (cases rt) (auto simp: serve_signed_def)

lemma serve_signed_cases:
  assumes "serve_signed sv out rq rt st = (r, st')" and "is_protected rt"
  obtains (refused) reason where "r = unauthorized (''unauthorized: '' @ reason)"
        and "same_tables (as_db st) (as_db st')" and "as_files st' = as_files st"
    | (ran) h u st1 where
        "authorised (pf_crypto (sv_platform sv)) (clock_auth out) rq st h u"
        and "same_tables (as_db st) (as_db st1)" and "as_files st1 = as_files st"
        and "run_checked sv out rq rt (auth_user_of_row u)
               (Some (to_ascii_lowercase (sh_content_sha256 h))) st1 = (r, st')"
proof -
  obtain a st1 where c: "checked_request (pf_crypto (sv_platform sv)) (clock_auth out) rq st
      = (a, st1)" by fastforce
  have r: "(r, st') = (case a of
        Inl reason \<Rightarrow> (unauthorized (''unauthorized: '' @ reason), st1)
      | Inr (user, hash) \<Rightarrow> run_checked sv out rq rt user (Some hash) st1)"
    using assms c by (auto simp: serve_signed_protected verify_signature_def split: sum.splits)
  from c show thesis
    by (cases rule: checked_request_cases) (use r in \<open>auto intro: refused ran\<close>)
qed

lemma serve_signed_ok:
  assumes "serve_signed sv out rq rt st = (r, st')" and "db_ok (as_db st)"
  shows "db_ok (as_db st')"
proof (cases "is_protected rt")
  case True
  from assms(1) True show ?thesis
    by (cases rule: serve_signed_cases)
      (use assms(2) db_ok_same in \<open>auto dest: run_checked_ok\<close>)
next
  case False
  then consider "rt = R_healthz" | "rt = R_redeem_invite" by (cases rt) auto
  then show ?thesis
  proof cases
    case 2
    show ?thesis
    proof (cases "pf_redeem_request (sv_platform sv) (rq_body rq)")
      case (Inl x)
      with 2 assms show ?thesis by (simp add: serve_signed_def)
    next
      case (Inr p)
      obtain token key where "p = (token, key)" by fastforce
      with Inr 2 assms(1) have "on_db (redeem_invite_handler (pf_crypto (sv_platform sv)) (clock out)
          token key) st = (r, st')"
        by (simp add: serve_signed_def)
      then obtain t where t: "redeem_invite_handler (pf_crypto (sv_platform sv)) (clock out)
          token key (as_db st) = (r, t)" and st': "st' = st\<lparr>as_db := t\<rparr>"
        unfolding on_db_eq by blast
      from redeem_invite_handler_keeps [OF t assms(2)] st' show ?thesis by simp
    qed
  qed (use assms in \<open>simp add: serve_signed_def\<close>)
qed

text \<open>The server's life: requests on either listener, one after the other.\<close>

datatype listener = Public | Admin_socket

fun serve :: "('k, 'addr) server \<Rightarrow> listener \<times> outside \<times> http_request \<times> route
    \<Rightarrow> api_state \<Rightarrow> response \<times> api_state" where
  "serve sv (Public, out, rq, rt) st = serve_signed sv out rq rt st"
| "serve sv (Admin_socket, out, rq, rt) st = serve_admin sv out rq rt st"

fun serve_all :: "('k, 'addr) server \<Rightarrow> (listener \<times> outside \<times> http_request \<times> route) list
    \<Rightarrow> api_state \<Rightarrow> response list \<times> api_state" where
  "serve_all sv [] st = ([], st)"
| "serve_all sv (e # es) st =
     (let (r, st1) = serve sv e st; (rs, st2) = serve_all sv es st1 in (r # rs, st2))"

definition fresh_state :: api_state where
  "fresh_state = \<lparr>as_db = empty_db, as_nonces = Map.empty, as_files = Map.empty\<rparr>"

lemma serve_ok: "serve sv e st = (r, st') \<Longrightarrow> db_ok (as_db st) \<Longrightarrow> db_ok (as_db st')"
  by (cases "(sv, e, st)" rule: serve.cases) (auto dest: serve_signed_ok serve_admin_ok)

lemma serve_all_ok: "serve_all sv es st = (rs, st') \<Longrightarrow> db_ok (as_db st) \<Longrightarrow> db_ok (as_db st')"
  by (induction es arbitrary: st rs)
    (auto simp: Let_def split: prod.splits dest: serve_ok)

section \<open>Who may change what\<close>

definition tables_but_releases :: "db \<Rightarrow> user_row list \<times> invite_row list \<times> project_row list" where
  "tables_but_releases s = (users s, invites s, projects s)"

lemma finish_release_tables:
  assumes "(r, st') = finish_release out pid rel un st"
  shows "tables_but_releases (as_db st') = tables_but_releases (as_db st)"
proof -
  obtain q t where s: "set_release_status (rls_id rel) (case un of Inr _ \<Rightarrow> Ready | Inl _ \<Rightarrow> Failed)
      (case un of Inr _ \<Rightarrow> None | Inl e \<Rightarrow> Some e) (clock_after out) (as_db st) = (q, t)" by fastforce
  then have "tables_but_releases t = tables_but_releases (as_db st)"
    by (cases rule: set_release_status_cases)
      (auto simp: tables_but_releases_def same_tables_iff put_status_def)
  with assms s show ?thesis by (auto elim!: finish_release_cases)
qed

lemma create_release_handler_tables:
  assumes "create_release_handler pf out caller pid message hash frames st = (r, st')"
  shows "tables_but_releases (as_db st') = tables_but_releases (as_db st) \<and>
    (\<not> same_tables (as_db st) (as_db st') \<longrightarrow> au_project_id caller \<in> {None, Some pid})"
  using assms
proof (cases rule: create_release_handler_cases)
  case (done_ st2)
  with finish_release_tables [OF done_(7)] show ?thesis
    by (auto simp: tables_but_releases_def same_tables_iff)
qed (auto simp: tables_but_releases_def same_tables_iff)

lemma run_protected_changes:
  assumes "run_protected sv out caller hash rt pq frames st = (r, st')"
    and "\<not> same_tables (as_db st) (as_db st')"
  shows "au_project_id caller = None \<or>
    (\<exists>pid. rt = R_create_release pid \<and> au_project_id caller = Some pid \<and>
      tables_but_releases (as_db st') = tables_but_releases (as_db st))"
proof (cases rt)
  case (R_create_release pid)
  with assms show ?thesis
    by (auto simp: run_protected_def split: sum.splits dest!: create_release_handler_tables)
qed (use assms in \<open>auto simp: run_protected_def on_db_eq split: sum.splits
  dest: list_projects_route.reads list_users_read.reads whoami_route.reads list_releases_route.reads
    create_project_route.changes_by_admins create_user_route.changes_by_admins
    remove_user_route.changes_by_admins\<close>)

lemma run_checked_changes:
  assumes "run_checked sv out rq rt caller hash st = (r, st')"
    and "\<not> same_tables (as_db st) (as_db st')"
  shows "au_project_id caller = None \<or>
    (\<exists>pid. rt = R_create_release pid \<and> au_project_id caller = Some pid \<and>
      tables_but_releases (as_db st') = tables_but_releases (as_db st))"
proof -
  from assms(1) consider "st' = st"
    | frames where "run_protected sv out caller hash rt (rq_path_and_query rq) frames st = (r, st')"
    by (auto simp: run_checked_def split: if_splits sum.splits)
  then show ?thesis
  proof cases
    case (2 frames)
    from run_protected_changes [OF this assms(2)] show ?thesis .
  qed (use assms(2) in simp)
qed

lemma serve_signed_changes:
  assumes "serve_signed sv out rq rt st = (r, st')" and "is_protected rt"
    and "\<not> same_tables (as_db st) (as_db st')"
  shows "\<exists>h u. authorised (pf_crypto (sv_platform sv)) (clock_auth out) rq st h u \<and>
    (usr_project_id u = None \<or>
     (\<exists>pid. rt = R_create_release pid \<and> usr_project_id u = Some pid \<and>
        tables_but_releases (as_db st') = tables_but_releases (as_db st)))"
  using assms(1,2)
proof (cases rule: serve_signed_cases)
  case (ran h u st1)
  have "\<not> same_tables (as_db st1) (as_db st')"
    using ran(2) assms(3) by (auto intro: same_tables_trans)
  moreover have "tables_but_releases (as_db st1) = tables_but_releases (as_db st)"
    using ran(2) by (simp add: tables_but_releases_def same_tables_iff)
  ultimately show ?thesis
    using ran(1) run_checked_changes [OF ran(4)] by (auto simp: auth_user_of_row_def)
qed (use assms(3) in auto)

text \<open>The body a buffered handler sees is the one whose hash was signed.\<close>

lemma verify_body_hash_Inr:
  "verify_body_hash cr to_bytes (Some hash) frames = Inr frames' \<longleftrightarrow>
     (\<exists>bytes. to_bytes MAX_BODY_BYTES frames = Some bytes \<and> sha256_hex cr bytes = hash \<and>
        frames' = [Data bytes])"
  by (auto simp: verify_body_hash_def split: option.splits)

lemma run_checked_body:
  assumes "run_checked sv out rq rt caller (Some hash) st = (r, st')" and "is_buffered rt"
  shows "(\<exists>bytes. pf_to_bytes (sv_platform sv) MAX_BODY_BYTES (rq_body rq) = Some bytes \<and>
      sha256_hex (pf_crypto (sv_platform sv)) bytes = hash \<and>
      (r, st') = run_protected sv out caller (Some hash) rt (rq_path_and_query rq) [Data bytes] st) \<or>
    (rsp_status r \<in> {400, 401} \<and> st' = st)"
  using assms
  by (auto simp: run_checked_def verify_body_hash_def split: sum.splits option.splits if_splits)

end
