(* ===== verification/Access_Proofs.thy ===== *)
theory Access_Proofs
  imports Service_Proofs
begin

text \<open>
  Keys and listings: that no request replaces a key a user holds, that an invite is good for one
  redemption, and what the listings of projects and releases contain.
\<close>

section \<open>Keys\<close>

text \<open>Every user who is still there holds the key it held.\<close>

definition keys_kept :: "db \<Rightarrow> db \<Rightarrow> bool" where
  "keys_kept s t \<longleftrightarrow>
     (\<forall>u \<in> set (users s). \<forall>u' \<in> set (users t). \<forall>k.
        usr_public_key u = Some k \<and> usr_id u' = usr_id u \<longrightarrow> usr_public_key u' = Some k)"

lemma user_inj: "db_ok s \<Longrightarrow> u \<in> set (users s) \<Longrightarrow> u' \<in> set (users s) \<Longrightarrow> usr_id u' = usr_id u \<Longrightarrow> u' = u"
  unfolding db_ok_defs by (metis distinct_map inj_onD)

lemma keys_kept_shrink:
  assumes "db_ok s" and "set (users t) \<subseteq> set (users s)"
  shows "keys_kept s t"
  using user_inj [OF assms(1)] assms(2) unfolding keys_kept_def by (metis subsetD)

lemma keys_kept_same: "db_ok s \<Longrightarrow> same_tables s t \<Longrightarrow> keys_kept s t"
  by (rule keys_kept_shrink) (simp_all add: same_tables_iff)

lemma keys_kept_users: "keys_kept s t \<Longrightarrow> users t' = users t \<Longrightarrow> keys_kept s t'"
  by (simp add: keys_kept_def)

lemma keys_kept_add:
  assumes "db_ok s" and "users t = users s @ [row]" and "usr_id row \<notin> usr_id ` set (users s)"
  shows "keys_kept s t"
  unfolding keys_kept_def
proof (intro ballI allI impI, elim conjE)
  fix u u' k
  assume u: "u \<in> set (users s)" "u' \<in> set (users t)" "usr_public_key u = Some k" "usr_id u' = usr_id u"
  then have "u' \<noteq> row" using assms(3) by auto
  then have "u' \<in> set (users s)" using u(2) assms(2) by simp
  with user_inj [OF assms(1) u(1), of u'] u(3,4) show "usr_public_key u' = Some k" by simp
qed

lemma keys_kept_put:
  assumes "db_ok s" and "u0 \<in> set (users s)" and "usr_public_key u0 = None"
  shows "keys_kept s (put_key (usr_id u0) key s)"
  unfolding keys_kept_def
proof (intro ballI allI impI, elim conjE)
  fix u u' k
  assume u: "u \<in> set (users s)" "u' \<in> set (users (put_key (usr_id u0) key s))"
    "usr_public_key u = Some k" "usr_id u' = usr_id u"
  then have ne: "usr_id u \<noteq> usr_id u0" using user_inj [OF assms(1) u(1) assms(2)] assms(3) by auto
  from u(2) obtain v where v: "v \<in> set (users s)"
    and u': "u' = (if usr_id v = usr_id u0 then v\<lparr>usr_public_key := Some key\<rparr> else v)"
    by (auto simp: put_key_def)
  have "usr_id v = usr_id u'" using u' by simp
  then have "v = u" using user_inj [OF assms(1) u(1) v] u(4) by simp
  with u' ne u(3) show "usr_public_key u' = Some k" by simp
qed

lemma keys_kept_users_left:
  "keys_kept s t \<Longrightarrow> users s' = users s \<Longrightarrow> keys_kept s' t"
  by (simp add: keys_kept_def)

lemma redeem_invite_keys:
  assumes "redeem_invite th key now s = (r, t)" and "db_ok s"
  shows "keys_kept s t"
  using assms(1)
proof (cases rule: redeem_invite_cases)
  case (half e)
  then show ?thesis
    using assms(2) by (intro keys_kept_shrink) (simp_all add: same_tables_iff)
next
  case (redeemed i)
  then obtain j where j: "j \<in> set (invites s)" "redeemable th now j" by auto
  have i: "i \<in> set (invites s)" "inv_token_hash i = th"
    using redeemed(3) by (auto dest: find_Some_in)
  have "i = j" using assms(2) i j by (auto simp: db_ok_defs distinct_map inj_on_def redeemable_def)
  have "inv_user_id i \<in> usr_id ` set (users s)" using assms(2) i(1) by (auto simp: db_ok_defs)
  then obtain u0 where u0: "u0 \<in> set (users s)" "usr_id u0 = inv_user_id i" by auto
  have "usr_public_key u0 = None"
    using open_user [OF assms(2) u0(1) i(1)] u0(2) j(2) \<open>i = j\<close> by (simp add: redeemable_def)
  from keys_kept_put [OF assms(2) u0(1) this, of key]
  have "keys_kept s (put_key (inv_user_id i) key (mark_redeemed th now s))"
    by (rule keys_kept_users) (simp add: put_key_def u0(2))
  then show ?thesis
    by (rule keys_kept_users) (use redeemed(2) in \<open>simp add: same_tables_iff\<close>)
qed (use assms(2) keys_kept_same in auto)

lemma mint_invite_keys:
  assumes "mint_invite pf out srv_url name project s = (r, t)" and "db_ok s"
  shows "keys_kept s t"
  using assms(1)
proof (cases rule: mint_invite_cases)
  case (half e)
  then show ?thesis
    using keys_kept_add [OF assms(2), of t "minted_user_row out name project"]
    by (simp add: same_tables_iff new_user_row_def)
next
  case (minted srv_name)
  then show ?thesis
    using keys_kept_add [OF assms(2), of t "minted_user_row out name project"]
    by (simp add: same_tables_iff new_user_row_def)
qed (use assms(2) keys_kept_same in auto)

lemma remove_user_keys:
  assumes "remove_user name s = (r, t)" and "db_ok s"
  shows "keys_kept s t"
proof -
  from assms(1) have "set (users t) \<subseteq> set (users s)"
    by (cases rule: remove_user_cases)
      (auto simp: same_tables_iff drop_user_def drop_invites_def)
  with assms(2) show ?thesis by (rule keys_kept_shrink)
qed

lemma create_user_handler_keys:
  assumes "create_user_handler pf out srv_url caller rq s = (r, t)" and "db_ok s"
  shows "keys_kept s t"
proof -
  have mint: "keys_kept s' t'" if "answer_mint pf out srv_url n p s' = (r', t')" "db_ok s'" for n p s' r' t'
    using that by (auto simp: answer_mint_def dest: mint_invite_keys
        split: prod.splits sum.splits option.splits)
  have "same_tables s t \<or> (\<exists>p s1. same_tables s s1 \<and>
      answer_mint pf out srv_url (cur_name rq) p s1 = (r, t))"
  proof (cases "cur_project_id rq")
    case None
    then show ?thesis using assms(1) same_tables_refl [of s]
      by (auto simp: create_user_handler_def split: if_splits sum.splits)
  next
    case (Some i)
    obtain q s1 where k: "project_by_id i s = (q, s1)" by fastforce
    from reads_only(4) [OF k] have st: "same_tables s s1" .
    with assms(1) Some k show ?thesis
      by (auto simp: create_user_handler_def split: if_splits sum.splits option.splits)
  qed
  then consider "same_tables s t" | p s1 where "same_tables s s1"
      "answer_mint pf out srv_url (cur_name rq) p s1 = (r, t)"
    by blast
  then show ?thesis
  proof cases
    case 1
    with assms(2) show ?thesis by (rule keys_kept_same)
  next
    case (2 p s1)
    have "keys_kept s1 t" using mint [OF 2(2)] 2(1) assms(2) by (simp add: db_ok_same)
    then show ?thesis by (rule keys_kept_users_left) (use 2(1) in \<open>simp add: same_tables_iff\<close>)
  qed
qed

lemma keys_kept_but_releases:
  "db_ok s \<Longrightarrow> tables_but_releases t = tables_but_releases s \<Longrightarrow> keys_kept s t"
  by (rule keys_kept_shrink) (simp_all add: tables_but_releases_def)

lemma create_project_handler_keys:
  assumes "create_project_handler out caller rq s = (r, t)" and "db_ok s"
  shows "keys_kept s t"
proof -
  have "users t' = users s" if "create_project n i c h s = (q, t')" for n i c h q t'
    using that by (cases rule: create_project_cases) (auto simp: same_tables_iff)
  then have "users t = users s"
    using assms(1) by (auto simp: create_project_handler_def
        split: if_splits prod.splits sum.splits option.splits)
  with assms(2) show ?thesis by (intro keys_kept_shrink) simp_all
qed

lemma run_protected_keys:
  assumes "run_protected sv out caller hash rt pq frames st = (r, st')" and "db_ok (as_db st)"
  shows "keys_kept (as_db st) (as_db st')"
proof (cases "same_tables (as_db st) (as_db st')")
  case True
  with assms(2) show ?thesis by (rule keys_kept_same)
next
  case False
  note changed = this
  show ?thesis
  proof (cases rt)
    case (R_create_release pid)
    then obtain m where "create_release_handler (sv_platform sv) out caller pid m hash frames st = (r, st')"
      using assms(1) changed by (auto simp: run_protected_def split: sum.splits)
    from create_release_handler_tables [OF this] assms(2) show ?thesis
      by (intro keys_kept_but_releases) auto
  next
    case R_create_project
    with assms changed show ?thesis
      by (auto simp: run_protected_def on_db_eq split: sum.splits dest: create_project_handler_keys)
  next
    case R_create_user
    with assms changed show ?thesis
      by (auto simp: run_protected_def on_db_eq split: sum.splits dest: create_user_handler_keys)
  next
    case (R_remove_user n)
    with assms changed show ?thesis
      by (auto simp: run_protected_def on_db_eq remove_user_handler_def
          split: if_splits sum.splits prod.splits bool.splits dest: remove_user_keys)
  qed (use assms changed in \<open>auto simp: run_protected_def on_db_eq split: sum.splits
    dest: list_projects_route.reads list_users_read.reads whoami_route.reads
      list_releases_route.reads\<close>)
qed

lemma run_checked_keys:
  assumes "run_checked sv out rq rt caller hash st = (r, st')" and "db_ok (as_db st)"
  shows "keys_kept (as_db st) (as_db st')"
  using assms keys_kept_same [OF assms(2) same_tables_refl]
  by (auto simp: run_checked_def split: if_splits sum.splits dest: run_protected_keys)

lemma serve_signed_keys:
  assumes "serve_signed sv out rq rt st = (r, st')" and "db_ok (as_db st)"
  shows "keys_kept (as_db st) (as_db st')"
proof (cases "is_protected rt")
  case True
  from assms(1) True show ?thesis
  proof (cases rule: serve_signed_cases)
    case (refused reason)
    from assms(2) refused(2) show ?thesis by (rule keys_kept_same)
  next
    case (ran h u st1)
    then have "keys_kept (as_db st1) (as_db st')"
      using assms(2) by (intro run_checked_keys [OF ran(4)]) (simp add: db_ok_same)
    then show ?thesis
      by (rule keys_kept_users_left) (use ran(2) in \<open>simp add: same_tables_iff\<close>)
  qed
next
  case False
  then consider "rt = R_healthz" | "rt = R_redeem_invite" by (cases rt) auto
  then show ?thesis
  proof cases
    case 1
    with assms show ?thesis by (simp add: serve_signed_def keys_kept_same)
  next
    case 2
    show ?thesis
    proof (cases "pf_redeem_request (sv_platform sv) (rq_body rq)")
      case (Inl x)
      with 2 assms show ?thesis by (simp add: serve_signed_def keys_kept_same)
    next
      case (Inr p)
      obtain token key where "p = (token, key)" by fastforce
      with Inr 2 assms(1) have "on_db (redeem_invite_handler (pf_crypto (sv_platform sv)) (clock out)
          token key) st = (r, st')"
        by (simp add: serve_signed_def)
      then obtain t where t: "redeem_invite_handler (pf_crypto (sv_platform sv)) (clock out)
          token key (as_db st) = (r, t)" and st': "st' = st\<lparr>as_db := t\<rparr>"
        unfolding on_db_eq by blast
      from t have "keys_kept (as_db st) t"
        using keys_kept_same [OF assms(2) same_tables_refl] redeem_invite_keys [OF _ assms(2)]
        by (fastforce simp: redeem_invite_handler_def split: if_splits prod.splits sum.splits
            option.splits)
      with st' show ?thesis by simp
    qed
  qed
qed

lemma serve_keys:
  "serve sv e st = (r, st') \<Longrightarrow> db_ok (as_db st) \<Longrightarrow> keys_kept (as_db st) (as_db st')"
  by (cases "(sv, e, st)" rule: serve.cases)
    (auto simp: serve_admin_def dest: serve_signed_keys run_checked_keys)

section \<open>Invites are single-use\<close>

text \<open>No invite with this token is open.\<close>

definition spent :: "string \<Rightarrow> db \<Rightarrow> bool" where
  "spent th s \<longleftrightarrow> (\<forall>i \<in> set (invites s). inv_token_hash i = th \<longrightarrow> inv_redeemed_at i \<noteq> None)"

lemma spent_same: "same_tables s t \<Longrightarrow> spent th t = spent th s"
  by (simp add: spent_def same_tables_iff)

lemma spent_mark: "spent th s \<Longrightarrow> spent th (mark_redeemed th' now s)"
  by (auto simp: spent_def mark_redeemed_def)

lemma spent_put_key [simp]: "spent th (put_key uid key s) = spent th s"
  by (simp add: spent_def)

lemma spent_redeem:
  assumes "redeem_invite th' key now s = (r, t)" and "spent th s"
  shows "spent th t"
  using assms(1)
proof (cases rule: redeem_invite_cases)
  case (half e)
  with spent_mark [OF assms(2)] show ?thesis by (simp add: spent_same)
next
  case (redeemed i)
  from spent_same [OF redeemed(2)] spent_mark [OF assms(2)] show ?thesis by simp
qed (use assms(2) in \<open>simp_all add: spent_same\<close>)

lemma redeem_spends:
  assumes "redeem_invite th key now s = (Inr (Some uid), t)" and "db_ok s"
  shows "spent th t"
  using assms(1)
proof (cases rule: redeem_invite_cases)
  case (redeemed i)
  then obtain j where j: "j \<in> set (invites s)" "redeemable th now j" by auto
  have "inj_on inv_token_hash (set (invites s))"
    using assms(2) by (simp add: db_ok_defs distinct_map)
  then have uniq: "k = j" if "k \<in> set (invites s)" "inv_token_hash k = th" for k
    using j that by (auto simp: redeemable_def inj_on_def)
  have "spent th (mark_redeemed th now s)"
    unfolding spent_def mark_redeemed_def using uniq j(2)
    by (auto simp: redeemable_def split: if_splits)
  with spent_same [OF redeemed(2)] show ?thesis by simp
qed auto

lemma spent_refuses:
  assumes "redeem_invite th key now s = (r, t)" and "spent th s"
  shows "r \<noteq> Inr (Some uid)"
  using assms(1)
proof (cases rule: redeem_invite_cases)
  case (redeemed i)
  then obtain j where "j \<in> set (invites s)" "redeemable th now j" by auto
  with assms(2) show ?thesis by (auto simp: spent_def redeemable_def)
qed auto

lemma spent_mint:
  assumes "mint_invite pf out srv_url name project s = (r, t)" and "spent th s"
    and "inv_token_hash (minted_invite_row pf out) \<noteq> th"
  shows "spent th t"
  using assms(1)
  by (cases rule: mint_invite_cases) (use assms(2,3) in \<open>auto simp: spent_def same_tables_iff\<close>)

lemma spent_remove:
  assumes "remove_user name s = (r, t)" and "spent th s"
  shows "spent th t"
  using assms(1)
  by (cases rule: remove_user_cases)
    (use assms(2) in \<open>auto simp: spent_def same_tables_iff drop_user_def drop_invites_def\<close>)

lemma create_project_handler_tables:
  assumes "create_project_handler out caller rq s = (r, t)"
  shows "users t = users s \<and> invites t = invites s"
proof -
  have "users t' = users s \<and> invites t' = invites s" if "create_project n i c h s = (q, t')" for n i c h q t'
    using that by (cases rule: create_project_cases) (auto simp: same_tables_iff)
  then show ?thesis
    using assms by (auto simp: create_project_handler_def
        split: if_splits prod.splits sum.splits option.splits)
qed

text \<open>The hash of the token a request would mint.\<close>

abbreviation minted_hash :: "('k, 'addr) server \<Rightarrow> outside \<Rightarrow> string" where
  "minted_hash sv out \<equiv> inv_token_hash (minted_invite_row (sv_platform sv) out)"

text \<open>A redemption on the public listener, taken apart.\<close>

lemma serve_signed_redeem:
  assumes "serve_signed sv out rq R_redeem_invite st = (r, st')"
  obtains (rejected) "st' = st" and "pf_redeem_request (sv_platform sv) (rq_body rq) = Inl r"
    | (answered) token key t where
        "pf_redeem_request (sv_platform sv) (rq_body rq) = Inr (token, key)"
        and "redeem_invite_handler (pf_crypto (sv_platform sv)) (clock out) token key (as_db st) = (r, t)"
        and "st' = st\<lparr>as_db := t\<rparr>"
proof (cases "pf_redeem_request (sv_platform sv) (rq_body rq)")
  case (Inl x)
  with assms show thesis by (intro rejected) (simp_all add: serve_signed_def)
next
  case (Inr p)
  obtain token key where p: "p = (token, key)" by fastforce
  with Inr assms have "on_db (redeem_invite_handler (pf_crypto (sv_platform sv)) (clock out)
      token key) st = (r, st')"
    by (simp add: serve_signed_def)
  then show thesis using Inr p answered unfolding on_db_eq by blast
qed

lemma redeem_handler_cases:
  assumes "redeem_invite_handler cr now token key s = (r, t)"
  obtains (no_key) "t = s" and "rsp_status r = 400"
    | (ran) q where "redeem_invite (token_hash cr token) key now s = (q, t)"
        and "\<forall>k. r = ok_json k \<longleftrightarrow> (\<exists>uid. q = Inr (Some uid) \<and> k = Json_key uid)"
        and "rsp_status r = 200 \<longleftrightarrow> (\<exists>uid. q = Inr (Some uid))"
proof (cases "parse_public_key cr key = None")
  case True
  with assms show thesis by (intro no_key) (auto simp: redeem_invite_handler_def)
next
  case False
  obtain q u where q: "redeem_invite (token_hash cr token) key now s = (q, u)" by fastforce
  with False assms show thesis
    by (intro ran [of q]) (auto simp: redeem_invite_handler_def response_defs
        split: sum.splits option.splits)
qed

text \<open>A request that mints, removes and redeems only what it may.\<close>

definition lets_through ::
    "('k, 'addr) server \<Rightarrow> (outside \<Rightarrow> bool) \<Rightarrow> (string \<Rightarrow> bool) \<Rightarrow> (string \<Rightarrow> bool)
      \<Rightarrow> listener \<times> outside \<times> http_request \<times> route \<Rightarrow> bool" where
  "lets_through sv mints removes redeems e \<longleftrightarrow> (case e of (l, out, rq, rt) \<Rightarrow>
     mints out \<and> (\<forall>m. rt = R_remove_user m \<longrightarrow> removes m) \<and>
     (\<forall>token key. rt = R_redeem_invite \<and> pf_redeem_request (sv_platform sv) (rq_body rq) = Inr (token, key)
        \<longrightarrow> redeems (token_hash (pf_crypto (sv_platform sv)) token)))"

text \<open>
  The contract of a condition on the users and the invites that requests keep: it survives a mint, a
  removal and a redemption, of the kinds that are let through.  Everything else the server does leaves
  these two tables alone.
\<close>

locale durable =
  fixes sv :: "('k, 'addr) server" and Q :: "db \<Rightarrow> bool"
    and mints :: "outside \<Rightarrow> bool" and removes :: "string \<Rightarrow> bool" and redeems :: "string \<Rightarrow> bool"
  assumes tables: "\<lbrakk>Q s; users t = users s; invites t = invites s\<rbrakk> \<Longrightarrow> Q t"
    and mint: "\<lbrakk>mint_invite (sv_platform sv) out url name project s = (r, t); mints out; Q s\<rbrakk> \<Longrightarrow> Q t"
    and remove: "\<lbrakk>remove_user name s = (b, t); removes name; Q s\<rbrakk> \<Longrightarrow> Q t"
    and redeem: "\<lbrakk>redeem_invite th key now s = (u, t); redeems th; Q s\<rbrakk> \<Longrightarrow> Q t"
begin

lemma kept_same: "\<lbrakk>same_tables s t; Q s\<rbrakk> \<Longrightarrow> Q t"
  by (rule tables) (simp_all add: same_tables_iff)

lemma create_user_keeps:
  assumes "create_user_handler (sv_platform sv) out srv_url caller rq s = (r, t)" and "mints out" and "Q s"
  shows "Q t"
proof -
  have mint: "Q t'" if "answer_mint (sv_platform sv) out srv_url n p s' = (r', t')" "Q s'" for n p s' r' t'
    using that assms(2) by (auto simp: answer_mint_def dest: mint split: prod.splits sum.splits option.splits)
  show ?thesis
  proof (cases "cur_project_id rq")
    case None
    then show ?thesis using assms(1,3) mint
      by (auto simp: create_user_handler_def split: if_splits sum.splits)
  next
    case (Some i)
    obtain q s1 where k: "project_by_id i s = (q, s1)" by fastforce
    have "Q s1" using kept_same [OF reads_only(4) [OF k] assms(3)] .
    with assms(1,3) Some k mint show ?thesis
      by (auto simp: create_user_handler_def split: if_splits sum.splits option.splits)
  qed
qed

lemma run_protected_keeps:
  assumes "run_protected sv out caller hash rt pq frames st = (r, st')" and "Q (as_db st)"
    and "lets_through sv mints removes redeems (l, out, rq, rt)"
  shows "Q (as_db st')"
proof (cases rt)
  case (R_create_release pid)
  with assms(1,2) show ?thesis
    by (auto simp: run_protected_def tables_but_releases_def split: sum.splits
        dest!: create_release_handler_tables intro: tables)
next
  case R_create_project
  with assms(1,2) show ?thesis
    by (auto simp: run_protected_def on_db_eq split: sum.splits intro: tables
        dest!: create_project_handler_tables)
next
  case R_create_user
  with assms show ?thesis
    by (auto simp: run_protected_def on_db_eq lets_through_def split: sum.splits dest: create_user_keeps)
next
  case (R_remove_user n)
  with assms show ?thesis
    by (auto simp: run_protected_def on_db_eq remove_user_handler_def lets_through_def
        split: if_splits sum.splits prod.splits bool.splits dest: remove)
qed (use assms(1,2) in \<open>auto simp: run_protected_def on_db_eq split: sum.splits
    dest!: list_projects_route.reads list_users_read.reads whoami_route.reads
      list_releases_route.reads intro: kept_same\<close>)

lemma run_checked_keeps:
  assumes "run_checked sv out rq rt caller hash st = (r, st')" and "Q (as_db st)"
    and "lets_through sv mints removes redeems (l, out, rq, rt)"
  shows "Q (as_db st')"
  using assms
  by (auto simp: run_checked_def split: if_splits sum.splits dest: run_protected_keeps)

lemma serve_keeps:
  assumes "serve sv (l, out, rq, rt) st = (r, st')" and "Q (as_db st)" and "lets_through sv mints removes redeems (l, out, rq, rt)"
  shows "Q (as_db st')"
proof (cases l)
  case Admin_socket
  with assms show ?thesis by (simp add: serve_admin_def) (rule run_checked_keeps)
next
  case Public
  with assms(1) have s: "serve_signed sv out rq rt st = (r, st')" by simp
  consider "is_protected rt" | "rt = R_healthz" | "rt = R_redeem_invite" by (cases rt) auto
  then show ?thesis
  proof cases
    case 1
    from s 1 show ?thesis
    proof (cases rule: serve_signed_cases)
      case (refused reason)
      then show ?thesis using assms(2) kept_same by blast
    next
      case (ran h u st1)
      have "Q (as_db st1)" using kept_same [OF ran(2) assms(2)] .
      then show ?thesis using run_checked_keeps [OF ran(4) _ assms(3)] by blast
    qed
  next
    case 2
    with s assms(2) show ?thesis by (simp add: serve_signed_def)
  next
    case 3
    from s [unfolded 3] show ?thesis
    proof (cases rule: serve_signed_redeem)
      case (answered token key t)
      then have "redeems (token_hash (pf_crypto (sv_platform sv)) token)"
        using assms(3) 3 by (simp add: lets_through_def)
      from answered(2) show ?thesis
        by (cases rule: redeem_handler_cases)
          (use answered(3) assms(2) redeem \<open>redeems _\<close> in auto)
    qed (use assms(2) in simp)
  qed
qed

lemma serve_all_keeps:
  "\<lbrakk>serve_all sv es st = (rs, st'); Q (as_db st); \<forall>e \<in> set es. lets_through sv mints removes redeems e\<rbrakk> \<Longrightarrow> Q (as_db st')"
proof (induction es arbitrary: st rs)
  case (Cons e es)
  obtain l out rq rt where e: "e = (l, out, rq, rt)" by (cases e)
  obtain r st1 where s: "serve sv (l, out, rq, rt) st = (r, st1)" by fastforce
  obtain rs1 where rest: "serve_all sv es st1 = (rs1, st')"
    using Cons.prems(1) s e by (auto simp: Let_def split: prod.splits)
  have "Q (as_db st1)" using serve_keeps [OF s] Cons.prems(2,3) e by simp
  with Cons.IH [OF rest] Cons.prems(3) show ?case by simp
qed simp

end

interpretation spent: durable sv "spent th" "\<lambda>out. minted_hash sv out \<noteq> th" "\<lambda>_. True" "\<lambda>_. True"
  for sv :: "('k, 'addr) server" and th
  by unfold_locales (auto simp: spent_def dest: spent_mint spent_remove spent_redeem)

lemma serve_all_spent:
  assumes "serve_all sv es st = (rs, st')" and "spent th (as_db st)"
    and "\<forall>(l, out, rq, rt) \<in> set es. minted_hash sv out \<noteq> th"
  shows "spent th (as_db st')"
  using assms spent.serve_all_keeps by (fastforce simp: lets_through_def)

section \<open>What a redemption does\<close>

lemma put_key_bound:
  assumes "u \<in> set (users (put_key uid key s))" and "usr_id u = uid"
  shows "usr_public_key u = Some key"
proof -
  from assms(1) obtain v where "u = (if usr_id v = uid then v\<lparr>usr_public_key := Some key\<rparr> else v)"
    unfolding put_key_def by fastforce
  with assms(2) show ?thesis by (cases "usr_id v = uid") simp_all
qed

lemma redeem_binds:
  assumes "redeem_invite th key now s = (Inr (Some uid), t)" and "db_ok s"
  shows "(\<exists>i \<in> set (invites s). redeemable th now i \<and> inv_user_id i = uid) \<and>
    (\<exists>u \<in> set (users t). usr_id u = uid) \<and>
    (\<forall>u \<in> set (users t). usr_id u = uid \<longrightarrow> usr_public_key u = Some key)"
  using assms(1)
proof (cases rule: redeem_invite_cases)
  case (redeemed i)
  then obtain j where j: "j \<in> set (invites s)" "redeemable th now j" by auto
  have i: "i \<in> set (invites s)" "inv_token_hash i = th"
    using redeemed(3) by (auto dest: find_Some_in)
  have "inj_on inv_token_hash (set (invites s))"
    using assms(2) by (simp add: db_ok_defs distinct_map)
  with i j have ij: "i = j" by (auto simp: redeemable_def inj_on_def)
  have ut: "users t = users (put_key uid key s)" and uid: "uid = inv_user_id i"
    using redeemed(1,2) by (simp_all add: same_tables_iff put_key_def)
  have "inv_user_id i \<in> usr_id ` set (users t)"
    using assms(2) i(1) unfolding ut put_key_user_ids db_ok_defs by blast
  then have "\<exists>u \<in> set (users t). usr_id u = uid" unfolding uid by (metis imageE)
  moreover have "\<forall>u \<in> set (users t). usr_id u = uid \<longrightarrow> usr_public_key u = Some key"
    unfolding ut using put_key_bound by blast
  moreover have "redeemable th now i" "inv_user_id i = uid" using j(2) ij uid by simp_all
  with i(1) have "\<exists>i \<in> set (invites s). redeemable th now i \<and> inv_user_id i = uid" by blast
  ultimately show ?thesis by (intro conjI)
qed auto

section \<open>Listings\<close>

lemma list_projects_handler_lists:
  assumes "list_projects_handler caller s = (r, t)" and "faults s = []"
  shows "r = ok_json (Json_projects (map project_summary_of
     (filter (\<lambda>p. case au_project_id caller of None \<Rightarrow> True | Some scope \<Rightarrow> pi_id p = scope)
        (map project_of_row (sort_key (\<lambda>p. (prow_created_at p, prow_name p)) (projects s))))))"
  using assms by (auto simp: list_projects_handler_def list_projects_def query_def statement_no_faults)

lemma newest_first:
  "sorted (rev (map (\<lambda>r. (rel_created_at r, rel_id r)) (releases_newest_first pid s)))"
  by (simp add: releases_newest_first_def rev_map)

lemma set_newest_first:
  "set (releases_newest_first pid s) = {r \<in> set (releases s). rel_project_id r = pid}"
  by (auto simp: releases_newest_first_def)

lemma releases_of_rows_times:
  "releases_of_rows rs = Inr xs \<Longrightarrow> map rls_created_at xs = map (as_u64 \<circ> rel_created_at) rs"
  by (induction rs arbitrary: xs) (auto simp: release_of_row_def split: sum.splits option.splits)

lemma list_releases_handler_lists:
  assumes "faults s = []" and "db_ok s" and "pid \<in> prow_id ` set (projects s)"
    and "au_project_id caller \<in> {None, Some pid}"
  shows "\<exists>xs. list_releases_handler caller pid s = (ok_json (Json_releases (map release_summary_of xs)), s)
    \<and> map rls_id xs = map rel_id (releases_newest_first pid s)"
proof -
  have "\<forall>r \<in> set (releases_newest_first pid s). status_parse (rel_status r) \<noteq> None"
    using assms(2) by (auto simp: set_newest_first db_ok_defs)
  then obtain xs where xs: "releases_of_rows (releases_newest_first pid s) = Inr xs"
      "map rls_id xs = map rel_id (releases_newest_first pid s)"
    using releases_of_rows_ok by blast
  have "list_releases pid s = (Inr xs, s)"
    using xs(1) assms(1)
    by (simp add: list_releases_def query_def statement_no_faults releases_newest_first_def)
  then show ?thesis
    using confirm_project_access_run [OF assms(1,4,3)] xs(2)
    by (intro exI [of _ xs]) (simp add: list_releases_handler_def)
qed

end
