(* ===== verification/Api_Props.thy ===== *)
theory Api_Props
  imports Access_Proofs
begin

text \<open>
  The properties of the API server.  The instances use a small server: \<^verbatim>\<open>ada\<close> is an admin and
  \<^verbatim>\<open>bob\<close> may deploy project \<^verbatim>\<open>shop\<close>; both hold keys.  The cryptography of the instances is a stand-in
  with the interface of the real one: base64 is the identity, and a signature is valid when it is the
  key's bytes twice.
\<close>

definition demo_crypto :: "string crypto" where
  "demo_crypto = \<lparr>std_encode = (\<lambda>b. b), std_decode = Some, url_encode = (\<lambda>b. b), url_decode = Some,
     sha256_hex = (\<lambda>b. ''h'' @ show_nat (length b)), key_from_bytes = Some,
     verify_sig = (\<lambda>k m sg. sg = k @ k)\<rparr>"

definition ada_key :: string where "ada_key = replicate 32 (CHR ''a'')"
definition bob_key :: string where "bob_key = replicate 32 (CHR ''b'')"

definition ada :: user_row where
  "ada = \<lparr>usr_id = ''usr_1'', usr_name = ''ada'', usr_public_key = Some ada_key,
     usr_project_id = None, usr_created_at = as_i64 5\<rparr>"

definition bob :: user_row where
  "bob = \<lparr>usr_id = ''usr_2'', usr_name = ''bob'', usr_public_key = Some bob_key,
     usr_project_id = Some ''prj_1'', usr_created_at = as_i64 6\<rparr>"

definition eve_invite :: invite_row where
  "eve_invite = \<lparr>inv_token_hash = ''h3'', inv_user_id = ''usr_3'', inv_expires_at = as_i64 5000,
     inv_redeemed_at = None, inv_created_at = as_i64 7\<rparr>"

definition eve :: user_row where
  "eve = \<lparr>usr_id = ''usr_3'', usr_name = ''eve'', usr_public_key = None,
     usr_project_id = None, usr_created_at = as_i64 7\<rparr>"

definition shop :: project_row where
  "shop = \<lparr>prow_id = ''prj_1'', prow_name = ''shop'', prow_created_at = as_i64 4\<rparr>"

definition demo_db_state :: db where
  "demo_db_state = \<lparr>users = [ada, bob, eve], invites = [eve_invite], projects = [shop],
     releases = [], faults = []\<rparr>"

definition demo_api :: api_state where
  "demo_api = \<lparr>as_db = demo_db_state, as_nonces = Map.empty, as_files = Map.empty\<rparr>"

text \<open>A signed request of a user, at a time, over a body hash.\<close>

definition demo_request :: "string \<Rightarrow> string \<Rightarrow> string \<Rightarrow> string \<Rightarrow> frame list \<Rightarrow> http_request" where
  "demo_request key_id key timestamp hash frames =
     \<lparr>rq_method = ''GET'', rq_authority = None, rq_path_and_query = Some ''/api/whoami'',
      rq_header = map_of [(HEADER_SIGNATURE_VERSION, SIGNATURE_VERSION), (HEADER_KEY_ID, key_id),
        (HEADER_NONCE, ''n1''), (HEADER_CONTENT_SHA256, hash), (HEADER_SIGNATURE, key @ key),
        (HEADER_TIMESTAMP, timestamp), (''host'', ''railyard.1-2-3-4.nip.io'')],
      rq_body = frames\<rparr>"

definition demo_claim :: "string \<Rightarrow> string \<Rightarrow> u64 \<Rightarrow> string \<Rightarrow> signed_headers" where
  "demo_claim key_id key timestamp hash =
     \<lparr>sh_key_id = key_id, sh_nonce = ''n1'', sh_content_sha256 = hash, sh_signature = key @ key,
      sh_timestamp = timestamp\<rparr>"

text \<open>The instance of a server: extractors that hand the body on, and a fixed clock.\<close>

definition demo_server :: "(string, string) server" where
  "demo_server = \<lparr>
     sv_platform = \<lparr>pf_crypto = demo_crypto, pf_to_bytes = (\<lambda>_ fs. Some (payload fs)),
       pf_invite_json = inv_token,
       pf_project_request = (\<lambda>fs. Inr \<lparr>cpr_name = payload fs, cpr_id = None\<rparr>),
       pf_user_request = (\<lambda>fs. Inr \<lparr>cur_name = payload fs, cur_project_id = None\<rparr>),
       pf_redeem_request = (\<lambda>fs. Inr (payload fs, bob_key)),
       pf_query_message = (\<lambda>_. Inr None)\<rparr>,
     sv_config = \<lparr>proxy_addr = ''0.0.0.0:80'', api_addr = ''127.0.0.1:3001'',
       server_url = ''http://railyard.1-2-3-4.nip.io'',
       api_hostname = ''railyard.1-2-3-4.nip.io'', service_upstreams = Map.empty\<rparr>,
     sv_show_addr = (\<lambda>a. a)\<rparr>"

definition demo_outside :: outside where
  "demo_outside = \<lparr>clock_auth = 1000, clock = 1000, clock_after = 1001, id_hex = ''0a'',
     token_bytes = ''tk'', server_name_env = Some ''box'', os_hostname = Inr None,
     data_root = ''/d'', io_faults = [], unpack = (\<lambda>_. Inr ())\<rparr>"

lemma demo_db_ok: "db_ok demo_db_state"
  by (auto simp: db_ok_defs demo_db_state_def ada_def bob_def eve_def eve_invite_def shop_def
      keyed_closed_def)

lemma demo_claims:
  assumes "parse_u64 t = Some ts"
  shows "claims (demo_request i k t hash fs) (demo_claim i k ts hash)"
  using assms by (simp add: claims_def demo_request_def demo_claim_def header_defs)

lemma demo_signs:
  assumes "length k = 32"
  shows "signs demo_crypto k (demo_request i k t hash fs) (demo_claim i k ts hash)"
proof -
  have "parse_public_key demo_crypto k = Some k"
    using assms by (simp add: parse_public_key_def demo_crypto_def)
  moreover have "decode_signature demo_crypto (k @ k) = Some (k @ k)"
    using assms by (simp add: decode_signature_def demo_crypto_def)
  moreover have "signed_host (demo_request i k t hash fs) = Some ''railyard.1-2-3-4.nip.io''"
    by (simp add: signed_host_def demo_request_def header_defs)
  moreover have "verify_sig demo_crypto k m (k @ k)" for m by (simp add: demo_crypto_def)
  ultimately show ?thesis by (simp add: signs_def demo_claim_def)
qed

lemma ada_authorised:
  "authorised demo_crypto 1000 (demo_request ''usr_1'' ada_key ''900'' hash fs) demo_api
     (demo_claim ''usr_1'' ada_key 900 hash) ada"
proof -
  have "parse_u64 ''900'' = Some 900"
    by (simp add: parse_u64_def parse_uint_def digits_value_def digit_value_def ascii_defs)
  moreover have "in_window 1000 900"
    by (simp add: in_window_def abs_diff_def TIMESTAMP_WINDOW_SECONDS_def)
  ultimately show ?thesis
    using demo_claims [of "''900''" 900] demo_signs [of ada_key]
    by (auto simp: authorised_def demo_claim_def demo_api_def demo_db_state_def ada_def ada_key_def
        retain_recent_def)
qed

section \<open>Authentication\<close>

text \<open>
  C10: on a database that answers, a signed request is accepted if and only if it is authorised: its
  headers carry a complete claim, its timestamp is within the window, the claimed key belongs to a
  user, the signature over exactly this method, path, host, time, nonce and content hash is valid
  under that user's key, and the nonce is not remembered.  The caller the handlers then see is that
  user.
\<close>

theorem accepts_exactly_authorised:
  assumes "faults (as_db st) = []" and "db_ok (as_db st)"
  shows "fst (checked_request cr now rq st) = Inr (caller, hash) \<longleftrightarrow>
    (\<exists>h u. authorised cr now rq st h u \<and> caller = auth_user_of_row u \<and>
       hash = to_ascii_lowercase (sh_content_sha256 h))"
proof
  assume acc: "fst (checked_request cr now rq st) = Inr (caller, hash)"
  obtain r st' where c: "checked_request cr now rq st = (r, st')" by fastforce
  then show "\<exists>h u. authorised cr now rq st h u \<and> caller = auth_user_of_row u \<and>
       hash = to_ascii_lowercase (sh_content_sha256 h)"
    by (cases rule: checked_request_cases) (use acc c in auto)
qed (use checked_request_accepts [OF _ assms] in \<open>fastforce\<close>)

theorem accepts_exactly_authorised_witness:
  "fst (checked_request demo_crypto 1000 (demo_request ''usr_1'' ada_key ''900'' ''h0'' []) demo_api) =
     Inr (auth_user_of_row ada, ''h0'')"
proof -
  have "to_ascii_lowercase ''h0'' = ''h0''" by code_simp
  then show ?thesis
    using accepts_exactly_authorised [of demo_api demo_crypto 1000
        "demo_request ''usr_1'' ada_key ''900'' ''h0'' []" "auth_user_of_row ada" "''h0''"]
      ada_authorised [of "''h0''" "[]"] demo_db_ok
    by (auto simp: demo_api_def demo_db_state_def demo_claim_def intro!: exI)
qed

text \<open>
  C11: no replay.  In any run of the middleware with a clock that does not go back, after a request
  was accepted at \<open>t1\<close>, no request with its nonce and a timestamp up to \<open>t1\<close> is accepted, whatever
  requests come in between and however long it waits.
\<close>

theorem replay_refused:
  assumes "sorted (map fst (pre @ (t1, rq1, s1) # mid @ [(t2, rq2, s2)]))"
    and "fst (auth_run cr (pre @ (t1, rq1, s1) # mid @ [(t2, rq2, s2)]) seen) ! length pre"
    and "claims rq1 h1" and "claims rq2 h2" and "sh_nonce h2 = sh_nonce h1"
    and "sh_timestamp h2 \<le> t1"
  shows "\<not> last (fst (auth_run cr (pre @ (t1, rq1, s1) # mid @ [(t2, rq2, s2)]) seen))"
proof -
  let ?seen = "snd (auth_run cr pre seen)"
  have "sorted (t1 # map fst mid @ [t2])" using assms(1) by (simp add: sorted_append)
  moreover have "fst (auth_run cr ((t1, rq1, s1) # mid @ [(t2, rq2, s2)]) ?seen) ! 0"
    using assms(2) by (simp add: auth_run_suffix nth_append)
  ultimately have "\<not> last (fst (auth_run cr ((t1, rq1, s1) # mid @ [(t2, rq2, s2)]) ?seen))"
    using assms(3-6) by (rule auth_run_no_replay)
  moreover have "fst (auth_run cr ((t1, rq1, s1) # mid @ [(t2, rq2, s2)]) ?seen) \<noteq> []"
    using auth_run_length [of cr "(t1, rq1, s1) # mid @ [(t2, rq2, s2)]" ?seen] by force
  ultimately show ?thesis by (simp add: auth_run_suffix del: auth_run.simps)
qed

lemma ada_accepted_once:
  "fst (auth_run demo_crypto ((1000, demo_request ''usr_1'' ada_key ''900'' hash fs, demo_db_state) # rest)
     Map.empty) ! 0"
  using checked_request_accepts [OF ada_authorised [of hash fs]] demo_db_ok
  by (simp add: auth_run_accepts demo_api_def demo_db_state_def del: auth_run.simps)

theorem replay_refused_witness:
  "\<not> last (fst (auth_run demo_crypto
      [(1000, demo_request ''usr_1'' ada_key ''900'' ''h0'' [], demo_db_state),
       (1250, demo_request ''usr_1'' ada_key ''900'' ''h0'' [], demo_db_state)] Map.empty))"
proof -
  have "parse_u64 ''900'' = Some 900"
    by (simp add: parse_u64_def parse_uint_def digits_value_def digit_value_def ascii_defs)
  from demo_claims [OF this, of "''usr_1''" ada_key "''h0''" "[]"]
  have "claims (demo_request ''usr_1'' ada_key ''900'' ''h0'' []) (demo_claim ''usr_1'' ada_key 900 ''h0'')" .
  from replay_refused [of "[]" 1000 _ demo_db_state "[]" 1250 _ demo_db_state demo_crypto Map.empty,
      OF _ _ this this]
    ada_accepted_once [of "''h0''" "[]"]
  show ?thesis by (simp add: demo_claim_def del: auth_run.simps)
qed

text \<open>
  C12: the bound of the replay protection.  A request stamped ahead of the server's clock, which the
  window allows, can be sent a second time with the same nonce: the server forgets the nonce 300
  seconds after it accepted the request, while the timestamp is still acceptable.
\<close>

theorem future_stamp_replayable:
  assumes "authorised cr t1 rq st h u" and "faults (as_db st) = []" and "db_ok (as_db st)"
    and "t1 < sh_timestamp h" and "unat t1 + 600 < 2 ^ 64"
  shows "fst (checked_request cr t1 rq st) = Inr (auth_user_of_row u, to_ascii_lowercase (sh_content_sha256 h)) \<and>
    fst (checked_request cr (t1 + 301) rq (snd (checked_request cr t1 rq st))) =
      Inr (auth_user_of_row u, to_ascii_lowercase (sh_content_sha256 h))"
proof -
  let ?st' = "st\<lparr>as_nonces := (retain_recent t1 (as_nonces st))(sh_nonce h \<mapsto> t1)\<rparr>"
  have again: "authorised cr (t1 + 301) rq ?st' h u"
    by (rule authorised_again [OF assms(1,4,5) refl])
  show ?thesis
    using checked_request_accepts [OF assms(1-3)] checked_request_accepts [OF again] assms(2,3)
    by simp
qed

theorem future_stamp_replayable_witness:
  "fst (checked_request demo_crypto 1301 (demo_request ''usr_1'' ada_key ''1300'' ''h0'' [])
     (snd (checked_request demo_crypto 1000 (demo_request ''usr_1'' ada_key ''1300'' ''h0'' []) demo_api)))
   = Inr (auth_user_of_row ada, to_ascii_lowercase ''h0'')"
proof -
  have "parse_u64 ''1300'' = Some 1300"
    by (simp add: parse_u64_def parse_uint_def digits_value_def digit_value_def ascii_defs)
  moreover have "in_window 1000 1300"
    by (simp add: in_window_def abs_diff_def TIMESTAMP_WINDOW_SECONDS_def)
  ultimately have "authorised demo_crypto 1000 (demo_request ''usr_1'' ada_key ''1300'' ''h0'' []) demo_api
     (demo_claim ''usr_1'' ada_key 1300 ''h0'') ada"
    using demo_claims [of "''1300''" 1300] demo_signs [of ada_key]
    by (auto simp: authorised_def demo_claim_def demo_api_def demo_db_state_def ada_def ada_key_def
        retain_recent_def)
  from future_stamp_replayable [OF this] demo_db_ok show ?thesis
    by (simp add: demo_api_def demo_db_state_def demo_claim_def)
qed

text \<open>
  C13: the signed text determines the request: two requests without line breaks in their fields
  that have the same signed text agree in key, time, nonce, method, path, host and content hash.
\<close>

theorem canonical_request_determines:
  assumes "canonical_request k t n m p h c = canonical_request k' t' n' m' p' h' c'"
    and "\<forall>f \<in> {k, k', n, n', m, m', p, p', h, h'}. nl \<notin> set f"
  shows "k = k' \<and> t = t' \<and> n = n' \<and> m = m' \<and> p = p' \<and> h = h' \<and> c = c'"
  using canonical_request_inject [OF assms(1)] assms(2) by simp

theorem canonical_request_determines_witness:
  "canonical_request ''k'' 1 ''n'' ''GET'' ''/'' ''h'' ''c'' \<noteq> canonical_request ''k'' 1 ''n'' ''GET'' ''/a'' ''h'' ''c''"
  using canonical_request_determines [of "''k''" 1 "''n''" "''GET''" "''/''" "''h''" "''c''"
      "''k''" 1 "''n''" "''GET''" "''/a''" "''h''" "''c''"] by auto

text \<open>
  An invite survives copying: a blob the server minted, with blanks or line breaks around it,
  is parsed by the client to the payload it was made from.
\<close>

lemma invite_roundtrip:
  assumes "from_json (to_json p) = Some p"
    and "url_decode cr (url_encode cr (to_json p)) = Some (to_json p)"
    and "printable (url_encode cr (to_json p))"
    and "set before \<subseteq> set ascii_blanks" and "set after \<subseteq> set ascii_blanks"
  shows "parse_invite cr from_json (before @ encode_invite cr to_json p @ after) = Inr p"
  using assms by (rule parse_encode_invite)

lemma invite_roundtrip_demo:
  "parse_invite demo_crypto
     (\<lambda>j. if j = ''payload'' then Some \<lparr>inv_server_url = ''http://a'', inv_server_name = ''a'',
        inv_user = ''usr_3'', inv_user_name = ''eve'', inv_project = None, inv_token = ''t'',
        inv_expires = 5000\<rparr> else None)
     ([CHR '' ''] @ encode_invite demo_crypto (\<lambda>_. ''payload'')
        \<lparr>inv_server_url = ''http://a'', inv_server_name = ''a'',
        inv_user = ''usr_3'', inv_user_name = ''eve'', inv_project = None, inv_token = ''t'',
        inv_expires = 5000\<rparr> @ [nl])
   = Inr \<lparr>inv_server_url = ''http://a'', inv_server_name = ''a'',
        inv_user = ''usr_3'', inv_user_name = ''eve'', inv_project = None, inv_token = ''t'',
        inv_expires = 5000\<rparr>"
  by (rule invite_roundtrip)
    (simp_all add: demo_crypto_def printable_def ascii_defs ascii_blanks_def)

section \<open>The state of the server\<close>

text \<open>
  C15: starting from an empty database, whatever requests arrive on the public listener and on the
  admin socket, in any order and with any statement of the database failing, the database stays
  consistent: unique identifiers, names and tokens, at most one invite per user, no user, invite or
  release without what it belongs to, no open invite for a user that already holds a key, and only
  readable release states.
\<close>

theorem server_keeps_database_consistent:
  "db_ok (as_db (snd (serve_all sv requests (fresh_state\<lparr>as_db := empty_db\<lparr>faults := fs\<rparr>\<rparr>))))"
proof -
  have "db_ok (empty_db\<lparr>faults := fs\<rparr>)"
    using empty_db_ok db_ok_same [OF same_tables_faults] by blast
  then show ?thesis
    using serve_all_ok [of sv requests "fresh_state\<lparr>as_db := empty_db\<lparr>faults := fs\<rparr>\<rparr>"]
    by (cases "serve_all sv requests (fresh_state\<lparr>as_db := empty_db\<lparr>faults := fs\<rparr>\<rparr>)") simp
qed

text \<open>
  C16: only authorised callers change the database.  If a request on a protected route of the public
  listener changes any table, then it is authorised by a user's key, and that user is a server
  admin, or is scoped to the very project whose release it uploads and changes nothing but releases.
\<close>

theorem changes_are_authorised:
  assumes "is_protected rt"
    and "\<not> same_tables (as_db st) (as_db (snd (serve_signed sv out rq rt st)))"
  shows "\<exists>h u. authorised (pf_crypto (sv_platform sv)) (clock_auth out) rq st h u \<and>
    (usr_project_id u = None \<or>
     (\<exists>pid. rt = R_create_release pid \<and> usr_project_id u = Some pid \<and>
        tables_but_releases (as_db (snd (serve_signed sv out rq rt st)))
          = tables_but_releases (as_db st)))"
  using serve_signed_changes [OF prod.collapse [symmetric] assms] .

lemma demo_fields [simp]:
  "pf_crypto (sv_platform demo_server) = demo_crypto"
  "clock_auth demo_outside = 1000"
  "as_db demo_api = demo_db_state"
  "faults demo_db_state = []"
  "sha256_hex demo_crypto b = ''h'' @ show_nat (length b)"
  by (simp_all add: demo_server_def demo_outside_def demo_api_def demo_db_state_def demo_crypto_def)

lemma ada_removes_bob:
  "\<not> same_tables (as_db demo_api) (as_db (snd (serve_signed demo_server demo_outside
      (demo_request ''usr_1'' ada_key ''900'' ''h0'' []) (R_remove_user ''bob'') demo_api)))"
proof -
  have low: "to_ascii_lowercase ''h0'' = ''h0''" by code_simp
  have n0: "show_nat 0 = ''0''" by code_simp
  have "checked_request demo_crypto 1000 (demo_request ''usr_1'' ada_key ''900'' ''h0'' []) demo_api
      = (Inr (auth_user_of_row ada, ''h0''),
         demo_api\<lparr>as_nonces := (retain_recent 1000 (as_nonces demo_api))(''n1'' \<mapsto> 1000)\<rparr>)"
    using checked_request_accepts [OF ada_authorised [of "''h0''" "[]"]] demo_db_ok low
    by (simp add: demo_claim_def)
  moreover have "remove_user ''bob'' demo_db_state =
      (Inr True, drop_user ''usr_2'' (drop_invites ''usr_2'' demo_db_state))"
    by (simp add: remove_user_def user_id_by_name_def query_def delete_invites_of_def
        delete_user_def execute_def statement_def dbind_def dreturn_def demo_db_state_def
        ada_def bob_def eve_def eve_invite_def drop_user_def drop_invites_def)
  ultimately show ?thesis
    by (simp add: serve_signed_def verify_signature_def run_checked_def verify_body_hash_def
        demo_request_def demo_server_def n0 run_protected_def on_db_def remove_user_handler_def
        auth_user_of_row_def ada_def demo_crypto_def)
      (simp add: same_tables_iff drop_user_def drop_invites_def demo_db_state_def ada_def bob_def eve_def)
qed

theorem changes_are_authorised_witness:
  "\<exists>h u. authorised demo_crypto 1000 (demo_request ''usr_1'' ada_key ''900'' ''h0'' []) demo_api h u \<and>
     usr_project_id u = None"
  using changes_are_authorised [OF _ ada_removes_bob] by simp

text \<open>
  Without an authorised signature a protected route answers 401 and has no effect on the
  tables or the stored archives.
\<close>

lemma unauthorised_has_no_effect:
  assumes "is_protected rt"
    and "\<nexists>h u. authorised (pf_crypto (sv_platform sv)) (clock_auth out) rq st h u"
  shows "rsp_status (fst (serve_signed sv out rq rt st)) = 401 \<and>
    same_tables (as_db st) (as_db (snd (serve_signed sv out rq rt st))) \<and>
    as_files (snd (serve_signed sv out rq rt st)) = as_files st"
proof -
  obtain r st' where s: "serve_signed sv out rq rt st = (r, st')" by fastforce
  from s assms(1) show ?thesis
    by (cases rule: serve_signed_cases) (use s assms(2) in auto)
qed

lemma unauthorised_has_no_effect_demo:
  "rsp_status (fst (serve_signed demo_server demo_outside
     (demo_request ''usr_9'' ada_key ''900'' ''h0'' []) (R_remove_user ''bob'') demo_api)) = 401"
proof -
  have "\<not> authorised demo_crypto 1000 (demo_request ''usr_9'' ada_key ''900'' ''h0'' []) demo_api h u" for h u
  proof
    assume a: "authorised demo_crypto 1000 (demo_request ''usr_9'' ada_key ''900'' ''h0'' []) demo_api h u"
    then have "sh_key_id h = ''usr_9''"
      by (simp add: authorised_def claims_def demo_request_def header_defs)
    with a have "u \<in> {ada, bob, eve}" "usr_id u = ''usr_9''"
      by (simp_all add: authorised_def demo_db_state_def)
    then show False by (auto simp: ada_def bob_def eve_def)
  qed
  with unauthorised_has_no_effect [of "R_remove_user ''bob''" demo_server demo_outside
      "demo_request ''usr_9'' ada_key ''900'' ''h0'' []" demo_api]
  show ?thesis by simp
qed

text \<open>
  C18: what a buffered route acts on was signed.  If such a request changes a table, then its body
  could be collected within the limit and its digest is the content hash the caller signed.
\<close>

theorem buffered_body_signed:
  assumes "is_buffered rt"
    and "\<not> same_tables (as_db st) (as_db (snd (serve_signed sv out rq rt st)))"
  shows "\<exists>h bytes. claims rq h \<and>
    pf_to_bytes (sv_platform sv) MAX_BODY_BYTES (rq_body rq) = Some bytes \<and>
    sha256_hex (pf_crypto (sv_platform sv)) bytes = to_ascii_lowercase (sh_content_sha256 h)"
proof -
  obtain r st' where s: "serve_signed sv out rq rt st = (r, st')" by fastforce
  have "is_protected rt" using assms(1) by (cases rt) auto
  with s show ?thesis
  proof (cases rule: serve_signed_cases)
    case (ran h u st1)
    have "st' \<noteq> st1" using ran(2) assms(2) s by auto
    with run_checked_body [OF ran(4) assms(1)] ran(1) show ?thesis by (auto simp: authorised_def)
  qed (use s assms(2) in auto)
qed

theorem buffered_body_signed_witness:
  "\<exists>h bytes. claims (demo_request ''usr_1'' ada_key ''900'' ''h0'' []) h \<and>
     ''h'' @ show_nat (length (bytes :: string)) = to_ascii_lowercase (sh_content_sha256 h)"
  using buffered_body_signed [OF _ ada_removes_bob] by auto

abbreviation redeem_demo :: "http_request" where
  "redeem_demo \<equiv> demo_request ''usr_3'' bob_key ''900'' ''h0'' [Data ''tok'']"

lemma redeem_invite_demo:
  "redeem_invite ''h3'' bob_key 1000 demo_db_state =
     (Inr (Some ''usr_3''), put_key ''usr_3'' bob_key (mark_redeemed ''h3'' 1000 demo_db_state))"
proof -
  have "as_i64 1000 < as_i64 5000" by (simp add: i64_less_small)
  then show ?thesis
    by (simp add: redeem_invite_def consume_invite_def invite_user_def bind_key_def execute_def
        query_def statement_def dbind_def dreturn_def demo_db_state_def eve_invite_def
        redeemable_def mark_redeemed_def put_key_def)
qed

lemma redeem_handler_demo:
  "redeem_invite_handler demo_crypto 1000 ''tok'' bob_key demo_db_state =
     (ok_json (Json_key ''usr_3''), put_key ''usr_3'' bob_key (mark_redeemed ''h3'' 1000 demo_db_state))"
proof -
  have "token_hash demo_crypto ''tok'' = ''h3''"
    by (simp add: token_hash_def) code_simp
  moreover have "parse_public_key demo_crypto bob_key = Some bob_key"
    by (simp add: parse_public_key_def demo_crypto_def bob_key_def)
  ultimately show ?thesis
    using redeem_invite_demo by (simp add: redeem_invite_handler_def)
qed

lemma redeem_request_demo:
  "pf_redeem_request (sv_platform demo_server) (rq_body redeem_demo) = Inr (''tok'', bob_key)"
  by (simp add: demo_server_def demo_request_def)

lemma serve_redeem_demo:
  "serve demo_server (Public, demo_outside, redeem_demo, R_redeem_invite) demo_api =
     (ok_json (Json_key ''usr_3''),
      demo_api\<lparr>as_db := put_key ''usr_3'' bob_key (mark_redeemed ''h3'' 1000 demo_db_state)\<rparr>)"
  using redeem_handler_demo redeem_request_demo
  by (simp add: serve_signed_def on_db_def demo_outside_def)

lemma users_redeem_demo:
  "users (put_key ''usr_3'' bob_key (mark_redeemed ''h3'' 1000 demo_db_state)) =
     [ada, bob, eve\<lparr>usr_public_key := Some bob_key\<rparr>]"
  by (simp add: put_key_def demo_db_state_def ada_def bob_def eve_def)

section \<open>Permissions\<close>

text \<open>
  The four administrative handlers refuse every project-scoped caller with 403, whatever it
  asks for, and leave the database exactly as it was.
\<close>

lemma scoped_callers_cannot_administer:
  assumes "au_project_id caller \<noteq> None"
  shows "(rsp_status (fst (create_project_handler out caller prq s)) = 403 \<and>
      snd (create_project_handler out caller prq s) = s) \<and>
    (rsp_status (fst (create_user_handler pf out url caller urq s)) = 403 \<and>
      snd (create_user_handler pf out url caller urq s) = s) \<and>
    (rsp_status (fst (list_users_handler caller s)) = 403 \<and>
      snd (list_users_handler caller s) = s) \<and>
    (rsp_status (fst (remove_user_handler caller name s)) = 403 \<and>
      snd (remove_user_handler caller name s) = s)"
  using create_project_route.scoped_refused [OF assms] create_user_route.scoped_refused [OF assms]
    list_users_route.scoped_refused [OF assms] remove_user_route.scoped_refused [OF assms]
  by blast

lemma scoped_callers_demo:
  "rsp_status (fst (remove_user_handler (auth_user_of_row bob) ''ada'' demo_db_state)) = 403 \<and>
   snd (remove_user_handler (auth_user_of_row bob) ''ada'' demo_db_state) = demo_db_state"
proof -
  have "au_project_id (auth_user_of_row bob) \<noteq> None" by (simp add: auth_user_of_row_def bob_def)
  from scoped_callers_cannot_administer [OF this, of demo_outside undefined demo_db_state
      "sv_platform demo_server" "''u''" undefined "''ada''"]
  show ?thesis by blast
qed

text \<open>
  C20: no request ever replaces a key.  Whatever the request and whichever statements fail, a user
  that holds a key and is still there afterwards holds the same key; a stolen or second invite
  cannot take an identity over.
\<close>

theorem keys_are_never_replaced:
  assumes "db_ok (as_db st)" and "u \<in> set (users (as_db st))" and "usr_public_key u = Some k"
    and "u' \<in> set (users (as_db (snd (serve sv e st))))" and "usr_id u' = usr_id u"
  shows "usr_public_key u' = Some k"
  using serve_keys [OF prod.collapse [symmetric] assms(1), of sv e] assms(2-5)
  unfolding keys_kept_def by blast

theorem keys_are_never_replaced_witness:
  "usr_public_key (users (as_db (snd (serve demo_server
      (Public, demo_outside, redeem_demo, R_redeem_invite) demo_api))) ! 1) = Some bob_key"
proof (rule keys_are_never_replaced [where st = demo_api and u = bob and sv = demo_server
      and e = "(Public, demo_outside, redeem_demo, R_redeem_invite)"])
  show "db_ok (as_db demo_api)" by (simp add: demo_db_ok)
  show "bob \<in> set (users (as_db demo_api))" by (simp add: demo_db_state_def)
  show "usr_public_key bob = Some bob_key" by (simp add: bob_def)
qed (simp_all add: serve_redeem_demo users_redeem_demo del: serve.simps)

text \<open>
  C21: an invite is single-use for the life of the server.  After a redemption of a token was
  answered with success, no later redemption of it is, through any sequence of requests on both
  listeners in which the server does not draw the same token again.
\<close>

theorem invite_single_use:
  assumes "db_ok (as_db st)"
    and "pf_redeem_request (sv_platform sv) (rq_body rq1) = Inr (token, key1)"
    and "serve sv (Public, out1, rq1, R_redeem_invite) st = (r1, st1)" and "rsp_status r1 = 200"
    and "\<forall>e \<in> set es. minted_hash sv (fst (snd e)) \<noteq> token_hash (pf_crypto (sv_platform sv)) token"
    and "serve_all sv es st1 = (rs, st2)"
    and "pf_redeem_request (sv_platform sv) (rq_body rq2) = Inr (token, key2)"
  shows "rsp_status (fst (serve sv (Public, out2, rq2, R_redeem_invite) st2)) \<noteq> 200"
proof -
  let ?th = "token_hash (pf_crypto (sv_platform sv)) token"
  have "serve_signed sv out1 rq1 R_redeem_invite st = (r1, st1)" using assms(3) by simp
  then have "spent ?th (as_db st1)"
  proof (cases rule: serve_signed_redeem)
    case (answered tok k t)
    from answered(2) show ?thesis
    proof (cases rule: redeem_handler_cases)
      case (ran q)
      then show ?thesis using assms(1,2,4) answered(1,3) redeem_spends by auto
    qed (use assms(4) in simp)
  qed (use assms(2) in simp)
  then have sp: "spent ?th (as_db st2)"
    using serve_all_spent [OF assms(6)] assms(5) by (auto simp: case_prod_beta)
  obtain r2 st3 where "serve_signed sv out2 rq2 R_redeem_invite st2 = (r2, st3)" by fastforce
  then show ?thesis
  proof (cases rule: serve_signed_redeem)
    case rejected
    then show ?thesis using assms(7) by simp
  next
    case (answered tok k t)
    from answered(2) show ?thesis
    proof (cases rule: redeem_handler_cases)
      case (ran q)
      then show ?thesis
        using spent_refuses [OF _ sp] answered(1) assms(7) \<open>serve_signed sv out2 rq2 _ _ = _\<close> by auto
    qed (use \<open>serve_signed sv out2 rq2 _ _ = _\<close> in simp)
  qed
qed

theorem invite_single_use_witness:
  "rsp_status (fst (serve demo_server (Public, demo_outside, redeem_demo, R_redeem_invite)
     (snd (serve demo_server (Public, demo_outside, redeem_demo, R_redeem_invite) demo_api)))) \<noteq> 200"
proof -
  have "db_ok (as_db demo_api)" by (simp add: demo_db_ok)
  from invite_single_use [OF this redeem_request_demo serve_redeem_demo _ _ _ redeem_request_demo,
      of "[]" "[]" _ demo_outside] serve_redeem_demo
  show ?thesis by (simp del: serve.simps)
qed

text \<open>
  C22: a successful redemption binds the key it was given to the user the invite was made for, and
  only an open invite with this token, before its expiry, allows it.
\<close>

theorem redemption_binds_key:
  assumes "db_ok s" and "redeem_invite_handler cr now token key s = (ok_json (Json_key uid), t)"
  shows "(\<exists>i \<in> set (invites s). (inv_token_hash i = token_hash cr token \<and>
      inv_redeemed_at i = None \<and> as_i64 now < inv_expires_at i) \<and> inv_user_id i = uid) \<and>
    (\<exists>u \<in> set (users t). usr_id u = uid) \<and>
    (\<forall>u \<in> set (users t). usr_id u = uid \<longrightarrow> usr_public_key u = Some key)"
  using assms(2)
proof (cases rule: redeem_handler_cases)
  case (ran q)
  have "q = Inr (Some uid)" using spec [OF ran(2), of "Json_key uid"] by simp
  with ran(1) have "redeem_invite (token_hash cr token) key now s = (Inr (Some uid), t)" by simp
  from redeem_binds [OF this assms(1)] show ?thesis unfolding redeemable_def .
qed simp

theorem redemption_binds_key_witness:
  "usr_public_key (users (put_key ''usr_3'' bob_key (mark_redeemed ''h3'' 1000 demo_db_state)) ! 2)
     = Some bob_key"
  using redemption_binds_key [OF demo_db_ok redeem_handler_demo]
  by (simp add: users_redeem_demo eve_def)

section \<open>Releases\<close>

text \<open>
  C23: an upload answered with success is whole: the body arrived without a break, was not empty and
  within the limit, has the signed hash, unpacked, and is what is stored for this release; and the
  64-bit byte counter did not wrap.
\<close>

theorem upload_accepted_is_whole:
  assumes "create_release_handler pf out caller pid message hash frames st = (r, st')"
    and "rsp_status r = 200" and "frames_bounded frames"
  shows "intact frames \<and> payload frames \<noteq> [] \<and> length (payload frames) \<le> 2 * 1024 * 1024 * 1024 \<and>
    (\<forall>h. hash = Some h \<longrightarrow> sha256_hex (pf_crypto pf) (payload frames) = h) \<and>
    as_files st' (upload_dir out pid) = Some (payload frames) \<and>
    unpack out (payload frames) = Inr ()"
  using create_release_handler_accepted [OF assms] by simp

lemma upload_demo:
  "rsp_status (fst (create_release_handler (sv_platform demo_server) demo_outside
     (auth_user_of_row bob) ''prj_1'' (Some ''first'') (Some ''h3'') [Data ''ab'', Trailers, Data ''c'']
     demo_api)) = 200"
proof -
  have c: "confirm_project_access (auth_user_of_row bob) ''prj_1'' demo_db_state = (Inr (), demo_db_state)"
    by (rule confirm_project_access_run)
      (simp_all add: auth_user_of_row_def bob_def, simp add: demo_db_state_def shop_def)
  have n: "new_release_id (id_hex demo_outside) \<notin> rel_id ` set (releases demo_db_state)"
    by (simp add: demo_db_state_def)
  have n3: "show_nat 3 = ''3''" by code_simp
  have lim: "\<not> MAX_ARCHIVE_BYTES < 2" "\<not> MAX_ARCHIVE_BYTES < 3"
    by (simp_all add: MAX_ARCHIVE_BYTES_def)
  show ?thesis
    using c create_release_run [OF _ n] lim n3
    by (simp add: create_release_handler_def on_db_def Let_def receive_archive_def
        demo_outside_def check_received_def unpack_archive_def finish_release_def demo_server_def
        numeral_3_eq_3 split: prod.splits)
qed

theorem upload_accepted_is_whole_witness:
  "as_files (snd (create_release_handler (sv_platform demo_server) demo_outside
     (auth_user_of_row bob) ''prj_1'' (Some ''first'') (Some ''h3'') [Data ''ab'', Trailers, Data ''c'']
     demo_api)) (upload_dir demo_outside ''prj_1'') = Some ''abc''"
  using upload_accepted_is_whole [OF prod.collapse [symmetric] upload_demo]
  by (simp add: frames_bounded_def)

text \<open>
  C24: every upload to an existing project by a caller who may make it is tracked, as long as the
  statements on the database succeed and the new release id is not taken: whatever happens to the
  transfer, the files or the unpacking, the database ends up with a release row of this project that is
  \<^verbatim>\<open>ready\<close> when the caller was told so, and \<^verbatim>\<open>failed\<close> with the very reason the caller was given otherwise.
  (When the statement that records the outcome fails, the code only logs that.)
\<close>

theorem upload_is_tracked:
  assumes "create_release_handler pf out caller pid message hash frames st = (r, st')"
    and "faults (as_db st) = []" and "au_project_id caller \<in> {None, Some pid}"
    and "pid \<in> prow_id ` set (projects (as_db st))"
    and "new_release_id (id_hex out) \<notin> rel_id ` set (releases (as_db st))"
  shows "\<exists>row \<in> set (releases (as_db st')). rel_id row = new_release_id (id_hex out) \<and>
     rel_project_id row = pid \<and> rel_message row = nonempty_message message \<and>
     (rsp_status r = 200 \<and> rel_status row = ''ready'' \<and> rel_error row = None \<or>
      (\<exists>e. r = bad_request (''release '' @ rel_id row @ '' failed: '' @ e) \<and>
           rel_status row = ''failed'' \<and> rel_error row = Some e))"
  using assms by (rule upload_recorded)

theorem upload_is_tracked_witness:
  "\<exists>row \<in> set (releases (as_db (snd (create_release_handler (sv_platform demo_server) demo_outside
     (auth_user_of_row bob) ''prj_1'' None None [Broken ''reset''] demo_api)))).
     rel_project_id row = ''prj_1''"
proof -
  let ?run = "create_release_handler (sv_platform demo_server) demo_outside
     (auth_user_of_row bob) ''prj_1'' None None [Broken ''reset''] demo_api"
  obtain r st' where run: "?run = (r, st')" by fastforce
  have "au_project_id (auth_user_of_row bob) \<in> {None, Some ''prj_1''}"
    by (simp add: auth_user_of_row_def bob_def)
  moreover have "''prj_1'' \<in> prow_id ` set (projects (as_db demo_api))"
    by (simp add: demo_db_state_def shop_def)
  moreover have "new_release_id (id_hex demo_outside) \<notin> rel_id ` set (releases (as_db demo_api))"
    by (simp add: demo_db_state_def)
  ultimately show ?thesis
    using upload_is_tracked [OF run] run by auto
qed

text \<open>
  On a consistent database the releases of a project can always be listed by whoever may see
  them: exactly the releases of that project, newest first.
\<close>

lemma releases_are_listed:
  assumes "faults s = []" and "db_ok s" and "pid \<in> prow_id ` set (projects s)"
    and "au_project_id caller \<in> {None, Some pid}"
  shows "\<exists>xs rows. list_releases_handler caller pid s = (ok_json (Json_releases (map release_summary_of xs)), s)
    \<and> map rls_id xs = map rel_id rows \<and>
    set rows = {r \<in> set (releases s). rel_project_id r = pid} \<and>
    sorted (rev (map (\<lambda>r. (rel_created_at r, rel_id r)) rows))"
  using list_releases_handler_lists [OF assms] newest_first set_newest_first by blast

lemma releases_are_listed_demo:
  "rsp_status (fst (list_releases_handler (auth_user_of_row bob) ''prj_1'' demo_db_state)) = 200"
proof -
  have "au_project_id (auth_user_of_row bob) \<in> {None, Some ''prj_1''}"
    by (simp add: auth_user_of_row_def bob_def)
  moreover have "''prj_1'' \<in> prow_id ` set (projects demo_db_state)"
    by (simp add: demo_db_state_def shop_def)
  moreover have "faults demo_db_state = []" by simp
  ultimately obtain xs where "list_releases_handler (auth_user_of_row bob) ''prj_1'' demo_db_state
      = (ok_json (Json_releases (map release_summary_of xs)), demo_db_state)"
    using releases_are_listed [of demo_db_state "''prj_1''" "auth_user_of_row bob"] demo_db_ok
    by blast
  then show ?thesis by simp
qed

text \<open>
  C26: a project-scoped key sees its own project only: whatever the database holds and whichever
  statement fails, no project in the answer to a listing has another id, and the release routes
  answer for another project with one fixed response that does not depend on the database.
\<close>

theorem scoped_keys_see_their_project:
  assumes "au_project_id caller = Some scope" and "pid \<noteq> scope"
  shows "(\<forall>ps. rsp_body (fst (list_projects_handler caller s)) = Json_projects ps \<longrightarrow>
       (\<forall>p \<in> set ps. ps_id p = scope)) \<and>
    list_releases_handler caller pid s = (forbidden ''key is not scoped to this project'', s) \<and>
    create_release_handler pf out caller pid message hash frames st =
      (forbidden ''key is not scoped to this project'', st)"
proof (intro conjI)
  show "\<forall>ps. rsp_body (fst (list_projects_handler caller s)) = Json_projects ps \<longrightarrow>
       (\<forall>p \<in> set ps. ps_id p = scope)"
    using assms(1) by (auto simp: list_projects_handler_def response_defs project_summary_of_def
        split: prod.splits sum.splits)
qed (use assms in \<open>simp_all add: list_releases_handler_def create_release_handler_def
  confirm_project_access_def on_db_def\<close>)

theorem scoped_keys_see_their_project_witness:
  "list_releases_handler (auth_user_of_row bob) ''prj_2'' demo_db_state =
     (forbidden ''key is not scoped to this project'', demo_db_state)"
proof -
  have "au_project_id (auth_user_of_row bob) = Some ''prj_1''" and "''prj_2'' \<noteq> ''prj_1''"
    by (simp_all add: auth_user_of_row_def bob_def)
  then show ?thesis
    by (rule scoped_keys_see_their_project [THEN conjunct2, THEN conjunct1])
qed

end
