(* ===== verification/Invite_Props.thy ===== *)
theory Invite_Props
  imports Api_Props
begin

text \<open>
  The life of an invite on the server, from the user who was added to the key that is bound: what was
  minted is outstanding until it is redeemed or its user is removed, and as long as it is, it can be
  redeemed.
\<close>

section \<open>Outstanding invites\<close>

text \<open>The only invite with this hash is the given row, still open, and its user exists and is as given.\<close>

definition outstanding :: "invite_row \<Rightarrow> string \<Rightarrow> string option \<Rightarrow> db \<Rightarrow> bool" where
  "outstanding row name project s \<longleftrightarrow>
     inv_redeemed_at row = None \<and>
     row \<in> set (invites s) \<and> (\<forall>i \<in> set (invites s). inv_token_hash i = inv_token_hash row \<longrightarrow> i = row) \<and>
     inv_user_id row \<in> usr_id ` set (users s) \<and>
     (\<forall>u \<in> set (users s). usr_id u = inv_user_id row \<longrightarrow> usr_name u = name \<and> usr_project_id u = project)"

lemma outstanding_tables:
  "\<lbrakk>outstanding row n p s; users t = users s; invites t = invites s\<rbrakk> \<Longrightarrow> outstanding row n p t"
  by (simp add: outstanding_def)

lemma outstanding_same: "\<lbrakk>same_tables s t; outstanding row n p s\<rbrakk> \<Longrightarrow> outstanding row n p t"
  by (rule outstanding_tables) (simp_all add: same_tables_iff)

lemma outstanding_add:
  assumes "outstanding row n p s" and "users t = users s @ [u]" and "usr_id u \<notin> usr_id ` set (users s)"
    and "invites t = invites s @ is" and "\<forall>i \<in> set is. inv_token_hash i \<notin> inv_token_hash ` set (invites s)"
  shows "outstanding row n p t"
proof -
  have "usr_id u \<noteq> inv_user_id row" "\<forall>i \<in> set is. inv_token_hash i \<noteq> inv_token_hash row"
    using assms(1,3,5) by (auto simp: outstanding_def)
  with assms show ?thesis by (auto simp: outstanding_def)
qed

lemma outstanding_mint:
  assumes "mint_invite pf out url n' p' s = (r, t)" and "outstanding row n p s"
  shows "outstanding row n p t"
  using assms(1)
proof (cases rule: mint_invite_cases)
  case (minted srv_name)
  then show ?thesis
    by (intro outstanding_add [OF assms(2), of t "minted_user_row out n' p'" "[minted_invite_row pf out]"])
      (simp_all add: same_tables_iff new_user_row_def)
next
  case (half e)
  then show ?thesis
    by (intro outstanding_add [OF assms(2), of t "minted_user_row out n' p'" "[]"])
      (simp_all add: same_tables_iff new_user_row_def)
qed (use assms(2) outstanding_same in auto)

lemma outstanding_remove:
  assumes "remove_user m s = (r, t)" and "m \<noteq> n" and "outstanding row n p s"
  shows "outstanding row n p t"
proof -
  have kept: "outstanding row n p (drop_invites (usr_id u) s)"
      "outstanding row n p (drop_user (usr_id u) (drop_invites (usr_id u) s))"
    if "u \<in> set (users s)" "usr_name u = m" for u
  proof -
    have "usr_id u \<noteq> inv_user_id row" using that assms(2,3) by (auto simp: outstanding_def)
    with assms(3) show "outstanding row n p (drop_invites (usr_id u) s)"
        "outstanding row n p (drop_user (usr_id u) (drop_invites (usr_id u) s))"
      by (auto simp: outstanding_def drop_invites_def drop_user_def)
  qed
  from assms(1) show ?thesis
    by (cases rule: remove_user_cases) (use kept outstanding_same assms(3) in blast)+
qed

lemma outstanding_mark:
  assumes "th \<noteq> inv_token_hash row" and "outstanding row n p s"
  shows "outstanding row n p (mark_redeemed th now s)"
proof -
  have "redeemable th now row = False" using assms(1) by (simp add: redeemable_def)
  moreover have "i = row" if "i \<in> set (invites s)" "inv_token_hash i = inv_token_hash row" for i
    using that assms(2) by (simp add: outstanding_def)
  ultimately show ?thesis
    using assms by (force simp: outstanding_def mark_redeemed_def redeemable_def)
qed

lemma outstanding_put_key [simp]: "outstanding row n p (put_key uid key s) = outstanding row n p s"
proof -
  define f :: "user_row \<Rightarrow> user_row" where "f = (\<lambda>u. if usr_id u = uid then u\<lparr>usr_public_key := Some key\<rparr> else u)"
  have f: "usr_id (f u) = usr_id u" "usr_name (f u) = usr_name u" "usr_project_id (f u) = usr_project_id u" for u
    by (simp_all add: f_def)
  have "users (put_key uid key s) = map f (users s)" by (simp add: put_key_def f_def)
  then have "(\<forall>u \<in> set (users (put_key uid key s)). usr_id u = i \<longrightarrow> usr_name u = n \<and> usr_project_id u = p) =
      (\<forall>u \<in> set (users s). usr_id u = i \<longrightarrow> usr_name u = n \<and> usr_project_id u = p)" for i
    by (simp add: f)
  moreover have "invites (put_key uid key s) = invites s" by (simp add: put_key_def)
  ultimately show ?thesis by (simp add: outstanding_def put_key_user_ids)
qed

lemma outstanding_redeem:
  assumes "redeem_invite th key now s = (r, t)" and "th \<noteq> inv_token_hash row" and "outstanding row n p s"
  shows "outstanding row n p t"
proof -
  note marked = outstanding_mark [OF assms(2,3), of now]
  from assms(1) show ?thesis
  proof (cases rule: redeem_invite_cases)
    case (half e)
    from outstanding_same [OF half(2) marked] show ?thesis .
  next
    case (redeemed i)
    from outstanding_same [OF redeemed(2)] marked show ?thesis by simp
  qed (use outstanding_same assms(3) in auto)
qed

interpretation waiting: durable sv "outstanding row n p" "\<lambda>_. True" "\<lambda>m. m \<noteq> n"
    "\<lambda>th. th \<noteq> inv_token_hash row"
  for sv :: "('k, 'addr) server" and row n p
  by unfold_locales
    (blast intro: outstanding_tables dest: outstanding_mint outstanding_remove outstanding_redeem)+

section \<open>From the mint to the redemption\<close>

lemma minted_is_outstanding:
  assumes "mint_invite pf out url name project s = (Inr (Some m), t)" and "db_ok s"
  shows "outstanding (minted_invite_row pf out) name (map_option ip_id project) t \<and>
    (\<exists>srv. m = minted_of pf out url srv name project)"
  using assms(1)
proof (cases rule: mint_invite_cases)
  case (minted srv_name)
  then show ?thesis
    by (auto simp: outstanding_def same_tables_iff minted_invite_row_def new_invite_row_def
        new_user_row_def image_iff)
qed simp_all

lemma redeem_without_faults:
  assumes "faults s = []" and "i \<in> set (invites s)" and "redeemable th now i"
  shows "\<exists>uid t. redeem_invite th key now s = (Inr (Some uid), t)"
proof -
  let ?m = "mark_redeemed th now s"
  have no: "faults ?m = []" using assms(1) by (simp add: mark_redeemed_def)
  have some: "length (filter (redeemable th now) (invites s)) \<noteq> 0" using assms(2,3) by (auto simp: filter_empty_conv)
  then have consume: "\<exists>n. consume_invite th now s = (Inr n, ?m) \<and> n \<noteq> 0"
    using assms(1) by (simp add: consume_invite_def execute_def statement_no_faults)
  have "inv_token_hash ` set (invites ?m) = inv_token_hash ` set (invites s)"
    by (metis list.set_map mark_redeemed_maps(1))
  moreover have "inv_token_hash i = th" using assms(3) by (simp add: redeemable_def)
  ultimately have "th \<in> inv_token_hash ` set (invites ?m)" using assms(2) by blast
  then have "find (\<lambda>i. inv_token_hash i = th) (invites ?m) \<noteq> None" unfolding find_None_iff by blast
  then obtain j where "find (\<lambda>i. inv_token_hash i = th) (invites ?m) = Some j" by blast
  then have "invite_user th ?m = (Inr (Some (inv_user_id j)), ?m)"
    using no by (simp add: invite_user_def query_def statement_no_faults)
  moreover have "\<exists>n t. bind_key (inv_user_id j) key ?m = (Inr n, t)"
    using no by (simp add: bind_key_def execute_def statement_no_faults)
  ultimately show ?thesis using consume by (auto simp: redeem_invite_def dbind_def dreturn_def)
qed

lemma outstanding_redeems:
  assumes "outstanding row n p s" and "faults s = []" and "as_i64 now < inv_expires_at row"
  shows "\<exists>t. redeem_invite (inv_token_hash row) key now s = (Inr (Some (inv_user_id row)), t) \<and>
    (\<exists>u \<in> set (users t). usr_id u = inv_user_id row \<and> usr_name u = n \<and> usr_project_id u = p \<and>
       usr_public_key u = Some key)"
proof -
  have "redeemable (inv_token_hash row) now row" and row: "row \<in> set (invites s)"
    using assms(1,3) by (simp_all add: outstanding_def redeemable_def)
  from redeem_without_faults [OF assms(2) row this(1)] obtain uid t where
    t: "redeem_invite (inv_token_hash row) key now s = (Inr (Some uid), t)" by blast
  from t show ?thesis
  proof (cases rule: redeem_invite_cases)
    case (redeemed i)
    then have "i = row" using assms(1) by (auto simp: outstanding_def dest: find_Some_in)
    with redeemed(1) have uid: "uid = inv_user_id row" by simp
    have users: "users t = users (put_key uid key s)"
      using redeemed(2) \<open>i = row\<close> uid by (simp add: same_tables_iff put_key_def)
    from assms(1) obtain u where "u \<in> set (users s)" "usr_id u = inv_user_id row" "usr_name u = n"
      "usr_project_id u = p" by (auto simp: outstanding_def)
    then have "u\<lparr>usr_public_key := Some key\<rparr> \<in> set (users t)" "usr_id (u\<lparr>usr_public_key := Some key\<rparr>) = uid"
      unfolding users by (auto simp: put_key_def uid image_iff)
    with t uid \<open>usr_name u = n\<close> \<open>usr_project_id u = p\<close> show ?thesis
      by (intro exI [of _ t] conjI bexI [of _ "u\<lparr>usr_public_key := Some key\<rparr>"]) simp_all
  qed simp_all
qed

lemma created_user_mint:
  assumes "create_user_handler pf out url caller rq s = (r, t)" and "rsp_body r = Json_invite resp"
    and "db_ok s"
  shows "\<exists>m project s1. mint_invite pf out url (cur_name rq) project s1 = (Inr (Some m), t) \<and> db_ok s1 \<and>
    map_option ip_id project = cur_project_id rq \<and> cus_invite_blob resp = mi_blob m"
proof -
  have mint: "\<exists>m. mint_invite pf out url n p s' = (Inr (Some m), t) \<and> cus_invite_blob resp = mi_blob m"
    if "answer_mint pf out url n p s' = (r, t)" for n p s'
    using that assms(2) by (auto simp: answer_mint_def response_defs split: prod.splits sum.splits option.splits)
  show ?thesis
  proof (cases "cur_project_id rq")
    case None
    with assms(1) have "answer_mint pf out url (cur_name rq) None s = (r, t)"
      using assms(2) by (auto simp: create_user_handler_def response_defs split: if_splits sum.splits)
    from mint [OF this] assms(3) None show ?thesis by fastforce
  next
    case (Some i)
    obtain q s1 where k: "project_by_id i s = (q, s1)" by fastforce
    have "db_ok s1" using assms(3) db_ok_same [OF reads_only(4) [OF k]] by simp
    from k show ?thesis
    proof (cases rule: project_by_id_cases)
      case (known p)
      then have "answer_mint pf out url (cur_name rq) (Some \<lparr>ip_id = prow_id p, ip_name = prow_name p\<rparr>) s1
          = (r, t)"
        using assms(1,2) k Some
        by (auto simp: create_user_handler_def project_of_row_def response_defs split: if_splits sum.splits)
      from mint [OF this] \<open>db_ok s1\<close> known Some show ?thesis by fastforce
    qed (use assms(1,2) k Some in \<open>auto simp: create_user_handler_def response_defs split: if_splits sum.splits\<close>)
  qed
qed

text \<open>
  C5: an invite that was handed out stays good: whatever the server is asked in between, on either
  listener and with any failures, as long as the user is not removed and this invite's token not
  presented, the blob that was answered, pasted with blanks around it, is read as an invite for the
  user, and redeeming it within a day, when the statements succeed, answers that user's id and binds the
  key to the user that was asked for, with the scope that was asked for.
\<close>

theorem minted_invites_stay_good:
  fixes sv :: "('k, 'addr) server"
  assumes "pf_crypto (sv_platform sv) = cr"
    and "create_user_handler (sv_platform sv) out url caller rq (as_db st) = (ok_json (Json_invite resp), as_db st1)"
    and "db_ok (as_db st)"
    and "\<forall>p. from_json (pf_invite_json (sv_platform sv) p) = Some p"
    and "\<forall>b. url_decode cr (url_encode cr b) = Some b \<and> printable (url_encode cr b)"
    and "serve_all sv es st1 = (rs, st2)"
    and "\<forall>(l, out', rq', rt) \<in> set es. rt \<noteq> R_remove_user (cur_name rq) \<and>
      (\<forall>token k. rt = R_redeem_invite \<and> pf_redeem_request (sv_platform sv) (rq_body rq') = Inr (token, k)
         \<longrightarrow> token_hash cr token \<noteq> token_hash cr (random_token cr out))"
    and "faults (as_db st2) = []"
    and "unat now < unat (clock out) + 24 * 60 * 60" and "unat (clock out) + 24 * 60 * 60 < 2 ^ 63"
    and "parse_public_key cr key \<noteq> None"
    and "set before \<subseteq> set ascii_blanks" and "set after \<subseteq> set ascii_blanks"
  shows "\<exists>invite t. parse_invite cr from_json (before @ cus_invite_blob resp @ after) = Inr invite \<and>
    redeem_invite_handler cr now (inv_token invite) key (as_db st2) = (ok_json (Json_key (inv_user invite)), t) \<and>
    (\<exists>u \<in> set (users t). usr_id u = inv_user invite \<and> usr_name u = cur_name rq \<and>
       usr_project_id u = cur_project_id rq \<and> usr_public_key u = Some key)"
proof -
  note cr_def = assms(1) [symmetric]
  let ?row = "minted_invite_row (sv_platform sv) out"
  from created_user_mint [OF assms(2) _ assms(3), of resp] obtain m project s1 where
    minted: "mint_invite (sv_platform sv) out url (cur_name rq) project s1 = (Inr (Some m), as_db st1)" "db_ok s1"
    and scope: "map_option ip_id project = cur_project_id rq" and blob: "cus_invite_blob resp = mi_blob m" by (auto simp: ok_json_def)
  from minted_is_outstanding [OF minted] obtain srv where
    out1: "outstanding ?row (cur_name rq) (cur_project_id rq) (as_db st1)"
    and m: "m = minted_of (sv_platform sv) out url srv (cur_name rq) project" by (auto simp: scope)
  have row: "inv_token_hash ?row = token_hash cr (random_token cr out)"
      "inv_user_id ?row = new_user_id (id_hex out)" "inv_expires_at ?row = as_i64 (clock out + INVITE_TTL_SECONDS)"
    by (simp_all add: minted_invite_row_def new_invite_row_def cr_def)
  have "outstanding ?row (cur_name rq) (cur_project_id rq) (as_db st2)"
  proof (rule waiting.serve_all_keeps [OF assms(6) out1], intro ballI)
    fix e
    assume "e \<in> set es"
    with assms(7) show "lets_through sv (\<lambda>_. True) (\<lambda>m. m \<noteq> cur_name rq) (\<lambda>th. th \<noteq> inv_token_hash ?row) e"
      unfolding lets_through_def row by (fastforce simp: cr_def)
  qed
  moreover have "as_i64 now < inv_expires_at ?row"
  proof -
    have "unat (clock out + INVITE_TTL_SECONDS) = unat (clock out) + 24 * 60 * 60"
      using assms(10) by (simp add: INVITE_TTL_SECONDS_def unat_word_ariths)
    with assms(9,10) show ?thesis unfolding row by (subst i64_less_small) simp_all
  qed
  ultimately obtain t where t: "redeem_invite (inv_token_hash ?row) key now (as_db st2) =
      (Inr (Some (inv_user_id ?row)), t)"
    and bound: "\<exists>u \<in> set (users t). usr_id u = inv_user_id ?row \<and> usr_name u = cur_name rq \<and>
      usr_project_id u = cur_project_id rq \<and> usr_public_key u = Some key"
    using outstanding_redeems assms(8) by blast
  obtain invite where invite: "parse_invite cr from_json (before @ cus_invite_blob resp @ after) = Inr invite"
      "inv_token invite = random_token cr out" "inv_user invite = new_user_id (id_hex out)"
    using parse_encode_invite [of from_json "pf_invite_json (sv_platform sv)" _ cr] assms(4,5,12,13)
    by (auto simp: blob m minted_of_def cr_def)
  have "redeem_invite_handler cr now (inv_token invite) key (as_db st2) = (ok_json (Json_key (inv_user invite)), t)"
    using t assms(11) by (auto simp: redeem_invite_handler_def invite row)
  with invite bound show ?thesis unfolding row by metis
qed

section \<open>An instance\<close>

text \<open>Texts in front of a text, to stand for JSON.\<close>

fun mark :: "string \<Rightarrow> string" where
  "mark [] = ''.''"
| "mark (c # s) = CHR ''x'' # c # mark s"

fun unmark :: "string \<Rightarrow> string \<times> string" where
  "unmark [] = ([], [])"
| "unmark [d] = ([], [])"
| "unmark (d # c # s) = (if d = CHR ''x'' then (case unmark s of (a, b) \<Rightarrow> (c # a, b)) else ([], c # s))"

lemma unmark_mark [simp]: "unmark (mark a @ b) = (a, b)"
  by (induction a) (cases b; simp)+

lemma unmark_end [simp]: "unmark (CHR ''.'' # b) = ([], b)"
  by (cases b) simp_all

text \<open>An encoding of any bytes as printable text.\<close>

definition tally :: "string \<Rightarrow> string" where
  "tally b = concat (map (\<lambda>c. replicate (of_char c) (CHR ''x'') @ ''.'') b)"

fun untally :: "nat \<Rightarrow> string \<Rightarrow> string" where
  "untally n [] = []"
| "untally n (c # s) = (if c = CHR ''x'' then untally (Suc n) s else char_of n # untally 0 s)"

lemma untally_one: "untally n (replicate m (CHR ''x'') @ CHR ''.'' # s) = char_of (n + m) # untally 0 s"
  by (induction m arbitrary: n) simp_all

lemma untally_tally: "untally 0 (tally b) = b"
proof (induction b)
  case (Cons c b)
  then show ?case using untally_one [of 0 "of_char c" "tally b"] by (simp add: tally_def)
qed (simp add: tally_def)

lemma printable_tally: "printable (tally b)"
  by (induction b) (auto simp: tally_def printable_def list_all_iff ascii_defs)

definition tally_crypto :: "string crypto" where
  "tally_crypto = demo_crypto\<lparr>url_encode := tally, url_decode := \<lambda>s. Some (untally 0 s),
     sha256_hex := \<lambda>b. ''s'' @ b\<rparr>"

definition payload_text :: "invite_payload \<Rightarrow> string" where
  "payload_text p = mark (inv_server_url p) @ mark (inv_server_name p) @ mark (inv_user p) @
     mark (inv_user_name p) @ mark (inv_token p) @
     (case inv_project p of None \<Rightarrow> ''n'' | Some q \<Rightarrow> ''s'' @ mark (ip_id q) @ mark (ip_name q)) @
     show_u64 (inv_expires p)"

definition text_payload :: "string \<Rightarrow> invite_payload option" where
  "text_payload s = (case unmark s of (url, s1) \<Rightarrow> case unmark s1 of (sname, s2) \<Rightarrow>
     case unmark s2 of (user, s3) \<Rightarrow> case unmark s3 of (uname, s4) \<Rightarrow> case unmark s4 of (token, s5) \<Rightarrow>
     (case (if hd s5 = CHR ''n'' then (None, tl s5)
            else case unmark (tl s5) of (i, s6) \<Rightarrow> case unmark s6 of (n, s7) \<Rightarrow>
              (Some \<lparr>ip_id = i, ip_name = n\<rparr>, s7)) of (project, s8) \<Rightarrow>
        map_option (\<lambda>e. \<lparr>inv_server_url = url, inv_server_name = sname, inv_user = user,
          inv_user_name = uname, inv_project = project, inv_token = token, inv_expires = e\<rparr>) (parse_u64 s8)))"

lemma text_payload_text: "text_payload (payload_text p) = Some p"
  by (cases p) (auto simp: text_payload_def payload_text_def parse_show_u64 split: option.split)

definition tally_server :: "(string, string) server" where
  "tally_server = demo_server\<lparr>sv_platform := (sv_platform demo_server)
     \<lparr>pf_crypto := tally_crypto, pf_invite_json := payload_text\<rparr>\<rparr>"

definition zed_request :: create_user_request where
  "zed_request = \<lparr>cur_name = ''zed'', cur_project_id = None\<rparr>"

lemma zed_created:
  "\<exists>resp t. create_user_handler (sv_platform tally_server) demo_outside ''http://box''
     (auth_user_of_row ada) zed_request demo_db_state = (ok_json (Json_invite resp), t) \<and> faults t = []"
proof -
  have "server_name demo_outside = Inr ''box''"
  proof -
    have "trim ''box'' = ''box''" by code_simp
    then show ?thesis by (simp add: server_name_def demo_outside_def)
  qed
  moreover have "is_valid_user_name ''zed''" by code_simp
  moreover have "token_hash tally_crypto x \<noteq> ''h3''" for x by (simp add: token_hash_def tally_crypto_def)
  ultimately show ?thesis
    by (simp add: create_user_handler_def zed_request_def auth_user_of_row_def ada_def validated_name_def
        answer_mint_def mint_invite_def Let_def create_user_def user_id_by_name_def query_def statement_def
        demo_db_state_def dbind_def bob_def eve_def insert_user_def execute_def insert_user_row_def
        insert_unique_def new_user_id_def demo_outside_def dreturn_def create_invite_def insert_invite_def
        insert_invite_row_def eve_invite_def tally_server_def)
qed

theorem minted_invites_stay_good_witness:
  "\<exists>resp st1 invite t. create_user_handler (sv_platform tally_server) demo_outside ''http://box''
      (auth_user_of_row ada) zed_request (as_db demo_api) = (ok_json (Json_invite resp), as_db st1) \<and>
    parse_invite tally_crypto text_payload ('' '' @ cus_invite_blob resp @ [nl]) = Inr invite \<and>
    redeem_invite_handler tally_crypto 2000 (inv_token invite) bob_key
      (as_db (snd (serve_all tally_server [(Public, demo_outside, redeem_demo, R_healthz)] st1)))
      = (ok_json (Json_key (inv_user invite)), t)"
proof -
  obtain resp t where made: "create_user_handler (sv_platform tally_server) demo_outside ''http://box''
     (auth_user_of_row ada) zed_request demo_db_state = (ok_json (Json_invite resp), t)" "faults t = []"
    using zed_created by blast
  define st1 where "st1 = demo_api\<lparr>as_db := t\<rparr>"
  have made1: "create_user_handler (sv_platform tally_server) demo_outside ''http://box''
     (auth_user_of_row ada) zed_request (as_db demo_api) = (ok_json (Json_invite resp), as_db st1)"
    using made(1) by (simp add: st1_def demo_api_def)
  have cr: "pf_crypto (sv_platform tally_server) = tally_crypto"
      "pf_invite_json (sv_platform tally_server) = payload_text"
    by (simp_all add: tally_server_def)
  have served: "serve_all tally_server [(Public, demo_outside, redeem_demo, R_healthz)] st1 = ([healthz], st1)"
    by (simp add: serve_signed_def)
  obtain invite t' where "parse_invite tally_crypto text_payload ('' '' @ cus_invite_blob resp @ [nl]) = Inr invite"
    "redeem_invite_handler tally_crypto 2000 (inv_token invite) bob_key (as_db st1) =
      (ok_json (Json_key (inv_user invite)), t')"
  proof -
    have "\<exists>invite t. parse_invite tally_crypto text_payload ('' '' @ cus_invite_blob resp @ [nl]) = Inr invite \<and>
      redeem_invite_handler tally_crypto 2000 (inv_token invite) bob_key (as_db st1) =
        (ok_json (Json_key (inv_user invite)), t) \<and>
      (\<exists>u \<in> set (users t). usr_id u = inv_user invite \<and> usr_name u = cur_name zed_request \<and>
         usr_project_id u = cur_project_id zed_request \<and> usr_public_key u = Some bob_key)"
    proof (rule minted_invites_stay_good [OF cr(1) made1 _ _ _ served])
      show "db_ok (as_db demo_api)" by (simp add: demo_api_def demo_db_ok)
      show "\<forall>p. text_payload (pf_invite_json (sv_platform tally_server) p) = Some p"
        by (simp add: cr text_payload_text)
      show "\<forall>b. url_decode tally_crypto (url_encode tally_crypto b) = Some b \<and>
          printable (url_encode tally_crypto b)"
        by (simp add: tally_crypto_def untally_tally printable_tally)
      show "faults (as_db st1) = []" using made(2) by (simp add: st1_def)
      show "parse_public_key tally_crypto bob_key \<noteq> None"
        by (simp add: parse_public_key_def tally_crypto_def demo_crypto_def bob_key_def)
    qed (simp_all add: demo_outside_def ascii_blanks_def)
    then show thesis using that by blast
  qed
  moreover have "snd (serve_all tally_server [(Public, demo_outside, redeem_demo, R_healthz)] st1) = st1"
    by (simp only: served snd_conv)
  ultimately show ?thesis using made1 by (intro exI [of _ resp] exI [of _ st1] exI [of _ invite] exI [of _ t'])
      (simp only: simp_thms)
qed

end
