(* ===== verification/Enrolment.thy ===== *)
theory Enrolment
  imports Client_Props Invite_Props
begin

text \<open>
  The client and the server put together: the network of the client is the state of the server, every
  request that arrives is answered by the route axum picks for it, and what a successful login leaves
  on both sides is related.
\<close>

section \<open>The connection\<close>

text \<open>\<open>enc\<close> is the text of a response body, \<open>router\<close> the route axum picks.\<close>

definition wire :: "(body \<Rightarrow> string) \<Rightarrow> response \<Rightarrow> reply" where
  "wire enc r = \<lparr>rp_status = rsp_status r, rp_body = Inr (enc (rsp_body r))\<rparr>"

text \<open>
  A request is answered by the server, after it was served; or it is lost before or after that, and the
  sender has an error; or no route takes it and the state of the server stays.
\<close>

definition answered ::
    "(http_request \<Rightarrow> route option) \<Rightarrow> ('k, 'addr) server \<Rightarrow> (body \<Rightarrow> string) \<Rightarrow> http_request
      \<Rightarrow> api_state \<Rightarrow> (cerr + reply) \<times> api_state \<Rightarrow> bool" where
  "answered router sv enc rq st res \<longleftrightarrow>
     (case router rq of
        None \<Rightarrow> snd res = st
      | Some rt \<Rightarrow> \<exists>out. (snd res = st \<or> snd res = snd (serve_signed sv out rq rt st)) \<and>
          (\<forall>rp. fst res = Inr rp \<longrightarrow> rp = wire enc (fst (serve_signed sv out rq rt st)) \<and>
             snd res = snd (serve_signed sv out rq rt st)))"

definition talks_to ::
    "(http_request \<Rightarrow> route option) \<Rightarrow> (api_state, 'u, 'k, 'sk) tools \<Rightarrow> ('k, 'addr) server
      \<Rightarrow> (body \<Rightarrow> string) \<Rightarrow> bool" where
  "talks_to router t sv enc \<longleftrightarrow>
     (\<forall>url rq st. answered router sv enc rq st (t_send t url rq st)) \<and>
     (\<forall>rq. rq_method rq = ''POST'' \<and> rq_path_and_query rq = Some REDEEM_INVITE_PATH
        \<longrightarrow> router rq = Some R_redeem_invite)"

text \<open>
  What the two ends rely on in serde and the \<^verbatim>\<open>url\<close> crate: the JSON of a redemption and of its answer is
  read back, and a URL with the segments of the path has that path.
\<close>

definition same_format ::
    "('n, 'u, 'k, 'sk) tools \<Rightarrow> ('k, 'addr) server \<Rightarrow> (body \<Rightarrow> string) \<Rightarrow> bool" where
  "same_format t sv enc \<longleftrightarrow>
     (\<forall>token key. t_json_redeem t token key \<noteq> [] \<and>
        pf_redeem_request (sv_platform sv) [Data (t_json_redeem t token key)] = Inr (token, key)) \<and>
     (\<forall>key_id. t_parse_redeemed t (enc (Json_key key_id)) = Inr key_id) \<and>
     (\<forall>base url. control_plane_api_url t base REDEEM_INVITE_PATH = Inr url
        \<longrightarrow> t_url_tail t url = REDEEM_INVITE_PATH)"

text \<open>What is written to the client's files can be read back.\<close>

definition reads_back :: "('n, 'u, 'k, 'sk) tools \<Rightarrow> bool" where
  "reads_back t \<longleftrightarrow>
     (\<forall>server. t_parse_server t (t_json_server t server) = Inr server) \<and>
     (\<forall>stored. t_parse_key t (t_json_key t stored) = Inr stored) \<and>
     (\<forall>bs. \<exists>bs'. t_parse_bindings t (t_json_bindings t bs) = Inr bs' \<and> map_of bs' = map_of bs) \<and>
     (\<forall>b. std_decode (t_crypto t) (std_encode (t_crypto t) b) = Some b) \<and>
     (\<forall>sk. length (t_key_bytes t sk) = 32 \<and> t_key_of_bytes t (t_key_bytes t sk) = sk)"

section \<open>The server's tables under the client's requests\<close>

definition net_kept :: "('n \<Rightarrow> bool) \<Rightarrow> 'n client \<Rightarrow> 'n client \<Rightarrow> bool" where
  "net_kept P c c' \<longleftrightarrow> (P (cl_net c) \<longrightarrow> P (cl_net c'))"

interpretation net: client_preorder "net_kept P" for P :: "'n \<Rightarrow> bool"
  by unfold_locales (auto simp: net_kept_def)

definition sends_keep :: "('n, 'u, 'k, 'sk) tools \<Rightarrow> ('n \<Rightarrow> bool) \<Rightarrow> bool" where
  "sends_keep t P \<longleftrightarrow> (\<forall>url rq st. P st \<longrightarrow> P (snd (t_send t url rq st)))"

named_theorems networked \<open>commands that keep what sending keeps\<close>

lemma local_net [networked]:
  "obeys (net_kept P) (println l)"
  "obeys (net_kept P) (eprintln l)"
  "obeys (net_kept P) (draw g)"
  "obeys (net_kept P) (unix_timestamp t)"
  "obeys (net_kept P) (read_to_string p)"
  "obeys (net_kept P) (read_dir d)"
  by (auto simp: obeys_def net_kept_def println_def eprintln_def draw_def unix_timestamp_def
      read_to_string_def read_dir_def fs_op_def split: list.split option.split)

lemma send_net [networked]: "sends_keep t P \<Longrightarrow> obeys (net_kept P) (send t u rq)"
  by (auto simp: obeys_def net_kept_def sends_keep_def send_def split: prod.split) (metis snd_conv)

lemma reading_net [networked]:
  "obeys (net_kept P) (read_server t n)"
  "obeys (net_kept P) (read_signing_key t n)"
  unfolding read_server_def read_signing_key_def
  by (auto split: option.split intro!: net.obeys_intros networked)

lemma load_servers_net [networked]: "obeys (net_kept P) (load_servers t d ns)"
  by (induction t d ns rule: load_servers.induct)
    (auto split: option.split sum.split intro!: net.obeys_intros networked)

lemma list_servers_net [networked]: "obeys (net_kept P) (list_servers t)"
  unfolding list_servers_def
  by (auto split: sum.split cerr.split intro!: net.obeys_intros networked)

lemma whoami_net [networked]:
  assumes "sends_keep t P"
  shows "obeys (net_kept P) (http_whoami t s)"
  unfolding http_whoami_def signed_request_def signed_request_with_type_def sign_request_def
    random_nonce_def json_of_def
  by (auto split: sum.split cerr.split intro!: net.obeys_intros networked assms)

lemma find_identity_net [networked]:
  "sends_keep t P \<Longrightarrow> obeys (net_kept P) (find_identity t u ok ss)"
  by (induction t u ok ss rule: find_identity.induct)
    (auto split: sum.split whoami_outcome.split intro!: net.obeys_intros networked)

lemma checks_net [networked]:
  assumes "sends_keep t P"
  shows "obeys (net_kept P) (existing_access t url i)"
    and "obeys (net_kept P) (existing_different_user_with_same_scope t invite)"
    and "obeys (net_kept P) (name_taken t name invite)"
    and "obeys (net_kept P) (generate_signing_key t)"
  unfolding existing_access_def existing_different_user_with_same_scope_def name_taken_def
    generate_signing_key_def
  by (auto split: sum.split intro!: net.obeys_intros networked assms)

lemma talks_keep_ok:
  assumes "talks_to router t sv enc"
  shows "sends_keep t (\<lambda>st :: api_state. db_ok (as_db st))"
  unfolding sends_keep_def
proof (intro allI impI)
  fix url rq and st :: api_state
  assume ok: "db_ok (as_db st)"
  obtain res st' where res: "t_send t url rq st = (res, st')" by fastforce
  with assms have "answered router sv enc rq st (res, st')" unfolding talks_to_def by metis
  then consider "st' = st" | out rt where "st' = snd (serve_signed sv out rq rt st)"
    by (auto simp: answered_def split: option.splits)
  then show "db_ok (as_db (snd (t_send t url rq st)))"
    using ok res serve_signed_ok [OF prod.collapse [symmetric]] by cases simp_all
qed

section \<open>A redemption that was answered with a key\<close>

lemma redeem_handler_key:
  assumes "redeem_invite_handler cr now token key s = (r, t)" and "is_success (rsp_status r)"
  shows "\<exists>uid. r = ok_json (Json_key uid) \<and> redeem_invite (token_hash cr token) key now s = (Inr (Some uid), t)"
  using assms by (auto simp: redeem_invite_handler_def is_success_def split: if_splits prod.splits sum.splits option.splits)

lemma redeemed_on_the_server:
  assumes talks: "talks_to router t sv enc" and format: "same_format t sv enc"
    and ok: "db_ok (as_db (cl_net c))"
    and redeemed: "http_redeem_invite t invite key c = (Inr uid, c')"
  shows "(\<exists>u \<in> set (users (as_db (cl_net c'))). usr_id u = uid \<and> usr_public_key u = Some key)"
proof -
  from redeemed obtain base url rp where url: "control_plane_api_url t base REDEEM_INVITE_PATH = Inr url"
    and sent: "send t url (http_request_of ''POST'' (t_url_tail t url)
        [(''content-type'', ''application/json'')] (t_json_redeem t (inv_token invite) key)) c = (Inr rp, c')"
    and success: "is_success (rp_status rp)"
    and parsed: "\<exists>text. rp_body rp = Inr text \<and> t_parse_redeemed t text = Inr uid"
    unfolding http_redeem_invite_def checked_json_def json_of_def
    by (elim cbind_cases) (auto split: if_splits sum.splits)
  define rq where "rq = http_request_of ''POST'' (t_url_tail t url)
        [(''content-type'', ''application/json'')] (t_json_redeem t (inv_token invite) key)"
  have rq: "rq_method rq = ''POST''" "rq_path_and_query rq = Some REDEEM_INVITE_PATH"
      "rq_body rq = [Data (t_json_redeem t (inv_token invite) key)]"
    using format url by (simp_all add: rq_def http_request_of_def same_format_def)
  from sent have "t_send t url rq (cl_net c) = (Inr rp, cl_net c')"
    by (auto simp: send_def rq_def split: prod.splits)
  with talks have "answered router sv enc rq (cl_net c) (Inr rp, cl_net c')"
    unfolding talks_to_def by metis
  moreover have "router rq = Some R_redeem_invite" using talks rq by (simp add: talks_to_def)
  ultimately obtain out where out: "rp = wire enc (fst (serve_signed sv out rq R_redeem_invite (cl_net c)))"
    "cl_net c' = snd (serve_signed sv out rq R_redeem_invite (cl_net c))"
    by (auto simp: answered_def)
  then obtain r where served: "serve_signed sv out rq R_redeem_invite (cl_net c) = (r, cl_net c')"
    and rp: "rp = wire enc r" by (metis prod.collapse)
  from served show ?thesis
  proof (cases rule: serve_signed_redeem)
    case rejected
    with format rq(3) show ?thesis by (simp add: same_format_def)
  next
    case (answered token k d)
    with format rq(3) have k: "k = key" by (simp add: same_format_def)
    obtain uid' where r: "r = ok_json (Json_key uid')"
      and ran: "redeem_invite (token_hash (pf_crypto (sv_platform sv)) token) k (clock out) (as_db (cl_net c))
        = (Inr (Some uid'), d)"
      using redeem_handler_key [OF answered(2)] success rp by (auto simp: wire_def)
    have "uid' = uid" using parsed rp r format by (auto simp: wire_def same_format_def ok_json_def)
    with redeem_binds [OF ran ok] k answered(3) show ?thesis by auto
  qed
qed

section \<open>What is written is what is read later\<close>

definition key_in :: "('n, 'u, 'k, 'sk) tools \<Rightarrow> 'n client \<Rightarrow> string \<Rightarrow> 'sk \<Rightarrow> bool" where
  "key_in t c path sk \<longleftrightarrow>
     (\<exists>raw stored secret. map_of (cl_files c) path = Some raw \<and> t_parse_key t raw = Inr stored \<and>
        std_decode (t_crypto t) (sk_secret_base64 stored) = Some secret \<and> length secret = 32 \<and>
        t_key_of_bytes t secret = sk)"

lemma key_in_reads:
  assumes "key_in t c path sk" and "cl_io_faults c = []"
  shows "read_signing_key t path c = (Inr sk, c)"
  using assms by (auto simp: key_in_def read_signing_key_def cbind_def read_to_string_def fs_op_def
      invalid_data_def)

lemma key_in_kept: "\<lbrakk>key_in t c path sk; files_kept (\<lambda>q. q = path) c c'\<rbrakk> \<Longrightarrow> key_in t c' path sk"
  by (simp add: key_in_def files_kept_def)

lemma entry_in_kept:
  "\<lbrakk>entry_in t c name server; server_path t name = Inr path; files_kept (\<lambda>q. q = path) c c'\<rbrakk> \<Longrightarrow>
     entry_in t c' name server"
  by (auto simp: entry_in_def files_kept_def)

lemma write_signing_key_Inr:
  assumes "reads_back t" and "write_signing_key t key_id sk c = (Inr path, c')"
  shows "key_path t key_id = Inr path \<and> key_in t c' path sk"
proof -
  from assms(2) obtain p c1 c2 c3 x where p: "key_path t key_id = Inr p"
    and w: "write_file p (t_json_key t \<lparr>sk_key_id = key_id,
        sk_secret_base64 = std_encode (t_crypto t) (t_key_bytes t sk)\<rparr>) c1 = (Inr x, c2)"
    and k: "touch_fs c2 = (Inr (), c3)" and "path = p" "c' = c3"
    unfolding write_signing_key_def by (elim cbind_cases) auto
  moreover have "only_reads c2 c3" using obeysD [OF fs_reads(3) k] .
  ultimately show ?thesis
    using write_file_Inr [OF w] assms(1) by (auto simp: key_in_def reads_back_def only_reads_def)
qed

lemma write_server_Inr:
  "\<lbrakk>reads_back t; write_server t name server c = (Inr path, c')\<rbrakk> \<Longrightarrow>
     server_path t name = Inr path \<and> entry_in t c' name server"
  unfolding write_server_def
  by (elim cbind_cases) (auto dest!: write_file_Inr simp: entry_in_def reads_back_def)

lemma record_binding_Inr:
  assumes "reads_back t" and "record_project_binding t i name c = (Inr x, c')"
  shows "bound_in t c' i name"
proof -
  from assms(2) obtain bs path c1 where path: "global_config_path t = Inr path"
    and w: "write_file path (t_json_bindings t (AList.update i name bs)) c1 = (Inr x, c')"
    unfolding record_project_binding_def write_global_config_def by (elim cbind_cases) auto
  from assms(1) obtain bs' where "t_parse_bindings t (t_json_bindings t (AList.update i name bs)) = Inr bs'"
    and bs': "map_of bs' = map_of (AList.update i name bs)" unfolding reads_back_def by metis
  moreover have "map_of bs' i = Some name" unfolding bs' by (simp add: update_conv')
  ultimately show ?thesis using path write_file_Inr [OF w] by (auto simp: bound_in_def)
qed

section \<open>Entries that are listed\<close>

lemma dir_names_no_slash: "n \<in> set (dir_names d files) \<Longrightarrow> CHR ''/'' \<notin> set n"
  by (auto simp: dir_names_def List.map_filter_def split: option.splits if_splits)

lemma json_stem_name: "json_stem entry = Some name \<Longrightarrow> entry = name @ ''.json''"
  by (auto simp: json_stem_def strip_suffix_eq_Some split: option.splits if_splits)

lemma load_servers_entry:
  assumes "servers_dir t = Inr dir"
  shows "\<lbrakk>load_servers t dir entries c = (Inr ss, c'); (name, server) \<in> set ss\<rbrakk> \<Longrightarrow>
    entry_in t c name server \<and> name @ ''.json'' \<in> set entries"
proof (induction entries arbitrary: c ss c')
  case (Cons entry rest)
  show ?case
  proof (cases "json_stem entry")
    case None
    with Cons show ?thesis by auto
  next
    case (Some stem)
    with Cons.prems(1) obtain raw c1 where raw: "read_to_string (path_join dir entry) c = (Inr raw, c1)"
      and rest: "(case t_parse_server t raw of
          Inl e \<Rightarrow> cbind (eprintln (''warning: skipping unreadable server '' @ stem @ '': '' @ e))
            (\<lambda>_. load_servers t dir rest)
        | Inr server \<Rightarrow> cbind (load_servers t dir rest) (\<lambda>servers. creturn ((stem, server) # servers))) c1
        = (Inr ss, c')"
      by (auto elim: cbind_cases)
    have path: "server_path t stem = Inr (path_join dir entry)"
      using assms json_stem_name [OF Some] by (auto simp: servers_dir_def server_path_def rbind_eq_Inr)
    have "\<exists>c2 ss'. only_reads c c2 \<and> load_servers t dir rest c2 = (Inr ss', c') \<and>
        ((name, server) \<in> set ss' \<or> name = stem \<and> t_parse_server t raw = Inr server)"
    proof (cases "t_parse_server t raw")
      case (Inl e)
      with rest Cons.prems(2) obtain c2 where "eprintln (''warning: skipping unreadable server '' @ stem @ '': '' @ e) c1
          = (Inr (), c2)" "load_servers t dir rest c2 = (Inr ss, c')" by (auto elim: cbind_cases)
      with Cons.prems(2) obeysD [OF basic_reads(2)] obeysD [OF fs_reads(1) raw] reads.chain show ?thesis by blast
    next
      case (Inr sv)
      with rest obtain ss' c2 where "load_servers t dir rest c1 = (Inr ss', c2)" "c2 = c'"
        "ss = (stem, sv) # ss'" by (auto elim!: cbind_cases)
      with Inr Cons.prems(2) obeysD [OF fs_reads(1) raw] show ?thesis by auto
    qed
    then obtain c2 ss' where c2: "only_reads c c2" "load_servers t dir rest c2 = (Inr ss', c')"
      and or: "(name, server) \<in> set ss' \<or> name = stem \<and> t_parse_server t raw = Inr server" by blast
    from or show ?thesis
    proof
      assume "(name, server) \<in> set ss'"
      with Cons.IH [OF c2(2)] entry_in_reads [OF c2(1)] show ?thesis by auto
    next
      assume "name = stem \<and> t_parse_server t raw = Inr server"
      with path read_to_string_Inr [OF raw] json_stem_name [OF Some] show ?thesis
        by (auto simp: entry_in_def)
    qed
  qed
qed simp

lemma list_servers_entry:
  assumes "list_servers t c = (Inr ss, c')" and "(name, server) \<in> set ss"
  shows "entry_in t c name server \<and> CHR ''/'' \<notin> set name"
proof -
  from assms(1) obtain dir r c1 where dir: "servers_dir t = Inr dir"
    and read: "attempt (read_dir dir) c = (Inr r, c1)"
    and rest: "(case r of Inl Absent_file \<Rightarrow> creturn [] | Inl e \<Rightarrow> cfail e
        | Inr names \<Rightarrow> cbind (load_servers t dir names) (\<lambda>servers. creturn (sort_key fst servers))) c1
        = (Inr ss, c')"
    unfolding list_servers_def by (elim cbind_cases) auto
  from read have r: "read_dir dir c = (r, c1)" by (auto dest: attempt_eq)
  from rest assms(2) obtain names ss' c2 where names: "r = Inr names"
    and loaded: "load_servers t dir names c1 = (Inr ss', c2)" and "ss = sort_key fst ss'"
    by (auto split: sum.splits cerr.splits elim!: cbind_cases)
  with assms(2) load_servers_entry [OF dir loaded] have
    e: "entry_in t c1 name server" "name @ ''.json'' \<in> set names" by auto
  have "names = dir_names dir (cl_files c)"
    using r names by (auto simp: read_dir_def fs_op_def split: list.splits option.splits)
  with e(2) dir_names_no_slash have "CHR ''/'' \<notin> set name" by fastforce
  moreover have "only_reads c c1" using obeysD [OF fs_reads(2) r] .
  ultimately show ?thesis using e(1) entry_in_reads by blast
qed

text \<open>A state that reading, and requests that keep a condition on the network, lead to.\<close>

definition reached :: "('n \<Rightarrow> bool) \<Rightarrow> 'n client \<Rightarrow> 'n client \<Rightarrow> bool" where
  "reached P c c' \<longleftrightarrow> only_reads c c' \<and> net_kept P c c'"

interpretation reach: client_preorder "reached P" for P :: "'n \<Rightarrow> bool"
  by unfold_locales (auto simp: reached_def intro: reads.self reads.chain net.self net.chain)

lemma reached_by: "\<lbrakk>obeys only_reads m; obeys (net_kept P) m\<rbrakk> \<Longrightarrow> obeys (reached P) m"
  by (simp add: obeys_def reached_def)

lemmas reached_whoami = reached_by [OF http_reads(2) whoami_net]
lemmas reached_listing = reached_by [OF list_servers_reads list_servers_net]
lemmas reached_clock = reached_by [OF basic_reads(5) local_net(4)]
lemmas reached_other = reached_by [OF access_reads(2) checks_net(2)]

lemma find_identity_Some:
  assumes "sends_keep t P"
  shows "find_identity t url ok ss c = (Inr (Some (name, who)), c') \<Longrightarrow>
    \<exists>server c1 c2. (name, server) \<in> set ss \<and> sc_server_url server = url \<and> ok who \<and>
      reached P c c1 \<and> http_whoami t server c1 = (Inr (Identity who), c2)"
proof (induction ss arbitrary: c)
  case (Cons e rest)
  obtain n server where e: "e = (n, server)" by fastforce
  show ?case
  proof (cases "sc_server_url server = url")
    case False
    with Cons e show ?thesis by fastforce
  next
    case True
    with Cons.prems e obtain r c1 where w: "attempt (http_whoami t server) c = (Inr r, c1)"
      and rest: "(case r of Inr (Identity w) \<Rightarrow>
          if ok w then creturn (Some (n, w)) else find_identity t url ok rest
        | _ \<Rightarrow> find_identity t url ok rest) c1 = (Inr (Some (name, who)), c')"
      by (auto elim: cbind_cases)
    from w have w: "http_whoami t server c = (r, c1)" by (auto dest: attempt_eq)
    show ?thesis
    proof (cases "\<exists>x. r = Inr (Identity x) \<and> ok x")
      case True
      then obtain x where x: "r = Inr (Identity x)" "ok x" by blast
      with rest have "n = name" "x = who" by simp_all
      with x w e \<open>sc_server_url server = url\<close> show ?thesis
        by (intro exI [of _ server] exI [of _ c] exI [of _ c1]) (simp add: reach.self)
    next
      case False
      with rest have "find_identity t url ok rest c1 = (Inr (Some (name, who)), c')"
        by (auto split: sum.splits whoami_outcome.splits if_splits)
      from Cons.IH [OF this] obtain server' c2 c3 where "(name, server') \<in> set rest"
        "sc_server_url server' = url" "ok who" "reached P c1 c2"
        "http_whoami t server' c2 = (Inr (Identity who), c3)" by blast
      moreover have "reached P c c1" using obeysD [OF reached_whoami [OF assms] w] .
      ultimately show ?thesis using reach.chain by (metis e list.set_intros(2))
    qed
  qed
qed simp

section \<open>What a login leaves\<close>

text \<open>The server answered for this entry, when asked, with an identity that covers the project.\<close>

definition vouched_for ::
    "(api_state, 'u, 'k, 'sk) tools \<Rightarrow> api_state client \<Rightarrow> string \<Rightarrow> server_config \<Rightarrow> bool" where
  "vouched_for t c project_id server \<longleftrightarrow>
     (\<exists>who c1 c2. reached (\<lambda>st. db_ok (as_db st)) c c1 \<and>
        http_whoami t server c1 = (Inr (Identity who), c2) \<and>
        (who_project_id who = None \<or> who_project_id who = Some project_id))"

text \<open>The key of the entry is on this machine, and the server has its public part for the entry's key id.\<close>

definition enrolled :: "(api_state, 'u, 'k, 'sk) tools \<Rightarrow> api_state client \<Rightarrow> server_config \<Rightarrow> bool" where
  "enrolled t c server \<longleftrightarrow>
     (\<exists>sk u. key_in t c (sc_key_path server) sk \<and> u \<in> set (users (as_db (cl_net c))) \<and>
        usr_id u = sc_key_id server \<and> usr_public_key u = Some (public_key_base64 t sk))"

lemma existing_access_Some:
  assumes "existing_access t url i c = (Inr (Some (name, who)), c')"
    and sends: "sends_keep t (\<lambda>st. db_ok (as_db st))"
  shows "\<exists>server. entry_in t c name server \<and> CHR ''/'' \<notin> set name \<and> sc_server_url server = url \<and>
    vouched_for t c i server"
proof -
  from assms(1) obtain ss c1 where l: "list_servers t c = (Inr ss, c1)"
    and f: "find_identity t url (\<lambda>who. who_project_id who = None \<or> who_project_id who = Some i) ss c1
      = (Inr (Some (name, who)), c')"
    unfolding existing_access_def by (elim cbind_cases) auto
  from find_identity_Some [OF sends f] list_servers_entry [OF l] obtain server c2 c3 where
    "entry_in t c name server" "CHR ''/'' \<notin> set name" "sc_server_url server = url"
    "who_project_id who = None \<or> who_project_id who = Some i" "reached (\<lambda>st. db_ok (as_db st)) c1 c2"
    "http_whoami t server c2 = (Inr (Identity who), c3)" by blast
  moreover have "reached (\<lambda>st. db_ok (as_db st)) c c1" using obeysD [OF reached_listing l] .
  ultimately show ?thesis unfolding vouched_for_def using reach.chain by blast
qed

lemma write_net [networked]:
  "obeys (net_kept P) (write_file p raw)"
  "obeys (net_kept P) touch_fs"
  by (auto simp: obeys_def net_kept_def write_file_def touch_fs_def fs_op_def
      split: list.split option.split io_fault.split)

lemma store_net [networked]:
  "obeys (net_kept P) (write_signing_key t k sk)"
  "obeys (net_kept P) (write_server t name server)"
  "obeys (net_kept P) (record_project_binding t i name)"
  unfolding write_signing_key_def write_server_def record_project_binding_def write_global_config_def
    read_global_config_def
  by (auto split: sum.split cerr.split intro!: net.obeys_intros networked)

lemma same_net: "\<lbrakk>\<And>P. obeys (net_kept P) m; m c = (r, c')\<rbrakk> \<Longrightarrow> cl_net c' = cl_net c"
  using obeysD [of "net_kept (\<lambda>n. n = cl_net c)" m c r c'] by (auto simp: net_kept_def)

text \<open>What the commands of a login write is in three places that do not overlap.\<close>

lemma stored_apart:
  assumes "config_root t = Inr r" and "CHR ''/'' \<notin> set name" and "CHR ''/'' \<notin> set key_id"
    and "server_path t name = Inr sp" and "key_path t key_id = Inr kp" and "global_config_path t = Inr gp"
  shows "sp \<noteq> kp \<and> gp \<noteq> sp \<and> gp \<noteq> kp"
  by (rule config_paths [OF assms(1)]) (use assms(2-6) in auto)

lemma redeem_and_store_enrols:
  assumes talks: "talks_to router t sv enc" and format: "same_format t sv enc" and again: "reads_back t"
    and ok: "db_ok (as_db (cl_net c))" and project: "inv_project invite = Some p"
    and name: "CHR ''/'' \<notin> set name"
    and plain: "\<forall>u \<in> set (users (as_db (cl_net c'))). CHR ''/'' \<notin> set (usr_id u)"
    and run: "redeem_and_store t invite name c = (Inr (), c')"
  shows "\<exists>server. bound_in t c' (ip_id p) name \<and> entry_in t c' name server \<and>
    sc_server_url server = inv_server_url invite \<and> enrolled t c' server"
proof -
  from run obtain sk uid kf sp c1 c2 c3 c4 c5 c6 l l' where
    parts: "generate_signing_key t c = (Inr sk, c1)"
      "http_redeem_invite t invite (public_key_base64 t sk) c1 = (Inr uid, c2)"
      "write_signing_key t uid sk c2 = (Inr kf, c3)"
      "write_server t name \<lparr>sc_server_url = inv_server_url invite, sc_key_id = uid, sc_key_path = kf\<rparr> c3
        = (Inr sp, c4)"
      "println l c4 = (Inr (), c5)" "record_project_binding t (ip_id p) name c5 = (Inr (), c6)"
      "println l' c6 = (Inr (), c')"
    unfolding redeem_and_store_def project if_False option.case option.distinct cbind_creturn
    by (elim cbind_cases) simp_all
  let ?server = "\<lparr>sc_server_url = inv_server_url invite, sc_key_id = uid, sc_key_path = kf\<rparr>"
  have net: "cl_net c' = cl_net c2"
    using same_net [OF store_net(1) parts(3)] same_net [OF store_net(2) parts(4)]
      same_net [OF local_net(1) parts(5)] same_net [OF store_net(3) parts(6)]
      same_net [OF local_net(1) parts(7)] by simp
  have "cl_net c1 = cl_net c" using parts(1) by (auto simp: generate_signing_key_def draw_def)
  with ok have "db_ok (as_db (cl_net c1))" by simp
  from redeemed_on_the_server [OF talks format this parts(2)] obtain u where
    u: "u \<in> set (users (as_db (cl_net c')))" "usr_id u = uid" "usr_public_key u = Some (public_key_base64 t sk)"
    unfolding net by blast
  with plain have uid: "CHR ''/'' \<notin> set uid" by auto
  from write_signing_key_Inr [OF again parts(3)] have key: "key_path t uid = Inr kf" "key_in t c3 kf sk" by auto
  from write_server_Inr [OF again parts(4)] have entry: "server_path t name = Inr sp" "entry_in t c4 name ?server"
    by auto
  from key(1) obtain r where root: "config_root t = Inr r" by (auto simp: key_path_def rbind_eq_Inr)
  obtain gp where gp: "global_config_path t = Inr gp" using root by (auto simp: global_config_path_def)
  have apart: "sp \<noteq> kf" "gp \<noteq> sp" "gp \<noteq> kf" using stored_apart [OF root name uid entry(1) key(1) gp] by auto
  have still: "only_reads c4 c5" "only_reads c6 c'"
    using obeysD [OF basic_reads(1) parts(5)] obeysD [OF basic_reads(1) parts(7)] by auto
  have k4: "key_in t c4 kf sk"
    by (rule key_in_kept [OF key(2) obeysD [OF write_server_kept [OF entry(1)] parts(4)]]) (use apart in simp)
  have b: "files_kept (\<lambda>q. q = path) c5 c6" if "path \<noteq> gp" for path
    by (rule obeysD [OF record_binding_kept [OF gp] parts(6)]) (use that in auto)
  have "key_in t c' kf sk"
    using k4 b [of kf] apart still by (auto simp: key_in_def files_kept_def only_reads_def)
  moreover have "entry_in t c' name ?server"
    using entry(2) entry_in_kept [OF _ entry(1) b [of sp]] apart
      entry_in_reads [OF still(1), of t name ?server] entry_in_reads [OF still(2), of t name ?server] by auto
  moreover have "bound_in t c' (ip_id p) name"
    using record_binding_Inr [OF again parts(6)] still(2) by (simp add: bound_in_def only_reads_def)
  ultimately show ?thesis using u unfolding enrolled_def by (intro exI [of _ ?server]) auto
qed

lemma resolved_name_net [networked]:
  "sends_keep t P \<Longrightarrow> obeys (net_kept P) (of_result (resolve_server_name t n invite))"
  by (rule net.obeys_of_result)

text \<open>A successful login with a project's invite found an identity to use, or redeemed the invite.\<close>

lemma login_Inr:
  assumes run: "login t blob name c = (Inr x, c')"
    and invite: "parse_invite (t_crypto t) (t_parse_invite_json t) blob = Inr invite"
      "inv_project invite = Some p"
    and sends: "sends_keep t P" and P: "P (cl_net c)"
  obtains (has_access) entry who c1 c2 c3 where
      "existing_access t (inv_server_url invite) (ip_id p) c1 = (Inr (Some (entry, who)), c2)"
      and "reached P c c1"
      and "record_project_binding t (ip_id p) entry c2 = (Inr (), c3)" and "only_reads c3 c'"
    | (redeemed) n c1 where "CHR ''/'' \<notin> set n" and "P (cl_net c1)"
      and "redeem_and_store t invite n c1 = (Inr (), c')"
proof -
  from run obtain now c1 c2 access c3 where
    clock: "unix_timestamp t c = (Inr now, c1)"
    and other: "existing_different_user_with_same_scope t invite c1 = (Inr None, c2)"
    and access: "existing_access t (inv_server_url invite) (ip_id p) c2 = (Inr access, c3)"
    and rest: "(case access of
        Some (entry, who) \<Rightarrow> cbind (record_project_binding t (ip_id p) entry) (\<lambda>_.
          println (''Already have access to project '' @ ip_name p @ '' on '' @ inv_server_url invite @
            '' as user '' @ who_name who @ '' (server '' @ entry @
            ''); linked the project '' @ em_dash @ '' invite left unredeemed''))
      | None \<Rightarrow> cbind (of_result (resolve_server_name t name invite)) (\<lambda>n.
          cbind (name_taken t n invite) (\<lambda>_. redeem_and_store t invite n))) c3 = (Inr x, c')"
    unfolding login_def invite invalid_data_def sum.case of_result_Inr cbind_creturn
    by (elim cbind_cases) (auto simp: invite split: if_splits option.splits elim!: cbind_cases)
  have P3: "P (cl_net c3)"
    using obeysD [OF local_net(4) clock, of P] obeysD [OF checks_net(2) [OF sends] other]
      obeysD [OF checks_net(1) [OF sends] access] P
    by (simp add: net_kept_def)
  show thesis
  proof (cases access)
    case (Some e)
    then obtain entry who where e: "access = Some (entry, who)" by (cases e) auto
    with rest obtain c4 l where b: "record_project_binding t (ip_id p) entry c3 = (Inr (), c4)"
      and "println l c4 = (Inr x, c')"
      by (auto elim: cbind_cases)
    with obeysD [OF basic_reads(1)] have "only_reads c4 c'" by blast
    moreover have "reached P c c2"
      using obeysD [OF reached_clock clock] obeysD [OF reached_other [OF sends] other] by (rule reach.chain)
    ultimately show thesis using access e b by (intro has_access) auto
  next
    case None
    with rest obtain n y c4 where n: "resolve_server_name t name invite = Inr n"
      and taken: "name_taken t n invite c3 = (Inr y, c4)" and "redeem_and_store t invite n c4 = (Inr x, c')"
      by (auto elim!: cbind_cases)
    moreover have "P (cl_net c4)"
      using obeysD [OF checks_net(3) [OF sends] taken] P3 by (simp add: net_kept_def)
    ultimately show thesis using resolved_no_slash [OF n] by (intro redeemed) auto
  qed
qed

section \<open>An instance\<close>

text \<open>Pairs as one text, to stand for the JSON of both sides.\<close>

fun mark_pairs :: "(string \<times> string) list \<Rightarrow> string" where
  "mark_pairs [] = []"
| "mark_pairs ((a, b) # ps) = mark a @ mark b @ mark_pairs ps"

fun unmark_pairs :: "nat \<Rightarrow> string \<Rightarrow> (string \<times> string) list" where
  "unmark_pairs 0 s = []"
| "unmark_pairs (Suc n) s =
     (if s = [] then [] else case unmark s of (a, s1) \<Rightarrow> case unmark s1 of (b, s2) \<Rightarrow> (a, b) # unmark_pairs n s2)"

lemma mark_nonempty [simp]: "mark a \<noteq> []"
  by (cases a) simp_all

lemma unmark_mark_pairs: "length ps \<le> n \<Longrightarrow> unmark_pairs n (mark_pairs ps) = ps"
proof (induction ps arbitrary: n)
  case (Cons p ps)
  then show ?case by (cases p; cases n) simp_all
qed (case_tac n; simp)

lemma length_mark_pairs: "length ps \<le> length (mark_pairs ps)"
proof (induction ps)
  case (Cons p ps)
  moreover obtain a b where "p = (a, b)" by fastforce
  moreover have "0 < length (mark a)" by simp
  ultimately show ?case by (simp add: Suc_le_eq del: length_greater_0_conv)
qed simp

definition net_server :: "(string, string) server" where
  "net_server = demo_server\<lparr>sv_platform := (sv_platform demo_server)
     \<lparr>pf_redeem_request := (\<lambda>fs. Inr (unmark (payload fs)))\<rparr>\<rparr>"

definition net_router :: "http_request \<Rightarrow> route option" where
  "net_router rq = (if rq_method rq = ''POST'' \<and> rq_path_and_query rq = Some REDEEM_INVITE_PATH
     then Some R_redeem_invite else None)"

fun net_text :: "body \<Rightarrow> string" where
  "net_text (Json_key k) = k"
| "net_text _ = []"

definition net_tools :: "(api_state, string, string, bool) tools" where
  "net_tools = \<lparr>t_env = [(''RAILYARD_DEV'', ''1'')], t_cwd = Inr ''/w'', t_interactive = False,
     t_clock = (\<lambda>_. 1000), t_random = (\<lambda>_. ''0a''), t_crypto = demo_crypto,
     t_new_key = (\<lambda>_. True), t_key_bytes = (\<lambda>k. replicate 32 (if k then CHR ''b'' else CHR ''a'')),
     t_key_of_bytes = (\<lambda>s. hd s = CHR ''b''),
     t_public_bytes = (\<lambda>k. replicate 32 (if k then CHR ''b'' else CHR ''a'')),
     t_sign = (\<lambda>k m. []), t_hex = (\<lambda>b. b),
     t_url_parse = Inr, t_url_with = (\<lambda>u segs _. Some (concat (map (\<lambda>seg. CHR ''/'' # seg) segs))),
     t_url_host = Some, t_url_port = (\<lambda>_. None), t_url_tail = (\<lambda>u. u),
     t_send = (\<lambda>_ rq st. case net_router rq of
        None \<Rightarrow> (Inl (Network ''no route''), st)
      | Some rt \<Rightarrow> (case serve_signed net_server demo_outside rq rt st of (r, st') \<Rightarrow> (Inr (wire net_text r), st'))),
     t_status_text = show_nat, t_status_error = show_nat, t_base64_error = (\<lambda>e. e),
     t_json_server = (\<lambda>e. mark (sc_server_url e) @ mark (sc_key_id e) @ sc_key_path e),
     t_parse_server = (\<lambda>raw. case unmark raw of (u, raw1) \<Rightarrow> case unmark raw1 of (i, k) \<Rightarrow>
       Inr \<lparr>sc_server_url = u, sc_key_id = i, sc_key_path = k\<rparr>),
     t_json_bindings = mark_pairs, t_parse_bindings = (\<lambda>raw. Inr (unmark_pairs (length raw) raw)),
     t_json_key = (\<lambda>k. mark (sk_key_id k) @ sk_secret_base64 k),
     t_parse_key = (\<lambda>raw. case unmark raw of (i, b) \<Rightarrow> Inr \<lparr>sk_key_id = i, sk_secret_base64 = b\<rparr>),
     t_parse_invite_json = (\<lambda>j. Some \<lparr>inv_server_url = j, inv_server_name = ''new'', inv_user = ''usr_3'',
       inv_user_name = ''eve'', inv_project = Some \<lparr>ip_id = ''prj_1'', ip_name = ''shop''\<rparr>,
       inv_token = ''tok'', inv_expires = 5000\<rparr>),
     t_json_redeem = (\<lambda>tk k. mark tk @ k), t_json_new_project = cpr_name, t_json_new_user = cur_name,
     t_parse_redeemed = Inr, t_parse_project = Inl, t_parse_projects = Inl,
     t_parse_new_user = Inl, t_parse_users = Inl, t_parse_whoami = Inl, t_parse_release = Inl,
     t_query_pair = (\<lambda>k v. k @ ''='' @ v), t_key_order = (\<lambda>ks. ks),
     t_json = (\<lambda>_. Inr JNull), t_json5 = (\<lambda>_. Inr JNull), t_deserialize = (\<lambda>_. Inr default_manifest),
     t_json_manifest = (\<lambda>_. [])\<rparr>"

definition net_client :: "api_state client" where
  "net_client = \<lparr>cl_files = [], cl_io_faults = [], cl_answers = [], cl_net = demo_api, cl_draws = 0,
     cl_prompts = [], cl_out = [], cl_err = []\<rparr>"

lemma net_talks: "talks_to net_router net_tools net_server net_text"
  unfolding talks_to_def
proof (intro conjI allI)
  fix url rq st
  show "answered net_router net_server net_text rq st (t_send net_tools url rq st)"
    by (auto simp: answered_def net_tools_def split: option.split prod.split intro!: exI [of _ demo_outside])
qed (simp add: net_router_def)

lemma net_format: "same_format net_tools net_server net_text"
proof -
  have "api_url_parts REDEEM_INVITE_PATH = ([''api'', ''auth'', ''redeem-invite''], None)" by code_simp
  then show ?thesis
    by (auto simp: same_format_def net_tools_def net_server_def control_plane_api_url_def REDEEM_INVITE_PATH_def)
qed

lemma net_reads_back: "reads_back net_tools"
  unfolding reads_back_def
  by (intro conjI allI) (simp_all add: net_tools_def demo_crypto_def unmark_mark_pairs length_mark_pairs)

lemma net_invite:
  "parse_invite (t_crypto net_tools) (t_parse_invite_json net_tools) ''ryd-invite-v1.http://box'' =
     Inr \<lparr>inv_server_url = ''http://box'', inv_server_name = ''new'', inv_user = ''usr_3'',
       inv_user_name = ''eve'', inv_project = Some \<lparr>ip_id = ''prj_1'', ip_name = ''shop''\<rparr>,
       inv_token = ''tok'', inv_expires = 5000\<rparr>"
proof -
  have "trim ''ryd-invite-v1.http://box'' = ''ryd-invite-v1.http://box''"
    by (rule trim_graphic) (simp_all add: ascii_defs)
  then show ?thesis
    by (simp add: parse_invite_def strip_prefix_def starts_with_def INVITE_BLOB_PREFIX_def net_tools_def
        demo_crypto_def)
qed

lemma net_root: "config_root net_tools = Inr ''.dev-state''"
  by (simp add: config_root_def is_set_def env_var_def net_tools_def)

lemma net_paths:
  "servers_dir net_tools = Inr ''.dev-state/client/servers''"
  "server_path net_tools ''box'' = Inr ''.dev-state/client/servers/box.json''"
  "key_path net_tools ''usr_3'' = Inr ''.dev-state/client/keys/usr_3.json''"
  "global_config_path net_tools = Inr ''.dev-state/client/config.json''"
  by (simp_all add: servers_dir_def server_path_def key_path_def global_config_path_def net_root path_join_def
      starts_with_def)

lemma net_redeems:
  "http_redeem_invite net_tools \<lparr>inv_server_url = ''http://box'', inv_server_name = ''new'', inv_user = ''usr_3'',
       inv_user_name = ''eve'', inv_project = Some \<lparr>ip_id = ''prj_1'', ip_name = ''shop''\<rparr>,
       inv_token = ''tok'', inv_expires = 5000\<rparr> bob_key (net_client\<lparr>cl_draws := n\<rparr>) =
   (Inr ''usr_3'', net_client\<lparr>cl_draws := n, cl_net :=
      demo_api\<lparr>as_db := put_key ''usr_3'' bob_key (mark_redeemed ''h3'' 1000 demo_db_state)\<rparr>\<rparr>)"
proof -
  have url: "control_plane_api_url net_tools ''http://box'' REDEEM_INVITE_PATH = Inr REDEEM_INVITE_PATH"
  proof -
    have "api_url_parts REDEEM_INVITE_PATH = ([''api'', ''auth'', ''redeem-invite''], None)" by code_simp
    then show ?thesis by (simp add: control_plane_api_url_def net_tools_def REDEEM_INVITE_PATH_def)
  qed
  define rq where "rq = http_request_of ''POST'' (t_url_tail net_tools REDEEM_INVITE_PATH)
    [(''content-type'', ''application/json'')] (t_json_redeem net_tools ''tok'' bob_key)"
  have "net_router rq = Some R_redeem_invite"
    by (simp add: net_router_def rq_def http_request_of_def net_tools_def)
  moreover have "pf_redeem_request (sv_platform net_server) (rq_body rq) = Inr (''tok'', bob_key)"
    by (simp add: net_server_def rq_def http_request_of_def net_tools_def)
  moreover have "pf_crypto (sv_platform net_server) = demo_crypto" "clock demo_outside = 1000"
    by (simp_all add: net_server_def demo_server_def demo_outside_def)
  ultimately have "t_send net_tools u rq demo_api = (Inr (wire net_text (ok_json (Json_key ''usr_3''))),
      demo_api\<lparr>as_db := put_key ''usr_3'' bob_key (mark_redeemed ''h3'' 1000 demo_db_state)\<rparr>)" for u
    using redeem_handler_demo by (simp add: net_tools_def serve_signed_def on_db_def demo_api_def)
  then have sent: "send net_tools u rq (net_client\<lparr>cl_draws := n\<rparr>) =
      (Inr \<lparr>rp_status = 200, rp_body = Inr ''usr_3''\<rparr>, net_client\<lparr>cl_draws := n, cl_net :=
        demo_api\<lparr>as_db := put_key ''usr_3'' bob_key (mark_redeemed ''h3'' 1000 demo_db_state)\<rparr>\<rparr>)" for u
    by (simp add: send_def net_client_def wire_def ok_json_def)
  have parse: "t_url_parse net_tools = Inr" "t_parse_redeemed net_tools = Inr" by (simp_all add: net_tools_def)
  show ?thesis
    by (simp add: http_redeem_invite_def parse invalid_data_def of_result_Inr url rq_def [symmetric]
        sent checked_json_def is_success_def json_of_def)
qed

lemma fault_free:
  fixes c :: "'n client"
  assumes "cl_io_faults c = []"
  shows "touch_fs c = (Inr (), c)"
    and "write_file p raw c = (Inr (), c\<lparr>cl_files := AList.update p raw (cl_files c)\<rparr>)"
    and "attempt (read_to_string p) c =
      (Inr (case map_of (cl_files c) p of None \<Rightarrow> Inl Absent_file | Some raw \<Rightarrow> Inr raw), c)"
    and "println l c = (Inr (), c\<lparr>cl_out := cl_out c @ [l]\<rparr>)"
  using assms
  by (simp_all add: touch_fs_def write_file_def attempt_def read_to_string_def fs_op_def println_def
      split: option.split)

lemma net_login:
  "\<exists>c'. login net_tools ''ryd-invite-v1.http://box'' (Some ''box'') net_client = (Inr (), c') \<and>
     cl_net c' = demo_api\<lparr>as_db := put_key ''usr_3'' bob_key (mark_redeemed ''h3'' 1000 demo_db_state)\<rparr>"
proof -
  define invite where "invite = \<lparr>inv_server_url = ''http://box'', inv_server_name = ''new'', inv_user = ''usr_3'',
       inv_user_name = ''eve'', inv_project = Some \<lparr>ip_id = ''prj_1'', ip_name = ''shop''\<rparr>,
       inv_token = ''tok'', inv_expires = 5000\<rparr>"
  have fields: "inv_server_url invite = ''http://box''" "inv_expires invite = 5000"
      "inv_project invite = Some \<lparr>ip_id = ''prj_1'', ip_name = ''shop''\<rparr>" by (simp_all add: invite_def)
  have name: "resolve_server_name net_tools (Some ''box'') invite = Inr ''box''" 
  proof -
    have "sanitize_server_name ''box'' = ''box''" by code_simp
    then show ?thesis by (simp add: resolve_server_name_def)
  qed
  have clock: "unix_timestamp net_tools net_client = (Inr 1000, net_client\<lparr>cl_draws := 1\<rparr>)"
    by (simp add: unix_timestamp_def draw_def net_client_def net_tools_def)
  have listed: "list_servers net_tools (net_client\<lparr>cl_draws := n\<rparr>) = (Inr [], net_client\<lparr>cl_draws := n\<rparr>)" for n
    by (simp add: list_servers_def net_paths of_result_Inr attempt_def read_dir_def fs_op_def cbind_def
        net_client_def dir_names_def List.map_filter_def)
  have untaken: "name_taken net_tools ''box'' invite (net_client\<lparr>cl_draws := n\<rparr>) = (Inr (), net_client\<lparr>cl_draws := n\<rparr>)"
    for n by (simp add: name_taken_def attempt_def read_server_def net_paths of_result_Inr read_to_string_def
        fs_op_def cbind_def net_client_def)
  have drawn: "generate_signing_key net_tools (net_client\<lparr>cl_draws := n\<rparr>) = (Inr True, net_client\<lparr>cl_draws := Suc n\<rparr>)"
    for n by (simp add: generate_signing_key_def draw_def net_client_def net_tools_def)
  have key: "public_key_base64 net_tools True = bob_key"
    by (simp add: public_key_base64_def net_tools_def demo_crypto_def bob_key_def)
  have empty: "cl_io_faults net_client = []" "cl_files net_client = []" by (simp_all add: net_client_def)
  have stored: "\<exists>c'. redeem_and_store net_tools invite ''box'' (net_client\<lparr>cl_draws := n\<rparr>) = (Inr (), c') \<and>
     cl_net c' = demo_api\<lparr>as_db := put_key ''usr_3'' bob_key (mark_redeemed ''h3'' 1000 demo_db_state)\<rparr>" for n
    unfolding redeem_and_store_def
    by (simp add: drawn key net_redeems [folded invite_def] fields write_signing_key_def write_server_def
        record_project_binding_def read_global_config_def write_global_config_def net_paths of_result_Inr
        fault_free empty update_conv')
  from stored [of 1] show ?thesis
    by (simp add: login_def net_invite [folded invite_def] invalid_data_def of_result_Inr clock fields
        existing_different_user_with_same_scope_def existing_access_def listed name untaken)
qed

text \<open>
  C17: a login with a project's invite leaves the client and the server agreed: after it succeeded
  against the server, the project is bound to an entry for the URL of the invite, and either the server
  had vouched for that entry's identity when it was asked, as an admin or a user of the project, or the
  invite was redeemed, the entry's key file holds a private key, and the server's users table has its
  public part for the user whose id is the entry's key id.  It may lose requests and replies on the way
  and may already have any tables that satisfy their invariant; the ids it gives out are file names.
\<close>

theorem login_enrols_the_machine:
  fixes c' :: "api_state client"
  assumes "talks_to router t sv enc" and "same_format t sv enc" and "reads_back t"
    and "parse_invite (t_crypto t) (t_parse_invite_json t) blob = Inr invite"
    and "inv_project invite = Some p"
    and "db_ok (as_db (cl_net c))" and "\<forall>u \<in> set (users (as_db (cl_net c'))). CHR ''/'' \<notin> set (usr_id u)"
    and "login t blob name c = (Inr (), c')"
  shows "\<exists>entry server. bound_in t c' (ip_id p) entry \<and> entry_in t c' entry server \<and>
    sc_server_url server = inv_server_url invite \<and>
    (vouched_for t c (ip_id p) server \<or> enrolled t c' server)"
  using assms(8,4,5) talks_keep_ok [OF assms(1)] assms(6)
proof (cases rule: login_Inr)
  case (redeemed n c1)
  with redeem_and_store_enrols [OF assms(1-3) _ assms(5) _ assms(7)] show ?thesis by blast
next
  case (has_access entry who c1 c2 c3)
  from existing_access_Some [OF has_access(1) talks_keep_ok [OF assms(1)]] obtain server where
    s: "entry_in t c1 entry server" "CHR ''/'' \<notin> set entry" "sc_server_url server = inv_server_url invite"
      "vouched_for t c1 (ip_id p) server" by blast
  from s(4) has_access(2) have v: "vouched_for t c (ip_id p) server"
    unfolding vouched_for_def using reach.chain by blast
  have b: "bound_in t c3 (ip_id p) entry" using record_binding_Inr [OF assms(3) has_access(3)] .
  then obtain gp where gp: "global_config_path t = Inr gp" by (auto simp: bound_in_def)
  then obtain r where root: "config_root t = Inr r" by (auto simp: global_config_path_def rbind_eq_Inr)
  from s(1) obtain sp where sp: "server_path t entry = Inr sp" by (auto simp: entry_in_def)
  have "gp \<noteq> sp" by (rule config_paths [OF root]) (use s(2) sp gp in auto)
  then have "files_kept (\<lambda>q. q = sp) c2 c3"
    by (intro obeysD [OF record_binding_kept [OF gp] has_access(3)]) simp
  moreover have "entry_in t c2 entry server"
    using s(1) entry_in_reads [OF obeysD [OF access_reads(1) has_access(1)], of t entry server] by simp
  ultimately have "entry_in t c3 entry server" using sp entry_in_kept by blast
  with b s(3) v has_access(4) show ?thesis
    by (intro exI [of _ entry] exI [of _ server]) (simp add: bound_in_def entry_in_def only_reads_def)
qed

theorem login_enrols_the_machine_witness:
  "\<exists>c' entry server. login net_tools ''ryd-invite-v1.http://box'' (Some ''box'') net_client = (Inr (), c') \<and>
    bound_in net_tools c' ''prj_1'' entry \<and> entry_in net_tools c' entry server \<and>
    (vouched_for net_tools net_client ''prj_1'' server \<or> enrolled net_tools c' server)"
proof -
  obtain c' where run: "login net_tools ''ryd-invite-v1.http://box'' (Some ''box'') net_client = (Inr (), c')"
    and net: "cl_net c' = demo_api\<lparr>as_db := put_key ''usr_3'' bob_key (mark_redeemed ''h3'' 1000 demo_db_state)\<rparr>"
    using net_login by blast
  have "\<exists>entry server. bound_in net_tools c' ''prj_1'' entry \<and> entry_in net_tools c' entry server \<and>
      sc_server_url server = ''http://box'' \<and>
      (vouched_for net_tools net_client ''prj_1'' server \<or> enrolled net_tools c' server)"
    using login_enrols_the_machine [OF net_talks net_format net_reads_back net_invite _ _ _ run]
    by (simp add: net users_redeem_demo) (simp add: net_client_def demo_api_def demo_db_ok ada_def bob_def eve_def)
  with run show ?thesis by blast
qed

end
