(* ===== verification/Resolve_Props.thy ===== *)
theory Resolve_Props
  imports Enrolment
begin

text \<open>
  Which server entry a project command acts on: the one the project is bound to, or the one the user
  chooses among those that have the project.
\<close>

section \<open>An instance\<close>

text \<open>A terminal, two entries that both have the project, no binding, and the answer that picks the second.\<close>

definition choice_tools :: "(api_state, string, string, bool) tools" where
  "choice_tools = net_tools\<lparr>t_interactive := True,
     t_send := (\<lambda>_ _ st. (Inr \<lparr>rp_status = 200, rp_body = Inr []\<rparr>, st)),
     t_parse_whoami := (\<lambda>_. Inr \<lparr>who_user_id = ''usr_3'', who_name = ''eve'', who_project_id = Some ''prj_1'',
       who_project_name = None\<rparr>)\<rparr>"

definition choice_entry :: "string \<Rightarrow> server_config" where
  "choice_entry url = \<lparr>sc_server_url = url, sc_key_id = ''usr_3'', sc_key_path = ''k''\<rparr>"

definition choice_files :: "(string \<times> string) list" where
  "choice_files = [(''.dev-state/client/servers/one.json'', t_json_server choice_tools (choice_entry ''http://one'')),
     (''.dev-state/client/servers/two.json'', t_json_server choice_tools (choice_entry ''http://two'')),
     (''k'', t_json_key choice_tools \<lparr>sk_key_id = ''usr_3'', sk_secret_base64 = replicate 32 (CHR ''b'')\<rparr>)]"

definition choice_client :: "api_state client" where
  "choice_client = net_client\<lparr>cl_files := choice_files, cl_answers := [Picked 1]\<rparr>"

definition choice_project :: linked_project where
  "choice_project = \<lparr>lp_id = ''prj_1'', lp_name = ''shop'', lp_manifest_path = None\<rparr>"

lemma choice_reads_back: "reads_back choice_tools"
  using net_reads_back by (simp add: reads_back_def choice_tools_def)

lemma choice_dirs:
  "servers_dir choice_tools = Inr ''.dev-state/client/servers''"
  "global_config_path choice_tools = Inr ''.dev-state/client/config.json''"
proof -
  have "config_root choice_tools = Inr ''.dev-state''"
    by (simp add: config_root_def is_set_def env_var_def choice_tools_def net_tools_def)
  then show "servers_dir choice_tools = Inr ''.dev-state/client/servers''"
    "global_config_path choice_tools = Inr ''.dev-state/client/config.json''"
    by (simp_all add: servers_dir_def global_config_path_def path_join_def starts_with_def)
qed

lemma choice_listed:
  assumes "cl_files c = choice_files" and "cl_io_faults c = []"
  shows "list_servers choice_tools c =
    (Inr [(''one'', choice_entry ''http://one''), (''two'', choice_entry ''http://two'')], c)"
proof -
  have again: "t_parse_server choice_tools (t_json_server choice_tools sv) = Inr sv" for sv
    using choice_reads_back by (simp add: reads_back_def)
  have "dir_names ''.dev-state/client/servers'' choice_files = [''one.json'', ''two.json'']"
    by (simp add: choice_files_def dir_names_def List.map_filter_def strip_prefix_def starts_with_def)
  then have "attempt (read_dir ''.dev-state/client/servers'') c = (Inr (Inr [''one.json'', ''two.json'']), c)"
    using assms by (simp add: attempt_def read_dir_def fs_op_def)
  moreover have "json_stem ''one.json'' = Some ''one''" "json_stem ''two.json'' = Some ''two''" by code_simp+
  moreover have "path_join ''.dev-state/client/servers'' ''one.json'' = ''.dev-state/client/servers/one.json''"
    "path_join ''.dev-state/client/servers'' ''two.json'' = ''.dev-state/client/servers/two.json''"
    by (simp_all add: path_join_def starts_with_def)
  moreover have "read_to_string ''.dev-state/client/servers/one.json'' c =
      (Inr (t_json_server choice_tools (choice_entry ''http://one'')), c)"
    "read_to_string ''.dev-state/client/servers/two.json'' c =
      (Inr (t_json_server choice_tools (choice_entry ''http://two'')), c)"
    using assms by (simp_all add: read_to_string_def fs_op_def choice_files_def)
  moreover have "sort_key fst [(''one'', x), (''two'', y)] = [(''one'', x), (''two'', y)]" for x y :: server_config
    by (simp add: less_char_def)
  ultimately show ?thesis by (simp add: list_servers_def choice_dirs of_result_Inr again)
qed

lemma choice_present:
  assumes "cl_files c = choice_files" and "cl_io_faults c = []"
  shows "server_project_presence choice_tools (choice_entry u) choice_project c =
    (Inr Present, c\<lparr>cl_draws := Suc (Suc (cl_draws c))\<rparr>)"
proof -
  have "key_in choice_tools c ''k'' True"
    unfolding key_in_def assms(1)
    by (intro exI [of _ "t_json_key choice_tools \<lparr>sk_key_id = ''usr_3'', sk_secret_base64 = replicate 32 (CHR ''b'')\<rparr>"]
        exI [of _ "\<lparr>sk_key_id = ''usr_3'', sk_secret_base64 = replicate 32 (CHR ''b'')\<rparr>"]
        exI [of _ "replicate 32 (CHR ''b'')"])
      (simp add: choice_files_def choice_tools_def net_tools_def demo_crypto_def)
  then have key: "read_signing_key choice_tools ''k'' c = (Inr True, c)" using assms(2) by (rule key_in_reads)
  obtain url where url: "control_plane_api_url choice_tools u WHOAMI_PATH = Inr url"
    by (cases "api_url_parts WHOAMI_PATH") (simp add: control_plane_api_url_def choice_tools_def net_tools_def)
  have sel: "t_url_parse choice_tools = Inr" "t_url_host choice_tools = Some" "t_url_port choice_tools = (\<lambda>_. None)"
      "t_send choice_tools v rq st = (Inr \<lparr>rp_status = 200, rp_body = Inr []\<rparr>, st)"
      "t_parse_whoami choice_tools = (\<lambda>_. Inr \<lparr>who_user_id = ''usr_3'', who_name = ''eve'',
         who_project_id = Some ''prj_1'', who_project_name = None\<rparr>)" for v rq st
    by (simp_all add: choice_tools_def net_tools_def)
  then show ?thesis
    by (simp add: server_project_presence_def http_whoami_def attempt_app signed_request_def
        signed_request_with_type_def choice_entry_def choice_project_def key url url_host_def invalid_data_def
        of_result_Inr sign_request_def unix_timestamp_def random_nonce_def draw_def send_def is_success_def json_of_def)
qed

lemma choice_made:
  "\<exists>c'. resolve_project_server choice_tools choice_project choice_client =
     (Inr (''two'', choice_entry ''http://two''), c')"
proof -
  have start: "cl_files choice_client = choice_files" "cl_io_faults choice_client = []"
    "cl_answers choice_client = [Picked 1]"
    by (simp_all add: choice_client_def net_client_def)
  have "map_of choice_files ''.dev-state/client/config.json'' = None" by (simp add: choice_files_def)
  then have unbound: "project_binding choice_tools ''prj_1'' choice_client = (Inr Unbound, choice_client)"
    using start by (simp add: project_binding_def read_project_binding_def read_global_config_def choice_dirs
        of_result_Inr attempt_app read_to_string_def fs_op_def)
  define d where "d = choice_client\<lparr>cl_draws := Suc (Suc (Suc (Suc (cl_draws choice_client))))\<rparr>"
  have found: "find_candidates choice_tools choice_project
      [(''one'', choice_entry ''http://one''), (''two'', choice_entry ''http://two'')] choice_client =
      (Inr ([(''one'', choice_entry ''http://one''), (''two'', choice_entry ''http://two'')], []), d)"
    using start by (simp add: choice_present d_def)
  have "\<exists>d'. select_from q (map server_item [(''one'', choice_entry ''http://one''), (''two'', choice_entry ''http://two'')]) d
      = (Inr 1, d') \<and> cl_files d' = choice_files \<and> cl_io_faults d' = []" for q
    using start by (simp add: select_from_def ask_def d_def Let_def)
  then obtain d' where picked: "select_from (''Project '' @ lp_name choice_project @ '' exists on several servers; link which one?'')
      (map server_item [(''one'', choice_entry ''http://one''), (''two'', choice_entry ''http://two'')]) d = (Inr 1, d')"
    and d': "cl_files d' = choice_files" "cl_io_faults d' = []" by blast
  have "\<exists>d''. link_to_server choice_tools choice_project n s d' = (Inr (n, s), d'')" for n s
    using d' by (simp add: link_to_server_def record_project_binding_def read_global_config_def
        write_global_config_def choice_dirs of_result_Inr fault_free choice_files_def)
  then show ?thesis
    using unbound picked found choice_listed [OF start(1,2)]
    by (simp add: resolve_project_server_def offer_project_link_def choice_project_def choice_tools_def)
qed

section \<open>Resolution\<close>

text \<open>
  C30: a command never picks a server on its own.  The entry a project is resolved to is the one the
  project is bound to on this machine, and then nothing is asked and nothing changes; or there is a
  terminal and the user chose it: the candidates are listed entries that were asked and have the project,
  the next answer took the only one of them, or picked this one among several by its position, and the
  choice is recorded as the project's binding, with no other file changed.
\<close>

theorem resolution_never_guesses:
  assumes "reads_back t" and "resolve_project_server t p c = (Inr (name, server), c')"
  shows "(bound_in t c (lp_id p) name \<and> entry_in t c name server \<and> only_reads c c') \<or>
    (t_interactive t \<and>
     (\<exists>c0 ss c1 cands unchecked c2 a. only_reads c c0 \<and> list_servers t c0 = (Inr ss, c1) \<and>
        find_candidates t p ss c1 = (Inr (cands, unchecked), c2) \<and>
        (\<forall>e \<in> set cands. e \<in> set ss \<and> entry_in t c (fst e) (snd e) \<and> found_present t p c (snd e)) \<and>
        cl_answers c = a # cl_answers c' \<and>
        (case a of
           Yes_no yes \<Rightarrow> yes \<and> cands = [(name, server)]
         | Picked i \<Rightarrow> 2 \<le> length cands \<and> i < length cands \<and> cands ! i = (name, server)
         | Typed _ \<Rightarrow> False)) \<and>
     bound_in t c' (lp_id p) name \<and> files_kept (\<lambda>q. global_config_path t \<noteq> Inr q) c c')"
  using resolve_project_server_Inr [OF assms(2)]
proof
  assume "\<exists>c0. only_reads c c0 \<and> offer_project_link t p c0 = (Inr (name, server), c')"
  then obtain c0 ss c1 cands unch c2 a c3 where c0: "only_reads c c0" and inter: "t_interactive t"
    and l: "list_servers t c0 = (Inr ss, c1)"
    and f: "find_candidates t p ss c1 = (Inr (cands, unch), c2)"
    and a: "cl_answers c0 = a # cl_answers c3" "user_chose cands a (name, server)"
    and files: "cl_files c3 = cl_files c0"
    and link: "link_to_server t p name server c3 = (Inr (name, server), c')"
    using offer_project_link_Inr by (metis fst_conv snd_conv)
  have c1: "only_reads c c1" using reads.chain [OF c0 obeysD [OF list_servers_reads l]] .
  have cands: "\<forall>e \<in> set cands. e \<in> set ss \<and> entry_in t c (fst e) (snd e) \<and> found_present t p c (snd e)"
  proof
    fix e
    assume "e \<in> set cands"
    with find_candidates_present [OF f] have e: "e \<in> set ss" "found_present t p c1 (snd e)" by auto
    then have "entry_in t c0 (fst e) (snd e)" using list_servers_entry [OF l, of "fst e" "snd e"] by simp
    with e entry_in_reads [OF c0, of t "fst e" "snd e"] found_present_reads [OF c1]
    show "e \<in> set ss \<and> entry_in t c (fst e) (snd e) \<and> found_present t p c (snd e)" by simp
  qed
  obtain d where d: "record_project_binding t (lp_id p) name c3 = (Inr (), d)" "only_reads d c'"
    using link_to_server_Inr [OF link] by blast
  have bound: "bound_in t c' (lp_id p) name"
    using record_binding_Inr [OF assms(1) d(1)] d(2) by (simp add: bound_in_def only_reads_def)
  then obtain gp where gp: "global_config_path t = Inr gp" by (auto simp: bound_in_def)
  have "files_kept (\<lambda>q. global_config_path t \<noteq> Inr q) c3 d"
    by (rule obeysD [OF record_binding_kept [OF gp] d(1)]) (simp add: gp)
  then have kept: "files_kept (\<lambda>q. global_config_path t \<noteq> Inr q) c c'"
    using files c0 d(2) by (simp add: files_kept_def only_reads_def)
  have "cl_answers c = a # cl_answers c'"
    using a(1) c0 obeysD [OF link_to_server_silent link] by (simp add: only_reads_def answers_kept_def)
  with c0 inter l f cands a(2) bound kept show ?thesis unfolding user_chose_def by blast
qed auto

theorem resolution_never_guesses_witness:
  "\<exists>c'. bound_in choice_tools c' ''prj_1'' ''two'' \<and>
     resolve_project_server choice_tools choice_project choice_client =
       (Inr (''two'', choice_entry ''http://two''), c')"
proof -
  obtain c' where run: "resolve_project_server choice_tools choice_project choice_client =
      (Inr (''two'', choice_entry ''http://two''), c')" using choice_made by blast
  have "map_of choice_files ''.dev-state/client/config.json'' = None" by (simp add: choice_files_def)
  then have "\<not> bound_in choice_tools choice_client (lp_id choice_project) ''two''"
    by (simp add: bound_in_def choice_dirs choice_client_def)
  with resolution_never_guesses [OF choice_reads_back run]
  have "bound_in choice_tools c' (lp_id choice_project) ''two''" by blast
  with run show ?thesis by (auto simp: choice_project_def)
qed

end
