(* ===== verification/Manifest_Json.thy ===== *)
theory Manifest_Json
  imports Manifest "HOL-Library.Monad_Syntax"
begin

text \<open>
  How a manifest is written as JSON and read back (the attributes of the structs and enums in
  \<^verbatim>\<open>packages/manifest/src/model.rs\<close>, and \<^verbatim>\<open>to_json_string\<close> in \<^verbatim>\<open>packages/manifest/src/lib.rs\<close>): one
  reader and one writer per type, following its \<^verbatim>\<open>serde\<close> attributes.  A reader says only whether a value
  is accepted, and as what; the text of an error is the library's.  As in \<^verbatim>\<open>serde\<close>, a struct is read from
  an object or, in the order of its fields, from an array, and a variant from its name or from an
  object that maps its name to null.  How a number that is no integer is printed and read is left to
  the record \<open>number_format\<close>.
\<close>

record number_format =
  nf_show :: "real \<Rightarrow> string"
  nf_read :: "string \<Rightarrow> real"

section \<open>Readers\<close>

text \<open>
  Fields are looked up by name.  \<^verbatim>\<open>deny_unknown_fields\<close> refuses other names; an array may end early
  only when the struct has \<^verbatim>\<open>default\<close>.
\<close>

definition de_struct ::
    "bool \<Rightarrow> string list \<Rightarrow> ((string \<Rightarrow> json option) \<Rightarrow> 'a option) \<Rightarrow> json \<Rightarrow> 'a option" where
  "de_struct defaulted names build v =
     (case v of
        JObject obj \<Rightarrow>
          if list_all (\<lambda>(k, _). k \<in> set names) obj then build (map_of obj) else None
      | JArray vs \<Rightarrow>
          if length vs = length names \<or> defaulted \<and> length vs < length names
          then build (map_of (zip names vs)) else None
      | _ \<Rightarrow> None)"

definition optional :: "(string \<Rightarrow> json option) \<Rightarrow> string \<Rightarrow> (json \<Rightarrow> 'a option) \<Rightarrow> 'a option option" where
  "optional look k de =
     (case look k of None \<Rightarrow> Some None | Some JNull \<Rightarrow> Some None | Some v \<Rightarrow> map_option Some (de v))"

definition required :: "(string \<Rightarrow> json option) \<Rightarrow> string \<Rightarrow> (json \<Rightarrow> 'a option) \<Rightarrow> 'a option" where
  "required look k de = (case look k of None \<Rightarrow> None | Some v \<Rightarrow> de v)"

definition or_empty :: "(string \<Rightarrow> json option) \<Rightarrow> string \<Rightarrow> (json \<Rightarrow> 'a list option) \<Rightarrow> 'a list option" where
  "or_empty look k de = (case look k of None \<Rightarrow> Some [] | Some v \<Rightarrow> de v)"

fun de_string :: "json \<Rightarrow> string option" where
  "de_string (JString s) = Some s"
| "de_string _ = None"

text \<open>The text of a number never has a plus sign, so \<open>parse_uint\<close> takes the integers in range.\<close>

fun de_uint :: "nat \<Rightarrow> json \<Rightarrow> ('w::len) word option" where
  "de_uint bound (JNumber n) = map_option of_nat (parse_uint bound n)"
| "de_uint bound _ = None"

definition de_u16 :: "json \<Rightarrow> u16 option" where "de_u16 = de_uint (2 ^ 16)"
definition de_u32 :: "json \<Rightarrow> u32 option" where "de_u32 = de_uint (2 ^ 32)"
definition de_u64 :: "json \<Rightarrow> u64 option" where "de_u64 = de_uint (2 ^ 64)"

fun de_f64 :: "number_format \<Rightarrow> json \<Rightarrow> real option" where
  "de_f64 nf (JNumber n) = Some (nf_read nf n)"
| "de_f64 nf _ = None"

definition de_vec :: "(json \<Rightarrow> 'a option) \<Rightarrow> json \<Rightarrow> 'a list option" where
  "de_vec de v = (case v of JArray vs \<Rightarrow> those (map de vs) | _ \<Rightarrow> None)"

fun de_entries ::
    "(json \<Rightarrow> 'a option) \<Rightarrow> (string \<times> json) list \<Rightarrow> 'a index_map \<Rightarrow> 'a index_map option" where
  "de_entries de [] m = Some m"
| "de_entries de ((k, v) # obj) m = (case de v of None \<Rightarrow> None | Some x \<Rightarrow> de_entries de obj (index_insert k x m))"

definition de_index_map :: "(json \<Rightarrow> 'a option) \<Rightarrow> json \<Rightarrow> 'a index_map option" where
  "de_index_map de v = (case v of JObject obj \<Rightarrow> de_entries de obj [] | _ \<Rightarrow> None)"

definition de_variant :: "(string \<times> 'a) list \<Rightarrow> json \<Rightarrow> 'a option" where
  "de_variant variants v =
     (case v of JString s \<Rightarrow> map_of variants s | JObject [(s, JNull)] \<Rightarrow> map_of variants s | _ \<Rightarrow> None)"

definition de_project :: "json \<Rightarrow> project option" where
  "de_project = de_struct False [''id'', ''name''] (\<lambda>look. do {
     ident \<leftarrow> optional look ''id'' de_string;
     name \<leftarrow> required look ''name'' de_string;
     Some \<lparr>prj_id = ident, prj_name = name\<rparr> })"

definition de_github_link :: "json \<Rightarrow> github_link option" where
  "de_github_link = de_struct False [''repo'', ''branch''] (\<lambda>look. do {
     repo \<leftarrow> required look ''repo'' de_string;
     branch \<leftarrow> optional look ''branch'' de_string;
     Some \<lparr>gl_repo = repo, gl_branch = branch\<rparr> })"

definition de_service_github :: "json \<Rightarrow> service_github option" where
  "de_service_github = de_struct False [''repo'', ''branch'', ''path''] (\<lambda>look. do {
     repo \<leftarrow> required look ''repo'' de_string;
     branch \<leftarrow> optional look ''branch'' de_string;
     path \<leftarrow> optional look ''path'' de_string;
     Some \<lparr>sg_repo = repo, sg_branch = branch, sg_path = path\<rparr> })"

definition de_build :: "json \<Rightarrow> build option" where
  "de_build = de_struct True [''dockerfile'', ''args'', ''watch''] (\<lambda>look. do {
     dockerfile \<leftarrow> optional look ''dockerfile'' de_string;
     args \<leftarrow> or_empty look ''args'' (de_index_map de_string);
     watch \<leftarrow> optional look ''watch'' (de_vec de_string);
     Some \<lparr>bld_dockerfile = dockerfile, bld_args = args, bld_watch = watch\<rparr> })"

definition de_public_options :: "json \<Rightarrow> public_options option" where
  "de_public_options = de_struct True [''domain'', ''domains''] (\<lambda>look. do {
     domain \<leftarrow> optional look ''domain'' de_string;
     doms \<leftarrow> or_empty look ''domains'' (de_vec de_string);
     Some \<lparr>po_domain = domain, po_domains = doms\<rparr> })"

text \<open>\<^verbatim>\<open>untagged\<close>: the variants are tried in order.\<close>

definition de_public :: "json \<Rightarrow> public option" where
  "de_public v = (case v of JBool b \<Rightarrow> Some (Toggle b) | _ \<Rightarrow> map_option Options (de_public_options v))"

definition de_healthcheck :: "json \<Rightarrow> healthcheck option" where
  "de_healthcheck = de_struct False [''path'', ''timeout'', ''interval''] (\<lambda>look. do {
     path \<leftarrow> required look ''path'' de_string;
     timeout \<leftarrow> optional look ''timeout'' de_u64;
     interval \<leftarrow> optional look ''interval'' de_u64;
     Some \<lparr>hc_path = path, hc_timeout = timeout, hc_interval = interval\<rparr> })"

definition de_restart_policy :: "json \<Rightarrow> restart_policy option" where
  "de_restart_policy = de_variant [(''always'', Always), (''on-failure'', OnFailure), (''never'', Never)]"

definition de_strategy :: "json \<Rightarrow> strategy option" where
  "de_strategy = de_variant [(''rolling'', Rolling), (''recreate'', Recreate)]"

definition de_resources :: "number_format \<Rightarrow> json \<Rightarrow> resources option" where
  "de_resources nf = de_struct True [''cpu'', ''memory''] (\<lambda>look. do {
     cpu \<leftarrow> optional look ''cpu'' (de_f64 nf);
     memory \<leftarrow> optional look ''memory'' de_string;
     Some \<lparr>res_cpu = cpu, res_memory = memory\<rparr> })"

definition de_autoscale :: "json \<Rightarrow> autoscale option" where
  "de_autoscale = de_struct False [''min'', ''max'', ''targetCpuPercent''] (\<lambda>look. do {
     lo \<leftarrow> required look ''min'' de_u32;
     hi \<leftarrow> required look ''max'' de_u32;
     target \<leftarrow> optional look ''targetCpuPercent'' de_u32;
     Some \<lparr>asc_min = lo, asc_max = hi, asc_target_cpu_percent = target\<rparr> })"

definition de_scale :: "json \<Rightarrow> scale option" where
  "de_scale = de_struct True [''replicas'', ''autoscale''] (\<lambda>look. do {
     replicas \<leftarrow> optional look ''replicas'' de_u32;
     autoscale \<leftarrow> optional look ''autoscale'' de_autoscale;
     Some \<lparr>scl_replicas = replicas, scl_autoscale = autoscale\<rparr> })"

text \<open>The environment of a service goes through \<open>de_env_map\<close>.\<close>

definition de_env :: "(json \<Rightarrow> string) \<Rightarrow> json \<Rightarrow> string index_map option" where
  "de_env show_json v =
     (case de_index_map Some v of
        None \<Rightarrow> None
      | Some raw \<Rightarrow> (case de_env_map show_json raw of Inl _ \<Rightarrow> None | Inr env \<Rightarrow> Some env))"

definition service_fields :: "string list" where
  "service_fields = [''path'', ''image'', ''github'', ''build'', ''start'', ''port'', ''env'', ''envFiles'',
     ''public'', ''healthcheck'', ''restart'', ''dependsOn'', ''cron'', ''strategy'', ''drain'', ''volumes'',
     ''resources'', ''scale'']"

definition de_service :: "(json \<Rightarrow> string) \<Rightarrow> number_format \<Rightarrow> json \<Rightarrow> service option" where
  "de_service show_json nf = de_struct True service_fields (\<lambda>look. do {
     path \<leftarrow> optional look ''path'' de_string;
     image \<leftarrow> optional look ''image'' de_string;
     github \<leftarrow> optional look ''github'' de_service_github;
     build \<leftarrow> optional look ''build'' de_build;
     start \<leftarrow> optional look ''start'' de_string;
     port \<leftarrow> optional look ''port'' de_u16;
     env \<leftarrow> or_empty look ''env'' (de_env show_json);
     env_files \<leftarrow> or_empty look ''envFiles'' (de_vec de_string);
     public \<leftarrow> optional look ''public'' de_public;
     healthcheck \<leftarrow> optional look ''healthcheck'' de_healthcheck;
     restart \<leftarrow> optional look ''restart'' de_restart_policy;
     depends_on \<leftarrow> or_empty look ''dependsOn'' (de_vec de_string);
     cron \<leftarrow> optional look ''cron'' de_string;
     strategy \<leftarrow> optional look ''strategy'' de_strategy;
     drain \<leftarrow> optional look ''drain'' de_u64;
     volumes \<leftarrow> or_empty look ''volumes'' (de_index_map de_string);
     resources \<leftarrow> optional look ''resources'' (de_resources nf);
     scl \<leftarrow> optional look ''scale'' de_scale;
     Some \<lparr>svc_path = path, svc_image = image, svc_github = github, svc_build = build, svc_start = start,
       svc_port = port, svc_env = env, svc_env_files = env_files, svc_public = public,
       svc_healthcheck = healthcheck, svc_restart = restart, svc_depends_on = depends_on,
       svc_cron = cron, svc_strategy = strategy, svc_drain = drain, svc_volumes = volumes,
       svc_resources = resources, svc_scale = scl\<rparr> })"

definition de_manifest :: "(json \<Rightarrow> string) \<Rightarrow> number_format \<Rightarrow> json \<Rightarrow> manifest option" where
  "de_manifest show_json nf = de_struct True [''$schema'', ''project'', ''github'', ''services''] (\<lambda>look. do {
     schema \<leftarrow> optional look ''$schema'' de_string;
     project \<leftarrow> optional look ''project'' de_project;
     github \<leftarrow> optional look ''github'' de_github_link;
     services \<leftarrow> or_empty look ''services'' (de_index_map (de_service show_json nf));
     Some \<lparr>mf_schema = schema, mf_project = project, mf_github = github, mf_services = services\<rparr> })"

section \<open>Writers\<close>

text \<open>A field that is \<open>None\<close> here is skipped: \<^verbatim>\<open>skip_serializing_none\<close>, or the container is empty.\<close>

definition ser_struct :: "(string \<times> json option) list \<Rightarrow> json" where
  "ser_struct fs = JObject (List.map_filter (\<lambda>(k, v). map_option (Pair k) v) fs)"

definition unless_empty :: "('a list \<Rightarrow> json) \<Rightarrow> 'a list \<Rightarrow> json option" where
  "unless_empty ser xs = (if xs = [] then None else Some (ser xs))"

definition ser_uint :: "('w::len) word \<Rightarrow> json" where "ser_uint n = JNumber (show_nat (unat n))"

definition ser_f64 :: "number_format \<Rightarrow> real \<Rightarrow> json" where "ser_f64 nf x = JNumber (nf_show nf x)"

definition ser_vec :: "('a \<Rightarrow> json) \<Rightarrow> 'a list \<Rightarrow> json" where "ser_vec ser xs = JArray (map ser xs)"

definition ser_index_map :: "('a \<Rightarrow> json) \<Rightarrow> 'a index_map \<Rightarrow> json" where
  "ser_index_map ser m = JObject (map (\<lambda>(k, x). (k, ser x)) m)"

definition ser_project :: "project \<Rightarrow> json" where
  "ser_project p = ser_struct [(''id'', map_option JString (prj_id p)), (''name'', Some (JString (prj_name p)))]"

definition ser_github_link :: "github_link \<Rightarrow> json" where
  "ser_github_link g =
     ser_struct [(''repo'', Some (JString (gl_repo g))), (''branch'', map_option JString (gl_branch g))]"

definition ser_service_github :: "service_github \<Rightarrow> json" where
  "ser_service_github g =
     ser_struct [(''repo'', Some (JString (sg_repo g))), (''branch'', map_option JString (sg_branch g)),
       (''path'', map_option JString (sg_path g))]"

definition ser_build :: "build \<Rightarrow> json" where
  "ser_build b =
     ser_struct [(''dockerfile'', map_option JString (bld_dockerfile b)),
       (''args'', unless_empty (ser_index_map JString) (bld_args b)),
       (''watch'', map_option (ser_vec JString) (bld_watch b))]"

definition ser_public_options :: "public_options \<Rightarrow> json" where
  "ser_public_options opts =
     ser_struct [(''domain'', map_option JString (po_domain opts)),
       (''domains'', unless_empty (ser_vec JString) (po_domains opts))]"

fun ser_public :: "public \<Rightarrow> json" where
  "ser_public (Toggle b) = JBool b"
| "ser_public (Options opts) = ser_public_options opts"

definition ser_healthcheck :: "healthcheck \<Rightarrow> json" where
  "ser_healthcheck h =
     ser_struct [(''path'', Some (JString (hc_path h))), (''timeout'', map_option ser_uint (hc_timeout h)),
       (''interval'', map_option ser_uint (hc_interval h))]"

fun ser_restart_policy :: "restart_policy \<Rightarrow> json" where
  "ser_restart_policy Always = JString ''always''"
| "ser_restart_policy OnFailure = JString ''on-failure''"
| "ser_restart_policy Never = JString ''never''"

fun ser_strategy :: "strategy \<Rightarrow> json" where
  "ser_strategy Rolling = JString ''rolling''"
| "ser_strategy Recreate = JString ''recreate''"

definition ser_resources :: "number_format \<Rightarrow> resources \<Rightarrow> json" where
  "ser_resources nf r =
     ser_struct [(''cpu'', map_option (ser_f64 nf) (res_cpu r)), (''memory'', map_option JString (res_memory r))]"

definition ser_autoscale :: "autoscale \<Rightarrow> json" where
  "ser_autoscale a =
     ser_struct [(''min'', Some (ser_uint (asc_min a))), (''max'', Some (ser_uint (asc_max a))),
       (''targetCpuPercent'', map_option ser_uint (asc_target_cpu_percent a))]"

definition ser_scale :: "scale \<Rightarrow> json" where
  "ser_scale s =
     ser_struct [(''replicas'', map_option ser_uint (scl_replicas s)),
       (''autoscale'', map_option ser_autoscale (scl_autoscale s))]"

definition ser_service :: "number_format \<Rightarrow> service \<Rightarrow> json" where
  "ser_service nf s =
     ser_struct [(''path'', map_option JString (svc_path s)), (''image'', map_option JString (svc_image s)),
       (''github'', map_option ser_service_github (svc_github s)), (''build'', map_option ser_build (svc_build s)),
       (''start'', map_option JString (svc_start s)), (''port'', map_option ser_uint (svc_port s)),
       (''env'', unless_empty (ser_index_map JString) (svc_env s)),
       (''envFiles'', unless_empty (ser_vec JString) (svc_env_files s)),
       (''public'', map_option ser_public (svc_public s)),
       (''healthcheck'', map_option ser_healthcheck (svc_healthcheck s)),
       (''restart'', map_option ser_restart_policy (svc_restart s)),
       (''dependsOn'', unless_empty (ser_vec JString) (svc_depends_on s)),
       (''cron'', map_option JString (svc_cron s)), (''strategy'', map_option ser_strategy (svc_strategy s)),
       (''drain'', map_option ser_uint (svc_drain s)),
       (''volumes'', unless_empty (ser_index_map JString) (svc_volumes s)),
       (''resources'', map_option (ser_resources nf) (svc_resources s)),
       (''scale'', map_option ser_scale (svc_scale s))]"

definition ser_manifest :: "number_format \<Rightarrow> manifest \<Rightarrow> json" where
  "ser_manifest nf m =
     ser_struct [(''$schema'', map_option JString (mf_schema m)), (''project'', map_option ser_project (mf_project m)),
       (''github'', map_option ser_github_link (mf_github m)),
       (''services'', unless_empty (ser_index_map (ser_service nf)) (mf_services m))]"

text \<open>\<open>pretty\<close> is \<^verbatim>\<open>serde_json::to_string_pretty\<close>.\<close>

definition to_json_string :: "(json \<Rightarrow> string) \<Rightarrow> number_format \<Rightarrow> manifest \<Rightarrow> string" where
  "to_json_string pretty nf m = pretty (ser_manifest nf m) @ [CHR 0x0A]"

section \<open>What is written is read back\<close>

lemma map_of_present:
  "distinct (map fst fs) \<Longrightarrow>
     map_of (List.map_filter (\<lambda>(k, v). map_option (Pair k) v) fs) k =
     (case map_of fs k of None \<Rightarrow> None | Some v \<Rightarrow> v)"
proof (induction fs)
  case (Cons f fs)
  obtain k' v where f: "f = (k', v)" by (cases f)
  show ?case
  proof (cases "k = k'")
    case True
    with Cons.prems f have "map_of fs k = None" by (auto simp: map_of_eq_None_iff)
    with Cons f True show ?thesis by (auto simp: List.map_filter_def split: option.splits)
  next
    case False
    with Cons f show ?thesis by (auto simp: List.map_filter_def split: option.splits)
  qed
qed (simp add: List.map_filter_def)

lemma ser_struct_is_object [simp]: "ser_struct fs \<noteq> JNull"
  by (simp add: ser_struct_def)

lemma de_ser_struct:
  assumes "map fst fs = names" and "distinct names"
  shows "de_struct d names build (ser_struct fs) =
    build (\<lambda>k. case map_of fs k of None \<Rightarrow> None | Some v \<Rightarrow> v)"
proof -
  have "list_all (\<lambda>(k, _). k \<in> set names) (List.map_filter (\<lambda>(k, v). map_option (Pair k) v) fs)"
    using assms(1) by (force simp: list_all_iff List.map_filter_def)
  moreover have "map_of (List.map_filter (\<lambda>(k, v). map_option (Pair k) v) fs) =
      (\<lambda>k. case map_of fs k of None \<Rightarrow> None | Some v \<Rightarrow> v)"
    using map_of_present [of fs] assms by (auto simp: fun_eq_iff)
  ultimately show ?thesis by (simp add: de_struct_def ser_struct_def)
qed

text \<open>The contract of a type: what its writer writes, its reader reads back.\<close>

locale wire_type =
  fixes ser :: "'a \<Rightarrow> json" and de :: "json \<Rightarrow> 'a option" and ok :: "'a \<Rightarrow> bool"
  assumes reads_back: "ok x \<Longrightarrow> de (ser x) = Some x"
    and never_null: "ser x \<noteq> JNull"
begin

lemma optional_reads:
  assumes "look k = map_option ser x" and "\<And>y. x = Some y \<Longrightarrow> ok y"
  shows "optional look k de = Some x"
proof (cases x)
  case (Some y)
  then show ?thesis
    using assms reads_back [of y] never_null [of y] by (cases "ser y") (simp_all add: optional_def)
qed (simp add: assms optional_def)

lemma required_reads: "\<lbrakk>look k = Some (ser x); ok x\<rbrakk> \<Longrightarrow> required look k de = Some x"
  by (simp add: required_def reads_back)

lemma vec_reads: "list_all ok xs \<Longrightarrow> de_vec de (ser_vec ser xs) = Some xs"
  unfolding de_vec_def ser_vec_def by (induction xs) (auto simp: reads_back)

lemma vec_or_empty_reads:
  "\<lbrakk>look k = unless_empty (ser_vec ser) xs; list_all ok xs\<rbrakk> \<Longrightarrow> or_empty look k (de_vec de) = Some xs"
  by (cases "xs = []") (simp_all add: or_empty_def unless_empty_def vec_reads)

lemma entries_read:
  assumes "list_all (\<lambda>(k, x). ok x) m" and "distinct (map fst (m0 @ m))"
  shows "de_entries de (map (\<lambda>(k, x). (k, ser x)) m) m0 = Some (m0 @ m)"
  using assms
proof (induction m arbitrary: m0)
  case (Cons kx m)
  obtain k x where kx: "kx = (k, x)" by (cases kx)
  with Cons.prems have "index_insert k x m0 = m0 @ [(k, x)]" by (intro index_insert_fresh) auto
  with Cons kx show ?case by (simp add: reads_back)
qed simp

lemma map_reads:
  "\<lbrakk>list_all (\<lambda>(k, x). ok x) m; distinct (map fst m)\<rbrakk> \<Longrightarrow>
     de_index_map de (ser_index_map ser m) = Some m"
  using entries_read [of m "[]"] by (simp add: de_index_map_def ser_index_map_def)

lemma map_or_empty_reads:
  "\<lbrakk>look k = unless_empty (ser_index_map ser) m; list_all (\<lambda>(k, x). ok x) m; distinct (map fst m)\<rbrakk> \<Longrightarrow>
     or_empty look k (de_index_map de) = Some m"
  by (cases "m = []") (simp_all add: or_empty_def unless_empty_def map_reads)

end

interpretation strings: wire_type JString de_string "\<lambda>_. True"
  by unfold_locales simp_all

lemma de_ser_uint:
  assumes "2 ^ LENGTH('w) \<le> bound"
  shows "de_uint bound (ser_uint n) = Some (n :: ('w::len) word)"
proof -
  have "unat n < bound" using assms unsigned_less [of n, where ?'a = nat] by linarith
  then show ?thesis by (simp add: ser_uint_def parse_uint_show_nat)
qed

interpretation u16s: wire_type ser_uint de_u16 "\<lambda>_. True"
  by unfold_locales (simp_all add: de_u16_def de_ser_uint, simp add: ser_uint_def)

interpretation u32s: wire_type ser_uint de_u32 "\<lambda>_. True"
  by unfold_locales (simp_all add: de_u32_def de_ser_uint, simp add: ser_uint_def)

interpretation u64s: wire_type ser_uint de_u64 "\<lambda>_. True"
  by unfold_locales (simp_all add: de_u64_def de_ser_uint, simp add: ser_uint_def)

text \<open>
  A number is shown exactly when it is read back from the text it is shown as.  Short decimals are; the
  reader of \<^verbatim>\<open>serde_json\<close> is inexact in the last digits of others, unless its feature \<^verbatim>\<open>float_roundtrip\<close> is
  enabled, which this program does not do.
\<close>

definition shown_exactly :: "number_format \<Rightarrow> real \<Rightarrow> bool" where
  "shown_exactly nf x \<longleftrightarrow> nf_read nf (nf_show nf x) = x"

interpretation floats: wire_type "ser_f64 nf" "de_f64 nf" "shown_exactly nf" for nf
  by unfold_locales (simp_all add: ser_f64_def shown_exactly_def)

section \<open>The types of the manifest\<close>

text \<open>What a value must satisfy to be written: maps with distinct keys, exactly shown numbers.\<close>

definition distinct_keys :: "'v index_map \<Rightarrow> bool" where
  "distinct_keys m \<longleftrightarrow> distinct (map fst m)"

definition build_writable :: "build \<Rightarrow> bool" where
  "build_writable b \<longleftrightarrow> distinct_keys (bld_args b)"

definition resources_writable :: "number_format \<Rightarrow> resources \<Rightarrow> bool" where
  "resources_writable nf r \<longleftrightarrow> pred_option (shown_exactly nf) (res_cpu r)"

definition service_writable :: "number_format \<Rightarrow> service \<Rightarrow> bool" where
  "service_writable nf s \<longleftrightarrow> distinct_keys (svc_env s) \<and> distinct_keys (svc_volumes s) \<and>
     pred_option build_writable (svc_build s) \<and> pred_option (resources_writable nf) (svc_resources s)"

definition manifest_writable :: "number_format \<Rightarrow> manifest \<Rightarrow> bool" where
  "manifest_writable nf m \<longleftrightarrow> distinct_keys (mf_services m) \<and>
     list_all (\<lambda>(_, s). service_writable nf s) (mf_services m)"

interpretation projects: wire_type ser_project de_project "\<lambda>_. True"
  by unfold_locales (simp_all add: ser_project_def de_project_def de_ser_struct
      strings.optional_reads strings.required_reads)

interpretation github_links: wire_type ser_github_link de_github_link "\<lambda>_. True"
  by unfold_locales (simp_all add: ser_github_link_def de_github_link_def de_ser_struct
      strings.optional_reads strings.required_reads)

interpretation service_githubs: wire_type ser_service_github de_service_github "\<lambda>_. True"
  by unfold_locales (simp_all add: ser_service_github_def de_service_github_def de_ser_struct
      strings.optional_reads strings.required_reads)

interpretation string_vecs: wire_type "ser_vec JString" "de_vec de_string" "\<lambda>_. True"
  by unfold_locales (simp_all add: strings.vec_reads list_all_iff, simp add: ser_vec_def)

interpretation builds: wire_type ser_build de_build build_writable
  by unfold_locales (simp_all add: ser_build_def de_build_def de_ser_struct build_writable_def distinct_keys_def
      strings.optional_reads strings.map_or_empty_reads string_vecs.optional_reads list_all_iff)

interpretation option_lists: wire_type ser_public_options de_public_options "\<lambda>_. True"
  by unfold_locales (simp_all add: ser_public_options_def de_public_options_def de_ser_struct
      strings.optional_reads strings.vec_or_empty_reads list_all_iff)

interpretation publics: wire_type ser_public de_public "\<lambda>_. True"
proof
  show "de_public (ser_public p) = Some p" for p
    using option_lists.reads_back [of "case p of Options opts \<Rightarrow> opts"]
    by (cases p) (auto simp: de_public_def ser_public_options_def ser_struct_def)
  show "ser_public p \<noteq> JNull" for p by (cases p) (simp_all add: ser_public_options_def)
qed

interpretation healthchecks: wire_type ser_healthcheck de_healthcheck "\<lambda>_. True"
  by unfold_locales (simp_all add: ser_healthcheck_def de_healthcheck_def de_ser_struct
      strings.required_reads u64s.optional_reads)

interpretation restart_policies: wire_type ser_restart_policy de_restart_policy "\<lambda>_. True"
proof
  show "de_restart_policy (ser_restart_policy p) = Some p" "ser_restart_policy p \<noteq> JNull" for p
    by (cases p; simp add: de_restart_policy_def de_variant_def)+
qed

interpretation strategies: wire_type ser_strategy de_strategy "\<lambda>_. True"
proof
  show "de_strategy (ser_strategy p) = Some p" "ser_strategy p \<noteq> JNull" for p
    by (cases p; simp add: de_strategy_def de_variant_def)+
qed

interpretation resource_limits: wire_type "ser_resources nf" "de_resources nf" "resources_writable nf" for nf
  by unfold_locales (simp_all add: ser_resources_def de_resources_def de_ser_struct resources_writable_def
      strings.optional_reads floats.optional_reads option.pred_set)

interpretation autoscales: wire_type ser_autoscale de_autoscale "\<lambda>_. True"
  by unfold_locales (simp_all add: ser_autoscale_def de_autoscale_def de_ser_struct
      u32s.required_reads u32s.optional_reads)

interpretation scales: wire_type ser_scale de_scale "\<lambda>_. True"
  by unfold_locales (simp_all add: ser_scale_def de_scale_def de_ser_struct
      u32s.optional_reads autoscales.optional_reads)

lemma de_env_reads:
  assumes "distinct_keys env"
  shows "de_env show_json (ser_index_map JString env) = Some env"
proof -
  have "de_index_map Some (ser_index_map JString env) = Some (map (\<lambda>(k, s). (k, JString s)) env)"
  proof -
    have "de_entries Some obj m = Some (m @ obj)" if "distinct (map fst (m @ obj))" for obj m :: "json index_map"
      using that
    proof (induction obj arbitrary: m)
      case (Cons kv obj)
      then have "index_insert (fst kv) (snd kv) m = m @ [kv]" by (simp add: index_insert_fresh)
      with Cons show ?case by (cases kv) simp
    qed simp
    moreover have "distinct (map fst (map (\<lambda>(k, s). (k, JString s)) env))"
      using assms by (simp add: distinct_keys_def case_prod_unfold comp_def)
    ultimately show ?thesis by (simp add: de_index_map_def ser_index_map_def)
  qed
  moreover have "de_env_map show_json (map (\<lambda>(k, s). (k, JString s)) env) = Inr env"
    using de_env_entries_ok [of "[]" env show_json "map (\<lambda>(k, s). (k, JString s)) env"] assms
    by (simp add: de_env_map_def distinct_keys_def list.rel_map(1) case_prod_unfold list.rel_refl)
  ultimately show ?thesis by (simp add: de_env_def)
qed

lemma env_or_empty_reads:
  "\<lbrakk>look k = unless_empty (ser_index_map JString) env; distinct_keys env\<rbrakk> \<Longrightarrow>
     or_empty look k (de_env show_json) = Some env"
  by (cases "env = []") (simp_all add: or_empty_def unless_empty_def de_env_reads)

lemmas field_reads =
  strings.optional_reads strings.vec_or_empty_reads strings.map_or_empty_reads u16s.optional_reads
  u64s.optional_reads service_githubs.optional_reads builds.optional_reads publics.optional_reads
  healthchecks.optional_reads restart_policies.optional_reads strategies.optional_reads
  resource_limits.optional_reads scales.optional_reads env_or_empty_reads

interpretation services: wire_type "ser_service nf" "de_service show_json nf" "service_writable nf"
  for show_json nf
proof
  show "de_service show_json nf (ser_service nf s) = Some s" if "service_writable nf s" for s
    using that unfolding service_writable_def distinct_keys_def [of "svc_volumes s"]
    by (simp add: ser_service_def de_service_def de_ser_struct service_fields_def field_reads
        list_all_iff option.pred_set)
  show "ser_service nf s \<noteq> JNull" for s by (simp add: ser_service_def)
qed

interpretation manifests: wire_type "ser_manifest nf" "de_manifest show_json nf" "manifest_writable nf"
  for show_json nf
proof
  show "de_manifest show_json nf (ser_manifest nf m) = Some m" if "manifest_writable nf m" for m
    using that
    by (simp add: ser_manifest_def de_manifest_def de_ser_struct manifest_writable_def distinct_keys_def
        strings.optional_reads projects.optional_reads github_links.optional_reads
        services.map_or_empty_reads)
  show "ser_manifest nf m \<noteq> JNull" for m by (simp add: ser_manifest_def)
qed

section \<open>What is read can be written\<close>

text \<open>The numbers of a manifest, its CPU shares, are shown exactly.\<close>

definition exact_numbers :: "number_format \<Rightarrow> manifest \<Rightarrow> bool" where
  "exact_numbers nf m \<longleftrightarrow>
     list_all (\<lambda>(_, s). pred_option (resources_writable nf) (svc_resources s)) (mf_services m)"

lemma distinct_de_entries:
  "de_entries de obj m = Some m' \<Longrightarrow> distinct_keys m \<Longrightarrow> distinct_keys m'"
  by (induction de obj m rule: de_entries.induct)
    (auto simp: distinct_keys_def distinct_index_insert split: option.splits)

lemma set_index_insert: "set (index_insert k v m) \<subseteq> insert (k, v) (set m)"
  by (induction m) (auto split: if_splits)

lemma de_entries_values:
  "de_entries de obj m = Some m' \<Longrightarrow> (k, x) \<in> set m' \<Longrightarrow> (k, x) \<in> set m \<or> (\<exists>v. de v = Some x)"
proof (induction de obj m rule: de_entries.induct)
  case (2 de k' v obj m)
  then show ?case using set_index_insert [of k' _ m] by (fastforce split: option.splits)
qed simp

lemma de_index_map_writable:
  assumes "de_index_map de v = Some m"
  shows "distinct_keys m" and "(k, x) \<in> set m \<Longrightarrow> \<exists>v. de v = Some x"
  using assms distinct_de_entries [of de _ "[]" m] de_entries_values [of de _ "[]" m k x]
  by (auto simp: de_index_map_def distinct_keys_def split: json.splits)

lemma distinct_de_env_entries:
  "de_env_entries show_json raw env = Inr env' \<Longrightarrow> distinct_keys env \<Longrightarrow> distinct_keys env'"
  by (induction show_json raw env rule: de_env_entries.induct)
    (auto simp: distinct_keys_def distinct_index_insert split: sum.splits)

lemma de_env_writable: "de_env show_json v = Some env \<Longrightarrow> distinct_keys env"
  using distinct_de_env_entries [of show_json _ "[]" env]
  by (auto simp: de_env_def de_env_map_def distinct_keys_def split: option.splits sum.splits)

lemma or_empty_writable:
  "or_empty look k de = Some m \<Longrightarrow> (\<And>v m. de v = Some m \<Longrightarrow> distinct_keys m) \<Longrightarrow> distinct_keys m"
  by (auto simp: or_empty_def distinct_keys_def split: option.splits)

lemma optional_Some:
  "optional look k de = Some (Some x) \<Longrightarrow> \<exists>v. de v = Some x"
  by (auto simp: optional_def split: option.splits json.splits)

lemma de_struct_Some: "de_struct d names build v = Some x \<Longrightarrow> \<exists>look. build look = Some x"
  by (auto simp: de_struct_def split: json.splits if_splits)

lemma de_build_writable: "de_build v = Some b \<Longrightarrow> build_writable b"
  unfolding de_build_def build_writable_def
  by (auto dest!: de_struct_Some or_empty_writable split: Option.bind_splits
      intro: de_index_map_writable(1))

lemma de_service_writable:
  assumes "de_service show_json nf v = Some s" and "pred_option (resources_writable nf) (svc_resources s)"
  shows "service_writable nf s"
proof -
  have env: "distinct_keys env" if "or_empty look k (de_env show_json) = Some env" for look k env
    using or_empty_writable [OF that] de_env_writable by blast
  have vols: "distinct_keys m" if "or_empty look k (de_index_map de_string) = Some m" for look k m
    using or_empty_writable [OF that] de_index_map_writable(1) by blast
  have bld: "pred_option build_writable b" if "optional look k de_build = Some b" for look k b
    using that optional_Some [of look k de_build] de_build_writable by (cases b) auto
  show ?thesis
    using assms unfolding de_service_def service_writable_def
    by (elim de_struct_Some [THEN exE]) (clarsimp simp: Option.bind_eq_Some_conv env vols bld)
qed

lemma de_manifest_writable:
  assumes "de_manifest show_json nf v = Some m" and "exact_numbers nf m"
  shows "manifest_writable nf m"
proof -
  have "distinct_keys ss \<and> list_all (\<lambda>(_, s). service_writable nf s) ss"
    if "or_empty look k (de_index_map (de_service show_json nf)) = Some ss"
      and "list_all (\<lambda>(_, s). pred_option (resources_writable nf) (svc_resources s)) ss" for look k ss
  proof (cases "look k")
    case None
    with that show ?thesis by (simp add: or_empty_def distinct_keys_def)
  next
    case (Some v)
    with that have ss: "de_index_map (de_service show_json nf) v = Some ss" by (simp add: or_empty_def)
    have "service_writable nf x" if "(k, x) \<in> set ss" for k x
      using de_index_map_writable(2) [OF ss that] de_service_writable [of show_json nf _ x] that
        \<open>list_all _ ss\<close> by (auto simp: list_all_iff)
    with de_index_map_writable(1) [OF ss] show ?thesis by (auto simp: list_all_iff)
  qed
  with assms show ?thesis
    unfolding de_manifest_def manifest_writable_def exact_numbers_def
    by (auto dest!: de_struct_Some simp: Option.bind_eq_Some_conv)
qed

end
