(* ===== verification/Api_Json.thy ===== *)
theory Api_Json
  imports Manifest_Json Routes Client_World
begin

text \<open>
  The JSON of what client and server exchange and of what the client stores: one reader and one writer per
  struct of \<^verbatim>\<open>packages/types/src\<close>, of \<^verbatim>\<open>packages/auth/src/invite.rs\<close> and of \<^verbatim>\<open>apps/cli/src/config.rs\<close>,
  following its \<^verbatim>\<open>serde\<close> attributes.  These structs are read from text directly: unknown fields are
  skipped, a field that occurs twice is an error, and only fields with \<^verbatim>\<open>default\<close> may be missing from an
  array.  An object keeps the fields of its text, repeated ones too.
\<close>

section \<open>Readers\<close>

definition de_open ::
    "string list \<Rightarrow> string list \<Rightarrow> ((string \<Rightarrow> json option) \<Rightarrow> 'a option) \<Rightarrow> json \<Rightarrow> 'a option" where
  "de_open names defaulted build v =
     (case v of
        JObject obj \<Rightarrow>
          if list_all (\<lambda>k. length (filter (\<lambda>(k', _). k' = k) obj) \<le> 1) names then build (map_of obj) else None
      | JArray vs \<Rightarrow>
          if length vs \<le> length names \<and> list_all (\<lambda>k. k \<in> set defaulted) (drop (length vs) names)
          then build (map_of (zip names vs)) else None
      | _ \<Rightarrow> None)"

fun de_bool :: "json \<Rightarrow> bool option" where
  "de_bool (JBool b) = Some b"
| "de_bool _ = None"

definition de_create_project_request :: "json \<Rightarrow> create_project_request option" where
  "de_create_project_request = de_open [''name'', ''id''] [''id''] (\<lambda>look. do {
     name \<leftarrow> required look ''name'' de_string;
     ident \<leftarrow> optional look ''id'' de_string;
     Some \<lparr>cpr_name = name, cpr_id = ident\<rparr> })"

definition de_project_summary :: "json \<Rightarrow> project_summary option" where
  "de_project_summary = de_open [''id'', ''name'', ''created_at''] [] (\<lambda>look. do {
     ident \<leftarrow> required look ''id'' de_string;
     name \<leftarrow> required look ''name'' de_string;
     created_at \<leftarrow> required look ''created_at'' de_u64;
     Some \<lparr>ps_id = ident, ps_name = name, ps_created_at = created_at\<rparr> })"

definition de_projects :: "json \<Rightarrow> project_summary list option" where
  "de_projects = de_open [''projects''] [] (\<lambda>look. required look ''projects'' (de_vec de_project_summary))"

definition de_release_status :: "json \<Rightarrow> release_status option" where
  "de_release_status = de_variant [(''unpacking'', Unpacking), (''ready'', Ready), (''failed'', Failed)]"

definition de_release_summary :: "json \<Rightarrow> release_summary option" where
  "de_release_summary =
     de_open [''id'', ''project_id'', ''status'', ''message'', ''error'', ''created_at'', ''updated_at'']
       [''message'', ''error''] (\<lambda>look. do {
     ident \<leftarrow> required look ''id'' de_string;
     project_id \<leftarrow> required look ''project_id'' de_string;
     st \<leftarrow> required look ''status'' de_release_status;
     message \<leftarrow> optional look ''message'' de_string;
     err \<leftarrow> optional look ''error'' de_string;
     created_at \<leftarrow> required look ''created_at'' de_u64;
     updated_at \<leftarrow> required look ''updated_at'' de_u64;
     Some \<lparr>rs_id = ident, rs_project_id = project_id, rs_status = st, rs_message = message, rs_error = err,
       rs_created_at = created_at, rs_updated_at = updated_at\<rparr> })"

definition de_releases :: "json \<Rightarrow> release_summary list option" where
  "de_releases = de_open [''releases''] [] (\<lambda>look. required look ''releases'' (de_vec de_release_summary))"

definition de_create_user_request :: "json \<Rightarrow> create_user_request option" where
  "de_create_user_request = de_open [''name'', ''project_id''] [''project_id''] (\<lambda>look. do {
     name \<leftarrow> required look ''name'' de_string;
     project_id \<leftarrow> optional look ''project_id'' de_string;
     Some \<lparr>cur_name = name, cur_project_id = project_id\<rparr> })"

definition de_create_user_response :: "json \<Rightarrow> create_user_response option" where
  "de_create_user_response = de_open [''user_id'', ''invite_blob'', ''expires_at''] [] (\<lambda>look. do {
     user_id \<leftarrow> required look ''user_id'' de_string;
     invite_blob \<leftarrow> required look ''invite_blob'' de_string;
     expires_at \<leftarrow> required look ''expires_at'' de_u64;
     Some \<lparr>cus_user_id = user_id, cus_invite_blob = invite_blob, cus_expires_at = expires_at\<rparr> })"

definition de_user_summary :: "json \<Rightarrow> user_summary option" where
  "de_user_summary = de_open [''id'', ''name'', ''project_id'', ''has_key'', ''created_at''] [''project_id'']
     (\<lambda>look. do {
     ident \<leftarrow> required look ''id'' de_string;
     name \<leftarrow> required look ''name'' de_string;
     project_id \<leftarrow> optional look ''project_id'' de_string;
     has_key \<leftarrow> required look ''has_key'' de_bool;
     created_at \<leftarrow> required look ''created_at'' de_u64;
     Some \<lparr>us_id = ident, us_name = name, us_project_id = project_id, us_has_key = has_key,
       us_created_at = created_at\<rparr> })"

definition de_users :: "json \<Rightarrow> user_summary list option" where
  "de_users = de_open [''users''] [] (\<lambda>look. required look ''users'' (de_vec de_user_summary))"

definition de_whoami_response :: "json \<Rightarrow> whoami_response option" where
  "de_whoami_response = de_open [''user_id'', ''name'', ''project_id'', ''project_name'']
     [''project_id'', ''project_name''] (\<lambda>look. do {
     user_id \<leftarrow> required look ''user_id'' de_string;
     name \<leftarrow> required look ''name'' de_string;
     project_id \<leftarrow> optional look ''project_id'' de_string;
     project_name \<leftarrow> optional look ''project_name'' de_string;
     Some \<lparr>who_user_id = user_id, who_name = name, who_project_id = project_id,
       who_project_name = project_name\<rparr> })"

definition de_invite_project :: "json \<Rightarrow> invite_project option" where
  "de_invite_project = de_open [''id'', ''name''] [] (\<lambda>look. do {
     ident \<leftarrow> required look ''id'' de_string;
     name \<leftarrow> required look ''name'' de_string;
     Some \<lparr>ip_id = ident, ip_name = name\<rparr> })"

definition de_invite_payload :: "json \<Rightarrow> invite_payload option" where
  "de_invite_payload =
     de_open [''server_url'', ''server_name'', ''user_id'', ''user_name'', ''project'', ''invite_token'', ''expires_at'']
       [''project''] (\<lambda>look. do {
     url \<leftarrow> required look ''server_url'' de_string;
     server_name \<leftarrow> required look ''server_name'' de_string;
     user_id \<leftarrow> required look ''user_id'' de_string;
     user_name \<leftarrow> required look ''user_name'' de_string;
     project \<leftarrow> optional look ''project'' de_invite_project;
     token \<leftarrow> required look ''invite_token'' de_string;
     expires_at \<leftarrow> required look ''expires_at'' de_u64;
     Some \<lparr>inv_server_url = url, inv_server_name = server_name, inv_user = user_id, inv_user_name = user_name,
       inv_project = project, inv_token = token, inv_expires = expires_at\<rparr> })"

definition de_redeem_request :: "json \<Rightarrow> (string \<times> string) option" where
  "de_redeem_request = de_open [''invite_token'', ''public_key''] [] (\<lambda>look. do {
     token \<leftarrow> required look ''invite_token'' de_string;
     key \<leftarrow> required look ''public_key'' de_string;
     Some (token, key) })"

definition de_redeem_response :: "json \<Rightarrow> string option" where
  "de_redeem_response = de_open [''key_id''] [] (\<lambda>look. required look ''key_id'' de_string)"

definition de_server_config :: "json \<Rightarrow> server_config option" where
  "de_server_config = de_open [''server_url'', ''key_id'', ''private_key_path''] [] (\<lambda>look. do {
     url \<leftarrow> required look ''server_url'' de_string;
     key_id \<leftarrow> required look ''key_id'' de_string;
     path \<leftarrow> required look ''private_key_path'' de_string;
     Some \<lparr>sc_server_url = url, sc_key_id = key_id, sc_key_path = path\<rparr> })"

definition de_stored_key :: "json \<Rightarrow> stored_key option" where
  "de_stored_key = de_open [''key_id'', ''secret_key_base64''] [] (\<lambda>look. do {
     key_id \<leftarrow> required look ''key_id'' de_string;
     secret \<leftarrow> required look ''secret_key_base64'' de_string;
     Some \<lparr>sk_key_id = key_id, sk_secret_base64 = secret\<rparr> })"

definition de_global_config :: "json \<Rightarrow> (string \<times> string) list option" where
  "de_global_config = de_open [''projects''] [''projects''] (\<lambda>look. or_empty look ''projects'' (de_index_map de_string))"

section \<open>Writers\<close>

definition ser_create_project_request :: "create_project_request \<Rightarrow> json" where
  "ser_create_project_request r =
     ser_struct [(''name'', Some (JString (cpr_name r))), (''id'', map_option JString (cpr_id r))]"

definition ser_project_summary :: "project_summary \<Rightarrow> json" where
  "ser_project_summary p =
     ser_struct [(''id'', Some (JString (ps_id p))), (''name'', Some (JString (ps_name p))),
       (''created_at'', Some (ser_uint (ps_created_at p)))]"

definition ser_projects :: "project_summary list \<Rightarrow> json" where
  "ser_projects ps = ser_struct [(''projects'', Some (ser_vec ser_project_summary ps))]"

definition ser_release_status :: "release_status \<Rightarrow> json" where
  "ser_release_status st =
     JString (case st of Unpacking \<Rightarrow> ''unpacking'' | Ready \<Rightarrow> ''ready'' | Failed \<Rightarrow> ''failed'')"

definition ser_release_summary :: "release_summary \<Rightarrow> json" where
  "ser_release_summary r =
     ser_struct [(''id'', Some (JString (rs_id r))), (''project_id'', Some (JString (rs_project_id r))),
       (''status'', Some (ser_release_status (rs_status r))), (''message'', map_option JString (rs_message r)),
       (''error'', map_option JString (rs_error r)), (''created_at'', Some (ser_uint (rs_created_at r))),
       (''updated_at'', Some (ser_uint (rs_updated_at r)))]"

definition ser_releases :: "release_summary list \<Rightarrow> json" where
  "ser_releases rs = ser_struct [(''releases'', Some (ser_vec ser_release_summary rs))]"

definition ser_create_user_request :: "create_user_request \<Rightarrow> json" where
  "ser_create_user_request r =
     ser_struct [(''name'', Some (JString (cur_name r))), (''project_id'', map_option JString (cur_project_id r))]"

definition ser_create_user_response :: "create_user_response \<Rightarrow> json" where
  "ser_create_user_response r =
     ser_struct [(''user_id'', Some (JString (cus_user_id r))),
       (''invite_blob'', Some (JString (cus_invite_blob r))), (''expires_at'', Some (ser_uint (cus_expires_at r)))]"

definition ser_user_summary :: "user_summary \<Rightarrow> json" where
  "ser_user_summary u =
     ser_struct [(''id'', Some (JString (us_id u))), (''name'', Some (JString (us_name u))),
       (''project_id'', map_option JString (us_project_id u)), (''has_key'', Some (JBool (us_has_key u))),
       (''created_at'', Some (ser_uint (us_created_at u)))]"

definition ser_users :: "user_summary list \<Rightarrow> json" where
  "ser_users us = ser_struct [(''users'', Some (ser_vec ser_user_summary us))]"

definition ser_whoami_response :: "whoami_response \<Rightarrow> json" where
  "ser_whoami_response w =
     ser_struct [(''user_id'', Some (JString (who_user_id w))), (''name'', Some (JString (who_name w))),
       (''project_id'', map_option JString (who_project_id w)),
       (''project_name'', map_option JString (who_project_name w))]"

definition ser_invite_project :: "invite_project \<Rightarrow> json" where
  "ser_invite_project p =
     ser_struct [(''id'', Some (JString (ip_id p))), (''name'', Some (JString (ip_name p)))]"

definition ser_invite_payload :: "invite_payload \<Rightarrow> json" where
  "ser_invite_payload p =
     ser_struct [(''server_url'', Some (JString (inv_server_url p))),
       (''server_name'', Some (JString (inv_server_name p))), (''user_id'', Some (JString (inv_user p))),
       (''user_name'', Some (JString (inv_user_name p))),
       (''project'', map_option ser_invite_project (inv_project p)),
       (''invite_token'', Some (JString (inv_token p))), (''expires_at'', Some (ser_uint (inv_expires p)))]"

definition ser_redeem_request :: "string \<times> string \<Rightarrow> json" where
  "ser_redeem_request r =
     ser_struct [(''invite_token'', Some (JString (fst r))), (''public_key'', Some (JString (snd r)))]"

definition ser_redeem_response :: "string \<Rightarrow> json" where
  "ser_redeem_response key_id = ser_struct [(''key_id'', Some (JString key_id))]"

definition ser_server_config :: "server_config \<Rightarrow> json" where
  "ser_server_config s =
     ser_struct [(''server_url'', Some (JString (sc_server_url s))), (''key_id'', Some (JString (sc_key_id s))),
       (''private_key_path'', Some (JString (sc_key_path s)))]"

definition ser_stored_key :: "stored_key \<Rightarrow> json" where
  "ser_stored_key k =
     ser_struct [(''key_id'', Some (JString (sk_key_id k))),
       (''secret_key_base64'', Some (JString (sk_secret_base64 k)))]"

text \<open>A \<^verbatim>\<open>BTreeMap\<close> is written in the order of its keys.\<close>

definition ser_global_config :: "(string \<times> string) list \<Rightarrow> json" where
  "ser_global_config bs =
     ser_struct [(''projects'', Some (ser_index_map JString
       (map (\<lambda>k. (k, the (map_of bs k))) (sort (remdups (map fst bs))))))]"

section \<open>What is written is read back\<close>

lemma de_open_ser:
  assumes "map fst fs = names" and "distinct names"
  shows "de_open names d build (ser_struct fs) = build (\<lambda>k. case map_of fs k of None \<Rightarrow> None | Some v \<Rightarrow> v)"
proof -
  let ?present = "List.map_filter (\<lambda>(k, v). map_option (Pair k) v) fs"
  have "length (filter (\<lambda>(k', _). k' = k) ?present) \<le> length (filter (\<lambda>(k', _). k' = k) fs)" for k
    by (induction fs) (auto simp: List.map_filter_def split: option.split)
  moreover have "length (filter (\<lambda>(k', _). k' = k) fs) \<le> 1" for k
  proof -
    have "distinct (map fst fs)" using assms by simp
    then show ?thesis
    proof (induction fs)
      case (Cons f fs)
      obtain k' v where f: "f = (k', v)" by (cases f)
      show ?case
      proof (cases "k' = k")
        case True
        with Cons.prems f have "filter (\<lambda>(k', _). k' = k) fs = []"
          by (force simp: filter_empty_conv)
        with f True show ?thesis by simp
      qed (use Cons f in simp)
    qed simp
  qed
  ultimately have "list_all (\<lambda>k. length (filter (\<lambda>(k', _). k' = k) ?present) \<le> 1) names"
    unfolding list_all_iff by (meson order_trans)
  moreover have "map_of ?present = (\<lambda>k. case map_of fs k of None \<Rightarrow> None | Some v \<Rightarrow> v)"
    using map_of_present [of fs] assms by (auto simp: fun_eq_iff)
  ultimately show ?thesis by (simp add: de_open_def ser_struct_def)
qed

text \<open>
  A document of the messages: its numbers are unsigned integers in their shortest form.  A JSON printer
  and a reader fit together when such a document is read back from what was printed.
\<close>

fun plain_doc :: "json \<Rightarrow> bool" where
  "plain_doc (JNumber n) \<longleftrightarrow> n = show_nat (digits_value n)"
| "plain_doc (JArray vs) \<longleftrightarrow> list_all plain_doc vs"
| "plain_doc (JObject obj) \<longleftrightarrow> list_all (\<lambda>(_, v). plain_doc v) obj"
| "plain_doc _ \<longleftrightarrow> True"

definition prints_back :: "(json \<Rightarrow> string) \<Rightarrow> (string \<Rightarrow> json option) \<Rightarrow> bool" where
  "prints_back print read \<longleftrightarrow> (\<forall>v. plain_doc v \<longrightarrow> read (print v) = Some v \<and> print v \<noteq> [])"

text \<open>A decoder of texts that reads the document and then the struct.\<close>

definition decodes :: "(string \<Rightarrow> json option) \<Rightarrow> (json \<Rightarrow> 'a option) \<Rightarrow> (string \<Rightarrow> 'e + 'a) \<Rightarrow> bool" where
  "decodes read de f \<longleftrightarrow> (\<forall>s x. f s = Inr x \<longleftrightarrow> (\<exists>v. read s = Some v \<and> de v = Some x))"

lemma plain_struct: "list_all (\<lambda>(_, v). pred_option plain_doc v) fs \<Longrightarrow> plain_doc (ser_struct fs)"
  by (induction fs) (auto simp: ser_struct_def List.map_filter_def split: option.splits)

lemma plain_uint [simp]: "plain_doc (ser_uint n)"
  by (simp add: ser_uint_def)

lemma plain_string_option [simp]: "pred_option plain_doc (map_option JString x)"
  by (cases x) simp_all

text \<open>The contract of a message: a type on the wire whose documents survive being printed.\<close>

locale message = wire_type ser de "\<lambda>_. True" for ser :: "'a \<Rightarrow> json" and de :: "json \<Rightarrow> 'a option" +
  assumes plain: "plain_doc (ser x)"
begin

lemma sent_is_read: "\<lbrakk>prints_back print read; decodes read de f\<rbrakk> \<Longrightarrow> f (print (ser x)) = Inr x"
  using plain [of x] reads_back [of x] by (simp add: prints_back_def decodes_def)

lemma sent_nonempty: "prints_back print read \<Longrightarrow> print (ser x) \<noteq> []"
  using plain [of x] by (simp add: prints_back_def)

lemma vec_plain: "plain_doc (ser_vec ser xs)"
  by (simp add: ser_vec_def list_all_iff plain)

lemma vec_required: "look k = Some (ser_vec ser xs) \<Longrightarrow> required look k (de_vec de) = Some xs"
  by (simp add: required_def vec_reads list_all_iff)

end

lemmas message_reads = de_open_ser strings.required_reads strings.optional_reads u64s.required_reads

interpretation flags: wire_type JBool de_bool "\<lambda>_. True"
  by unfold_locales simp_all

interpretation project_requests: message ser_create_project_request de_create_project_request
  by unfold_locales (simp_all add: ser_create_project_request_def de_create_project_request_def message_reads plain_struct)

interpretation project_summaries: message ser_project_summary de_project_summary
  by unfold_locales (simp_all add: ser_project_summary_def de_project_summary_def message_reads plain_struct)

interpretation project_listings: message ser_projects de_projects
  by unfold_locales (simp_all add: ser_projects_def de_projects_def message_reads plain_struct
      project_summaries.vec_required project_summaries.vec_plain)

interpretation release_states: message ser_release_status de_release_status
proof
  show "de_release_status (ser_release_status st) = Some st" "ser_release_status st \<noteq> JNull"
    "plain_doc (ser_release_status st)" for st
    by (cases st; simp add: ser_release_status_def de_release_status_def de_variant_def)+
qed

interpretation release_summaries: message ser_release_summary de_release_summary
  by unfold_locales (simp_all add: ser_release_summary_def de_release_summary_def message_reads plain_struct
      release_states.required_reads release_states.plain)

interpretation release_listings: message ser_releases de_releases
  by unfold_locales (simp_all add: ser_releases_def de_releases_def message_reads plain_struct
      release_summaries.vec_required release_summaries.vec_plain)

interpretation user_requests: message ser_create_user_request de_create_user_request
  by unfold_locales (simp_all add: ser_create_user_request_def de_create_user_request_def message_reads plain_struct)

interpretation user_responses: message ser_create_user_response de_create_user_response
  by unfold_locales (simp_all add: ser_create_user_response_def de_create_user_response_def message_reads plain_struct)

interpretation user_summaries: message ser_user_summary de_user_summary
  by unfold_locales (simp_all add: ser_user_summary_def de_user_summary_def message_reads plain_struct
      flags.required_reads)

interpretation user_listings: message ser_users de_users
  by unfold_locales (simp_all add: ser_users_def de_users_def message_reads plain_struct
      user_summaries.vec_required user_summaries.vec_plain)

interpretation identities: message ser_whoami_response de_whoami_response
  by unfold_locales (simp_all add: ser_whoami_response_def de_whoami_response_def message_reads plain_struct)

interpretation invite_projects: message ser_invite_project de_invite_project
  by unfold_locales (simp_all add: ser_invite_project_def de_invite_project_def message_reads plain_struct)

lemma plain_invite_project [simp]:
  "pred_option plain_doc (map_option ser_invite_project x)"
  by (cases x) (simp_all add: invite_projects.plain)

interpretation invite_payloads: message ser_invite_payload de_invite_payload
  by unfold_locales (simp_all add: ser_invite_payload_def de_invite_payload_def message_reads plain_struct
      invite_projects.optional_reads)

interpretation redemptions: message ser_redeem_request de_redeem_request
  by unfold_locales (simp_all add: ser_redeem_request_def de_redeem_request_def message_reads plain_struct)

interpretation redeemed_keys: message ser_redeem_response de_redeem_response
  by unfold_locales (simp_all add: ser_redeem_response_def de_redeem_response_def message_reads plain_struct)

interpretation stored_entries: message ser_server_config de_server_config
  by unfold_locales (simp_all add: ser_server_config_def de_server_config_def message_reads plain_struct)

interpretation stored_keys: message ser_stored_key de_stored_key
  by unfold_locales (simp_all add: ser_stored_key_def de_stored_key_def message_reads plain_struct)

text \<open>The bindings come back in the order of their keys.\<close>

definition by_key :: "(string \<times> string) list \<Rightarrow> (string \<times> string) list" where
  "by_key bs = map (\<lambda>k. (k, the (map_of bs k))) (sort (remdups (map fst bs)))"

lemma map_of_by_key: "map_of (by_key bs) = map_of bs"
proof
  fix k
  show "map_of (by_key bs) k = map_of bs k"
  proof (cases "k \<in> fst ` set bs")
    case True
    then obtain x where "map_of bs k = Some x" by (metis map_of_eq_None_iff option.exhaust)
    with True show ?thesis by (simp add: by_key_def map_of_map_restrict restrict_map_def)
  next
    case False
    then have "map_of bs k = None" by (simp add: map_of_eq_None_iff)
    with False show ?thesis by (simp add: by_key_def map_of_map_restrict restrict_map_def)
  qed
qed

lemma global_config_reads: "de_global_config (ser_global_config bs) = Some (by_key bs)"
proof -
  have "distinct (map fst (by_key bs))" by (simp add: by_key_def comp_def)
  then have "de_index_map de_string (ser_index_map JString (by_key bs)) = Some (by_key bs)"
    by (simp add: strings.map_reads list_all_iff case_prod_unfold)
  then show ?thesis
    by (simp add: de_global_config_def ser_global_config_def de_open_ser or_empty_def by_key_def [symmetric])
qed

lemma global_config_plain: "plain_doc (ser_global_config bs)"
  by (simp add: ser_global_config_def plain_struct ser_index_map_def list_all_iff)

end
