(* ===== verification/Manifest_Schema.thy ===== *)
theory Manifest_Schema
  imports Manifest_Json
begin

text \<open>
  The shape of a manifest, as data: which fields each object has, which of them may be absent or null,
  and what each holds.  \<open>conforms\<close> says when a JSON value has a shape; that the readers of theory
  \<^verbatim>\<open>Manifest_Json\<close> accept exactly the values that have the shape of their type is proved type by type.
\<close>

section \<open>Shapes\<close>

text \<open>
  A field must be there, or may be absent or null, or may be absent but not null.  \<open>Unsigned\<close> is an integer
  below a bound, \<open>Scalars\<close> an object of strings, numbers and booleans, of which the last counts when a
  key is there twice.
\<close>

datatype presence = Needed | Nullable | Absentable

datatype shape =
    Str | Boolean | Number | Unsigned nat | Scalars
  | ListOf shape | MapOf shape
  | OneOf "string list"
  | Either shape shape
  | Fields bool "(string \<times> presence \<times> shape) list"

fun field_conforms :: "(json \<Rightarrow> bool) \<Rightarrow> presence \<Rightarrow> json option \<Rightarrow> bool" where
  "field_conforms ok Needed None = False"
| "field_conforms ok Nullable None = True"
| "field_conforms ok Absentable None = True"
| "field_conforms ok Nullable (Some JNull) = True"
| "field_conforms ok pres (Some v) = ok v"

text \<open>
  An object holds no field but the named ones.  An array holds the fields in order; it may be shorter
  only when every field of the type may be absent.
\<close>

fun conforms :: "shape \<Rightarrow> json \<Rightarrow> bool" where
  "conforms Str v = (case v of JString _ \<Rightarrow> True | _ \<Rightarrow> False)"
| "conforms Boolean v = (case v of JBool _ \<Rightarrow> True | _ \<Rightarrow> False)"
| "conforms Number v = (case v of JNumber _ \<Rightarrow> True | _ \<Rightarrow> False)"
| "conforms (Unsigned bound) v = (case v of JNumber n \<Rightarrow> parse_uint bound n \<noteq> None | _ \<Rightarrow> False)"
| "conforms Scalars v =
     (case v of
        JObject obj \<Rightarrow> \<forall>k \<in> fst ` set obj. (case map_of (rev obj) k of None \<Rightarrow> True | Some x \<Rightarrow> is_scalar x)
      | _ \<Rightarrow> False)"
| "conforms (ListOf s) v = (case v of JArray vs \<Rightarrow> \<forall>x \<in> set vs. conforms s x | _ \<Rightarrow> False)"
| "conforms (MapOf s) v = (case v of JObject obj \<Rightarrow> \<forall>x \<in> snd ` set obj. conforms s x | _ \<Rightarrow> False)"
| "conforms (OneOf names) v =
     (case v of JString s \<Rightarrow> s \<in> set names | JObject [(s, JNull)] \<Rightarrow> s \<in> set names | _ \<Rightarrow> False)"
| "conforms (Either a b) v = (conforms a v \<or> conforms b v)"
| "conforms (Fields short fs) v =
     (case v of
        JObject obj \<Rightarrow> fst ` set obj \<subseteq> fst ` set fs \<and>
          (\<forall>(k, pres, s) \<in> set fs. field_conforms (conforms s) pres (map_of obj k))
      | JArray vs \<Rightarrow> (if short then length vs \<le> length fs else length vs = length fs) \<and>
          (\<forall>(k, pres, s) \<in> set fs. field_conforms (conforms s) pres (map_of (zip (map fst fs) vs) k))
      | _ \<Rightarrow> False)"

section \<open>The shape of a manifest\<close>

definition project_shape :: shape where
  "project_shape = Fields False [(''id'', Nullable, Str), (''name'', Needed, Str)]"

definition github_link_shape :: shape where
  "github_link_shape = Fields False [(''repo'', Needed, Str), (''branch'', Nullable, Str)]"

definition service_github_shape :: shape where
  "service_github_shape =
     Fields False [(''repo'', Needed, Str), (''branch'', Nullable, Str), (''path'', Nullable, Str)]"

definition build_shape :: shape where
  "build_shape = Fields True
     [(''dockerfile'', Nullable, Str), (''args'', Absentable, MapOf Str), (''watch'', Nullable, ListOf Str)]"

definition public_shape :: shape where
  "public_shape = Either Boolean
     (Fields True [(''domain'', Nullable, Str), (''domains'', Absentable, ListOf Str)])"

definition healthcheck_shape :: shape where
  "healthcheck_shape = Fields False
     [(''path'', Needed, Str), (''timeout'', Nullable, Unsigned (2 ^ 64)),
      (''interval'', Nullable, Unsigned (2 ^ 64))]"

definition resources_shape :: shape where
  "resources_shape = Fields True [(''cpu'', Nullable, Number), (''memory'', Nullable, Str)]"

definition autoscale_shape :: shape where
  "autoscale_shape = Fields False
     [(''min'', Needed, Unsigned (2 ^ 32)), (''max'', Needed, Unsigned (2 ^ 32)),
      (''targetCpuPercent'', Nullable, Unsigned (2 ^ 32))]"

definition scale_shape :: shape where
  "scale_shape = Fields True
     [(''replicas'', Nullable, Unsigned (2 ^ 32)), (''autoscale'', Nullable, autoscale_shape)]"

definition service_shape :: shape where
  "service_shape = Fields True
     [(''path'', Nullable, Str), (''image'', Nullable, Str), (''github'', Nullable, service_github_shape),
      (''build'', Nullable, build_shape), (''start'', Nullable, Str),
      (''port'', Nullable, Unsigned (2 ^ 16)), (''env'', Absentable, Scalars),
      (''envFiles'', Absentable, ListOf Str), (''public'', Nullable, public_shape),
      (''healthcheck'', Nullable, healthcheck_shape),
      (''restart'', Nullable, OneOf [''always'', ''on-failure'', ''never'']),
      (''dependsOn'', Absentable, ListOf Str), (''cron'', Nullable, Str),
      (''strategy'', Nullable, OneOf [''rolling'', ''recreate'']), (''drain'', Nullable, Unsigned (2 ^ 64)),
      (''volumes'', Absentable, MapOf Str), (''resources'', Nullable, resources_shape),
      (''scale'', Nullable, scale_shape)]"

definition manifest_shape :: shape where
  "manifest_shape = Fields True
     [(''$schema'', Nullable, Str), (''project'', Nullable, project_shape),
      (''github'', Nullable, github_link_shape), (''services'', Absentable, MapOf service_shape)]"

section \<open>A reader and its shape\<close>

text \<open>The contract of a reader: it accepts the values of its shape and no other.\<close>

locale shaped =
  fixes de :: "json \<Rightarrow> 'a option" and sh :: shape
  assumes accepts: "de v \<noteq> None \<longleftrightarrow> conforms sh v"
begin

lemma accepts_iff: "(\<exists>x. de v = Some x) \<longleftrightarrow> conforms sh v"
  using accepts [of v] by simp

lemma accepts_not: "de v = None \<longleftrightarrow> \<not> conforms sh v"
  using accepts [of v] by blast

lemma optional_accepts: "(\<exists>x. optional look k de = Some x) \<longleftrightarrow> field_conforms (conforms sh) Nullable (look k)"
proof (cases "look k")
  case (Some v)
  then show ?thesis using accepts_iff [of v] by (cases v) (auto simp: optional_def)
qed (simp add: optional_def)

lemma required_accepts: "(\<exists>x. required look k de = Some x) \<longleftrightarrow> field_conforms (conforms sh) Needed (look k)"
  using accepts_iff by (cases "look k") (simp_all add: required_def)

lemma vec_accepts: "de_vec de v \<noteq> None \<longleftrightarrow> conforms (ListOf sh) v"
proof (cases v)
  case (JArray vs)
  have "those (map de vs) \<noteq> None \<longleftrightarrow> (\<forall>x \<in> set vs. conforms sh x)"
  proof (induction vs)
    case (Cons x vs)
    then show ?case using accepts [of x] by (cases "de x") auto
  qed simp
  with JArray show ?thesis by (simp add: de_vec_def)
qed (simp_all add: de_vec_def)

lemma entries_accepts: "de_entries de obj m \<noteq> None \<longleftrightarrow> (\<forall>x \<in> snd ` set obj. conforms sh x)"
proof (induction obj arbitrary: m)
  case (Cons kv obj)
  obtain k v where kv: "kv = (k, v)" by (cases kv)
  show ?case
  proof (cases "de v")
    case None
    with accepts_not [of v] kv show ?thesis by simp
  next
    case (Some x)
    then have "conforms sh v" using accepts_iff by blast
    with Some kv Cons show ?thesis by simp
  qed
qed simp

lemma map_accepts: "de_index_map de v \<noteq> None \<longleftrightarrow> conforms (MapOf sh) v"
  using entries_accepts by (cases v) (simp_all add: de_index_map_def del: not_None_eq)

end

locale shaped_list = shaped de sh for de :: "json \<Rightarrow> 'b list option" and sh
begin

lemma or_empty_accepts: "(\<exists>x. or_empty look k de = Some x) \<longleftrightarrow> field_conforms (conforms sh) Absentable (look k)"
  using accepts_iff by (cases "look k") (simp_all add: or_empty_def)

end

text \<open>A struct has the shape of its fields when its builder takes a field map exactly when each field fits.\<close>

lemma de_struct_accepts:
  assumes "names = map fst fs"
    and "\<And>look. (\<exists>x. build look = Some x) \<longleftrightarrow> (\<forall>(k, pres, s) \<in> set fs. field_conforms (conforms s) pres (look k))"
  shows "de_struct short names build v \<noteq> None \<longleftrightarrow> conforms (Fields short fs) v"
proof (cases v)
  case (JArray vs)
  then show ?thesis using assms(2) [of "map_of (zip names vs)"] by (auto simp: de_struct_def assms(1))
next
  case (JObject obj)
  have "list_all (\<lambda>(k, _). k \<in> set names) obj \<longleftrightarrow> fst ` set obj \<subseteq> fst ` set fs"
    unfolding assms(1) list_all_iff image_subset_iff by (auto simp: case_prod_unfold)
  with JObject show ?thesis using assms(2) [of "map_of obj"] by (auto simp: de_struct_def)
qed (simp_all add: de_struct_def)

lemma bind_accepts: "(\<exists>y. Option.bind a f = Some y) \<longleftrightarrow> (\<exists>x. a = Some x \<and> (\<exists>y. f x = Some y))"
  by (cases a) simp_all

lemmas reads_shape = de_struct_accepts bind_accepts

section \<open>Every reader accepts its shape\<close>

interpretation a_text: shaped de_string Str
  by unfold_locales (simp split: json.split)

interpretation a_number: shaped "de_f64 nf" Number for nf
  by unfold_locales (simp split: json.split)

lemma de_uint_accepts: "de_uint bound v \<noteq> None \<longleftrightarrow> conforms (Unsigned bound) v"
  by (cases v) simp_all

interpretation a_u16: shaped de_u16 "Unsigned (2 ^ 16)"
  unfolding de_u16_def by unfold_locales (rule de_uint_accepts)

interpretation a_u32: shaped de_u32 "Unsigned (2 ^ 32)"
  unfolding de_u32_def by unfold_locales (rule de_uint_accepts)

interpretation a_u64: shaped de_u64 "Unsigned (2 ^ 64)"
  unfolding de_u64_def by unfold_locales (rule de_uint_accepts)

interpretation texts: shaped_list "de_vec de_string" "ListOf Str"
  by unfold_locales (rule a_text.vec_accepts)

interpretation text_map: shaped_list "de_index_map de_string" "MapOf Str"
  by unfold_locales (rule a_text.map_accepts)

interpretation a_project: shaped de_project project_shape
  by unfold_locales (simp add: de_project_def project_shape_def reads_shape a_text.optional_accepts
      a_text.required_accepts del: conforms.simps not_None_eq)

interpretation a_github_link: shaped de_github_link github_link_shape
  by unfold_locales (simp add: de_github_link_def github_link_shape_def reads_shape a_text.optional_accepts
      a_text.required_accepts del: conforms.simps not_None_eq)

interpretation a_service_github: shaped de_service_github service_github_shape
  by unfold_locales (simp add: de_service_github_def service_github_shape_def reads_shape
      a_text.optional_accepts a_text.required_accepts del: conforms.simps not_None_eq)

interpretation a_build: shaped de_build build_shape
  by unfold_locales (simp add: de_build_def build_shape_def reads_shape a_text.optional_accepts
      text_map.or_empty_accepts texts.optional_accepts del: conforms.simps not_None_eq)

lemma de_public_options_accepts:
  "de_public_options v \<noteq> None \<longleftrightarrow>
     conforms (Fields True [(''domain'', Nullable, Str), (''domains'', Absentable, ListOf Str)]) v"
  by (simp add: de_public_options_def reads_shape a_text.optional_accepts texts.or_empty_accepts
      del: conforms.simps not_None_eq)

interpretation a_public: shaped de_public public_shape
proof
  show "de_public v \<noteq> None \<longleftrightarrow> conforms public_shape v" for v
    using de_public_options_accepts [of v] by (cases v) (simp_all add: de_public_def public_shape_def)
qed

interpretation a_healthcheck: shaped de_healthcheck healthcheck_shape
  by unfold_locales (simp add: de_healthcheck_def healthcheck_shape_def reads_shape a_text.required_accepts
      a_u64.optional_accepts del: conforms.simps not_None_eq)

lemma de_variant_accepts:
  assumes "names = map fst variants"
  shows "de_variant variants v \<noteq> None \<longleftrightarrow> conforms (OneOf names) v"
proof -
  have named: "map_of variants s \<noteq> None \<longleftrightarrow> s \<in> set names" for s
    by (simp add: assms map_of_eq_None_iff del: not_None_eq)
  show ?thesis
  proof (cases v)
    case (JString s)
    with named [of s] show ?thesis by (simp add: de_variant_def)
  next
    case (JObject obj)
    show ?thesis
    proof (cases obj)
      case (Cons kv rest)
      obtain k x where kv: "kv = (k, x)" by (cases kv)
      show ?thesis using named [of k] by (cases x; cases rest) (simp_all add: JObject Cons kv de_variant_def)
    qed (simp add: JObject de_variant_def)
  qed (simp_all add: de_variant_def)
qed

interpretation a_restart_policy: shaped de_restart_policy "OneOf [''always'', ''on-failure'', ''never'']"
  unfolding de_restart_policy_def by unfold_locales (rule de_variant_accepts, simp)

interpretation a_strategy: shaped de_strategy "OneOf [''rolling'', ''recreate'']"
  unfolding de_strategy_def by unfold_locales (rule de_variant_accepts, simp)

interpretation a_resources: shaped "de_resources nf" resources_shape for nf
  by unfold_locales (simp add: de_resources_def resources_shape_def reads_shape a_text.optional_accepts
      a_number.optional_accepts del: conforms.simps not_None_eq)

interpretation an_autoscale: shaped de_autoscale autoscale_shape
  by unfold_locales (simp add: de_autoscale_def autoscale_shape_def reads_shape a_u32.required_accepts
      a_u32.optional_accepts del: conforms.simps not_None_eq)

interpretation a_scale: shaped de_scale scale_shape
  by unfold_locales (simp add: de_scale_def scale_shape_def reads_shape a_u32.optional_accepts
      an_autoscale.optional_accepts del: conforms.simps not_None_eq)

text \<open>The environment: the entries are collected first, so that the last of a key counts.\<close>

lemma de_entries_Some:
  "\<exists>m'. de_entries Some obj m = Some m' \<and> map_of m' = map_of m ++ map_of (rev obj) \<and>
     (distinct (map fst m) \<longrightarrow> distinct (map fst m'))"
proof (induction obj arbitrary: m)
  case (Cons kv obj)
  obtain k v where kv: "kv = (k, v)" by (cases kv)
  obtain m' where m': "de_entries Some obj (index_insert k v m) = Some m'"
    "map_of m' = map_of (index_insert k v m) ++ map_of (rev obj)"
    "distinct (map fst (index_insert k v m)) \<longrightarrow> distinct (map fst m')"
    using Cons.IH [of "index_insert k v m"] by blast
  then show ?case
    by (intro exI [of _ m']) (simp add: kv distinct_index_insert map_add_def fun_eq_iff split: option.split)
qed simp

lemma de_env_entries_accepts:
  "(\<exists>env'. de_env_entries show_json raw env = Inr env') \<longleftrightarrow> (\<forall>(k, v) \<in> set raw. is_scalar v)"
proof (induction show_json raw env rule: de_env_entries.induct)
  case (2 show_json key v raw env)
  then show ?case
    by (cases "env_value show_json key v") (auto simp: env_value_scalar [of v show_json key])
qed simp

interpretation environment: shaped_list "de_env show_json" Scalars for show_json
proof
  show "de_env show_json v \<noteq> None \<longleftrightarrow> conforms Scalars v" for v
  proof (cases v)
    case (JObject obj)
    obtain raw where raw: "de_entries Some obj [] = Some raw" "map_of raw = map_of (rev obj)"
      "distinct (map fst raw)"
      using de_entries_Some [of obj "[]"] by auto
    then have mem: "(k, x) \<in> set raw \<longleftrightarrow> map_of (rev obj) k = Some x" for k x
      by (metis map_of_eq_Some_iff)
    have "de_env show_json v \<noteq> None \<longleftrightarrow> (\<exists>env'. de_env_entries show_json raw [] = Inr env')"
      using raw(1) by (simp add: JObject de_env_def de_index_map_def de_env_map_def split: sum.split)
    also have "\<dots> \<longleftrightarrow> (\<forall>k x. map_of (rev obj) k = Some x \<longrightarrow> is_scalar x)"
      unfolding de_env_entries_accepts mem [symmetric] by auto
    also have "\<dots> \<longleftrightarrow> (\<forall>k \<in> fst ` set obj. case map_of (rev obj) k of None \<Rightarrow> True | Some x \<Rightarrow> is_scalar x)"
      using dom_map_of_conv_image_fst [of "rev obj"] by (force split: option.split)
    finally show ?thesis by (simp add: JObject del: not_None_eq)
  qed (simp_all add: de_env_def de_index_map_def)
qed

interpretation a_service: shaped "de_service show_json nf" service_shape for show_json nf
  by unfold_locales (simp add: de_service_def service_shape_def service_fields_def reads_shape
      a_text.optional_accepts a_service_github.optional_accepts a_build.optional_accepts
      a_u16.optional_accepts environment.or_empty_accepts texts.or_empty_accepts a_public.optional_accepts
      a_healthcheck.optional_accepts a_restart_policy.optional_accepts a_strategy.optional_accepts
      a_u64.optional_accepts text_map.or_empty_accepts a_resources.optional_accepts
      a_scale.optional_accepts del: conforms.simps not_None_eq)

interpretation service_map: shaped_list "de_index_map (de_service show_json nf)" "MapOf service_shape"
  for show_json nf
  by unfold_locales (rule a_service.map_accepts)

interpretation a_manifest: shaped "de_manifest show_json nf" manifest_shape for show_json nf
  by unfold_locales (simp add: de_manifest_def manifest_shape_def reads_shape a_text.optional_accepts
      a_project.optional_accepts a_github_link.optional_accepts service_map.or_empty_accepts
      del: conforms.simps not_None_eq)

end
