(* ===== verification/Manifest_Text.thy ===== *)
theory Manifest_Text
  imports Manifest_Schema Manifest_Props Invite_Props
begin

text \<open>
  Manifests as text: which texts are accepted, and that what \<^verbatim>\<open>to_json_string\<close> writes is parsed again as
  the same manifest.
\<close>

section \<open>Written manifests\<close>

text \<open>
  The deserialiser that \<^verbatim>\<open>serde\<close> derives from the attributes; \<open>complain\<close> is the library's path and
  message for a value that it refuses.
\<close>

definition derived ::
    "(json \<Rightarrow> string) \<Rightarrow> number_format \<Rightarrow> (json \<Rightarrow> string \<times> string) \<Rightarrow> deserializer" where
  "derived show_json nf complain raw =
     (case de_manifest show_json nf raw of None \<Rightarrow> Inl (complain raw) | Some m \<Rightarrow> Inr m)"

text \<open>A deserialiser that accepts what the derived one does, whatever it says of the rest.\<close>

definition follows_derive :: "deserializer \<Rightarrow> (json \<Rightarrow> string) \<Rightarrow> number_format \<Rightarrow> bool" where
  "follows_derive deserialize show_json nf \<longleftrightarrow>
     (\<forall>v. case deserialize v of Inl _ \<Rightarrow> de_manifest show_json nf v = None
          | Inr m \<Rightarrow> de_manifest show_json nf v = Some m)"

lemma follows_derive_Inr:
  "follows_derive deserialize show_json nf \<Longrightarrow>
     deserialize v = Inr m \<longleftrightarrow> de_manifest show_json nf v = Some m"
  unfolding follows_derive_def by (drule spec [of _ v]) (auto split: sum.splits)

lemma derived_follows: "follows_derive (derived show_json nf complain) show_json nf"
  by (simp add: follows_derive_def derived_def split: option.split)

text \<open>The JSON reader reads a written manifest as the document that was written.\<close>

definition reads_documents :: "json_reader \<Rightarrow> (json \<Rightarrow> string) \<Rightarrow> number_format \<Rightarrow> bool" where
  "reads_documents reader pretty nf \<longleftrightarrow>
     (\<forall>m. manifest_writable nf m \<longrightarrow> reader (to_json_string pretty nf m) = Inr (ser_manifest nf m))"

lemma written_parses:
  assumes "follows_derive deserialize show_json nf" and "reads_documents reader pretty nf"
    and "\<forall>ks. set (key_order ks) = set ks" and "manifest_writable nf m" and "manifest_ok m"
  shows "parse key_order reader deserialize (to_json_string pretty nf m) = Inr m"
proof -
  have "reader (to_json_string pretty nf m) = Inr (ser_manifest nf m)"
    using assms(2,4) by (simp add: reads_documents_def)
  moreover have "deserialize (ser_manifest nf m) = Inr m"
    using manifests.reads_back [OF assms(4), of show_json] follows_derive_Inr [OF assms(1)] by simp
  moreover have "\<And>ks. set (key_order ks) = set ks" using assms(3) by simp
  ultimately show ?thesis using parse_Inr assms(5) by blast
qed

lemma parsed_writable:
  assumes "follows_derive deserialize show_json nf" and "deserialize v = Inr m" and "exact_numbers nf m"
  shows "manifest_writable nf m"
  using assms de_manifest_writable follows_derive_Inr by blast

lemma linked_writable [simp]:
  "manifest_writable nf (link_project n i m) = manifest_writable nf m"
  "manifest_writable nf (link_github repo branch m) = manifest_writable nf m"
  by (simp_all add: manifest_writable_def)

lemma default_manifest_writable [simp]: "manifest_writable nf default_manifest"
  by (simp add: manifest_writable_def default_manifest_def distinct_keys_def)

lemma default_manifest_ok: "manifest_ok default_manifest"
proof -
  have "validate (\<lambda>ks. ks) default_manifest = []" by code_simp
  then show ?thesis using validate_Nil [of "\<lambda>ks. ks" default_manifest] by simp
qed

text \<open>
  C2: \<open>parse\<close> decides in three steps, for every text.  A text that is no JSON is an error with the reader's
  message.  A JSON value that has not the shape of a manifest (\<open>manifest_shape\<close>: the fields the structs
  declare and no other, each of its type, the integers in their range) is an error with the path and the
  message of the deserialiser.  Any other value is read as a manifest, which is the result if it is
  well-formed (\<open>manifest_ok\<close>); if not, the error lists everything the validator found.  The shape has no
  field \<^verbatim>\<open>environments\<close>: the model disables them, so the manifests of \<^verbatim>\<open>docs/manifest.md\<close> that use it are
  refused.
\<close>

theorem parse_decides:
  assumes "\<forall>ks. set (key_order ks) = set ks"
  shows "case reader input of
      Inl err \<Rightarrow> parse key_order reader (derived show_json nf complain) input = Inl (''invalid JSON: '' @ err)
    | Inr raw \<Rightarrow>
        if conforms manifest_shape raw
        then \<exists>m. de_manifest show_json nf raw = Some m \<and>
          parse key_order reader (derived show_json nf complain) input =
            (if manifest_ok m then Inr m else Inl (join [CHR 0x0A] (map show_verr (validate key_order m))))
        else parse key_order reader (derived show_json nf complain) input =
          Inl (case complain raw of (path, msg) \<Rightarrow> if path = ''.'' then msg else path @ '': '' @ msg)"
proof (cases "reader input")
  case (Inl err)
  then show ?thesis by (simp only: parse_def sum.case)
next
  case (Inr raw)
  have order: "\<And>ks. set (key_order ks) = set ks" using assms by simp
  show ?thesis
  proof (cases "conforms manifest_shape raw")
    case True
    then obtain m where m: "de_manifest show_json nf raw = Some m" using a_manifest.accepts_iff by blast
    then have "parse key_order reader (derived show_json nf complain) input =
        (if manifest_ok m then Inr m else Inl (join [CHR 0x0A] (map show_verr (validate key_order m))))"
      using validate_Nil [OF order, of m]
      by (simp only: parse_def parse_value_def derived_def Inr sum.case option.case Let_def if_not_P if_P
          split: if_split) blast
    with m Inr True show ?thesis by (simp only: sum.case if_True) blast
  next
    case False
    then have "de_manifest show_json nf raw = None" using a_manifest.accepts_not by blast
    then have "derived show_json nf complain raw = Inl (complain raw)" by (simp only: derived_def option.case)
    then have "parse key_order reader (derived show_json nf complain) input =
        Inl (case complain raw of (path, msg) \<Rightarrow> if path = ''.'' then msg else path @ '': '' @ msg)"
      by (cases "complain raw") (simp only: parse_def parse_value_def Inr sum.case prod.case)
    with Inr False show ?thesis by (simp only: sum.case if_False)
  qed
qed

text \<open>
  C35: what was parsed can be linked, written and parsed again: the manifest that \<^verbatim>\<open>parse\<close> returned, with
  or without a link to a project with a valid name and to a repository, is read back unchanged from the
  JSON that \<^verbatim>\<open>to_json_string\<close> writes for it, every field of every struct included, provided that its CPU
  shares are read back from the text they are shown as.
\<close>

theorem written_manifest_is_read:
  assumes "follows_derive deserialize show_json nf" and "reads_documents reader pretty nf"
    and "\<forall>ks. set (key_order ks) = set ks"
    and "parse key_order reader deserialize input = Inr m" and "exact_numbers nf m"
    and "is_valid_name name" and "valid_repo repo"
  shows "parse key_order reader deserialize (to_json_string pretty nf m) = Inr m \<and>
    parse key_order reader deserialize (to_json_string pretty nf (link_project name ident m)) =
      Inr (link_project name ident m) \<and>
    parse key_order reader deserialize (to_json_string pretty nf (link_github repo branch m)) =
      Inr (link_github repo branch m)"
proof -
  have "\<And>ks. set (key_order ks) = set ks" using assms(3) by simp
  then obtain raw where "deserialize raw = Inr m" and ok: "manifest_ok m"
    using assms(4) parse_Inr by blast
  then have "manifest_writable nf m" using parsed_writable assms(1,5) by blast
  with ok assms(6,7) show ?thesis
    by (simp add: written_parses [OF assms(1,2,3)] manifest_ok_link_project manifest_ok_link_github)
qed

text \<open>A manifest with a field that the struct does not have is refused.\<close>

lemma unknown_fields_refused:
  assumes "follows_derive deserialize show_json nf" and "(k, v) \<in> set obj"
    and "k \<notin> {''$schema'', ''project'', ''github'', ''services''}"
  shows "\<exists>e. deserialize (JObject obj) = Inl e"
proof -
  have "\<not> list_all (\<lambda>(k, _). k \<in> set [''$schema'', ''project'', ''github'', ''services'']) obj"
    using assms(2,3) unfolding list_all_iff by fastforce
  then have "de_manifest show_json nf (JObject obj) = None"
    unfolding de_manifest_def de_struct_def by (simp only: json.case if_False)
  then show ?thesis
    using follows_derive_Inr [OF assms(1), of "JObject obj"] by (cases "deserialize (JObject obj)") auto
qed

lemma documented_environments_refused:
  assumes "follows_derive deserialize show_json nf"
  shows "\<exists>e. deserialize (JObject [(''environments'', v)]) = Inl e"
  by (rule unknown_fields_refused [OF assms]) auto

section \<open>Instances\<close>

text \<open>A JSON text without escapes: strings are marked, containers are closed by their bracket.\<close>

fun json_text :: "json \<Rightarrow> string" where
  "json_text JNull = ''n''"
| "json_text (JBool b) = (if b then ''t'' else ''f'')"
| "json_text (JNumber n) = ''#'' @ mark n"
| "json_text (JString s) = ''s'' @ mark s"
| "json_text (JArray vs) = ''['' @ concat (map json_text vs) @ '']''"
| "json_text (JObject obj) = ''{'' @ concat (map (\<lambda>(k, v). mark k @ json_text v) obj) @ ''}''"

fun json_value :: "nat \<Rightarrow> string \<Rightarrow> json \<times> string"
  and json_values :: "nat \<Rightarrow> string \<Rightarrow> json list \<times> string"
  and json_entries :: "nat \<Rightarrow> string \<Rightarrow> (string \<times> json) list \<times> string"
where
  "json_value n [] = (JNull, [])"
| "json_value n (c # s) =
     (if c = CHR ''n'' then (JNull, s)
      else if c = CHR ''t'' then (JBool True, s)
      else if c = CHR ''f'' then (JBool False, s)
      else if c = CHR ''#'' then (case unmark s of (a, r) \<Rightarrow> (JNumber a, r))
      else if c = CHR ''s'' then (case unmark s of (a, r) \<Rightarrow> (JString a, r))
      else if c = CHR ''['' then (case json_values n s of (vs, r) \<Rightarrow> (JArray vs, r))
      else (case json_entries n s of (obj, r) \<Rightarrow> (JObject obj, r)))"
| "json_values 0 s = ([], s)"
| "json_values (Suc n) [] = ([], [])"
| "json_values (Suc n) (c # s) =
     (if c = CHR '']'' then ([], s)
      else (case json_value n (c # s) of (v, r) \<Rightarrow>
            case json_values n r of (vs, r') \<Rightarrow> (v # vs, r')))"
| "json_entries 0 s = ([], s)"
| "json_entries (Suc n) [] = ([], [])"
| "json_entries (Suc n) (c # s) =
     (if c = CHR ''}'' then ([], s)
      else (case unmark (c # s) of (k, r) \<Rightarrow> case json_value n r of (v, r') \<Rightarrow>
            case json_entries n r' of (obj, r'') \<Rightarrow> ((k, v) # obj, r'')))"

lemma json_text_first: "\<exists>c s. json_text v = c # s \<and> c \<noteq> CHR '']''"
  by (cases v) auto

lemma mark_first: "\<exists>c s. mark k = c # s \<and> c \<noteq> CHR ''}''"
  by (cases k) auto

lemma json_values_text:
  assumes "\<And>v n r. \<lbrakk>v \<in> set vs; length (json_text v) \<le> n\<rbrakk> \<Longrightarrow> json_value n (json_text v @ r) = (v, r)"
    and "length (concat (map json_text vs)) < n"
  shows "json_values n (concat (map json_text vs) @ CHR '']'' # r) = (vs, r)"
  using assms
proof (induction vs arbitrary: n)
  case Nil
  then show ?case by (cases n) simp_all
next
  case (Cons v vs)
  obtain c s where v: "json_text v = c # s" "c \<noteq> CHR '']''" using json_text_first by blast
  obtain m where n: "n = Suc m" using Cons.prems(2) by (cases n) auto
  have "json_value m (json_text v @ concat (map json_text vs) @ CHR '']'' # r) =
      (v, concat (map json_text vs) @ CHR '']'' # r)"
    using Cons.prems n by (intro Cons.prems(1)) auto
  moreover have "json_values m (concat (map json_text vs) @ CHR '']'' # r) = (vs, r)"
    using Cons.prems n v by (intro Cons.IH) auto
  ultimately show ?case using v n by simp
qed

lemma json_entries_text:
  assumes "\<And>k v n r. \<lbrakk>(k, v) \<in> set obj; length (json_text v) \<le> n\<rbrakk> \<Longrightarrow>
      json_value n (json_text v @ r) = (v, r)"
    and "length (concat (map (\<lambda>(k, v). mark k @ json_text v) obj)) < n"
  shows "json_entries n (concat (map (\<lambda>(k, v). mark k @ json_text v) obj) @ CHR ''}'' # r) = (obj, r)"
  using assms
proof (induction obj arbitrary: n)
  case Nil
  then show ?case by (cases n) simp_all
next
  case (Cons kv obj)
  obtain k v where kv: "kv = (k, v)" by (cases kv)
  obtain c s where k: "mark k = c # s" "c \<noteq> CHR ''}''" using mark_first by blast
  obtain m where n: "n = Suc m" using Cons.prems(2) by (cases n) auto
  let ?rest = "concat (map (\<lambda>(k, v). mark k @ json_text v) obj) @ CHR ''}'' # r"
  have "unmark (mark k @ json_text v @ ?rest) = (k, json_text v @ ?rest)" by simp
  then have "unmark (c # s @ json_text v @ ?rest) = (k, json_text v @ ?rest)" by (simp add: k)
  moreover have "json_value m (json_text v @ ?rest) = (v, ?rest)"
    using Cons.prems n kv by (intro Cons.prems(1) [of k]) auto
  moreover have "json_entries m ?rest = (obj, r)"
    using Cons.prems n kv k by (intro Cons.IH) auto
  ultimately show ?case using k n kv by simp
qed

lemma json_value_text: "length (json_text v) \<le> n \<Longrightarrow> json_value n (json_text v @ r) = (v, r)"
proof (induction v arbitrary: n r)
  case (JArray vs)
  then show ?case using json_values_text [of vs n r] by simp
next
  case (JObject obj)
  have "json_value n' (json_text v @ r') = (v, r')"
    if "(k, v) \<in> set obj" "length (json_text v) \<le> n'" for k v n' r'
    using JObject.IH [OF that(1), of v n' r'] that(2) by simp
  then show ?case using JObject.prems json_entries_text [of obj n r] by simp
qed auto

definition demo_format :: number_format where
  "demo_format = \<lparr>nf_show = (\<lambda>_. ''0.5''), nf_read = (\<lambda>_. 1 / 2)\<rparr>"

definition demo_reader :: json_reader where
  "demo_reader s = Inr (fst (json_value (length s) s))"

definition demo_deserializer :: deserializer where
  "demo_deserializer = derived json_text demo_format (\<lambda>_. (''services.web'', ''unknown field''))"

lemma demo_serde:
  "follows_derive demo_deserializer json_text demo_format" "reads_documents demo_reader json_text demo_format"
proof -
  show "follows_derive demo_deserializer json_text demo_format"
    unfolding demo_deserializer_def by (rule derived_follows)
  show "reads_documents demo_reader json_text demo_format"
    by (simp add: reads_documents_def demo_reader_def to_json_string_def json_value_text)
qed

lemma demo_reads: "demo_reader (json_text v) = Inr v"
  using json_value_text [of v _ "[]"] by (simp add: demo_reader_def)

theorem parse_decides_witness:
  "parse (\<lambda>ks. ks) demo_reader demo_deserializer (json_text (JObject [(''services'', JObject [])])) =
     Inr default_manifest \<and>
   parse (\<lambda>ks. ks) demo_reader demo_deserializer (json_text (JObject [(''environments'', JObject [])])) =
     Inl (''services.web'' @ '': '' @ ''unknown field'') \<and>
   (\<exists>e. parse (\<lambda>ks. ks) demo_reader demo_deserializer
     (json_text (JObject [(''project'', JObject [(''name'', JString ''A'')])])) = Inl e)"
proof -
  note decides = parse_decides [where key_order = "\<lambda>ks. ks" and reader = demo_reader and
      show_json = json_text and nf = demo_format and complain = "\<lambda>_. (''services.web'', ''unknown field'')",
      folded demo_deserializer_def]
  have shapes: "conforms manifest_shape (JObject [(''services'', JObject [])])"
    "\<not> conforms manifest_shape (JObject [(''environments'', JObject [])])"
    "conforms manifest_shape (JObject [(''project'', JObject [(''name'', JString ''A'')])])"
    by (simp_all add: manifest_shape_def project_shape_def)
  have read: "de_manifest json_text demo_format (JObject [(''services'', JObject [])]) = Some default_manifest"
    "de_manifest json_text demo_format (JObject [(''project'', JObject [(''name'', JString ''A'')])]) =
       Some (default_manifest\<lparr>mf_project := Some \<lparr>prj_id = None, prj_name = ''A''\<rparr>\<rparr>)"
    by (simp_all add: de_manifest_def de_struct_def optional_def or_empty_def required_def de_project_def
        de_index_map_def default_manifest_def)
  have "\<not> is_valid_name ''A''" by code_simp
  then have "\<not> manifest_ok (default_manifest\<lparr>mf_project := Some \<lparr>prj_id = None, prj_name = ''A''\<rparr>\<rparr>)"
    by (simp add: manifest_ok_def)
  with decides [where input = "json_text (JObject [(''services'', JObject [])])"]
    decides [where input = "json_text (JObject [(''environments'', JObject [])])"]
    decides [where input = "json_text (JObject [(''project'', JObject [(''name'', JString ''A'')])])"]
  show ?thesis
    using default_manifest_ok by (simp add: demo_reads shapes read del: json_text.simps conforms.simps)
qed

text \<open>The parts of a service beyond those of \<open>demo\<close>.\<close>

definition demo_full :: manifest where
  "demo_full = demo\<lparr>mf_services := [(''web'', demo_web\<lparr>svc_public := Some (Options \<lparr>po_domain = Some ''shop.dev'',
       po_domains = []\<rparr>), svc_restart := Some OnFailure, svc_drain := Some 5,
     svc_resources := Some \<lparr>res_cpu = Some (1 / 2), res_memory = None\<rparr>\<rparr>), (''db'', demo_db)]\<rparr>"

lemma demo_full_parses:
  "parse (\<lambda>ks. ks) demo_reader demo_deserializer (to_json_string json_text demo_format demo_full) = Inr demo_full"
proof (rule written_parses [OF demo_serde])
  show "manifest_writable demo_format demo_full"
    by (simp add: manifest_writable_def demo_full_def demo_def service_writable_def demo_web_def demo_db_def
        default_service_def default_manifest_def distinct_keys_def resources_writable_def shown_exactly_def
        demo_format_def)
  have "validate (\<lambda>ks. ks) demo_full = []" by code_simp
  then show "manifest_ok demo_full" using validate_Nil [of "\<lambda>ks. ks" demo_full] by simp
qed simp

theorem written_manifest_is_read_witness:
  "parse (\<lambda>ks. ks) demo_reader demo_deserializer (to_json_string json_text demo_format demo_full) = Inr demo_full \<and>
   parse (\<lambda>ks. ks) demo_reader demo_deserializer (to_json_string json_text demo_format
     (link_project ''store'' ''prj_2'' demo_full)) = Inr (link_project ''store'' ''prj_2'' demo_full)"
proof -
  have "exact_numbers demo_format demo_full"
    by (simp add: exact_numbers_def demo_full_def demo_web_def demo_db_def default_service_def
        resources_writable_def shown_exactly_def demo_format_def)
  moreover have "is_valid_name ''store''" "valid_repo ''a/b''" by code_simp+
  ultimately show ?thesis
    using written_manifest_is_read [OF demo_serde _ demo_full_parses, of "''store''" "''a/b''" "''prj_2''"] by simp
qed

end
