(* ===== verification/Api_Formats.thy ===== *)
theory Api_Formats
  imports Api_Json Manifest_Text Enrolment
begin

text \<open>
  Client and server over one JSON library, with the readers and writers that \<^verbatim>\<open>serde\<close> derives on both ends:
  what one side writes is what the other side, or a later command, reads.
\<close>

section \<open>Both ends use the derived readers and writers\<close>

text \<open>The text of a response body.\<close>

fun body_text :: "(json \<Rightarrow> string) \<Rightarrow> body \<Rightarrow> string" where
  "body_text print Empty = []"
| "body_text print (Text s) = s"
| "body_text print (Json_key k) = print (ser_redeem_response k)"
| "body_text print (Json_whoami w) = print (ser_whoami_response w)"
| "body_text print (Json_project p) = print (ser_project_summary p)"
| "body_text print (Json_projects ps) = print (ser_projects ps)"
| "body_text print (Json_invite r) = print (ser_create_user_response r)"
| "body_text print (Json_users us) = print (ser_users us)"
| "body_text print (Json_release r) = print (ser_release_summary r)"
| "body_text print (Json_releases rs) = print (ser_releases rs)"

definition client_derives ::
    "('n, 'u, 'k, 'sk) tools \<Rightarrow> (json \<Rightarrow> string) \<Rightarrow> (string \<Rightarrow> json option) \<Rightarrow> bool" where
  "client_derives t print read \<longleftrightarrow>
     (\<forall>token key. t_json_redeem t token key = print (ser_redeem_request (token, key))) \<and>
     t_json_new_project t = (\<lambda>r. print (ser_create_project_request r)) \<and>
     t_json_new_user t = (\<lambda>r. print (ser_create_user_request r)) \<and>
     decodes read de_redeem_response (t_parse_redeemed t) \<and>
     decodes read de_project_summary (t_parse_project t) \<and>
     decodes read de_projects (t_parse_projects t) \<and>
     decodes read de_create_user_response (t_parse_new_user t) \<and>
     decodes read de_users (t_parse_users t) \<and>
     decodes read de_whoami_response (t_parse_whoami t) \<and>
     decodes read de_release_summary (t_parse_release t) \<and>
     (\<forall>s. t_parse_invite_json t s = Option.bind (read s) de_invite_payload) \<and>
     t_json_server t = (\<lambda>e. print (ser_server_config e)) \<and> decodes read de_server_config (t_parse_server t) \<and>
     t_json_key t = (\<lambda>k. print (ser_stored_key k)) \<and> decodes read de_stored_key (t_parse_key t) \<and>
     t_json_bindings t = (\<lambda>bs. print (ser_global_config bs)) \<and> decodes read de_global_config (t_parse_bindings t)"

definition server_derives ::
    "'k platform \<Rightarrow> (json \<Rightarrow> string) \<Rightarrow> (string \<Rightarrow> json option) \<Rightarrow> bool" where
  "server_derives pf print read \<longleftrightarrow>
     pf_invite_json pf = (\<lambda>p. print (ser_invite_payload p)) \<and>
     decodes read de_redeem_request (\<lambda>s. pf_redeem_request pf [Data s]) \<and>
     decodes read de_create_project_request (\<lambda>s. pf_project_request pf [Data s]) \<and>
     decodes read de_create_user_request (\<lambda>s. pf_user_request pf [Data s])"

text \<open>
  C38: client and server understand each other: over any JSON library that reads back the documents it
  prints, every request the client writes is the one the handler gets, every answer of a handler is the one
  the command gets, an invite is the payload that was minted, and the client's entries, keys and bindings are
  read from its files as they were stored, for all strings, numbers and optional fields.
\<close>

theorem messages_are_understood:
  assumes "prints_back print read" and "client_derives t print read" and "server_derives pf print read"
  shows "pf_redeem_request pf [Data (t_json_redeem t token key)] = Inr (token, key) \<and>
    pf_project_request pf [Data (t_json_new_project t pr)] = Inr pr \<and>
    pf_user_request pf [Data (t_json_new_user t ur)] = Inr ur \<and>
    t_parse_redeemed t (body_text print (Json_key k)) = Inr k \<and>
    t_parse_project t (body_text print (Json_project p)) = Inr p \<and>
    t_parse_projects t (body_text print (Json_projects ps)) = Inr ps \<and>
    t_parse_new_user t (body_text print (Json_invite resp)) = Inr resp \<and>
    t_parse_users t (body_text print (Json_users us)) = Inr us \<and>
    t_parse_whoami t (body_text print (Json_whoami who)) = Inr who \<and>
    t_parse_release t (body_text print (Json_release rls)) = Inr rls \<and>
    t_parse_invite_json t (pf_invite_json pf inviting) = Some inviting \<and>
    t_parse_server t (t_json_server t entry) = Inr entry \<and>
    t_parse_key t (t_json_key t sk) = Inr sk \<and>
    (\<exists>bs'. t_parse_bindings t (t_json_bindings t bs) = Inr bs' \<and> map_of bs' = map_of bs)"
proof -
  note derives = assms(2,3) [unfolded client_derives_def server_derives_def]
  have "read (print (ser_invite_payload inviting)) = Some (ser_invite_payload inviting)"
    using assms(1) invite_payloads.plain by (simp add: prints_back_def)
  then have "t_parse_invite_json t (pf_invite_json pf inviting) = Some inviting"
    using derives invite_payloads.reads_back [of inviting] by simp
  moreover have "t_parse_bindings t (t_json_bindings t bs) = Inr (by_key bs)"
    using derives assms(1) global_config_plain global_config_reads
    by (auto simp: prints_back_def decodes_def)
  ultimately show ?thesis
    using derives assms(1) map_of_by_key
    by (simp add: project_requests.sent_is_read project_summaries.sent_is_read project_listings.sent_is_read
        release_summaries.sent_is_read user_requests.sent_is_read user_responses.sent_is_read
        user_listings.sent_is_read identities.sent_is_read redeemed_keys.sent_is_read
        stored_entries.sent_is_read stored_keys.sent_is_read
        redemptions.sent_is_read [of print read "\<lambda>s. pf_redeem_request pf [Data s]"]
        project_requests.sent_is_read [of print read "\<lambda>s. pf_project_request pf [Data s]"]
        user_requests.sent_is_read [of print read "\<lambda>s. pf_user_request pf [Data s]"])
qed

text \<open>So the conditions under which login and SSH login were followed hold for the derived formats.\<close>

lemma derived_reads_back:
  assumes "prints_back print read" and "client_derives t print read"
    and "\<forall>b. std_decode (t_crypto t) (std_encode (t_crypto t) b) = Some b"
    and "\<forall>sk. length (t_key_bytes t sk) = 32 \<and> t_key_of_bytes t (t_key_bytes t sk) = sk"
  shows "reads_back t"
proof -
  note derives = assms(2) [unfolded client_derives_def]
  have "t_parse_bindings t (t_json_bindings t bs) = Inr (by_key bs)" for bs
    using derives assms(1) global_config_plain global_config_reads by (auto simp: prints_back_def decodes_def)
  then show ?thesis
    unfolding reads_back_def using derives assms map_of_by_key
    by (simp add: stored_entries.sent_is_read stored_keys.sent_is_read)
qed

lemma derived_same_format:
  assumes "prints_back print read" and "client_derives t print read" and "server_derives (sv_platform sv) print read"
    and "\<forall>base url. control_plane_api_url t base REDEEM_INVITE_PATH = Inr url \<longrightarrow> t_url_tail t url = REDEEM_INVITE_PATH"
  shows "same_format t sv (body_text print)"
  unfolding same_format_def
  using assms(1,4) assms(2,3) [unfolded client_derives_def server_derives_def]
  by (simp add: redeemed_keys.sent_is_read redemptions.sent_nonempty
      redemptions.sent_is_read [of print read "\<lambda>s. pf_redeem_request (sv_platform sv) [Data s]"])

section \<open>Instance\<close>

definition demo_read :: "string \<Rightarrow> json option" where
  "demo_read s = Some (fst (json_value (length s) s))"

lemma demo_prints_back: "prints_back json_text demo_read"
proof -
  have "demo_read (json_text v) = Some v" for v
    using json_value_text [of v _ "[]"] by (simp add: demo_read_def)
  moreover have "json_text v \<noteq> []" for v by (cases v) auto
  ultimately show ?thesis by (simp add: prints_back_def)
qed

definition decode_with :: "'e \<Rightarrow> (json \<Rightarrow> 'a option) \<Rightarrow> string \<Rightarrow> 'e + 'a" where
  "decode_with e de s = (case Option.bind (demo_read s) de of None \<Rightarrow> Inl e | Some x \<Rightarrow> Inr x)"

lemma decode_with_decodes: "decodes demo_read de (decode_with e de)"
  by (auto simp: decodes_def decode_with_def bind_eq_Some_conv split: option.split)

definition json_tools :: "(api_state, string, string, bool) tools" where
  "json_tools = net_tools
     \<lparr>t_json_redeem := (\<lambda>token key. json_text (ser_redeem_request (token, key))),
      t_json_new_project := (\<lambda>r. json_text (ser_create_project_request r)),
      t_json_new_user := (\<lambda>r. json_text (ser_create_user_request r)),
      t_parse_redeemed := decode_with [] de_redeem_response, t_parse_project := decode_with [] de_project_summary,
      t_parse_projects := decode_with [] de_projects, t_parse_new_user := decode_with [] de_create_user_response,
      t_parse_users := decode_with [] de_users, t_parse_whoami := decode_with [] de_whoami_response,
      t_parse_release := decode_with [] de_release_summary,
      t_parse_invite_json := (\<lambda>s. Option.bind (demo_read s) de_invite_payload),
      t_json_server := (\<lambda>e. json_text (ser_server_config e)), t_parse_server := decode_with [] de_server_config,
      t_json_key := (\<lambda>k. json_text (ser_stored_key k)), t_parse_key := decode_with [] de_stored_key,
      t_json_bindings := (\<lambda>bs. json_text (ser_global_config bs)),
      t_parse_bindings := decode_with [] de_global_config\<rparr>"

definition json_platform :: "string platform" where
  "json_platform = (sv_platform net_server)
     \<lparr>pf_invite_json := (\<lambda>p. json_text (ser_invite_payload p)),
      pf_redeem_request := (\<lambda>fs. decode_with (bad_request []) de_redeem_request (payload fs)),
      pf_project_request := (\<lambda>fs. decode_with (bad_request []) de_create_project_request (payload fs)),
      pf_user_request := (\<lambda>fs. decode_with (bad_request []) de_create_user_request (payload fs))\<rparr>"

lemma json_both: "client_derives json_tools json_text demo_read" "server_derives json_platform json_text demo_read"
  by (simp_all add: client_derives_def server_derives_def json_tools_def json_platform_def decode_with_decodes)

theorem messages_are_understood_witness:
  "pf_redeem_request json_platform [Data (t_json_redeem json_tools ''tok'' ''key'')] = Inr (''tok'', ''key'') \<and>
   t_parse_users json_tools (body_text json_text (Json_users [\<lparr>us_id = ''usr_1'', us_name = ''ada'',
     us_project_id = None, us_has_key = True, us_created_at = 50\<rparr>])) = Inr [\<lparr>us_id = ''usr_1'', us_name = ''ada'',
     us_project_id = None, us_has_key = True, us_created_at = 50\<rparr>]"
  using messages_are_understood [OF demo_prints_back json_both] by blast

end
