(* ===== verification/Ssh_Login.thy ===== *)
theory Ssh_Login
  imports Api_Formats Server_Cli
begin

text \<open>
  The login over SSH from end to end: the client runs \<^verbatim>\<open>railyard-server user add\<close> on the server's
  machine, that command asks the daemon over its admin socket for a user and an invite and prints the
  invite's blob, and the client finds the blob in the output and logs in with it.
\<close>

section \<open>Output as text\<close>

definition output_text :: "string list \<Rightarrow> string" where
  "output_text ls = concat (map (\<lambda>l. l @ [nl]) ls)"

definition plain_line :: "string \<Rightarrow> bool" where
  "plain_line l \<longleftrightarrow> list_all (\<lambda>c. code c < 128 \<and> c \<noteq> nl \<and> c \<noteq> CHR 0x0D) l"

lemma text_lines_cons: "plain_line l \<Longrightarrow> text_lines (l @ nl # s) = l # text_lines s"
proof -
  assume l: "plain_line l"
  then have no: "nl \<notin> set l" and "CHR 0x0D \<notin> set l" by (auto simp: plain_line_def list_all_iff)
  then have cr: "strip_suffix l [CHR 0x0D] = None"
    by (cases "strip_suffix l [CHR 0x0D]") (auto simp: strip_suffix_eq_Some)
  have parts: "takeWhile (\<lambda>c. c \<noteq> nl) (l @ nl # s) = l" "dropWhile (\<lambda>c. c \<noteq> nl) (l @ nl # s) = nl # s"
    using no by (induction l) auto
  obtain c s' where "l @ nl # s = c # s'" by (cases "l @ nl # s") auto
  then show ?thesis using text_lines.simps(2) [of c s'] parts cr by simp
qed

lemma text_lines_output: "list_all plain_line ls \<Longrightarrow> text_lines (output_text ls) = ls"
  by (induction ls) (simp_all add: output_text_def text_lines_cons)

lemma lossy_output: "list_all plain_line ls \<Longrightarrow> from_utf8_lossy (output_text ls) = output_text ls"
proof (rule from_utf8_lossy_ascii)
  have nl: "code nl < 128" by code_simp
  assume "list_all plain_line ls"
  then show "list_all (\<lambda>c. code c < 128) (output_text ls)"
  proof (induction ls)
    case (Cons l ls)
    then have "list_all (\<lambda>c. code c < 128) l" by (simp add: plain_line_def list_all_iff)
    with Cons nl show ?case by (simp add: output_text_def)
  qed (simp add: output_text_def)
qed

lemma graphic_plain: "is_ascii_graphic ch \<Longrightarrow> code ch < 128 \<and> ch \<noteq> nl \<and> ch \<noteq> CHR 0x0D"
proof (intro conjI notI)
  assume g: "is_ascii_graphic ch"
  then show "code ch < 128" by (simp add: is_ascii_graphic_def)
  show False if "ch = nl" using g unfolding that by (simp add: ascii_defs)
  show False if "ch = CHR 0x0D" using g unfolding that by (simp add: ascii_defs)
qed

lemma printable_plain: "printable l \<Longrightarrow> plain_line l"
  unfolding printable_def plain_line_def using graphic_plain by (simp add: list_all_iff)

text \<open>The blob is found among the lines of \<^verbatim>\<open>user add\<close>, whatever the name is.\<close>

lemma blob_found:
  assumes "is_valid_user_name name" and "printable b" and "starts_with b INVITE_BLOB_PREFIX"
  shows "find (\<lambda>line. starts_with line INVITE_BLOB_PREFIX) (map trim (text_lines (from_utf8_lossy (output_text
      [''Created user '' @ name @ ''.'',
       ''Single-use invite, expires in 24h. Redeem with `railyard login <blob>`:'', [], b])))) = Some b"
proof -
  let ?a = "''Created user '' @ name @ ''.''"
    and ?s = "''Single-use invite, expires in 24h. Redeem with `railyard login <blob>`:''"
  have "plain_line name" using assms(1)
    by (auto simp: is_valid_user_name_def plain_line_def list_all_iff ascii_defs)
  moreover have "plain_line ''Created user ''" "plain_line ''.''" "plain_line ?s" by code_simp+
  moreover have "plain_line (x @ y) = (plain_line x \<and> plain_line y)" for x y
    by (simp add: plain_line_def)
  ultimately have "list_all plain_line [?a, ?s, [], b]"
    using printable_plain [OF assms(2)] by (simp only: list.pred_inject) (simp add: plain_line_def)
  note lines = lossy_output [OF this] text_lines_output [OF this]
  have trims: "trim ?a = ?a" "trim ?s = ?s"
    by (rule trim_graphic; simp add: ascii_defs)+
  from assms(3) have b: "b \<noteq> []" by (auto simp: starts_with_def INVITE_BLOB_PREFIX_def)
  then have "trim b = b"
    using assms(2) by (intro trim_graphic) (auto simp: printable_def list_all_iff)
  with assms(3) trims lines show ?thesis
    by (simp add: starts_with_def INVITE_BLOB_PREFIX_def)
qed

section \<open>The machine of the server\<close>

text \<open>
  \<open>sc\<close> is the client of the server's commands: what reaches the daemon over the socket is served by
  the admin routes, the request is read as it was written, and so is the answer that carries an invite.
  Nothing is required of the other answers, such as the text of an error.
\<close>

definition reaches_daemon ::
    "api_state transport \<Rightarrow> string \<Rightarrow> api_state socket_client \<Rightarrow> ('k, 'addr) server \<Rightarrow> (body \<Rightarrow> string) \<Rightarrow> bool" where
  "reaches_daemon tr sock sc sv enc \<longleftrightarrow>
     (\<forall>st. snd (tr_connect tr sock st) = st \<and> snd (tr_handshake tr st) = st) \<and>
     (\<forall>rq st code_nr bytes st'. rq_method rq = ''POST'' \<and> rq_path_and_query rq = Some USERS_PATH \<and>
        tr_send tr rq st = (Inr (code_nr, Inr bytes), st') \<longrightarrow>
        (\<exists>out r. serve_admin sv out rq R_create_user st = (r, st') \<and> code_nr = rsp_status r \<and>
           bytes = enc (rsp_body r))) \<and>
     (\<forall>rq text. sc_json_new_user sc rq = Inr text \<longrightarrow> text \<noteq> [] \<and>
        pf_user_request (sv_platform sv) [Data text] = Inr rq) \<and>
     (\<forall>resp. sc_parse_new_user sc (enc (Json_invite resp)) = Inr resp)"

text \<open>It holds for the formats that \<^verbatim>\<open>serde\<close> derives on both ends.\<close>

lemma derived_reaches_daemon:
  assumes "prints_back print read" and "server_derives (sv_platform sv) print read"
    and "\<forall>rq. sc_json_new_user sc rq = Inr (print (ser_create_user_request rq))"
    and "decodes read de_create_user_response (sc_parse_new_user sc)"
    and "\<forall>st. snd (tr_connect tr sock st) = st \<and> snd (tr_handshake tr st) = st"
    and "\<forall>rq st code_nr bytes st'. rq_method rq = ''POST'' \<and> rq_path_and_query rq = Some USERS_PATH \<and>
        tr_send tr rq st = (Inr (code_nr, Inr bytes), st') \<longrightarrow>
        (\<exists>out r. serve_admin sv out rq R_create_user st = (r, st') \<and> code_nr = rsp_status r \<and>
           bytes = body_text print (rsp_body r))"
  shows "reaches_daemon tr sock sc sv (body_text print)"
  unfolding reaches_daemon_def
  using assms(1,3-6) assms(2) [unfolded server_derives_def]
  by (simp add: user_responses.sent_is_read user_requests.sent_nonempty
      user_requests.sent_is_read [of print read "\<lambda>s. pf_user_request (sv_platform sv) [Data s]"])

text \<open>
  \<^verbatim>\<open>ssh\<close> either fails, or ran the command, whose lines are its output; a name with a leading dash, which
  is valid, is read as an option instead, and then no line of the output is an invite.
\<close>

definition runs_user_add ::
    "(string \<Rightarrow> string \<Rightarrow> api_state \<Rightarrow> (cerr + ssh_output) \<times> api_state) \<Rightarrow> api_state socket_client \<Rightarrow> bool" where
  "runs_user_add ssh sc \<longleftrightarrow>
     (\<forall>target name st res st'. is_valid_user_name name \<and> ssh target name st = (Inr res, st') \<and> ssh_success res
        \<longrightarrow> (\<exists>ls. user_add sc name st = (Inr (), ls, st') \<and> ssh_stdout res = output_text ls) \<or>
          starts_with name ''-'' \<and> find (\<lambda>line. starts_with line INVITE_BLOB_PREFIX)
            (map trim (text_lines (from_utf8_lossy (ssh_stdout res)))) = None)"

text \<open>A successful answer to the creation of a user carries an invite.\<close>

lemma created_user_success:
  assumes "create_user_handler pf out url caller rq s = (r, t)" and "status_is_success (rsp_status r)"
  shows "\<exists>resp. rsp_body r = Json_invite resp"
  using assms
  by (auto simp: create_user_handler_def answer_mint_def response_defs status_is_success_def
      split: if_splits prod.splits sum.splits option.splits)

lemma user_add_mints:
  assumes reach: "reaches_daemon tr sock sc sv enc"
    and added: "user_add (over_socket tr sock sc) name st = (Inr (), ls, st')"
    and ok: "db_ok (as_db st)"
    and url: "\<forall>b. printable (url_encode (pf_crypto (sv_platform sv)) b)"
  shows "\<exists>out srv. outstanding (minted_invite_row (sv_platform sv) out) name None (as_db st') \<and>
    is_valid_user_name name \<and>
    ls = [''Created user '' @ name @ ''.'',
      ''Single-use invite, expires in 24h. Redeem with `railyard login <blob>`:'', [],
      mi_blob (minted_of (sv_platform sv) out (server_url (sv_config sv)) srv name None)]"
proof -
  from added obtain json_text code_nr bytes created where
    json: "sc_json_new_user sc \<lparr>cur_name = name, cur_project_id = None\<rparr> = Inr json_text"
    and sent: "admin_request tr sock ''POST'' USERS_PATH (Some json_text) st = (Inr (code_nr, bytes), st')"
    and success: "status_is_success code_nr" and parsed: "sc_parse_new_user sc bytes = Inr created"
    and ls: "ls = [''Created user '' @ name @ ''.'',
      ''Single-use invite, expires in 24h. Redeem with `railyard login <blob>`:'', [], cus_invite_blob created]"
    by (rule user_add_prints_blob) (simp add: over_socket_def)
  from sent obtain w1 w2 where "tr_connect tr sock st = (Inr (), w1)" "tr_handshake tr w1 = (Inr (), w2)"
    and tr: "tr_send tr (admin_http_request ''POST'' USERS_PATH (Some json_text)) w2 = (Inr (code_nr, Inr bytes), st')"
    by (rule admin_request_Inr)
  then have "w2 = st" using reach unfolding reaches_daemon_def by (metis snd_conv)
  let ?rq = "admin_http_request ''POST'' USERS_PATH (Some json_text)"
  have rq: "rq_method ?rq = ''POST''" "rq_path_and_query ?rq = Some USERS_PATH"
    by (simp_all add: admin_http_request_def)
  from reach tr rq obtain out r where served: "serve_admin sv out ?rq R_create_user st = (r, st')"
    and r: "bytes = enc (rsp_body r)" "code_nr = rsp_status r"
    unfolding reaches_daemon_def \<open>w2 = st\<close> by blast
  from reach json have body_text: "json_text \<noteq> []" "pf_user_request (sv_platform sv) [Data json_text] =
      Inr \<lparr>cur_name = name, cur_project_id = None\<rparr>" unfolding reaches_daemon_def by blast+
  have "run_protected sv out local_admin None R_create_user (rq_path_and_query ?rq) [Data json_text] st = (r, st')"
    using served body_text(1) by (simp add: serve_admin_def run_checked_def verify_body_hash_def admin_http_request_def)
  then have "on_db (create_user_handler (sv_platform sv) out (server_url (sv_config sv)) local_admin
      \<lparr>cur_name = name, cur_project_id = None\<rparr>) st = (r, st')"
    by (simp add: run_protected_def body_text(2))
  then obtain d where d: "create_user_handler (sv_platform sv) out (server_url (sv_config sv)) local_admin
      \<lparr>cur_name = name, cur_project_id = None\<rparr> (as_db st) = (r, d)" and st': "st' = st\<lparr>as_db := d\<rparr>"
    unfolding on_db_eq by blast
  obtain resp where resp: "rsp_body r = Json_invite resp"
    using created_user_success [OF d] success r(2) by auto
  moreover have "sc_parse_new_user sc (enc (Json_invite resp)) = Inr resp"
    using reach unfolding reaches_daemon_def by blast
  ultimately have body: "rsp_body r = Json_invite created" using parsed r(1) by simp
  from created_user_mint [OF d body ok] obtain m s1 where
    minted: "mint_invite (sv_platform sv) out (server_url (sv_config sv)) name None s1 = (Inr (Some m), d)"
      "db_ok s1" and blob: "cus_invite_blob created = mi_blob m" by auto
  have "is_valid_user_name name" using minted(1) by (cases rule: mint_invite_cases) simp_all
  with minted_is_outstanding [OF minted] blob ls st' show ?thesis by auto
qed

text \<open>The client reads with its own libraries what the server wrote with its own.\<close>

lemma parse_other_side:
  assumes "from_json (to_json p) = Some p" and "url_decode cr (url_encode cr' (to_json p)) = Some (to_json p)"
    and "printable (url_encode cr' (to_json p))"
  shows "parse_invite cr from_json (encode_invite cr' to_json p) = Inr p"
proof -
  have "printable (encode_invite cr' to_json p)"
    using assms(3) by (simp add: encode_invite_def printable_def INVITE_BLOB_PREFIX_def ascii_defs)
  then have "trim (encode_invite cr' to_json p) = encode_invite cr' to_json p"
    by (intro trim_graphic) (auto simp: printable_def list_all_iff encode_invite_def INVITE_BLOB_PREFIX_def)
  then show ?thesis
    using assms(1,2) by (simp add: parse_invite_def encode_invite_def strip_prefix_def starts_with_iff)
qed

lemma minted_blob_printable:
  assumes "\<forall>b. printable (url_encode (pf_crypto pf) b)"
  shows "printable (mi_blob (minted_of pf out url srv name project))"
    and "starts_with (mi_blob (minted_of pf out url srv name project)) INVITE_BLOB_PREFIX"
  using assms
  by (simp_all add: minted_of_def encode_invite_def starts_with_iff printable_def INVITE_BLOB_PREFIX_def ascii_defs)

section \<open>From the user's machine\<close>

lemma login_ssh_Inr:
  assumes "login_ssh t lower ssh target sname user c = (Inr x, c')"
  obtains name res n where "ssh target name (cl_net c) = (Inr res, n)" and "ssh_success res"
    and "user = Some name \<or> user = None \<and> name \<noteq> [] \<and> name = sanitize_user_name lower (local_user t)"
    and "\<exists>blob c1. find (\<lambda>line. starts_with line INVITE_BLOB_PREFIX)
        (map trim (text_lines (from_utf8_lossy (ssh_stdout res)))) = Some blob \<and>
      cl_net c1 = n \<and> cl_files c1 = cl_files c \<and> login t blob sname c1 = (Inr x, c')"
proof -
  from assms obtain name c1 where name: "(case user of Some name \<Rightarrow> creturn name
      | None \<Rightarrow> let name = sanitize_user_name lower (local_user t) in
          if name = [] then cfail (Message ''could not derive a user name from $USER; pass --user <name>'')
          else creturn name) c = (Inr name, c1)"
    and rest: "cbind (println (''Creating user '' @ name @ '' on '' @ target @ '' over SSH'' @ ellipsis)) (\<lambda>_.
      cbind (\<lambda>c. case ssh target name (cl_net c) of (r, n) \<Rightarrow> (r, c\<lparr>cl_net := n\<rparr>)) (\<lambda>res.
      if \<not> ssh_success res
      then cfail (Message (''`ssh '' @ target @ '' railyard-server user add '' @ name @
             ''` failed:'' @ [nl] @ trim (from_utf8_lossy (ssh_stderr res))))
      else (case find (\<lambda>line. starts_with line INVITE_BLOB_PREFIX)
               (map trim (text_lines (from_utf8_lossy (ssh_stdout res)))) of
          None \<Rightarrow> cfail (Message ''the remote `user add` printed no invite blob'')
        | Some blob \<Rightarrow> login t blob sname))) c1 = (Inr x, c')"
    unfolding login_ssh_def by (elim cbind_cases) auto
  from name have c1: "c1 = c" and who: "user = Some name \<or> user = None \<and> name \<noteq> [] \<and> name = sanitize_user_name lower (local_user t)"
    by (auto simp: Let_def split: option.splits if_splits)
  from rest obtain l c2 res c3 where "println l c1 = (Inr (), c2)"
    and run: "(case ssh target name (cl_net c2) of (r, n) \<Rightarrow> (r, c2\<lparr>cl_net := n\<rparr>)) = (Inr res, c3)"
    and rest: "(if \<not> ssh_success res
      then cfail (Message (''`ssh '' @ target @ '' railyard-server user add '' @ name @
             ''` failed:'' @ [nl] @ trim (from_utf8_lossy (ssh_stderr res))))
      else (case find (\<lambda>line. starts_with line INVITE_BLOB_PREFIX)
               (map trim (text_lines (from_utf8_lossy (ssh_stdout res)))) of
          None \<Rightarrow> cfail (Message ''the remote `user add` printed no invite blob'')
        | Some blob \<Rightarrow> login t blob sname)) c3 = (Inr x, c')"
    by (elim cbind_cases) simp_all
  then have c2: "cl_net c2 = cl_net c" "cl_files c2 = cl_files c" by (auto simp: println_def c1)
  from run c2 have c3: "ssh target name (cl_net c) = (Inr res, cl_net c3)" "cl_files c3 = cl_files c"
    by (auto split: prod.splits)
  from rest have "ssh_success res" by (auto split: if_splits)
  with rest c3 show thesis
    by (intro that [OF c3(1) _ who]) (auto split: option.splits)
qed

text \<open>
  C6: the login over SSH logs in with the invite the server just made: after it succeeded, the user it
  asked for exists on the server as an admin with an outstanding invite, the blob that was picked from
  the output of \<^verbatim>\<open>user add\<close> reads as that invite, for that user, with its token and its expiry, and the
  rest is the login with this blob, from unchanged files.  (When the name is taken for an option on the
  way, there is no invite in the output and the login does not succeed.)
\<close>

theorem ssh_login_uses_the_new_invite:
  fixes c' :: "api_state client"
  assumes "reaches_daemon tr sock sc sv enc" and "runs_user_add ssh (over_socket tr sock sc)"
    and "\<forall>p. t_parse_invite_json t (pf_invite_json (sv_platform sv) p) = Some p"
    and "\<forall>b. url_decode (t_crypto t) (url_encode (pf_crypto (sv_platform sv)) b) = Some b \<and>
      printable (url_encode (pf_crypto (sv_platform sv)) b)"
    and "db_ok (as_db (cl_net c))" and "\<forall>n. user = Some n \<longrightarrow> is_valid_user_name n"
    and "login_ssh t lower ssh target sname user c = (Inr (), c')"
  shows "\<exists>name row blob invite c1.
    name = (case user of Some n \<Rightarrow> n | None \<Rightarrow> sanitize_user_name lower (local_user t)) \<and>
    outstanding row name None (as_db (cl_net c1)) \<and>
    parse_invite (t_crypto t) (t_parse_invite_json t) blob = Inr invite \<and>
    inv_user_name invite = name \<and> inv_user invite = inv_user_id row \<and> inv_project invite = None \<and>
    inv_server_url invite = server_url (sv_config sv) \<and>
    inv_token_hash row = token_hash (pf_crypto (sv_platform sv)) (inv_token invite) \<and>
    inv_expires_at row = as_i64 (inv_expires invite) \<and>
    cl_files c1 = cl_files c \<and> login t blob sname c1 = (Inr (), c')"
  using assms(7)
proof (rule login_ssh_Inr)
  fix name res n
  assume run: "ssh target name (cl_net c) = (Inr res, n)" "ssh_success res"
    and who: "user = Some name \<or> user = None \<and> name \<noteq> [] \<and> name = sanitize_user_name lower (local_user t)"
    and rest: "\<exists>blob c1. find (\<lambda>line. starts_with line INVITE_BLOB_PREFIX)
        (map trim (text_lines (from_utf8_lossy (ssh_stdout res)))) = Some blob \<and>
      cl_net c1 = n \<and> cl_files c1 = cl_files c \<and> login t blob sname c1 = (Inr (), c')"
  from who assms(6) have valid: "is_valid_user_name name"
    by (auto simp: is_valid_user_name_def sanitize_user_name_def list_all_iff)
  with run rest assms(2) obtain ls where added: "user_add (over_socket tr sock sc) name (cl_net c) = (Inr (), ls, n)"
    and out: "ssh_stdout res = output_text ls" unfolding runs_user_add_def by (metis option.distinct(1))
  from user_add_mints [OF assms(1) added assms(5)] assms(4) obtain o' srv where
    row: "outstanding (minted_invite_row (sv_platform sv) o') name None (as_db n)"
    and ls: "ls = [''Created user '' @ name @ ''.'',
      ''Single-use invite, expires in 24h. Redeem with `railyard login <blob>`:'', [],
      mi_blob (minted_of (sv_platform sv) o' (server_url (sv_config sv)) srv name None)]" by blast
  let ?m = "minted_of (sv_platform sv) o' (server_url (sv_config sv)) srv name None"
  have "\<forall>b. printable (url_encode (pf_crypto (sv_platform sv)) b)" using assms(4) by blast
  note blob = minted_blob_printable [OF this, of o' "server_url (sv_config sv)" srv name None]
  from rest blob_found [OF valid blob] obtain c1 where
    c1: "cl_net c1 = n" "cl_files c1 = cl_files c" "login t (mi_blob ?m) sname c1 = (Inr (), c')"
    by (auto simp: out ls)
  have "\<exists>invite. parse_invite (t_crypto t) (t_parse_invite_json t) (mi_blob ?m) = Inr invite \<and>
    inv_user_name invite = name \<and> inv_user invite = new_user_id (id_hex o') \<and> inv_project invite = None \<and>
    inv_server_url invite = server_url (sv_config sv) \<and>
    inv_token invite = random_token (pf_crypto (sv_platform sv)) o' \<and>
    inv_expires invite = clock o' + INVITE_TTL_SECONDS"
    using assms(3,4) by (simp add: minted_of_def parse_other_side)
  with row c1 who show ?thesis
    by (intro exI [of _ name] exI [of _ "minted_invite_row (sv_platform sv) o'"] exI [of _ "mi_blob ?m"]) 
      (auto simp: minted_invite_row_def new_invite_row_def)
qed

section \<open>An instance\<close>

fun ssh_text :: "body \<Rightarrow> string" where
  "ssh_text (Json_key k) = ''k'' @ k"
| "ssh_text (Json_invite r) = ''i'' @ mark (cus_user_id r) @ mark (cus_invite_blob r) @ show_u64 (cus_expires_at r)"
| "ssh_text _ = ''o''"

definition text_invite :: "string \<Rightarrow> create_user_response result" where
  "text_invite s = (if hd s \<noteq> CHR ''i'' then Inl ''not an invite''
     else case unmark (tl s) of (i, s1) \<Rightarrow> case unmark s1 of (b, s2) \<Rightarrow>
       (case parse_u64 s2 of None \<Rightarrow> Inl ''no expiry''
        | Some e \<Rightarrow> Inr \<lparr>cus_user_id = i, cus_invite_blob = b, cus_expires_at = e\<rparr>))"

definition ssh_server :: "(string, string) server" where
  "ssh_server = tally_server\<lparr>sv_platform := (sv_platform tally_server)
     \<lparr>pf_user_request := (\<lambda>fs. case unmark (payload fs) of (n, p) \<Rightarrow>
        Inr \<lparr>cur_name = n, cur_project_id = (if hd p = CHR ''n'' then None else Some (tl p))\<rparr>),
      pf_redeem_request := (\<lambda>fs. Inr (unmark (payload fs)))\<rparr>\<rparr>"

definition ssh_tools :: "(api_state, string, string, bool) tools" where
  "ssh_tools = net_tools\<lparr>t_crypto := tally_crypto, t_parse_invite_json := text_payload,
     t_parse_redeemed := \<lambda>s. Inr (tl s),
     t_send := (\<lambda>_ rq st. case net_router rq of
        None \<Rightarrow> (Inl (Network ''no route''), st)
      | Some rt \<Rightarrow> (case serve_signed ssh_server demo_outside rq rt st of (r, st') \<Rightarrow> (Inr (wire ssh_text r), st')))\<rparr>"

definition daemon_transport :: "api_state transport" where
  "daemon_transport = \<lparr>tr_connect = (\<lambda>_ st. (Inr (), st)), tr_handshake = (\<lambda>st. (Inr (), st)),
     tr_bad_uri = (\<lambda>_. None),
     tr_send = (\<lambda>rq st. if rq_method rq = ''POST'' \<and> rq_path_and_query rq = Some USERS_PATH
       then (case serve_admin ssh_server demo_outside rq R_create_user st of
               (r, st') \<Rightarrow> (Inr (rsp_status r, Inr (ssh_text (rsp_body r))), st'))
       else (Inl ''no route'', st))\<rparr>"

definition machine_client :: "api_state socket_client" where
  "machine_client = \<lparr>sc_request = (\<lambda>_ _ _ st. (Inl ''not connected'', st)),
     sc_json_new_user = (\<lambda>rq. Inr (mark (cur_name rq) @
       (case cur_project_id rq of None \<Rightarrow> ''n'' | Some i \<Rightarrow> ''s'' @ i))),
     sc_parse_new_user = text_invite, sc_parse_users = Inl, sc_status_text = show_nat, sc_clock = (\<lambda>_. 1000)\<rparr>"

abbreviation machine_cli :: "api_state socket_client" where
  "machine_cli \<equiv> over_socket daemon_transport ''/run/admin.sock'' machine_client"

definition machine_ssh :: "string \<Rightarrow> string \<Rightarrow> api_state \<Rightarrow> (cerr + ssh_output) \<times> api_state" where
  "machine_ssh target name st = (case user_add machine_cli name st of
     (Inr _, ls, st') \<Rightarrow> (Inr \<lparr>ssh_success = True, ssh_stdout = output_text ls, ssh_stderr = []\<rparr>, st')
   | (Inl e, ls, st') \<Rightarrow> (Inr \<lparr>ssh_success = False, ssh_stdout = output_text ls, ssh_stderr = e @ [nl]\<rparr>, st'))"

lemma daemon_reached:
  "reaches_daemon daemon_transport ''/run/admin.sock'' machine_client ssh_server ssh_text"
  unfolding reaches_daemon_def
proof (intro conjI allI impI)
  fix resp
  show "sc_parse_new_user machine_client (ssh_text (Json_invite resp)) = Inr resp"
    by (simp add: machine_client_def text_invite_def parse_show_u64)
next
  fix rq st code_nr bytes st'
  assume "rq_method rq = ''POST'' \<and> rq_path_and_query rq = Some USERS_PATH \<and>
    tr_send daemon_transport rq st = (Inr (code_nr, Inr bytes), st')"
  then show "\<exists>out r. serve_admin ssh_server out rq R_create_user st = (r, st') \<and> code_nr = rsp_status r \<and>
      bytes = ssh_text (rsp_body r)"
    by (intro exI [of _ demo_outside]) (auto simp: daemon_transport_def split: prod.splits)
next
  fix rq json_text
  assume "sc_json_new_user machine_client rq = Inr json_text"
  then show "json_text \<noteq> []" and "pf_user_request (sv_platform ssh_server) [Data json_text] = Inr rq"
    by (auto simp: machine_client_def ssh_server_def split: option.split)
qed (simp_all add: daemon_transport_def)

lemma ssh_runs: "runs_user_add machine_ssh machine_cli"
  by (auto simp: runs_user_add_def machine_ssh_def split: prod.splits sum.splits)

lemma ssh_reads: "\<forall>p. t_parse_invite_json ssh_tools (pf_invite_json (sv_platform ssh_server) p) = Some p"
  by (simp add: ssh_tools_def ssh_server_def tally_server_def text_payload_text)

lemma ssh_crypto:
  "t_crypto ssh_tools = tally_crypto" "pf_crypto (sv_platform ssh_server) = tally_crypto"
  by (simp_all add: ssh_tools_def ssh_server_def tally_server_def)

lemma ssh_codec:
  "\<forall>b. url_decode (t_crypto ssh_tools) (url_encode (pf_crypto (sv_platform ssh_server)) b) = Some b \<and>
     printable (url_encode (pf_crypto (sv_platform ssh_server)) b)"
  unfolding ssh_crypto by (simp add: tally_crypto_def untally_tally printable_tally)

text \<open>The daemon adds the user, with no failure on the way.\<close>

abbreviation zed_row :: invite_row where
  "zed_row \<equiv> minted_invite_row (sv_platform ssh_server) demo_outside"

abbreviation zed_minted :: "string \<Rightarrow> minted_invite" where
  "zed_minted srv \<equiv> minted_of (sv_platform ssh_server) demo_outside (server_url (sv_config ssh_server)) srv ''zed'' None"

lemma zed_added:
  "\<exists>srv st'. user_add machine_cli ''zed'' demo_api = (Inr (), [''Created user '' @ ''zed'' @ ''.'',
      ''Single-use invite, expires in 24h. Redeem with `railyard login <blob>`:'', [], mi_blob (zed_minted srv)], st') \<and>
     faults (as_db st') = [] \<and> outstanding zed_row ''zed'' None (as_db st')"
proof -
  have "server_name demo_outside = Inr ''box''"
  proof -
    have "trim ''box'' = ''box''" by code_simp
    then show ?thesis by (simp add: server_name_def demo_outside_def)
  qed
  moreover have "is_valid_user_name ''zed''" by code_simp
  moreover have "token_hash tally_crypto x \<noteq> ''h3''" for x by (simp add: token_hash_def tally_crypto_def)
  ultimately have "\<exists>resp t. create_user_handler (sv_platform ssh_server) demo_outside (server_url (sv_config ssh_server))
      local_admin \<lparr>cur_name = ''zed'', cur_project_id = None\<rparr> demo_db_state = (ok_json (Json_invite resp), t) \<and>
      faults t = []"
    by (simp add: create_user_handler_def local_admin_def validated_name_def
        answer_mint_def mint_invite_def Let_def create_user_def user_id_by_name_def query_def statement_def
        demo_db_state_def dbind_def ada_def bob_def eve_def insert_user_def execute_def insert_user_row_def
        insert_unique_def new_user_id_def demo_outside_def dreturn_def create_invite_def insert_invite_def
        insert_invite_row_def eve_invite_def ssh_server_def tally_server_def)
  then obtain resp t where made: "create_user_handler (sv_platform ssh_server) demo_outside
      (server_url (sv_config ssh_server)) local_admin \<lparr>cur_name = ''zed'', cur_project_id = None\<rparr> demo_db_state =
      (ok_json (Json_invite resp), t)" and "faults t = []" by blast
  have json: "sc_json_new_user machine_client \<lparr>cur_name = ''zed'', cur_project_id = None\<rparr> = Inr (mark ''zed'' @ ''n'')"
      "pf_user_request (sv_platform ssh_server) [Data (mark ''zed'' @ ''n'')] =
        Inr \<lparr>cur_name = ''zed'', cur_project_id = None\<rparr>"
    by (simp_all add: machine_client_def ssh_server_def)
  have "serve_admin ssh_server demo_outside (admin_http_request ''POST'' USERS_PATH (Some (mark ''zed'' @ ''n'')))
      R_create_user demo_api = (ok_json (Json_invite resp), demo_api\<lparr>as_db := t\<rparr>)"
    using made json(2)
    by (simp add: serve_admin_def run_checked_def verify_body_hash_def run_protected_def admin_http_request_def
        on_db_def demo_api_def)
  then have "sc_request machine_cli ''POST'' USERS_PATH (Some (mark ''zed'' @ ''n'')) demo_api =
      (Inr (200, ssh_text (Json_invite resp)), demo_api\<lparr>as_db := t\<rparr>)"
    by (simp add: over_socket_def admin_request_def daemon_transport_def admin_http_request_def ok_json_def)
  moreover have "sc_parse_new_user machine_client (ssh_text (Json_invite resp)) = Inr resp"
    by (simp add: machine_client_def text_invite_def parse_show_u64)
  ultimately have "user_add machine_cli ''zed'' demo_api = (Inr (), [''Created user '' @ ''zed'' @ ''.'',
      ''Single-use invite, expires in 24h. Redeem with `railyard login <blob>`:'', [], cus_invite_blob resp],
      demo_api\<lparr>as_db := t\<rparr>)"
    using json(1) by (simp add: user_add_def over_socket_def status_is_success_def del: ssh_text.simps)
  moreover obtain m s1 where
    minted: "mint_invite (sv_platform ssh_server) demo_outside (server_url (sv_config ssh_server)) ''zed'' None s1
      = (Inr (Some m), t)" "db_ok s1" and "cus_invite_blob resp = mi_blob m"
    using created_user_mint [OF made, of resp] demo_db_ok by (auto simp: ok_json_def)
  moreover have "outstanding zed_row ''zed'' None t \<and> (\<exists>srv. m = zed_minted srv)"
    using minted_is_outstanding [OF minted] by simp
  ultimately show ?thesis using \<open>faults t = []\<close> by auto
qed

lemma ssh_paths:
  "config_root ssh_tools = Inr ''.dev-state''"
  "servers_dir ssh_tools = Inr ''.dev-state/client/servers''"
  "server_path ssh_tools ''box'' = Inr ''.dev-state/client/servers/box.json''"
  "key_path ssh_tools ''usr_0a'' = Inr ''.dev-state/client/keys/usr_0a.json''"
proof -
  show root: "config_root ssh_tools = Inr ''.dev-state''"
    by (simp add: config_root_def is_set_def env_var_def ssh_tools_def net_tools_def)
  show "servers_dir ssh_tools = Inr ''.dev-state/client/servers''"
    "server_path ssh_tools ''box'' = Inr ''.dev-state/client/servers/box.json''"
    "key_path ssh_tools ''usr_0a'' = Inr ''.dev-state/client/keys/usr_0a.json''"
    by (simp_all add: servers_dir_def server_path_def key_path_def root path_join_def starts_with_def)
qed

lemma ssh_nothing_listed:
  assumes "cl_files c = []" and "cl_io_faults c = []"
  shows "list_servers ssh_tools c = (Inr [], c)"
    and "name_taken ssh_tools ''box'' invite c = (Inr (), c)"
  using assms
  by (simp_all add: list_servers_def ssh_paths of_result_Inr attempt_def read_dir_def fs_op_def cbind_def
      dir_names_def List.map_filter_def name_taken_def read_server_def read_to_string_def)

lemma ssh_redeems:
  assumes "outstanding zed_row ''zed'' None (as_db (cl_net c))" and "faults (as_db (cl_net c)) = []"
    and "inv_token invite = random_token tally_crypto demo_outside"
  shows "\<exists>n. http_redeem_invite ssh_tools invite bob_key c = (Inr ''usr_0a'', c\<lparr>cl_net := n\<rparr>)"
proof -
  have "as_i64 1000 < as_i64 87400" by (simp add: i64_less_small)
  then have fresh: "as_i64 (clock demo_outside) < inv_expires_at zed_row"
    by (simp add: minted_invite_row_def new_invite_row_def demo_outside_def INVITE_TTL_SECONDS_def)
  have row: "inv_user_id zed_row = ''usr_0a''"
      "inv_token_hash zed_row = token_hash tally_crypto (random_token tally_crypto demo_outside)"
    by (simp_all add: minted_invite_row_def new_invite_row_def new_user_id_def demo_outside_def ssh_crypto)
  from outstanding_redeems [OF assms(1,2) fresh, of bob_key] obtain d where
    d: "redeem_invite (token_hash tally_crypto (random_token tally_crypto demo_outside)) bob_key (clock demo_outside)
      (as_db (cl_net c)) = (Inr (Some ''usr_0a''), d)" unfolding row by blast
  have key: "parse_public_key tally_crypto bob_key \<noteq> None"
    by (simp add: parse_public_key_def tally_crypto_def demo_crypto_def bob_key_def)
  have url: "control_plane_api_url ssh_tools (inv_server_url invite) REDEEM_INVITE_PATH = Inr REDEEM_INVITE_PATH"
  proof -
    have "api_url_parts REDEEM_INVITE_PATH = ([''api'', ''auth'', ''redeem-invite''], None)" by code_simp
    then show ?thesis by (simp add: control_plane_api_url_def ssh_tools_def net_tools_def REDEEM_INVITE_PATH_def)
  qed
  define rq where "rq = http_request_of ''POST'' (t_url_tail ssh_tools REDEEM_INVITE_PATH)
    [(''content-type'', ''application/json'')] (t_json_redeem ssh_tools (inv_token invite) bob_key)"
  have "net_router rq = Some R_redeem_invite"
    by (simp add: net_router_def rq_def http_request_of_def ssh_tools_def net_tools_def)
  moreover have "pf_redeem_request (sv_platform ssh_server) (rq_body rq) =
      Inr (random_token tally_crypto demo_outside, bob_key)"
    by (simp add: ssh_server_def rq_def http_request_of_def ssh_tools_def net_tools_def assms(3))
  ultimately have "t_send ssh_tools u rq (cl_net c) = (Inr (wire ssh_text (ok_json (Json_key ''usr_0a''))),
      (cl_net c)\<lparr>as_db := d\<rparr>)" for u
    using d key by (auto simp: ssh_tools_def serve_signed_def on_db_def redeem_invite_handler_def ssh_crypto)
  then have sent: "send ssh_tools u rq c = (Inr \<lparr>rp_status = 200, rp_body = Inr ''kusr_0a''\<rparr>,
      c\<lparr>cl_net := (cl_net c)\<lparr>as_db := d\<rparr>\<rparr>)" for u
    by (simp add: send_def wire_def ok_json_def)
  have parse: "t_url_parse ssh_tools = Inr" "t_parse_redeemed ssh_tools = (\<lambda>s. Inr (tl s))"
    by (simp_all add: ssh_tools_def net_tools_def)
  have "http_redeem_invite ssh_tools invite bob_key c = (Inr ''usr_0a'', c\<lparr>cl_net := (cl_net c)\<lparr>as_db := d\<rparr>\<rparr>)"
    by (simp add: http_redeem_invite_def parse invalid_data_def of_result_Inr url rq_def [symmetric]
        sent checked_json_def is_success_def json_of_def)
  then show ?thesis by blast
qed

lemma ssh_stores:
  assumes "outstanding zed_row ''zed'' None (as_db (cl_net c))" and "faults (as_db (cl_net c)) = []"
    and "inv_token invite = random_token tally_crypto demo_outside" and "inv_project invite = None"
    and "cl_files c = []" and "cl_io_faults c = []"
  shows "\<exists>c'. redeem_and_store ssh_tools invite ''box'' c = (Inr (), c')"
proof -
  have drawn: "generate_signing_key ssh_tools c = (Inr True, c\<lparr>cl_draws := Suc (cl_draws c)\<rparr>)"
    by (simp add: generate_signing_key_def draw_def ssh_tools_def net_tools_def)
  have key: "public_key_base64 ssh_tools True = bob_key"
    by (simp add: public_key_base64_def ssh_tools_def net_tools_def tally_crypto_def demo_crypto_def bob_key_def)
  obtain n where redeemed: "http_redeem_invite ssh_tools invite bob_key (c\<lparr>cl_draws := Suc (cl_draws c)\<rparr>) =
      (Inr ''usr_0a'', c\<lparr>cl_draws := Suc (cl_draws c), cl_net := n\<rparr>)"
    using ssh_redeems [of "c\<lparr>cl_draws := Suc (cl_draws c)\<rparr>" invite] assms(1-3) by auto
  let ?files = "[(''.dev-state/client/keys/usr_0a.json'', t_json_key ssh_tools \<lparr>sk_key_id = ''usr_0a'',
       sk_secret_base64 = std_encode (t_crypto ssh_tools) (t_key_bytes ssh_tools True)\<rparr>),
     (''.dev-state/client/servers/box.json'', t_json_server ssh_tools \<lparr>sc_server_url = inv_server_url invite,
       sc_key_id = ''usr_0a'', sc_key_path = ''.dev-state/client/keys/usr_0a.json''\<rparr>)]"
  have dir: "dir_names ''.dev-state/client/servers'' ?files = [''box.json'']"
    by (simp add: dir_names_def List.map_filter_def strip_prefix_def starts_with_def)
  have stem: "json_stem ''box.json'' = Some ''box''" by code_simp
  have again: "t_parse_server ssh_tools (t_json_server ssh_tools sv) = Inr sv" for sv
    by (simp add: ssh_tools_def net_tools_def)
  have listed: "list_servers ssh_tools d = (Inr [(''box'', \<lparr>sc_server_url = inv_server_url invite,
      sc_key_id = ''usr_0a'', sc_key_path = ''.dev-state/client/keys/usr_0a.json''\<rparr>)], d)"
    if "cl_files d = ?files" "cl_io_faults d = []" for d :: "api_state client"
  proof -
    have "read_to_string ''.dev-state/client/servers/box.json'' d = (Inr (t_json_server ssh_tools
        \<lparr>sc_server_url = inv_server_url invite, sc_key_id = ''usr_0a'',
         sc_key_path = ''.dev-state/client/keys/usr_0a.json''\<rparr>), d)"
      using that by (simp add: read_to_string_def fs_op_def)
    moreover have "path_join ''.dev-state/client/servers'' ''box.json'' = ''.dev-state/client/servers/box.json''"
      by (simp add: path_join_def starts_with_def)
    moreover have "attempt (read_dir ''.dev-state/client/servers'') d = (Inr (Inr [''box.json'']), d)"
      using that dir by (simp add: attempt_def read_dir_def fs_op_def)
    ultimately show ?thesis by (simp add: list_servers_def ssh_paths of_result_Inr stem again)
  qed
  show ?thesis
    unfolding redeem_and_store_def
    by (simp add: drawn key redeemed assms(4-6) write_signing_key_def write_server_def ssh_paths of_result_Inr
        fault_free supersede_project_entries_def listed)
qed

lemma zed_blob:
  "parse_invite (t_crypto ssh_tools) (t_parse_invite_json ssh_tools) (mi_blob (zed_minted srv)) = Inr
     \<lparr>inv_server_url = server_url (sv_config ssh_server), inv_server_name = srv, inv_user = ''usr_0a'',
      inv_user_name = ''zed'', inv_project = None, inv_token = random_token tally_crypto demo_outside,
      inv_expires = clock demo_outside + INVITE_TTL_SECONDS\<rparr>"
  using ssh_reads ssh_codec
  by (simp add: minted_of_def parse_other_side) (simp add: ssh_crypto new_user_id_def demo_outside_def)

lemma zed_logs_in: "\<exists>c'. login_ssh ssh_tools id machine_ssh ''box'' (Some ''box'') (Some ''zed'') net_client = (Inr (), c')"
proof -
  obtain srv st' where added: "user_add machine_cli ''zed'' demo_api = (Inr (), [''Created user '' @ ''zed'' @ ''.'',
      ''Single-use invite, expires in 24h. Redeem with `railyard login <blob>`:'', [], mi_blob (zed_minted srv)], st')"
    and st': "faults (as_db st') = []" "outstanding zed_row ''zed'' None (as_db st')"
    using zed_added by blast
  let ?ls = "[''Created user '' @ ''zed'' @ ''.'',
      ''Single-use invite, expires in 24h. Redeem with `railyard login <blob>`:'', [], mi_blob (zed_minted srv)]"
  define outp where "outp = output_text ?ls"
  have ran: "machine_ssh ''box'' ''zed'' demo_api =
      (Inr \<lparr>ssh_success = True, ssh_stdout = outp, ssh_stderr = []\<rparr>, st')"
    unfolding machine_ssh_def added outp_def by simp
  have "\<forall>b. printable (url_encode (pf_crypto (sv_platform ssh_server)) b)" using ssh_codec by blast
  note blob = minted_blob_printable [OF this, of demo_outside "server_url (sv_config ssh_server)" srv "''zed''" None]
  have valid: "is_valid_user_name ''zed''" by code_simp
  note found = blob_found [OF valid blob, folded outp_def]
  define c where "c = net_client\<lparr>cl_out := [''Creating user '' @ ''zed'' @ '' on '' @ ''box'' @ '' over SSH'' @ ellipsis],
    cl_net := st'\<rparr>"
  have c: "cl_files c = []" "cl_io_faults c = []" "cl_net c = st'" by (simp_all add: c_def net_client_def)
  have step: "login_ssh ssh_tools id machine_ssh ''box'' (Some ''box'') (Some ''zed'') net_client =
      login ssh_tools (mi_blob (zed_minted srv)) (Some ''box'') c"
    by (simp add: login_ssh_def println_def cbind_def ran net_client_def found c_def creturn_def
        del: list.map text_lines.simps)
  have clock: "unix_timestamp ssh_tools c = (Inr 1000, c\<lparr>cl_draws := Suc (cl_draws c)\<rparr>)"
    by (simp add: unix_timestamp_def draw_def ssh_tools_def net_tools_def)
  have name: "resolve_server_name ssh_tools (Some ''box'') invite = Inr ''box''" for invite
  proof -
    have "sanitize_server_name ''box'' = ''box''" by code_simp
    then show ?thesis by (simp add: resolve_server_name_def)
  qed
  let ?invite = "\<lparr>inv_server_url = server_url (sv_config ssh_server), inv_server_name = srv, inv_user = ''usr_0a'',
      inv_user_name = ''zed'', inv_project = None, inv_token = random_token tally_crypto demo_outside,
      inv_expires = clock demo_outside + INVITE_TTL_SECONDS\<rparr>"
  have early: "\<not> inv_expires ?invite \<le> 1000" by (simp add: demo_outside_def INVITE_TTL_SECONDS_def)
  obtain c' where stored: "redeem_and_store ssh_tools ?invite ''box'' (c\<lparr>cl_draws := Suc (cl_draws c)\<rparr>) = (Inr (), c')"
    using ssh_stores [of "c\<lparr>cl_draws := Suc (cl_draws c)\<rparr>" ?invite] st' c by auto
  have "login ssh_tools (mi_blob (zed_minted srv)) (Some ''box'') c = (Inr (), c')"
    using early stored
    by (simp add: login_def zed_blob invalid_data_def of_result_Inr clock name
        existing_different_user_with_same_scope_def ssh_nothing_listed c)
  with step show ?thesis by auto
qed

theorem ssh_login_uses_the_new_invite_witness:
  "\<exists>row blob invite c1 c'. outstanding row ''zed'' None (as_db (cl_net c1)) \<and>
     parse_invite (t_crypto ssh_tools) (t_parse_invite_json ssh_tools) blob = Inr invite \<and>
     inv_user_name invite = ''zed'' \<and> inv_user invite = inv_user_id row \<and>
     login ssh_tools blob (Some ''box'') c1 = (Inr (), c')"
proof -
  obtain c' where run: "login_ssh ssh_tools id machine_ssh ''box'' (Some ''box'') (Some ''zed'') net_client = (Inr (), c')"
    using zed_logs_in by blast
  have "is_valid_user_name ''zed''" by code_simp
  moreover have "db_ok (as_db (cl_net net_client))" by (simp add: net_client_def demo_api_def demo_db_ok)
  ultimately show ?thesis
    using ssh_login_uses_the_new_invite [OF daemon_reached ssh_runs ssh_reads ssh_codec _ _ run] by simp blast
qed

end
