(* ===== verification/Init_Props.thy ===== *)
theory Init_Props
  imports Manifest_Text Enrolment
begin

text \<open>
  What \<^verbatim>\<open>railyard init\<close> leaves behind: a manifest in the working directory that names the project, and a
  binding of the project to a server entry, so that the next command finds both without a question.
\<close>

section \<open>The manifest of a directory\<close>





lemma read_manifests_reads [reading]: "obeys only_reads (read_manifests t dir names)"
  by (induction t dir names rule: read_manifests.induct)
    (auto split: sum.split cerr.split intro!: reads.obeys_intros reading)









section \<open>Paths\<close>









section \<open>A project that is found again\<close>




section \<open>What a command asks keeps the files\<close>










section \<open>The server that was picked\<close>




section \<open>What init writes\<close>












section \<open>Where init writes\<close>













section \<open>Instance\<close>












end
