(* ===== verification/Spec2Isabelle.thy ===== *)
theory Spec2Isabelle
  imports Manifest_Props Server_Start Db_Columns Interleaving_Props Client_Up_Props Resolve_Props Ssh_Login Init_Props Api_Formats
begin

text \<open>
  Railyard deploys projects to a machine of one's own.  It is two programs and three shared crates: the
  client \<^verbatim>\<open>railyard\<close> (\<^verbatim>\<open>apps/cli\<close>) on the developer's machine, the server \<^verbatim>\<open>railyard-server\<close>
  (\<^verbatim>\<open>apps/server\<close>: a daemon with an ingress proxy and an HTTP API over a database), the project manifest
  (\<^verbatim>\<open>packages/manifest\<close>), signatures and invites (\<^verbatim>\<open>packages/auth\<close>) and the types both exchange
  (\<^verbatim>\<open>packages/types\<close>).  This development models all of them and proves what makes them correct, each on
  its own and put together.

  \<^bold>\<open>The pieces and how they meet.\<close>  A server's admin adds a user (\<^verbatim>\<open>railyard-server user add\<close> over the
  admin socket, or \<^verbatim>\<open>railyard user add\<close> with a signed request); the server mints an invite, which is good
  for one redemption within a day.  \<^verbatim>\<open>railyard login\<close> redeems it with a fresh public key and stores the
  private key and a server entry.  From then on every request of the client is signed; the server checks the
  signature, the time window and that the nonce is new.  \<^verbatim>\<open>railyard init\<close> creates a project on the server,
  writes its id into the manifest and binds the project to the entry; \<^verbatim>\<open>railyard up\<close> finds the manifest,
  resolves the server and uploads the directory as an archive, which the server stores and unpacks.  The
  proxy routes requests by host to the API or to a configured service.

  \<^bold>\<open>Conventions.\<close>  A Rust \<^verbatim>\<open>str\<close> is the list of its UTF-8 bytes, a \<^verbatim>\<open>u64\<close> a word with wrap-around, a
  timestamp in the database an \<open>i64\<close> with the signed order (an instance of \<open>linorder\<close>).  An error is the
  left of a sum, mostly with its message.  An operation that can fail part of the way, a database statement
  or a file operation, takes its failure from a schedule in the state, and the properties hold for every
  schedule unless they say otherwise.  What the machine answers (clock, random bytes, replies, keystrokes)
  is a parameter or part of the state.

  \<^bold>\<open>Shared.\<close>  \<^verbatim>\<open>Prelude\<close> has the words, timestamps and results, \<^verbatim>\<open>Rust_Str\<close> the operations of the standard
  library on strings.

  \<^bold>\<open>Manifest.\<close>  \<^verbatim>\<open>Manifest_Model\<close> (\<^verbatim>\<open>model.rs\<close>: structs, enums, defaults, accessors, \<^verbatim>\<open>de_env_map\<close>),
  \<^verbatim>\<open>Manifest_Json\<close> (the reader and the writer of each type by its serde attributes, \<^verbatim>\<open>to_json_string\<close>),
  \<^verbatim>\<open>Reference\<close> (\<^verbatim>\<open>reference.rs\<close>), \<^verbatim>\<open>Validate\<close> and \<^verbatim>\<open>Cycle_Search\<close> (\<^verbatim>\<open>validate.rs\<close>), \<^verbatim>\<open>Manifest\<close>
  (\<^verbatim>\<open>lib.rs\<close>).  \<open>manifest_ok\<close> is the specification of a well-formed manifest, and validation is shown to
  implement it; the depth-first search is shown to find a cycle exactly when there is one, for every order
  in which the hash map is walked (\<open>key_order\<close>).  The locale \<open>wire_type\<close> is the contract of a type on the
  wire (what is written is read back), interpreted for every type of the manifest, from strings to the
  manifest itself.  \<^verbatim>\<open>Manifest_Schema\<close> states the shape of a manifest as data, apart from the readers; the
  locale \<open>shaped\<close> says that a reader accepts exactly its shape, and every reader is an interpretation.
  Properties: \<^verbatim>\<open>Manifest_Props\<close>, \<^verbatim>\<open>Manifest_Text\<close>.

  \<^bold>\<open>Server.\<close>  \<^verbatim>\<open>Api_Types\<close>, \<^verbatim>\<open>Http\<close> and \<^verbatim>\<open>Signing\<close> are the exchanged data, the signed text and the invite
  blob; \<^verbatim>\<open>Api_Json\<close> has their JSON, and that of the client's files, by the \<^verbatim>\<open>serde\<close> attributes, each type
  being an interpretation of \<open>message\<close>, which extends \<open>wire_type\<close>.  \<^verbatim>\<open>Db_Tables\<close> and \<^verbatim>\<open>Db_Ops\<close>
  (\<^verbatim>\<open>api/db\<close>) are the four tables and every operation statement by statement, \<^verbatim>\<open>Db_Columns\<close> the typed reading of untyped rows by position.  \<^verbatim>\<open>Api_Auth\<close> (\<^verbatim>\<open>api/auth.rs\<close>),
  \<^verbatim>\<open>Routes\<close> (\<^verbatim>\<open>api/routes.rs\<close>, \<^verbatim>\<open>api/invite.rs\<close>) and \<^verbatim>\<open>Api_Service\<close> are the middleware, the handlers and
  the two listeners, the public one (\<open>serve_signed\<close>) and the admin socket (\<open>serve_admin\<close>).
  \<^verbatim>\<open>Interleaving\<close> runs the statements of concurrent requests in any order, as an inductive step relation.
  \<^verbatim>\<open>Server_Config\<close> and \<^verbatim>\<open>Proxy\<close> are configuration, paths and routing, \<^verbatim>\<open>Daemon\<close> and \<^verbatim>\<open>Server_Cli\<close> the
  commands of the server, \<^verbatim>\<open>Server_Start\<close> the start of the process, of the database and of the listeners.

  \<^verbatim>\<open>Db_Inv\<close> says what each operation does on every branch, \<^verbatim>\<open>Db_Safety\<close> states the invariant \<open>db_ok\<close> of
  the tables and that every operation keeps it; \<open>unique_table\<close> is the contract of an insert under UNIQUE
  constraints, interpreted for the four tables.  \<^verbatim>\<open>Auth_Proofs\<close> characterises accepted requests and
  replays.  \<^verbatim>\<open>Api_Proofs\<close>, \<^verbatim>\<open>Service_Proofs\<close> and \<^verbatim>\<open>Access_Proofs\<close> lift this to handlers and listeners
  through the locales \<open>safe_handler\<close>, \<open>reading_handler\<close> and \<open>admin_handler\<close>, each route being an
  interpretation, and \<open>durable\<close>, for a condition on the tables that outlives any sequence of requests
  (interpreted for a spent token and for an outstanding invite).  Properties: \<^verbatim>\<open>Api_Props\<close>,
  \<^verbatim>\<open>Invite_Props\<close>, \<^verbatim>\<open>Interleaving_Props\<close>, and those at the end of \<^verbatim>\<open>Db_Columns\<close>, \<^verbatim>\<open>Proxy\<close>, \<^verbatim>\<open>Daemon\<close>
  and \<^verbatim>\<open>Server_Start\<close>.

  \<^bold>\<open>Client.\<close>  \<^verbatim>\<open>Client_World\<close> is what a command runs in, a state transformer over files, answers, network
  and output; \<^verbatim>\<open>Client_Config\<close> (\<^verbatim>\<open>config.rs\<close>), \<^verbatim>\<open>Client_Http\<close> (\<^verbatim>\<open>auth.rs\<close>, \<^verbatim>\<open>http.rs\<close>),
  \<^verbatim>\<open>Client_Resolve\<close> (\<^verbatim>\<open>resolve.rs\<close>), \<^verbatim>\<open>Client_Login\<close>, \<^verbatim>\<open>Client_Init\<close>, \<^verbatim>\<open>Client_Commands\<close> (\<^verbatim>\<open>commands\<close>)
  and \<^verbatim>\<open>Client_Main\<close> (\<^verbatim>\<open>main.rs\<close>) follow the modules.  The locale \<open>client_preorder\<close> in \<^verbatim>\<open>Client_Proofs\<close>
  is the contract of a relation between states that composed commands respect; its interpretations are that
  files keep their contents, that a command only reads, that nothing is asked, and that what holds of the
  network stays.  Properties: \<^verbatim>\<open>Client_Props\<close>, \<^verbatim>\<open>Client_Main\<close>, \<^verbatim>\<open>Client_Up_Props\<close> (what \<^verbatim>\<open>up\<close> sends),
  \<^verbatim>\<open>Resolve_Props\<close> (which server a project goes to), \<^verbatim>\<open>Init_Props\<close> (what \<^verbatim>\<open>init\<close> leaves).

  \<^bold>\<open>Both together.\<close>  In \<^verbatim>\<open>Enrolment\<close> the client's network is the state of the server, with requests and
  replies that may be lost, and a login leaves both sides agreed on the key.  \<^verbatim>\<open>Ssh_Login\<close> runs the login
  over SSH from the command on the server's machine to the client's files.  \<^verbatim>\<open>Api_Formats\<close> shows that over one
  JSON library both ends read what the other writes, and with \<open>derived_reaches_daemon\<close> derives the conditions
  on formats that the logins assume.  Below, a request the client signs is one the server accepts, and names
  are valid on one side when they are on the other.

  \<^bold>\<open>Bounds and termination.\<close>  Recursions are structural or decrease the text, the path or the unvisited
  nodes, so every function is total without fuel: the search by the number of nodes that are not done, the
  walk up by the length of the path, the wait for the old server by its 50 polls of 100 ms (a \<^verbatim>\<open>down\<close> ends
  within five seconds of sleep, whether or not the server did).  An invite
  expires at \<^verbatim>\<open>now + 86400\<close> as a \<^verbatim>\<open>u64\<close>, compared as \<^verbatim>\<open>i64\<close>; a property that depends on it says for which
  clocks.  Bodies are limited to \<open>MAX_BODY_BYTES\<close>, archives to \<open>MAX_ARCHIVE_BYTES\<close>.  The JSON reader of
  the instances takes the length of its input as fuel, which is shown to be enough.

  \<^bold>\<open>Parameters.\<close>  Code that is not in the repository is an argument, with what the code relies on as named
  hypotheses: the JSON readers and printers (\<open>reads_documents\<close>, \<open>follows_derive\<close>, \<open>reads_back\<close>,
  \<open>same_format\<close>), base64 and ed25519 (\<open>signing_works\<close>), the \<^verbatim>\<open>url\<close> and \<^verbatim>\<open>reqwest\<close> crates, axum's routing and
  extraction (\<open>talks_to\<close>), hyper and the socket (\<open>reaches_daemon\<close>), ssh (\<open>runs_user_add\<close>), pingora, libsql's
  failures, the ids that a server answers (\<open>plain_replies\<close>), the archive format and the directory walk, prompts, git, processes and signals, the iteration
  order of hash maps, and \<^verbatim>\<open>to_lowercase\<close> beyond ASCII.

  \<^bold>\<open>Not modelled.\<close>  The texts of serde's errors, and the printing and parsing of JSON text; parsing the command line (clap)
  and the probe for a terminal; gzip and tar; forwarding bytes, the run of the proxy inside pingora and when
  pingora starts a service that depends on another (the model ends at the call of \<^verbatim>\<open>notify_ready\<close>);
  SQL itself, of which each statement is translated to the update of the tables it makes.  Paths are UTF-8
  and compared as texts, so two spellings of one file are two files; \<^verbatim>\<open>{:?}\<close> is exact on printable ASCII;
  a number of the manifest that is no integer is a real, printed and read by the record \<open>number_format\<close>,
  which need not read every number back exactly: the reader of \<^verbatim>\<open>serde_json\<close> does not without its feature
  \<^verbatim>\<open>float_roundtrip\<close>, so what depends on it says for which numbers (\<open>exact_numbers\<close>).  A write of a file
  that is cut short leaves a part of the contents (\<open>Cut_short\<close>).
  A manifest in a relaxed spelling (JSON5) is read through a parameter; what init writes is shown to be read
  back for plain JSON only, since the JSON5 reader does not take every \<^verbatim>\<open>u64\<close>.
\<close>

section \<open>The client and the server\<close>

text \<open>
  What the client relies on in its libraries when it signs with a key: base64 and ed25519 are read
  back and verified by the functions of the server, keys have 32 and signatures 64 bytes.
\<close>

definition signing_works :: "('n, 'u, 'k, 'sk) tools \<Rightarrow> 'sk \<Rightarrow> 'k \<Rightarrow> bool" where
  "signing_works t sk pk \<longleftrightarrow>
     (\<forall>b. std_decode (t_crypto t) (std_encode (t_crypto t) b) = Some b) \<and>
     length (t_public_bytes t sk) = 32 \<and>
     key_from_bytes (t_crypto t) (t_public_bytes t sk) = Some pk \<and>
     (\<forall>m. length (t_sign t sk m) = 64 \<and> verify_sig (t_crypto t) pk m (t_sign t sk m)) \<and>
     (\<forall>b. to_ascii_lowercase (sha256_hex (t_crypto t) b) = sha256_hex (t_crypto t) b)"

definition claim_of :: "signed_request_headers \<Rightarrow> signed_headers" where
  "claim_of sg = \<lparr>sh_key_id = srh_key_id sg, sh_nonce = srh_nonce sg,
     sh_content_sha256 = srh_content_sha256 sg, sh_signature = srh_signature sg,
     sh_timestamp = srh_timestamp sg\<rparr>"

lemma signed_request_claims:
  "claims (signed_http_request method path host content_type sg body) (claim_of sg)"
  by (simp add: claims_def signed_http_request_def http_request_of_def signed_header_list_def
      claim_of_def header_defs parse_show_u64)

lemma signed_request_signs:
  assumes "signing_works t sk pk" and "sg = sign_with t sk ts nonce key_id method path host body"
  shows "signs (t_crypto t) (public_key_base64 t sk)
    (signed_http_request method path host content_type sg body) (claim_of sg)"
proof -
  have rq: "signed_host (signed_http_request method path host content_type g body) = Some host"
      "signed_path (signed_http_request method path host content_type g body) = path"
      "rq_method (signed_http_request method path host content_type g body) = method" for g
    by (simp_all add: signed_host_def signed_path_def signed_http_request_def http_request_of_def
        signed_header_list_def header_defs)
  have "parse_public_key (t_crypto t) (public_key_base64 t sk) = Some pk"
    using assms(1) by (simp add: parse_public_key_def public_key_base64_def signing_works_def)
  then show ?thesis
    using assms
    by (simp add: signs_def rq claim_of_def sign_with_def Let_def decode_signature_def signing_works_def)
qed

text \<open>The request a command sends, from its key file to the wire.\<close>

lemma signed_request_sends:
  assumes "read_signing_key t (sc_key_path server) c = (Inr sk, c1)"
    and "t_url_parse t (sc_server_url server) = Inr base" and "control_plane_api_url t base sfx = Inr url"
    and "url_host t url = Inr host"
    and "sg = sign_with t sk (t_clock t (cl_draws c1)) (t_hex t (t_random t (Suc (cl_draws c1))))
               (sc_key_id server) method (t_url_tail t url) host body"
  shows "signed_request_with_type t server method sfx body content_type c =
    send t url (signed_http_request method (t_url_tail t url) host content_type sg body)
      (c1\<lparr>cl_draws := Suc (Suc (cl_draws c1))\<rparr>)"
  using assms
  by (simp add: signed_request_with_type_def invalid_data_def of_result_Inr sign_request_def
      unix_timestamp_def random_nonce_def draw_def cbind_def)

text \<open>
  C27: the client and the server agree on signatures: whatever command signs a request with the key
  it stored when its invite was redeemed, the server, with that public key in its table, a clock within
  the window and the nonce unknown, accepts the request as its user, and the buffered routes accept
  its body.
\<close>

theorem signed_requests_accepted:
  assumes "read_signing_key t (sc_key_path server) c = (Inr sk, c1)"
    and "t_url_parse t (sc_server_url server) = Inr base" and "control_plane_api_url t base sfx = Inr url"
    and "url_host t url = Inr host"
    and "signing_works t sk pk"
    and "u \<in> set (users (as_db st))" and "usr_id u = sc_key_id server"
    and "usr_public_key u = Some (public_key_base64 t sk)"
    and "faults (as_db st) = []" and "db_ok (as_db st)"
    and "in_window now (t_clock t (cl_draws c1))"
    and "retain_recent now (as_nonces st) (t_hex t (t_random t (Suc (cl_draws c1)))) = None"
    and "to_bytes MAX_BODY_BYTES (if body = [] then [] else [Data body]) = Some body"
  shows "\<exists>rq c2 hash. signed_request_with_type t server method sfx body content_type c = send t url rq c2 \<and>
    rq_method rq = method \<and> signed_path rq = t_url_tail t url \<and>
    fst (checked_request (t_crypto t) now rq st) = Inr (auth_user_of_row u, hash) \<and>
    verify_body_hash (t_crypto t) to_bytes (Some hash) (rq_body rq) = Inr [Data body]"
proof -
  define sg where "sg = sign_with t sk (t_clock t (cl_draws c1)) (t_hex t (t_random t (Suc (cl_draws c1))))
    (sc_key_id server) method (t_url_tail t url) host body"
  let ?rq = "signed_http_request method (t_url_tail t url) host content_type sg body"
  have "authorised (t_crypto t) now ?rq st (claim_of sg) u"
    using signed_request_claims [of "method" _ host content_type sg body]
      signed_request_signs [OF assms(5) sg_def, of content_type] assms(6-8,11,12)
    by (auto simp: authorised_def claim_of_def sg_def sign_with_def Let_def)
  from checked_request_accepts [OF this assms(9,10)]
  have "fst (checked_request (t_crypto t) now ?rq st) =
      Inr (auth_user_of_row u, to_ascii_lowercase (sh_content_sha256 (claim_of sg)))"
    by simp
  then have "fst (checked_request (t_crypto t) now ?rq st) =
      Inr (auth_user_of_row u, to_ascii_lowercase (srh_content_sha256 sg))"
    by (simp only: claim_of_def signed_headers.select_convs)
  moreover have "to_ascii_lowercase (srh_content_sha256 sg) = sha256_hex (t_crypto t) body"
    using assms(5) by (simp add: sg_def sign_with_def Let_def signing_works_def)
  moreover have "verify_body_hash (t_crypto t) to_bytes (Some (sha256_hex (t_crypto t) body)) (rq_body ?rq) =
      Inr [Data body]"
    using assms(13) by (simp add: verify_body_hash_def signed_http_request_def http_request_of_def)
  moreover have "rq_method ?rq = method" "signed_path ?rq = t_url_tail t url"
    by (simp_all add: signed_http_request_def http_request_of_def signed_path_def)
  ultimately show ?thesis
    using signed_request_sends [OF assms(1-4) sg_def, of content_type] by metis
qed

definition ada_entry :: server_config where
  "ada_entry = \<lparr>sc_server_url = ''http://box'', sc_key_id = ''usr_1'', sc_key_path = ''k''\<rparr>"

lemma ada_key_file:
  "read_signing_key demo_tools ''k'' (demo_client\<lparr>cl_files := [(''k'', ada_key)]\<rparr>) =
     (Inr ada_key, demo_client\<lparr>cl_files := [(''k'', ada_key)]\<rparr>)"
  by (simp add: read_signing_key_def cbind_def read_to_string_def fs_op_def demo_client_def
      demo_tools_def invalid_data_def ada_key_def)

theorem signed_requests_accepted_witness:
  "\<exists>rq c2 hash. signed_request_with_type demo_tools ada_entry ''GET'' ''/api/whoami'' [] ''application/json''
      (demo_client\<lparr>cl_files := [(''k'', ada_key)]\<rparr>) = send demo_tools ''http://box'' rq c2 \<and>
    rq_method rq = ''GET'' \<and> signed_path rq = t_url_tail demo_tools ''http://box'' \<and>
    fst (checked_request (t_crypto demo_tools) 1000 rq demo_api) = Inr (auth_user_of_row ada, hash) \<and>
    verify_body_hash (t_crypto demo_tools) (\<lambda>_ fs. Some (payload fs)) (Some hash) (rq_body rq) = Inr [Data []]"
proof (rule signed_requests_accepted)
  show "read_signing_key demo_tools (sc_key_path ada_entry) (demo_client\<lparr>cl_files := [(''k'', ada_key)]\<rparr>) =
      (Inr ada_key, demo_client\<lparr>cl_files := [(''k'', ada_key)]\<rparr>)"
    by (simp add: ada_entry_def ada_key_file)
  show "t_url_parse demo_tools (sc_server_url ada_entry) = Inr ''http://box''"
    by (simp add: demo_tools_def ada_entry_def)
  show "control_plane_api_url demo_tools ''http://box'' ''/api/whoami'' = Inr ''http://box''"
    by (simp add: control_plane_api_url_def demo_tools_def split: prod.split)
  show "url_host demo_tools ''http://box'' = Inr ''http://box''"
    by (simp add: url_host_def demo_tools_def)
  have "to_ascii_lowercase ''h'' = ''h''" by code_simp
  then show "signing_works demo_tools ada_key ada_key"
    by (simp add: signing_works_def demo_tools_def ada_key_def)
  show "ada \<in> set (users (as_db demo_api))" by (simp add: demo_api_def demo_db_state_def)
  show "usr_public_key ada = Some (public_key_base64 demo_tools ada_key)"
    by (simp add: ada_def public_key_base64_def demo_tools_def)
  show "db_ok (as_db demo_api)" using demo_db_ok by (simp add: demo_api_def)
  show "in_window 1000 (t_clock demo_tools (cl_draws (demo_client\<lparr>cl_files := [(''k'', ada_key)]\<rparr>)))"
    by (simp add: demo_tools_def in_window_def abs_diff_def TIMESTAMP_WINDOW_SECONDS_def)
  show "retain_recent 1000 (as_nonces demo_api) n = None" for n
    by (simp add: retain_recent_def demo_api_def)
qed (simp_all add: ada_def ada_entry_def demo_api_def demo_db_state_def)

section \<open>Names\<close>

lemma project_name_rules_agree: "is_valid_project_name n \<longleftrightarrow> is_valid_name n"
  by (auto simp: is_valid_project_name_def is_valid_name_def)

lemma sanitize_user_name_valid:
  "sanitize_user_name lower raw = [] \<or> is_valid_user_name (sanitize_user_name lower raw)"
  by (auto simp: is_valid_user_name_def sanitize_user_name_def list_all_iff)

text \<open>
  C40: names agree on both sides: the server and the manifest accept the same project names, and the
  project name the client derives from a directory and the user name it derives from a login name are
  empty, which the client reports, or accepted by the server, whatever the lower-casing of non-ASCII text
  does.  (The third name the client makes up, the default \<^verbatim>\<open>-new\<close> for a project that replaces another, can
  exceed 63 characters, and then the server refuses it.)
\<close>

theorem derived_names_accepted:
  "(is_valid_project_name n = is_valid_name n) \<and>
   (sanitize_project_name lower dir = [] \<or> is_valid_project_name (sanitize_project_name lower dir)) \<and>
   (sanitize_user_name lower raw = [] \<or> is_valid_user_name (sanitize_user_name lower raw))"
  using project_name_rules_agree sanitize_project_name_valid sanitize_user_name_valid by blast

end
